(* ===== verification/Py_Prelude.thy ===== *)
theory Py_Prelude
  imports Complex_Main "HOL-Library.Sublist" "HOL-Library.AList" "HOL-Library.Char_ord"
begin

text \<open>
  The fragment of Python that every harness of the repository uses, and the lemmas the
  component theories share.

  A \<open>bytes\<close> value is a list of 8-bit characters.  A \<open>str\<close> value is represented by its
  UTF-8 encoding, which is again such a list (the encoding is injective, and equality,
  concatenation, prefix and substring tests on text are the tests on its encoding).  A
  \<open>dict\<close> is an association list in insertion order.  An exception is a value of the type
  \<open>exn\<close>, and a function that may raise returns the sum \<open>exn + 'a\<close>.
\<close>

section \<open>Types\<close>

type_synonym bytes = "char list"

text \<open>Seconds of \<open>time.monotonic()\<close>; the rounding of floating point is not modelled.\<close>

type_synonym secs = rat

datatype exn =
    SystemExit string
  | ValueError string
  | RuntimeError string
  | KeyError string
  | IndexError string
  | TypeError string
  | AttributeError string
  | AssertionError
  | SerialException
  | OSError string
  | TimeoutExpired
  | BrokenPipeError
  | CalledProcessError int
  | StopIteration

type_synonym 'a res = "exn + 'a"

definition rbind :: "'a res \<Rightarrow> ('a \<Rightarrow> 'b res) \<Rightarrow> 'b res" where
  "rbind m f = (case m of Inl e \<Rightarrow> Inl e | Inr x \<Rightarrow> f x)"

text \<open>\<open>if bad: raise e\<close> as a step of a sequence of guards.\<close>

definition raise_if :: "bool \<Rightarrow> exn \<Rightarrow> unit res" where
  "raise_if bad e = (if bad then Inl e else Inr ())"

named_theorems res_simps \<open>what a successful sequence of guards says\<close>

lemma rbind_Inr [res_simps]: "rbind m f = Inr y \<longleftrightarrow> (\<exists>x. m = Inr x \<and> f x = Inr y)"
  by (auto simp: rbind_def split: sum.splits)

lemma rbind_Inl [res_simps]:
  "rbind m f = Inl e \<longleftrightarrow> m = Inl e \<or> (\<exists>x. m = Inr x \<and> f x = Inl e)"
  by (auto simp: rbind_def split: sum.splits)

lemma rbind_simps [simp]: "rbind (Inl e) f = Inl e" "rbind (Inr x) f = f x"
  by (simp_all add: rbind_def)

lemma raise_if_Inr [res_simps]: "raise_if bad e = Inr u \<longleftrightarrow> \<not> bad"
  by (simp add: raise_if_def)

lemma raise_if_Inl [res_simps]: "raise_if bad e = Inl e' \<longleftrightarrow> bad \<and> e' = e"
  by (auto simp: raise_if_def)

section \<open>Dictionaries\<close>

type_synonym ('k, 'v) dict = "('k \<times> 'v) list"

abbreviation dget :: "'k \<Rightarrow> ('k, 'v) dict \<Rightarrow> 'v option" where
  "dget k d \<equiv> map_of d k"

text \<open>\<open>d.get(k, default)\<close>\<close>

definition dget_or :: "'k \<Rightarrow> 'v \<Rightarrow> ('k, 'v) dict \<Rightarrow> 'v" where
  "dget_or k v d = (case dget k d of None \<Rightarrow> v | Some x \<Rightarrow> x)"

text \<open>\<open>d[k] = v\<close>: an existing key keeps its place, a new key goes to the end.\<close>

abbreviation dset :: "'k \<Rightarrow> 'v \<Rightarrow> ('k, 'v) dict \<Rightarrow> ('k, 'v) dict" where
  "dset k v d \<equiv> AList.update k v d"

definition has_key :: "'k \<Rightarrow> ('k, 'v) dict \<Rightarrow> bool" where
  "has_key k d \<longleftrightarrow> dget k d \<noteq> None"

lemma dget_dset [simp]: "dget k (dset k' v d) = (if k = k' then Some v else dget k d)"
  by (auto simp: update_conv')

text \<open>An error list that a branch leaves empty\<close>

lemma if_list_Nil: "((if b then xs else []) = []) \<longleftrightarrow> (b \<longrightarrow> xs = [])"
  by simp

lemma has_key_iff: "has_key k d \<longleftrightarrow> k \<in> fst ` set d"
  by (simp add: has_key_def map_of_eq_None_iff)

lemma dset_fresh: "k \<notin> fst ` set d \<Longrightarrow> dset k v d = d @ [(k, v)]"
  by (induction d) auto

lemma dget_or_simps [simp]:
  "dget k d = Some x \<Longrightarrow> dget_or k v d = x"
  "dget k d = None \<Longrightarrow> dget_or k v d = v"
  by (simp_all add: dget_or_def)

text \<open>\<open>d[k] = d.get(k, 0) + 1\<close>\<close>

definition dict_incr :: "'k \<Rightarrow> ('k, nat) dict \<Rightarrow> ('k, nat) dict" where
  "dict_incr k d = dset k (dget_or k 0 d + 1) d"

lemma dget_or_dict_incr [simp]:
  "dget_or k 0 (dict_incr k' d) = dget_or k 0 d + (if k = k' then 1 else 0)"
  by (simp add: dict_incr_def dget_or_def)

lemma distinct_dict_incr [simp]:
  "distinct (map fst d) \<Longrightarrow> distinct (map fst (dict_incr k d))"
  by (simp add: dict_incr_def distinct_update)

lemma sum_list_update_fresh:
  "k \<notin> fst ` set d \<Longrightarrow> sum_list (map snd (dset k v d)) = sum_list (map snd d) + (v :: nat)"
  by (induction d) auto

lemma sum_list_dset:
  "distinct (map fst d) \<Longrightarrow> dget k d = Some x \<Longrightarrow>
     sum_list (map snd (dset k v d)) + x = sum_list (map snd d) + (v :: nat)"
proof (induction d)
  case Nil
  then show ?case by simp
next
  case (Cons a d)
  then show ?case by (cases a) (auto simp: add.assoc split: if_splits)
qed

text \<open>Counting one more occurrence raises the total of all counters by one.\<close>

lemma sum_list_dict_incr:
  assumes "distinct (map fst d)"
  shows "sum_list (map snd (dict_incr k d)) = Suc (sum_list (map snd d))"
proof (cases "dget k d")
  case None
  then have "k \<notin> fst ` set d" by (simp add: map_of_eq_None_iff)
  with None show ?thesis by (simp add: dict_incr_def sum_list_update_fresh)
next
  case (Some x)
  with sum_list_dset [OF assms Some, of "x + 1"] show ?thesis
    by (simp add: dict_incr_def)
qed

section \<open>Bytes\<close>

text \<open>\<open>marker in data\<close> and \<open>line.startswith(p)\<close>\<close>

abbreviation occurs :: "bytes \<Rightarrow> bytes \<Rightarrow> bool" where
  "occurs marker data \<equiv> sublist marker data"

abbreviation startswith :: "bytes \<Rightarrow> bytes \<Rightarrow> bool" where
  "startswith p line \<equiv> prefix p line"

text \<open>
  \<open>data.find(sub, after)\<close> for \<open>sub\<close> not empty: the least position from \<open>after\<close> on,
  \<open>None\<close> standing for \<open>-1\<close>.
\<close>

fun find_at :: "nat \<Rightarrow> bytes \<Rightarrow> bytes \<Rightarrow> nat option" where
  "find_at i sub [] = (if sub = [] then Some i else None)"
| "find_at i sub (c # cs) = (if prefix sub (c # cs) then Some i else find_at (Suc i) sub cs)"

definition bfind :: "bytes \<Rightarrow> bytes \<Rightarrow> nat \<Rightarrow> nat option" where
  "bfind sub data after = (if after \<le> length data then find_at after sub (drop after data) else None)"

text \<open>\<open>data.count(sub)\<close>: the non-overlapping occurrences, from the left.\<close>

function bcount :: "bytes \<Rightarrow> bytes \<Rightarrow> nat" where
  "bcount sub data =
     (case data of
        [] \<Rightarrow> 0
      | c # cs \<Rightarrow>
          if sub \<noteq> [] \<and> prefix sub data then Suc (bcount sub (drop (length sub) data))
          else bcount sub cs)"
  by pat_completeness auto
termination
  by (relation "measure (length \<circ> snd)") auto

declare bcount.simps [simp del]

lemma bcount_Nil [simp]: "bcount sub [] = 0"
  by (simp add: bcount.simps)

lemma bcount_Cons:
  "bcount sub (c # cs) =
     (if sub \<noteq> [] \<and> prefix sub (c # cs) then Suc (bcount sub (drop (length sub) (c # cs)))
      else bcount sub cs)"
  by (subst bcount.simps) simp

text \<open>\<open>data.splitlines()\<close> on bytes: LF, CR and CR LF end a line.\<close>

function splitlines_acc :: "bytes \<Rightarrow> bytes \<Rightarrow> bytes list" where
  "splitlines_acc cur [] = (if cur = [] then [] else [rev cur])"
| "splitlines_acc cur (c # cs) =
     (if c = CHR 10 then rev cur # splitlines_acc [] cs
      else if c = CHR 13 then
        rev cur # splitlines_acc [] (case cs of d # ds \<Rightarrow> if d = CHR 10 then ds else cs | [] \<Rightarrow> cs)
      else splitlines_acc (c # cur) cs)"
  by pat_completeness auto
termination
  by (relation "measure (length \<circ> snd)") (auto split: list.splits)

definition splitlines :: "bytes \<Rightarrow> bytes list" where
  "splitlines data = splitlines_acc [] data"

text \<open>\<open>''sep''.join(parts)\<close>\<close>

fun join :: "string \<Rightarrow> string list \<Rightarrow> string" where
  "join sep [] = []"
| "join sep [x] = x"
| "join sep (x # y # xs) = x @ sep @ join sep (y # xs)"

section \<open>Decimal text of integers\<close>

fun digits_of :: "nat \<Rightarrow> string" where
  "digits_of n =
     (if n < 10 then [char_of (48 + n)] else digits_of (n div 10) @ [char_of (48 + n mod 10)])"

declare digits_of.simps [simp del]

definition str_int :: "int \<Rightarrow> string" where
  "str_int i = (if i < 0 then CHR ''-'' # digits_of (nat (- i)) else digits_of (nat i))"

text \<open>\<open>f'{n:02d}'\<close>\<close>

definition two_digits :: "nat \<Rightarrow> string" where
  "two_digits n = (if n < 10 then CHR ''0'' # digits_of n else digits_of n)"

lemma digit_char: "n < 10 \<Longrightarrow> (of_char (char_of (48 + n) :: char) :: nat) = 48 + n"
  by (simp add: of_char_of take_bit_eq_mod)

lemma digits_of_chars: "c \<in> set (digits_of n) \<Longrightarrow> \<exists>k<10::nat. c = char_of (48 + k)"
proof (induction n rule: digits_of.induct)
  case (1 n)
  from "1.prems" have "(n < 10 \<and> c = char_of (48 + n)) \<or>
      (\<not> n < 10 \<and> (c \<in> set (digits_of (n div 10)) \<or> c = char_of (48 + n mod 10)))"
    by (subst (asm) digits_of.simps) (auto split: if_splits)
  moreover have "n mod 10 < 10" by simp
  ultimately show ?case using "1.IH" by blast
qed

definition dec_value :: "string \<Rightarrow> nat" where
  "dec_value s = foldl (\<lambda>a c. 10 * a + (of_char c - 48)) 0 s"

lemma dec_value_digits: "dec_value (digits_of n) = n"
proof (induction n rule: digits_of.induct)
  case (1 n)
  then show ?case
    by (subst digits_of.simps) (auto simp: dec_value_def digit_char simp del: of_char_of)
qed

lemma dec_value_two_digits: "dec_value (two_digits n) = n"
proof -
  have "dec_value (CHR ''0'' # s) = dec_value s" for s by (simp add: dec_value_def)
  then show ?thesis by (simp add: two_digits_def dec_value_digits)
qed

section \<open>Markers in growing logs\<close>

text \<open>\<open>[m.decode() for m in markers if m not in data]\<close> and the failure list of a pair of logs.\<close>

definition missing_markers :: "bytes list \<Rightarrow> bytes \<Rightarrow> string list" where
  "missing_markers markers data = filter (\<lambda>m. \<not> occurs m data) markers"

definition present_markers :: "bytes list \<Rightarrow> bytes \<Rightarrow> string list" where
  "present_markers markers data = filter (\<lambda>m. occurs m data) markers"

definition failures_in :: "bytes list \<Rightarrow> bytes \<Rightarrow> bytes \<Rightarrow> string list" where
  "failures_in markers a b = filter (\<lambda>m. occurs m a \<or> occurs m b) markers"

named_theorems marker_simps \<open>membership and emptiness of marker lists\<close>

lemma missing_markers_Nil [marker_simps]:
  "missing_markers ms data = [] \<longleftrightarrow> (\<forall>m\<in>set ms. occurs m data)"
  by (simp add: missing_markers_def filter_empty_conv)

lemma in_missing_markers [marker_simps]:
  "m \<in> set (missing_markers ms data) \<longleftrightarrow> m \<in> set ms \<and> \<not> occurs m data"
  by (auto simp: missing_markers_def)

lemma in_present_markers [marker_simps]:
  "m \<in> set (present_markers ms data) \<longleftrightarrow> m \<in> set ms \<and> occurs m data"
  by (auto simp: present_markers_def)

lemma failures_in_Nil [marker_simps]:
  "failures_in ms a b = [] \<longleftrightarrow> (\<forall>m\<in>set ms. \<not> occurs m a \<and> \<not> occurs m b)"
  by (simp add: failures_in_def filter_empty_conv)

lemma occurs_append1: "occurs m a \<Longrightarrow> occurs m (a @ b)"
  by (blast intro: sublist_order.order.trans)

lemma occurs_append2: "occurs m b \<Longrightarrow> occurs m (a @ b)"
  by (blast intro: sublist_order.order.trans)

lemma missing_markers_mono:
  "set (missing_markers ms (a @ b)) \<subseteq> set (missing_markers ms a)"
  by (auto simp: marker_simps dest: occurs_append1)

lemma failures_in_mono:
  "set (failures_in ms a b) \<subseteq> set (failures_in ms (a @ x) (b @ y))"
  by (auto simp: failures_in_def dest: occurs_append1)

section \<open>Facts on find and count\<close>

lemma find_at_Some:
  "find_at i sub data = Some k \<Longrightarrow> i \<le> k \<and> k \<le> i + length data \<and> prefix sub (drop (k - i) data)"
proof (induction data arbitrary: i)
  case Nil
  then show ?case by (simp split: if_splits)
next
  case (Cons c cs)
  show ?case
  proof (cases "prefix sub (c # cs)")
    case True
    with Cons.prems show ?thesis by simp
  next
    case False
    with Cons.prems have "find_at (Suc i) sub cs = Some k" by simp
    from Cons.IH [OF this] show ?thesis by (auto simp: drop_Cons' Suc_diff_Suc)
  qed
qed

lemma find_at_least:
  "find_at i sub data = Some k \<Longrightarrow> i + j < k \<Longrightarrow> \<not> prefix sub (drop j data)"
proof (induction data arbitrary: i j)
  case Nil
  then show ?case by (auto split: if_splits)
next
  case (Cons c cs)
  then show ?case by (cases j) (auto split: if_splits)
qed

lemma find_at_None: "find_at i sub data = None \<longleftrightarrow> \<not> occurs sub data"
  by (induction data arbitrary: i) (auto simp: sublist_Cons_right)

lemma bfind_Some:
  "bfind sub data after = Some k \<Longrightarrow> after \<le> k \<and> k \<le> length data \<and> prefix sub (drop k data)"
  by (auto simp: bfind_def split: if_splits dest!: find_at_Some)

lemma bfind_least:
  "bfind sub data 0 = Some k \<Longrightarrow> prefix sub (drop j data) \<Longrightarrow> k \<le> j"
  using find_at_least [of 0 sub data k j] by (auto simp: bfind_def split: if_splits intro: leI)

lemma occurs_drop: "occurs sub (drop k data) \<Longrightarrow> occurs sub data"
  by (metis append_take_drop_id occurs_append2)

lemma prefix_drop_occurs: "prefix sub (drop k data) \<Longrightarrow> occurs sub data"
  by (blast intro: occurs_drop prefix_imp_sublist)

lemma bfind_occurs: "bfind sub data 0 \<noteq> None \<longleftrightarrow> occurs sub data"
  by (simp add: bfind_def find_at_None)

lemma bfind_Some_occurs: "bfind sub data after = Some k \<Longrightarrow> occurs sub data"
  by (blast dest: bfind_Some intro: prefix_drop_occurs)

lemma bcount_0: "bcount sub data = 0 \<longleftrightarrow> sub = [] \<or> \<not> occurs sub data"
proof (induction data rule: length_induct)
  case (1 data)
  show ?case
  proof (cases data)
    case Nil
    then show ?thesis by simp
  next
    case (Cons c cs)
    with "1" have "bcount sub cs = 0 \<longleftrightarrow> sub = [] \<or> \<not> occurs sub cs" by simp
    with Cons show ?thesis by (auto simp: bcount_Cons sublist_Cons_right)
  qed
qed

section \<open>Filtering comprehensions\<close>

lemma in_map_filter: "x \<in> set (List.map_filter f xs) \<longleftrightarrow> (\<exists>y\<in>set xs. f y = Some x)"
  by (induction xs) (auto simp: List.map_filter_def)

lemma length_map_filter: "length (List.map_filter f xs) = length (filter (\<lambda>x. f x \<noteq> None) xs)"
  by (simp add: List.map_filter_def)

end
