(* ===== verification/Py_Regex.thy ===== *)
theory Py_Regex
  imports Py_Prelude
begin

text \<open>
  The regular expressions of the harnesses: a sequence of literals, of fixed-width groups
  over a character class, and of the lazy \<open>.*?\<close>.  \<open>rmatch\<close> is the backtracking match at
  one position; \<open>re_search\<close>, \<open>re_findall\<close> and \<open>re_sub\<close> scan from the left without
  overlap, as \<open>re.search\<close>, \<open>re.findall\<close> and \<open>re.sub\<close> do.
\<close>

datatype ritem =
    RLit bytes
  | RGroup "char \<Rightarrow> bool" nat
  | RLazyAny

type_synonym regex = "ritem list"

function rmatch :: "regex \<Rightarrow> bytes \<Rightarrow> (bytes list \<times> bytes) option" where
  "rmatch [] s = Some ([], s)"
| "rmatch (RLit l # r) s = (if prefix l s then rmatch r (drop (length l) s) else None)"
| "rmatch (RGroup p n # r) s =
     (if n \<le> length s \<and> list_all p (take n s)
      then map_option (\<lambda>(g, t). (take n s # g, t)) (rmatch r (drop n s)) else None)"
| "rmatch (RLazyAny # r) s =
     (case rmatch r s of
        Some m \<Rightarrow> Some m
      | None \<Rightarrow> (case s of
                   [] \<Rightarrow> None
                 | c # t \<Rightarrow> if c = CHR 10 then None else rmatch (RLazyAny # r) t))"
  by pat_completeness auto
termination
  by (relation "measures [\<lambda>(r, s). length r, \<lambda>(r, s). length s]") auto

declare rmatch.simps(4) [simp del]

text \<open>Leftmost match: what precedes it, its groups, what follows it.\<close>

fun re_first :: "regex \<Rightarrow> bytes \<Rightarrow> (bytes \<times> bytes list \<times> bytes) option" where
  "re_first r [] = map_option (\<lambda>(g, t). ([], g, t)) (rmatch r [])"
| "re_first r (c # cs) =
     (case rmatch r (c # cs) of
        Some (g, t) \<Rightarrow> Some ([], g, t)
      | None \<Rightarrow> map_option (\<lambda>(p, g, t). (c # p, g, t)) (re_first r cs))"

definition re_search :: "regex \<Rightarrow> bytes \<Rightarrow> bytes list option" where
  "re_search r s = map_option (\<lambda>(_, g, _). g) (re_first r s)"

text \<open>No match consumes nothing in the patterns used, so the scan makes progress.\<close>

function re_findall :: "regex \<Rightarrow> bytes \<Rightarrow> bytes list list" where
  "re_findall r s =
     (case re_first r s of
        None \<Rightarrow> []
      | Some (p, g, t) \<Rightarrow> g # (if length t < length s then re_findall r t else []))"
  by pat_completeness auto
termination
  by (relation "measure (length \<circ> snd)") auto

declare re_findall.simps [simp del]

function re_sub :: "regex \<Rightarrow> bytes \<Rightarrow> bytes \<Rightarrow> bytes" where
  "re_sub r by s =
     (case re_first r s of
        None \<Rightarrow> s
      | Some (p, g, t) \<Rightarrow> p @ by @ (if length t < length s then re_sub r by t else t))"
  by pat_completeness auto
termination
  by (relation "measure (length \<circ> snd \<circ> snd)") auto

declare re_sub.simps [simp del]

text \<open>Character classes.\<close>

definition is_digit :: "char \<Rightarrow> bool" where
  "is_digit c \<longleftrightarrow> 48 \<le> (of_char c :: nat) \<and> (of_char c :: nat) \<le> 57"

definition is_hex :: "char \<Rightarrow> bool" where
  "is_hex c \<longleftrightarrow> is_digit c \<or> (97 \<le> (of_char c :: nat) \<and> (of_char c :: nat) \<le> 102)
     \<or> (65 \<le> (of_char c :: nat) \<and> (of_char c :: nat) \<le> 70)"

section \<open>Counters printed in a log\<close>

text \<open>\<open>int(group, 16)\<close> for a group of hexadecimal digits\<close>

definition hex_value :: "bytes \<Rightarrow> int" where
  "hex_value ds =
     foldl (\<lambda>n c. 16 * n + (let b = of_char c :: int in
        if b \<le> 57 then b - 48 else if 97 \<le> b then b - 87 else b - 55)) 0 ds"

type_synonym counters = "(string, int) dict"

text \<open>\<open>values[name]\<close>: the names are fixed, every one is present.\<close>

definition item :: "string \<Rightarrow> counters \<Rightarrow> int" where
  "item name values = dget_or name 0 values"

section \<open>Facts\<close>

lemma rmatch_length: "rmatch r s = Some (g, t) \<Longrightarrow> length t \<le> length s"
proof (induction r s arbitrary: g t rule: rmatch.induct)
  case (1 s)
  then show ?case by simp
next
  case (2 l r s)
  then show ?case by (fastforce split: if_splits)
next
  case (3 p n r s)
  then show ?case by (fastforce split: if_splits)
next
  case (4 r s)
  show ?case
  proof (cases "rmatch r s")
    case None
    with "4.prems" obtain c u where s: "s = c # u" and c: "c \<noteq> CHR 10"
      and m: "rmatch (RLazyAny # r) u = Some (g, t)"
      by (auto simp: rmatch.simps(4) [of r s] split: list.splits if_splits)
    from "4.IH"(2) [OF None s c m] s show ?thesis by simp
  next
    case (Some m)
    with "4.prems" have "rmatch r s = Some (g, t)" by (simp add: rmatch.simps(4) [of r s])
    then show ?thesis by (rule "4.IH"(1))
  qed
qed

lemma rmatch_suffix: "rmatch r s = Some (g, t) \<Longrightarrow> \<exists>z. s = z @ t"
proof (induction r s arbitrary: g t rule: rmatch.induct)
  case (1 s)
  then show ?case by simp
next
  case (2 l r s)
  then show ?case by (fastforce simp: prefix_def split: if_splits)
next
  case (3 p n r s)
  then obtain g' where "rmatch r (drop n s) = Some (g', t)"
    and n: "n \<le> length s \<and> list_all p (take n s)" by (auto split: if_splits)
  with "3.IH" obtain z where "drop n s = z @ t" by blast
  then show ?case by (metis append.assoc append_take_drop_id)
next
  case (4 r s)
  show ?case
  proof (cases "rmatch r s")
    case None
    with "4.prems" obtain c u where s: "s = c # u" and c: "c \<noteq> CHR 10"
      and m: "rmatch (RLazyAny # r) u = Some (g, t)"
      by (auto simp: rmatch.simps(4) [of r s] split: list.splits if_splits)
    from "4.IH"(2) [OF None s c m] s show ?thesis by (metis append_Cons)
  next
    case (Some m)
    with "4.prems" have "rmatch r s = Some (g, t)" by (simp add: rmatch.simps(4) [of r s])
    then show ?thesis by (rule "4.IH"(1))
  qed
qed

lemma rmatch_groups:
  "rmatch r s = Some (g, t) \<Longrightarrow> RLazyAny \<notin> set r \<Longrightarrow>
     list_all2 (\<lambda>x (p, n). length x = n \<and> list_all p x) g
       (List.map_filter (\<lambda>i. case i of RGroup p n \<Rightarrow> Some (p, n) | _ \<Rightarrow> None) r)"
proof (induction r s arbitrary: g t rule: rmatch.induct)
  case (1 s)
  then show ?case by (simp add: List.map_filter_def)
next
  case (2 l r s)
  then show ?case by (auto simp: List.map_filter_def split: if_splits)
next
  case (3 p n r s)
  then show ?case by (auto simp: List.map_filter_def split: if_splits)
next
  case (4 r s)
  then show ?case by simp
qed

lemma re_first_Some:
  "re_first r s = Some (p, g, t) \<Longrightarrow>
     \<exists>u. s = p @ u \<and> rmatch r u = Some (g, t) \<and>
         (\<forall>k < length p. rmatch r (drop k s) = None)"
proof (induction s arbitrary: p)
  case Nil
  then show ?case by auto
next
  case (Cons c cs)
  show ?case
  proof (cases "rmatch r (c # cs)")
    case None
    with Cons.prems obtain p' where p: "p = c # p'" and "re_first r cs = Some (p', g, t)" by auto
    with Cons.IH obtain u where u: "cs = p' @ u" "rmatch r u = Some (g, t)"
      "\<forall>k < length p'. rmatch r (drop k cs) = None" by blast
    have "rmatch r (drop k (c # cs)) = None" if "k < length p" for k
      using that None u(3) p by (cases k) auto
    with u p show ?thesis by auto
  next
    case (Some m)
    with Cons.prems show ?thesis by (cases m) auto
  qed
qed

lemma re_first_None: "re_first r s = None \<Longrightarrow> rmatch r (drop k s) = None"
proof (induction s arbitrary: k)
  case Nil
  then show ?case by simp
next
  case (Cons c cs)
  then show ?case by (cases k) (auto split: option.splits)
qed

text \<open>A literal followed by one group, the shape of the marker patterns.\<close>

lemma rmatch_lit_group:
  "rmatch [RLit l, RGroup p n] u = Some (g, t) \<longleftrightarrow>
     (\<exists>ds. u = l @ ds @ t \<and> length ds = n \<and> list_all p ds \<and> g = [ds])"
proof
  assume "rmatch [RLit l, RGroup p n] u = Some (g, t)"
  then have m: "prefix l u" "n \<le> length (drop (length l) u)"
    "list_all p (take n (drop (length l) u))" "g = [take n (drop (length l) u)]"
    "t = drop n (drop (length l) u)"
    by (auto split: if_splits)
  then obtain w where "u = l @ w" by (auto simp: prefix_def)
  with m show "\<exists>ds. u = l @ ds @ t \<and> length ds = n \<and> list_all p ds \<and> g = [ds]"
    by (intro exI [of _ "take n w"]) auto
qed auto

text \<open>The text that a match without \<open>.*?\<close> covers: its literals and its groups in turn.\<close>

fun fill :: "regex \<Rightarrow> bytes list \<Rightarrow> bytes" where
  "fill [] g = []"
| "fill (RLit l # r) g = l @ fill r g"
| "fill (RGroup p n # r) g = hd g @ fill r (tl g)"
| "fill (RLazyAny # r) g = fill r g"

lemma rmatch_fill: "rmatch r s = Some (g, t) \<Longrightarrow> RLazyAny \<notin> set r \<Longrightarrow> s = fill r g @ t"
proof (induction r s arbitrary: g t rule: rmatch.induct)
  case (2 l r s)
  then obtain u where "s = l @ u" by (auto simp: prefix_def split: if_splits)
  with 2 show ?case by auto
next
  case (3 p n r s)
  then obtain g' where g: "g = take n s # g'" "rmatch r (drop n s) = Some (g', t)"
    and "n \<le> length s \<and> list_all p (take n s)" by (auto split: if_splits)
  with "3.IH" "3.prems" have "drop n s = fill r g' @ t" by simp
  then show ?case using g(1) by (metis append.assoc append_take_drop_id fill.simps(3) list.sel(1,3))
qed auto

lemma re_findall_sound:
  "g \<in> set (re_findall r s) \<Longrightarrow> \<exists>p u t. s = p @ u \<and> rmatch r u = Some (g, t)"
proof (induction s rule: length_induct)
  case (1 s)
  show ?case
  proof (cases "re_first r s")
    case None
    with "1.prems" show ?thesis by (simp add: re_findall.simps [of r s])
  next
    case (Some m)
    obtain p g' t where m: "re_first r s = Some (p, g', t)" using Some by (cases m) auto
    from re_first_Some [OF m] obtain u where u: "s = p @ u" "rmatch r u = Some (g', t)" by blast
    show ?thesis
    proof (cases "g = g'")
      case True
      with u show ?thesis by blast
    next
      case False
      with "1.prems" m have t: "length t < length s" "g \<in> set (re_findall r t)"
        by (auto simp: re_findall.simps [of r s] split: if_splits)
      with "1.IH" obtain p' u' t' where "t = p' @ u'" "rmatch r u' = Some (g, t')" by blast
      moreover obtain z where "u = z @ t" using rmatch_suffix [OF u(2)] by blast
      ultimately show ?thesis using u by (metis append.assoc)
    qed
  qed
qed

lemma re_findall_occurs:
  assumes "g \<in> set (re_findall r s)" and "RLazyAny \<notin> set r"
  shows "occurs (fill r g) s"
    "list_all2 (\<lambda>x (p, n). length x = n \<and> list_all p x) g
       (List.map_filter (\<lambda>i. case i of RGroup p n \<Rightarrow> Some (p, n) | _ \<Rightarrow> None) r)"
proof -
  from re_findall_sound [OF assms(1)] obtain p u t where "s = p @ u" and m: "rmatch r u = Some (g, t)"
    by blast
  with rmatch_fill [OF m assms(2)] show "occurs (fill r g) s" by (auto intro: sublist_appendI)
  show "list_all2 (\<lambda>x (p, n). length x = n \<and> list_all p x) g
       (List.map_filter (\<lambda>i. case i of RGroup p n \<Rightarrow> Some (p, n) | _ \<Rightarrow> None) r)"
    by (rule rmatch_groups [OF m assms(2)])
qed

text \<open>Conversely, filling in groups of the right shape gives a text that matches.\<close>

fun fits :: "regex \<Rightarrow> bytes list \<Rightarrow> bool" where
  "fits [] g = (g = [])"
| "fits (RLit l # r) g = fits r g"
| "fits (RGroup p n # r) g = (g \<noteq> [] \<and> length (hd g) = n \<and> list_all p (hd g) \<and> fits r (tl g))"
| "fits (RLazyAny # r) g = fits r g"

lemma rmatch_filled: "fits r g \<Longrightarrow> rmatch r (fill r g @ t) = Some (g, t)"
proof (induction r g rule: fits.induct)
  case (3 p n r g)
  then show ?case by (cases g) auto
next
  case (4 r g)
  then show ?case by (simp add: rmatch.simps(4) [of r])
qed auto

lemma re_first_skip:
  "(\<And>k. k < length pre \<Longrightarrow> rmatch r (drop k (pre @ u)) = None) \<Longrightarrow> rmatch r u = Some (g, t) \<Longrightarrow>
     re_first r (pre @ u) = Some (pre, g, t)"
proof (induction pre)
  case Nil
  then show ?case by (cases u) auto
next
  case (Cons c pre)
  from Cons.prems(1) [of 0] have "rmatch r (c # pre @ u) = None" by simp
  moreover have "re_first r (pre @ u) = Some (pre, g, t)"
    using Cons.prems(1) [of "Suc k" for k] by (intro Cons.IH Cons.prems(2)) simp_all
  ultimately show ?case by simp
qed

lemma re_first_absent: "\<not> occurs l s \<Longrightarrow> re_first (RLit l # r) s = None"
proof (rule ccontr)
  assume no: "\<not> occurs l s" and "re_first (RLit l # r) s \<noteq> None"
  then obtain p g t where "re_first (RLit l # r) s = Some (p, g, t)" by auto
  from re_first_Some [OF this] obtain u where "s = p @ u" "prefix l u" by (auto split: if_splits)
  with no show False by (auto simp: prefix_def intro: sublist_appendI)
qed

text \<open>A pattern whose first literal occurs only where its one match is.\<close>

lemma re_findall_single:
  assumes "fits (RLit l # r) g" and "l \<noteq> []" and "CHR 10 \<notin> set l"
    and "pre = [] \<or> last pre = CHR 10" and "\<not> occurs l pre" and "\<not> occurs l t"
  shows "re_findall (RLit l # r) (pre @ fill (RLit l # r) g @ t) = [g]"
proof -
  let ?u = "fill (RLit l # r) g @ t"
  have m: "rmatch (RLit l # r) ?u = Some (g, t)" using assms(1) by (rule rmatch_filled)
  have none: "rmatch (RLit l # r) (drop k (pre @ ?u)) = None" if k: "k < length pre" for k
  proof -
    have "\<not> prefix l (drop k pre @ ?u)"
    proof
      assume p: "prefix l (drop k pre @ ?u)"
      have "prefix (drop k pre) (drop k pre @ ?u)" by simp
      with p consider "prefix l (drop k pre)" | "prefix (drop k pre) l"
        using prefix_same_cases by blast
      then show False
      proof cases
        case 1
        with assms(5) show False by (blast intro: prefix_drop_occurs)
      next
        case 2
        have "last (drop k pre) = CHR 10" "drop k pre \<noteq> []" using k assms(4) by auto
        then have "CHR 10 \<in> set (drop k pre)" by (metis last_in_set)
        with 2 assms(3) show False by (meson set_mono_prefix subsetD)
      qed
    qed
    with k show ?thesis by simp
  qed
  have f: "re_first (RLit l # r) (pre @ ?u) = Some (pre, g, t)"
    using none m by (rule re_first_skip)
  have "re_findall (RLit l # r) t = []"
    using re_first_absent [OF assms(6)] by (simp add: re_findall.simps [of _ t])
  with f show ?thesis by (subst re_findall.simps) (auto simp only: option.case prod.case, simp)
qed

end
