(* ===== verification/Py_Sha256.thy ===== *)
theory Py_Sha256
  imports Py_Prelude "HOL-Library.Word"
begin

text \<open>
  \<open>hashlib.sha256\<close> and the chunked file digest \<open>sha256\<close> of the harnesses: FIPS 180-4 on
  32-bit words.
\<close>

unbundle bit_operations_syntax

type_synonym w32 = "32 word"

text \<open>
  The constants are the first 32 bits of the fractional parts of the square and cube roots of
  the first primes; they are computed rather than listed.
\<close>

definition small_primes :: "int list" where
  "small_primes = filter (\<lambda>p. list_all (\<lambda>d. p mod d \<noteq> 0) [2..p - 1]) [2..311]"

text \<open>The integer \<open>k\<close>-th root of \<open>n\<close>, bit by bit from the top.\<close>

definition int_root :: "nat \<Rightarrow> int \<Rightarrow> int" where
  "int_root k n = foldl (\<lambda>x b. if (x + 2 ^ b) ^ k \<le> n then x + 2 ^ b else x) 0 (rev [0..<38])"

definition root_fraction :: "nat \<Rightarrow> int \<Rightarrow> w32" where
  "root_fraction k p = of_int (int_root k (p * 2 ^ (32 * k)))"

definition sha_K :: "w32 list" where
  "sha_K = map (root_fraction 3) small_primes"

definition sha_H :: "w32 list" where
  "sha_H = map (root_fraction 2) [2, 3, 5, 7, 11, 13, 17, 19]"

definition byte_list :: "nat \<Rightarrow> int \<Rightarrow> bytes" where
  "byte_list k n = map (\<lambda>i. char_of (n div 256 ^ i mod 256)) (rev [0..<k])"

definition sha_pad :: "bytes \<Rightarrow> bytes" where
  "sha_pad m =
     m @ [CHR 0x80] @ replicate ((119 - length m mod 64) mod 64) (CHR 0x00)
       @ byte_list 8 (8 * int (length m))"

definition be_word :: "bytes \<Rightarrow> w32" where
  "be_word bs = foldl (\<lambda>w c. w * 256 + of_int (of_char c)) 0 bs"

fun be_words :: "nat \<Rightarrow> bytes \<Rightarrow> w32 list" where
  "be_words 0 bs = []"
| "be_words (Suc n) bs = be_word (take 4 bs) # be_words n (drop 4 bs)"

definition small_sigma0 :: "w32 \<Rightarrow> w32" where
  "small_sigma0 x = (word_rotr 7 x XOR word_rotr 18 x) XOR drop_bit 3 x"

definition small_sigma1 :: "w32 \<Rightarrow> w32" where
  "small_sigma1 x = (word_rotr 17 x XOR word_rotr 19 x) XOR drop_bit 10 x"

definition big_sigma0 :: "w32 \<Rightarrow> w32" where
  "big_sigma0 x = (word_rotr 2 x XOR word_rotr 13 x) XOR word_rotr 22 x"

definition big_sigma1 :: "w32 \<Rightarrow> w32" where
  "big_sigma1 x = (word_rotr 6 x XOR word_rotr 11 x) XOR word_rotr 25 x"

fun sha_schedule :: "nat \<Rightarrow> w32 list \<Rightarrow> w32 list" where
  "sha_schedule 0 ws = ws"
| "sha_schedule (Suc n) ws =
     (let t = length ws
      in sha_schedule n (ws @ [small_sigma1 (ws ! (t - 2)) + ws ! (t - 7)
                               + small_sigma0 (ws ! (t - 15)) + ws ! (t - 16)]))"

type_synonym sha_state = "w32 \<times> w32 \<times> w32 \<times> w32 \<times> w32 \<times> w32 \<times> w32 \<times> w32"

fun sha_round :: "w32 \<times> w32 \<Rightarrow> sha_state \<Rightarrow> sha_state" where
  "sha_round (k, w) (a, b, c, d, e, f, g, h) =
     (let t1 = h + big_sigma1 e + ((e AND f) XOR (NOT e AND g)) + k + w;
          t2 = big_sigma0 a + (((a AND b) XOR (a AND c)) XOR (b AND c))
      in (t1 + t2, a, b, c, d + t1, e, f, g))"

fun sha_block :: "w32 list \<Rightarrow> w32 list \<Rightarrow> w32 list" where
  "sha_block ws [a, b, c, d, e, f, g, h] =
     (case fold sha_round (zip sha_K ws) (a, b, c, d, e, f, g, h) of
        (a', b', c', d', e', f', g', h') \<Rightarrow>
          [a + a', b + b', c + c', d + d', e + e', f + f', g + g', h + h'])"
| "sha_block ws hs = hs"

fun sha_blocks :: "nat \<Rightarrow> bytes \<Rightarrow> w32 list \<Rightarrow> w32 list" where
  "sha_blocks 0 bs hs = hs"
| "sha_blocks (Suc n) bs hs =
     sha_blocks n (drop 64 bs) (sha_block (sha_schedule 48 (be_words 16 bs)) hs)"

definition hex_char :: "int \<Rightarrow> char" where
  "hex_char n = (if n < 10 then char_of (48 + n) else char_of (87 + n))"

definition word_hex :: "w32 \<Rightarrow> string" where
  "word_hex w = map (\<lambda>i. hex_char (uint w div 16 ^ i mod 16)) (rev [0..<8])"

text \<open>\<open>hashlib.sha256(data).hexdigest()\<close>\<close>

definition sha256_hex :: "bytes \<Rightarrow> string" where
  "sha256_hex data =
     (let p = sha_pad data in concat (map word_hex (sha_blocks (length p div 64) p sha_H)))"

text \<open>The chunks \<open>stream.read(n)\<close> returns until it returns the empty one.\<close>

function read_chunks :: "nat \<Rightarrow> bytes \<Rightarrow> bytes list" where
  "read_chunks n data =
     (if n = 0 \<or> data = [] then [] else take n data # read_chunks n (drop n data))"
  by pat_completeness auto
termination
  by (relation "measure (length \<circ> snd)") auto

declare read_chunks.simps [simp del]

text \<open>\<open>digest.update(chunk)\<close> for each chunk: the digest of their concatenation\<close>

definition sha256_chunks :: "bytes list \<Rightarrow> string" where
  "sha256_chunks chunks = sha256_hex (foldl (@) [] chunks)"

definition sha256 :: "bytes \<Rightarrow> string" where
  "sha256 content = sha256_chunks (read_chunks (1024 * 1024) content)"

lemma concat_read_chunks: "n \<noteq> 0 \<Longrightarrow> concat (read_chunks n data) = data"
proof (induction n data rule: read_chunks.induct)
  case (1 n data)
  show ?case
  proof (cases "data = []")
    case True
    then show ?thesis by (simp only: read_chunks.simps [of n "[]"]) simp
  next
    case False
    with "1" show ?thesis by (subst read_chunks.simps) simp
  qed
qed

text \<open>Reading in chunks does not matter.\<close>

lemma foldl_append: "foldl (@) acc xss = acc @ concat xss"
  by (induction xss arbitrary: acc) simp_all

lemma sha256_eq: "sha256 content = sha256_hex content"
  by (simp add: sha256_def sha256_chunks_def foldl_append concat_read_chunks)

lemma length_word_hex [simp]: "length (word_hex w) = 8"
  by (simp add: word_hex_def)

lemma length_sha_block: "length hs = 8 \<Longrightarrow> length (sha_block ws hs) = 8"
  by (cases "(ws, hs)" rule: sha_block.cases) (auto split: prod.split)

lemma length_sha_blocks: "length hs = 8 \<Longrightarrow> length (sha_blocks n bs hs) = 8"
  by (induction n arbitrary: bs hs) (simp_all add: length_sha_block)

text \<open>The digest has 64 characters, and the padded message is a whole number of blocks.\<close>

lemma length_sha256_hex: "length (sha256_hex data) = 64"
proof -
  have "length (concat (map word_hex ws)) = 8 * length ws" for ws
    by (induction ws) simp_all
  then show ?thesis
    by (simp add: sha256_hex_def Let_def length_sha_blocks sha_H_def)
qed

lemma pad_fill: "r < 64 \<Longrightarrow> (r + 9 + (119 - r) mod 64) mod 64 = (0 :: nat)"
proof (cases "r \<le> 55")
  case True
  then have "(119 - r) mod 64 = 55 - r" by (simp add: mod_if)
  with True show ?thesis by simp
qed simp

lemma sha_pad_blocks: "length (sha_pad m) mod 64 = 0"
proof -
  have "length (sha_pad m) = length m + (9 + (119 - length m mod 64) mod 64)"
    by (simp add: sha_pad_def byte_list_def)
  then have "length (sha_pad m) mod 64
      = (length m mod 64 + (9 + (119 - length m mod 64) mod 64)) mod 64"
    by (simp only: mod_add_left_eq)
  with pad_fill [of "length m mod 64"] show ?thesis by (simp add: add.assoc)
qed

end
