(* ===== verification/Py_Text.thy ===== *)
theory Py_Text
  imports Py_Prelude
begin

text \<open>
  Decoding UART bytes to text and reading tokens from it: \<open>bytes.decode(errors='replace')\<close>,
  \<open>str.split()\<close>, \<open>str.strip()\<close> and \<open>int(text, 16)\<close>, with the cases the harnesses
  meet on a noisy serial line: invalid UTF-8, Unicode white space, underscores and signs in
  numerals, and the decimal digits of other scripts (those of Unicode 14.0, the version of
  Python 3.11).
\<close>

section \<open>UTF-8\<close>

abbreviation ord :: "char \<Rightarrow> nat" where
  "ord c \<equiv> of_char c"

definition is_cont :: "char \<Rightarrow> bool" where
  "is_cont c \<longleftrightarrow> 128 \<le> ord c \<and> ord c < 192"

text \<open>The length a lead byte announces, 0 for a byte that cannot start a character.\<close>

definition lead_length :: "nat \<Rightarrow> nat" where
  "lead_length b =
     (if b < 128 then 1 else if 194 \<le> b \<and> b \<le> 223 then 2
      else if 224 \<le> b \<and> b \<le> 239 then 3 else if 240 \<le> b \<and> b \<le> 244 then 4 else 0)"

definition second_ok :: "nat \<Rightarrow> nat \<Rightarrow> bool" where
  "second_ok b d =
     (if b = 224 then 160 \<le> d \<and> d < 192 else if b = 237 then 128 \<le> d \<and> d < 160
      else if b = 240 then 144 \<le> d \<and> d < 192 else if b = 244 then 128 \<le> d \<and> d < 144
      else 128 \<le> d \<and> d < 192)"

text \<open>How many bytes the decoder takes next, and whether they are a character.\<close>

definition utf8_head :: "char \<Rightarrow> bytes \<Rightarrow> nat \<times> bool" where
  "utf8_head c cs =
     (let n = lead_length (ord c);
          good = (case cs of [] \<Rightarrow> 0
                  | d # ds \<Rightarrow> if second_ok (ord c) (ord d)
                             then Suc (length (takeWhile is_cont (take (n - 2) ds))) else 0)
      in if n = 0 then (1, False)
         else if n = 1 then (1, True)
         else if good = n - 1 then (n, True) else (Suc good, False))"

lemma utf8_head_pos: "fst (utf8_head c cs) \<noteq> 0"
  by (auto simp: utf8_head_def Let_def lead_length_def split: list.splits)

definition replacement_char :: string where
  "replacement_char = [CHR 0xEF, CHR 0xBF, CHR 0xBD]"

text \<open>The characters of the decoded text, each as its UTF-8 encoding.\<close>

function decode_chars :: "bytes \<Rightarrow> string list" where
  "decode_chars [] = []"
| "decode_chars (c # cs) =
     (let (k, ok) = utf8_head c cs
      in (if ok then take k (c # cs) else replacement_char) # decode_chars (drop (k - 1) cs))"
  by pat_completeness auto
termination
  by (relation "measure length") auto

definition utf8_decode :: "bytes \<Rightarrow> string" where
  "utf8_decode data = concat (decode_chars data)"

definition ascii :: "bytes \<Rightarrow> bool" where
  "ascii data \<longleftrightarrow> (\<forall>c\<in>set data. ord c < 128)"

lemma decode_chars_ascii: "ascii data \<Longrightarrow> decode_chars data = map (\<lambda>c. [c]) data"
  by (induction data) (auto simp: ascii_def utf8_head_def lead_length_def)

text \<open>Decoding changes nothing on ASCII bytes.\<close>

lemma utf8_decode_ascii: "ascii data \<Longrightarrow> utf8_decode data = data"
  by (simp add: utf8_decode_def decode_chars_ascii concat_map_singleton)

section \<open>White space\<close>

fun code_point :: "string \<Rightarrow> nat" where
  "code_point [a] = ord a"
| "code_point [a, b] = (ord a - 192) * 64 + (ord b - 128)"
| "code_point [a, b, c] = ((ord a - 224) * 64 + (ord b - 128)) * 64 + (ord c - 128)"
| "code_point [a, b, c, d] =
     (((ord a - 240) * 64 + (ord b - 128)) * 64 + (ord c - 128)) * 64 + (ord d - 128)"
| "code_point _ = 0"

definition is_space :: "string \<Rightarrow> bool" where
  "is_space ch =
     (let u = code_point ch
      in (9 \<le> u \<and> u \<le> 13) \<or> (28 \<le> u \<and> u \<le> 32) \<or> (8192 \<le> u \<and> u \<le> 8202) \<or>
         u \<in> {133, 160, 5760, 8232, 8233, 8239, 8287, 12288})"

text \<open>\<open>text.split()\<close>, on the characters of the text\<close>

fun split_chars :: "string \<Rightarrow> string list \<Rightarrow> string list" where
  "split_chars cur [] = (if cur = [] then [] else [cur])"
| "split_chars cur (ch # chs) =
     (if is_space ch then (if cur = [] then [] else [cur]) @ split_chars [] chs
      else split_chars (cur @ ch) chs)"

text \<open>\<open>data.decode(errors='replace').split()\<close>\<close>

definition decode_split :: "bytes \<Rightarrow> string list" where
  "decode_split data = split_chars [] (decode_chars data)"

text \<open>\<open>text.strip()\<close>\<close>

definition text_strip :: "string \<Rightarrow> string" where
  "text_strip s =
     concat (rev (dropWhile is_space (rev (dropWhile is_space (decode_chars s)))))"

text \<open>\<open>key, value = token.split(sep, 1)\<close>, \<open>None\<close> where the separator is missing\<close>

fun split_once :: "char \<Rightarrow> string \<Rightarrow> (string \<times> string) option" where
  "split_once sep [] = None"
| "split_once sep (c # cs) =
     (if c = sep then Some ([], cs)
      else map_option (\<lambda>(k, v). (c # k, v)) (split_once sep cs))"

text \<open>\<open>text.split(sep)\<close> for a single separator character\<close>

fun split_all :: "char \<Rightarrow> string \<Rightarrow> string \<Rightarrow> string list" where
  "split_all sep cur [] = [rev cur]"
| "split_all sep cur (c # cs) =
     (if c = sep then rev cur # split_all sep [] cs else split_all sep (c # cur) cs)"

lemma split_once_join: "split_once sep s = Some (k, v) \<Longrightarrow> s = k @ sep # v \<and> sep \<notin> set k"
  by (induction s arbitrary: k) (auto split: if_splits)

lemma split_once_append: "sep \<notin> set k \<Longrightarrow> split_once sep (k @ sep # v) = Some (k, v)"
  by (induction k) auto

text \<open>\<open>Path(name).name\<close> of a POSIX path\<close>

definition path_name :: "string \<Rightarrow> string" where
  "path_name s =
     (let parts = filter (\<lambda>p. p \<noteq> [] \<and> p \<noteq> ''.'') (split_all (CHR ''/'') [] s)
      in if parts = [] then [] else last parts)"

section \<open>Lines of text\<close>

definition is_line_break :: "string \<Rightarrow> bool" where
  "is_line_break ch \<longleftrightarrow> code_point ch \<in> {10, 11, 12, 13, 28, 29, 30, 133, 8232, 8233}"

text \<open>\<open>text.splitlines()\<close>; a CR LF is one line end.\<close>

function lines_acc :: "string \<Rightarrow> string list \<Rightarrow> string list" where
  "lines_acc cur [] = (if cur = [] then [] else [cur])"
| "lines_acc cur (ch # chs) =
     (if is_line_break ch
      then cur # lines_acc []
        (case chs of d # ds \<Rightarrow> if code_point ch = 13 \<and> code_point d = 10 then ds else chs | [] \<Rightarrow> [])
      else lines_acc (cur @ ch) chs)"
  by pat_completeness auto
termination
  by (relation "measure (length \<circ> snd)") (auto split: list.splits)

definition text_lines :: "string \<Rightarrow> string list" where
  "text_lines text = lines_acc [] (decode_chars text)"

text \<open>\<open>text.replace(old, new)\<close>\<close>

function replace_all :: "string \<Rightarrow> string \<Rightarrow> string \<Rightarrow> string" where
  "replace_all old new [] = []"
| "replace_all old new (c # cs) =
     (if old \<noteq> [] \<and> prefix old (c # cs) then new @ replace_all old new (drop (length old) (c # cs))
      else c # replace_all old new cs)"
  by pat_completeness auto
termination
  by (relation "measure (\<lambda>(old, new, s). length s)") auto

section \<open>Decoding and splitting that can fail\<close>

text \<open>\<open>read_text(encoding='utf-8')\<close>: a \<open>UnicodeDecodeError\<close> is a \<open>ValueError\<close>.\<close>

function valid_utf8 :: "bytes \<Rightarrow> bool" where
  "valid_utf8 [] = True"
| "valid_utf8 (c # cs) =
     (let (k, ok) = utf8_head c cs in ok \<and> valid_utf8 (drop (k - 1) cs))"
  by pat_completeness auto
termination
  by (relation "measure length") auto

definition strict_text :: "bytes \<Rightarrow> string res" where
  "strict_text data = (if valid_utf8 data then Inr data else Inl (ValueError ''UnicodeDecodeError''))"

lemma valid_utf8_ascii: "ascii data \<Longrightarrow> valid_utf8 data"
  by (induction data) (auto simp: ascii_def utf8_head_def lead_length_def)

lemma strict_text_ascii: "ascii data \<Longrightarrow> strict_text data = Inr data"
  by (simp add: strict_text_def valid_utf8_ascii)

text \<open>\<open>text.split(maxsplit=1)\<close>: white space after the rest is kept.\<close>

definition split_max1 :: "string \<Rightarrow> string list" where
  "split_max1 text =
     (let chs = dropWhile is_space (decode_chars text);
          word = takeWhile (\<lambda>ch. \<not> is_space ch) chs;
          rest = dropWhile is_space (dropWhile (\<lambda>ch. \<not> is_space ch) chs)
      in (if word = [] then [] else [concat word]) @ (if rest = [] then [] else [concat rest]))"

text \<open>\<open>text.removeprefix(pre)\<close>\<close>

definition remove_prefix :: "string \<Rightarrow> string \<Rightarrow> string" where
  "remove_prefix pre text = (if prefix pre text then drop (length pre) text else text)"

section \<open>Numerals in base 16\<close>

text \<open>The code points of the digit zero of every decimal script beyond ASCII.\<close>

definition decimal_zeros :: "nat list" where
  "decimal_zeros =
     [1632, 1776, 1984, 2406, 2534, 2662, 2790, 2918, 3046, 3174, 3302, 3430, 3558, 3664,
      3792, 3872, 4160, 4240, 6112, 6160, 6470, 6608, 6784, 6800, 6992, 7088, 7232, 7248,
      42528, 43216, 43264, 43472, 43504, 43600, 44016, 65296, 66720, 68912, 69734, 69872,
      69942, 70096, 70384, 70736, 70864, 71248, 71360, 71472, 71904, 72016, 72784, 73040,
      73120, 92768, 92864, 93008, 120782, 120792, 120802, 120812, 120822, 123200, 123632,
      125264, 130032]"

definition numeral_char :: "string \<Rightarrow> char" where
  "numeral_char ch =
     (let u = code_point ch
      in if u < 128 then char_of u
         else (case find (\<lambda>z. z \<le> u \<and> u \<le> z + 9) decimal_zeros of
                 Some z \<Rightarrow> char_of (48 + (u - z))
               | None \<Rightarrow> CHR ''?''))"

text \<open>What \<open>int\<close> sees: foreign decimal digits as ASCII digits, anything else foreign as an error.\<close>

definition numeral_text :: "string \<Rightarrow> string" where
  "numeral_text s = map numeral_char (decode_chars s)"

definition hex_digit :: "char \<Rightarrow> nat option" where
  "hex_digit c =
     (let b = ord c
      in if 48 \<le> b \<and> b \<le> 57 then Some (b - 48)
         else if 97 \<le> b \<and> b \<le> 102 then Some (b - 87)
         else if 65 \<le> b \<and> b \<le> 70 then Some (b - 55) else None)"

text \<open>Digits with single underscores between them; \<open>prev\<close> says that a digit came last.\<close>

fun hex_number :: "nat \<Rightarrow> bool \<Rightarrow> string \<Rightarrow> nat option" where
  "hex_number acc prev [] = (if prev then Some acc else None)"
| "hex_number acc prev (c # cs) =
     (if c = CHR ''_'' then (if prev then hex_number acc False cs else None)
      else (case hex_digit c of None \<Rightarrow> None | Some d \<Rightarrow> hex_number (16 * acc + d) True cs))"

fun hex_unsigned :: "string \<Rightarrow> nat option" where
  "hex_unsigned (c # d # cs) =
     (if c = CHR ''0'' \<and> (d = CHR ''x'' \<or> d = CHR ''X'')
      then hex_number 0 False (case cs of e # es \<Rightarrow> if e = CHR ''_'' then es else cs | [] \<Rightarrow> [])
      else hex_number 0 False (c # d # cs))"
| "hex_unsigned cs = hex_number 0 False cs"

text \<open>
  \<open>int(text, 16)\<close> for a text without white space (every argument in the sources is a piece
  of a token of \<open>split()\<close>); \<open>None\<close> stands for the \<open>ValueError\<close>.
\<close>

definition py_int16 :: "string \<Rightarrow> int option" where
  "py_int16 s =
     (case numeral_text s of
        c # cs \<Rightarrow>
          if c = CHR ''-'' then map_option (\<lambda>n. - int n) (hex_unsigned cs)
          else if c = CHR ''+'' then map_option int (hex_unsigned cs)
          else map_option int (hex_unsigned (c # cs))
      | [] \<Rightarrow> None)"

text \<open>\<open>value.lower().startswith('0x')\<close>\<close>

fun hex_prefixed :: "string \<Rightarrow> bool" where
  "hex_prefixed (c # d # _) = (c = CHR ''0'' \<and> (d = CHR ''x'' \<or> d = CHR ''X''))"
| "hex_prefixed _ = False"

lemma numeral_text_cons_ascii:
  "ord c < 128 \<Longrightarrow> numeral_text (c # cs) = c # numeral_text cs"
  by (simp add: numeral_text_def numeral_char_def utf8_head_def lead_length_def)

text \<open>A token that starts with \<open>0x\<close> has no sign: its value is a natural number.\<close>

lemma py_int16_nonneg: "hex_prefixed s \<Longrightarrow> py_int16 s = Some i \<Longrightarrow> 0 \<le> i"
proof -
  assume "hex_prefixed s" and i: "py_int16 s = Some i"
  then obtain d cs where s: "s = CHR ''0'' # d # cs"
    by (cases s rule: hex_prefixed.cases) auto
  have "numeral_text s = CHR ''0'' # numeral_text (d # cs)"
    by (simp add: s numeral_text_cons_ascii)
  with i show "0 \<le> i" by (auto simp: py_int16_def)
qed

text \<open>Eight hexadecimal digits give a 32-bit value.\<close>

lemma hex_digit_bound: "hex_digit c = Some d \<Longrightarrow> d < 16"
  by (auto simp: hex_digit_def Let_def split: if_splits)

lemma hex_number_bound:
  "hex_number acc prev cs = Some n \<Longrightarrow> n < (acc + 1) * 16 ^ length cs"
proof (induction cs arbitrary: acc prev)
  case Nil
  then show ?case by (simp split: if_splits)
next
  case (Cons c cs)
  show ?case
  proof (cases "c = CHR ''_''")
    case True
    with Cons.prems have "hex_number acc False cs = Some n" by (simp split: if_splits)
    from Cons.IH [OF this] show ?thesis
      by (rule less_le_trans) simp
  next
    case False
    with Cons.prems obtain d where d: "hex_digit c = Some d"
      and h: "hex_number (16 * acc + d) True cs = Some n" by (auto split: option.splits)
    have "16 * acc + d + 1 \<le> 16 * (acc + 1)" using hex_digit_bound [OF d] by simp
    then have "(16 * acc + d + 1) * 16 ^ length cs \<le> 16 * (acc + 1) * 16 ^ length cs"
      by (rule mult_le_mono1)
    with Cons.IH [OF h] have "n < 16 * (acc + 1) * 16 ^ length cs" by (rule less_le_trans)
    then show ?thesis by (simp add: algebra_simps)
  qed
qed

section \<open>Plain words\<close>

text \<open>Words of printable ASCII characters pass through decoding and splitting unchanged.\<close>

definition plain_word :: "string \<Rightarrow> bool" where
  "plain_word w \<longleftrightarrow> w \<noteq> [] \<and> (\<forall>c\<in>set w. 33 \<le> ord c \<and> ord c < 127)"

lemma is_space_single: "33 \<le> ord c \<Longrightarrow> ord c < 127 \<Longrightarrow> \<not> is_space [c]" "is_space [CHR 32]"
  by (auto simp: is_space_def Let_def)

lemma split_chars_word:
  "\<forall>c\<in>set w. 33 \<le> ord c \<and> ord c < 127 \<Longrightarrow>
     split_chars cur (map (\<lambda>c. [c]) w @ rest) = split_chars (cur @ w) rest"
  by (induction w arbitrary: cur) (auto simp: is_space_single)

lemma split_chars_words:
  "cur \<noteq> [] \<Longrightarrow> \<forall>w\<in>set ws. plain_word w \<Longrightarrow>
     split_chars cur (map (\<lambda>c. [c]) (concat (map (\<lambda>w. CHR 32 # w) ws))) = cur # ws"
proof (induction ws arbitrary: cur)
  case (Cons w ws)
  then have "split_chars [] (map (\<lambda>c. [c]) w @ map (\<lambda>c. [c]) (concat (map (\<lambda>w. CHR 32 # w) ws)))
      = w # ws"
    by (subst split_chars_word) (simp_all add: plain_word_def)
  with Cons.prems show ?case by (simp add: is_space_single)
qed simp

lemma decode_split_words:
  assumes "plain_word tag" "\<forall>w\<in>set ws. plain_word w"
  shows "decode_split (tag @ concat (map (\<lambda>w. CHR 32 # w) ws)) = tag # ws"
proof -
  let ?line = "tag @ concat (map (\<lambda>w. CHR 32 # w) ws)"
  have "ascii ?line" using assms by (fastforce simp: ascii_def plain_word_def)
  then have "decode_split ?line = split_chars [] (map (\<lambda>c. [c]) ?line)"
    by (simp add: decode_split_def decode_chars_ascii)
  also have "\<dots> = split_chars tag (map (\<lambda>c. [c]) (concat (map (\<lambda>w. CHR 32 # w) ws)))"
    using assms(1) by (simp add: split_chars_word plain_word_def)
  also have "\<dots> = tag # ws" using assms by (simp add: split_chars_words plain_word_def)
  finally show ?thesis .
qed


lemma plain_word_ascii: "plain_word w \<Longrightarrow> ascii w"
  by (fastforce simp: plain_word_def ascii_def)

lemma lines_acc_line:
  "\<forall>c\<in>set s. 32 \<le> ord c \<and> ord c < 127 \<Longrightarrow>
     lines_acc cur (map (\<lambda>c. [c]) s @ [CHR 10] # rest) = (cur @ s) # lines_acc [] rest"
proof (induction s arbitrary: cur)
  case Nil
  then show ?case by (simp add: is_line_break_def split: list.split)
next
  case (Cons c s)
  then have "\<not> is_line_break [c]" by (auto simp: is_line_break_def)
  with Cons show ?case by simp
qed

lemma text_lines_plain:
  assumes "\<forall>l\<in>set ls. \<forall>c\<in>set l. 32 \<le> ord c \<and> ord c < 127"
  shows "text_lines (concat (map (\<lambda>l. l @ [CHR 10]) ls)) = ls"
proof -
  have "ascii (concat (map (\<lambda>l. l @ [CHR 10]) ls))" using assms by (fastforce simp: ascii_def)
  moreover have "lines_acc [] (map (\<lambda>c. [c]) (concat (map (\<lambda>l. l @ [CHR 10]) ls))) = ls"
    using assms by (induction ls) (simp_all add: lines_acc_line)
  ultimately show ?thesis by (simp add: text_lines_def decode_chars_ascii)
qed

lemma plain_word_chars: "plain_word w \<Longrightarrow> c \<in> set w \<Longrightarrow> \<not> is_space [c]"
  by (simp add: plain_word_def is_space_single)

lemma word_prefix:
  "\<forall>c\<in>set w. \<not> is_space [c] \<Longrightarrow>
     takeWhile (\<lambda>ch. \<not> is_space ch) (map (\<lambda>c. [c]) w @ [CHR 32] # r) = map (\<lambda>c. [c]) w"
  "\<forall>c\<in>set w. \<not> is_space [c] \<Longrightarrow>
     dropWhile (\<lambda>ch. \<not> is_space ch) (map (\<lambda>c. [c]) w @ [CHR 32] # r) = [CHR 32] # r"
  by (induction w) (simp_all add: is_space_single)

lemma plain_word_start: "plain_word w \<Longrightarrow> dropWhile is_space (map (\<lambda>c. [c]) w @ r) = map (\<lambda>c. [c]) w @ r"
  by (cases w) (simp_all add: plain_word_def is_space_single)

lemma text_strip_plain_word: "plain_word w \<Longrightarrow> text_strip w = w"
proof -
  assume w: "plain_word w"
  then have "ascii w" by (rule plain_word_ascii)
  moreover have "plain_word (rev w)" using w by (simp add: plain_word_def)
  ultimately show ?thesis
    using plain_word_start [OF w, of "[]"] plain_word_start [of "rev w" "[]"]
    by (simp add: text_strip_def decode_chars_ascii rev_map [symmetric] concat_map_singleton)
qed

lemma split_max1_plain:
  assumes "plain_word a" "plain_word b"
  shows "split_max1 (a @ ''  '' @ b) = [a, b]"
proof -
  have "ascii (a @ ''  '' @ b)" using assms [THEN plain_word_ascii] by (auto simp: ascii_def)
  then have chs: "decode_chars (a @ ''  '' @ b)
      = map (\<lambda>c. [c]) a @ [CHR 32] # [CHR 32] # map (\<lambda>c. [c]) b"
    by (simp add: decode_chars_ascii)
  have a: "\<forall>c\<in>set a. \<not> is_space [c]" using plain_word_chars [OF assms(1)] by blast
  have b: "dropWhile is_space ([CHR 32] # [CHR 32] # map (\<lambda>c. [c]) b) = map (\<lambda>c. [c]) b"
    using plain_word_start [OF assms(2), of "[]"] by (simp add: is_space_single(2))
  have ne: "a \<noteq> []" "b \<noteq> []" using assms by (auto simp: plain_word_def)
  show ?thesis
    unfolding split_max1_def chs plain_word_start [OF assms(1)] word_prefix [OF a] b Let_def
    using ne by simp
qed

section \<open>Printed hexadecimal digits\<close>

text \<open>\<open>k\<close> lower-case digits, as the firmware prints a counter\<close>

definition digit_char :: "nat \<Rightarrow> char" where
  "digit_char d = (if d < 10 then char_of (48 + d) else char_of (87 + d))"

fun hex_fixed :: "nat \<Rightarrow> nat \<Rightarrow> string" where
  "hex_fixed 0 n = []"
| "hex_fixed (Suc k) n = hex_fixed k (n div 16) @ [digit_char (n mod 16)]"

lemma ord_digit_char: "d < 16 \<Longrightarrow> ord (digit_char d) = (if d < 10 then 48 + d else 87 + d)"
  by (simp add: digit_char_def of_char_of take_bit_eq_mod)

lemma hex_digit_char: "d < 16 \<Longrightarrow> hex_digit (digit_char d) = Some d"
  by (simp add: hex_digit_def ord_digit_char Let_def)

lemma digit_char_plain: "d < 16 \<Longrightarrow> digit_char d \<noteq> CHR ''_'' \<and> 33 \<le> ord (digit_char d) \<and> ord (digit_char d) < 127"
  using ord_digit_char [of d] by (auto split: if_splits)

lemma hex_fixed_plain: "c \<in> set (hex_fixed k n) \<Longrightarrow> \<exists>d<16. c = digit_char d"
proof (induction k arbitrary: n)
  case (Suc k)
  moreover have "n mod 16 < 16" by simp
  ultimately show ?case by (auto intro: exI [of _ "n mod 16"])
qed simp

lemma length_hex_fixed [simp]: "length (hex_fixed k n) = k"
  by (induction k arbitrary: n) auto

lemma hex_number_fixed:
  "k \<noteq> 0 \<or> prev \<Longrightarrow>
     hex_number acc prev (hex_fixed k n @ cs) = hex_number (acc * 16 ^ k + n mod 16 ^ k) True cs"
proof (induction k arbitrary: n cs)
  case 0
  then show ?case by simp
next
  case (Suc k)
  have d: "n mod 16 < 16" by simp
  have arith: "16 * (acc * 16 ^ k + n div 16 mod 16 ^ k) + n mod 16 = acc * 16 ^ Suc k + n mod 16 ^ Suc k"
    by (simp add: mod_mult2_eq algebra_simps)
  show ?case
  proof (cases "k = 0")
    case True
    then show ?thesis using hex_digit_char [OF d] digit_char_plain [OF d] by (simp add: mult.commute)
  next
    case False
    then have "hex_number acc prev (hex_fixed (Suc k) n @ cs)
        = hex_number (16 * (acc * 16 ^ k + n div 16 mod 16 ^ k) + n mod 16) True cs"
      using Suc.IH [of "n div 16" "digit_char (n mod 16) # cs"] hex_digit_char [OF d]
        digit_char_plain [OF d] by simp
    then show ?thesis by (simp only: arith)
  qed
qed

end
