(* ===== verification/JLink_Reset.thy ===== *)
theory JLink_Reset
  imports Py_Text
begin

text \<open>
  \<open>hil/jlink_nrst.py\<close>: the J-Link Commander invocations, the reset pulse and the held
  reset.  An operation returns the trace of its effects on the temporary command file and on
  the probe, and its outcome.  The environment of an operation (what the child process does,
  whether a write fails) is an argument.
\<close>

section \<open>Invocations\<close>

text \<open>\<open>serial.isascii() and serial.isdecimal()\<close>\<close>

definition ascii_decimal :: "string \<Rightarrow> bool" where
  "ascii_decimal s \<longleftrightarrow> s \<noteq> [] \<and> (\<forall>c\<in>set s. 48 \<le> ord c \<and> ord c \<le> 57)"

definition interactive_jlink_argv :: "string \<Rightarrow> string option \<Rightarrow> string list res" where
  "interactive_jlink_argv jlink serial =
     (let argv = [jlink, ''-NoGui'', ''1'']
      in case serial of
           None \<Rightarrow> Inr argv
         | Some sn \<Rightarrow>
             if \<not> ascii_decimal sn
             then Inl (ValueError ''JLINK_SERIAL must contain decimal digits only'')
             else Inr (argv @ [''-SelectEmuBySN'', sn]))"

definition jlink_argv :: "string \<Rightarrow> string \<Rightarrow> string option \<Rightarrow> string list res" where
  "jlink_argv jlink command_path serial =
     (let argv = [jlink, ''-NoGui'', ''1'']
      in case serial of
           None \<Rightarrow> Inr (argv @ [''-CommandFile'', command_path])
         | Some sn \<Rightarrow>
             if \<not> ascii_decimal sn
             then Inl (ValueError ''JLINK_SERIAL must contain decimal digits only'')
             else Inr ((argv @ [''-SelectEmuBySN'', sn]) @ [''-CommandFile'', command_path]))"

section \<open>Effects\<close>

datatype jl_event =
    CreateFile string
  | WriteFile string string
  | Unlink string
  | RunProcess "string list"
  | Spawn "string list"
  | SendStdin string
  | HeldBody
  | KillProcess

datatype proc =
    Exited int string string  \<comment> \<open>return code, standard error, standard output\<close>
  | RunTimedOut
  | SpawnFailed string

record pulse_env =
  tmp_path :: string
  write_error :: "exn option"
  jl_proc :: proc

definition newline :: string where
  "newline = [CHR 10]"

definition pulse_script :: string where
  "pulse_script = ''SetRESET'' @ newline @ ''sleep 200'' @ newline @ ''ClrRESET'' @ newline
     @ ''sleep 100'' @ newline @ ''q'' @ newline"

definition proc_outcome :: "proc \<Rightarrow> unit res" where
  "proc_outcome p =
     (case p of
        Exited rc err out \<Rightarrow>
          if rc \<noteq> 0
          then Inl (RuntimeError (''J-Link nRST failed with '' @ str_int rc @ '': ''
                 @ text_strip (if err \<noteq> [] then err else out)))
          else Inr ()
      | RunTimedOut \<Rightarrow> Inl TimeoutExpired
      | SpawnFailed m \<Rightarrow> Inl (OSError m))"

definition pulse_nrst :: "string \<Rightarrow> string option \<Rightarrow> pulse_env \<Rightarrow> jl_event list \<times> unit res" where
  "pulse_nrst jlink serial env =
     (let f = tmp_path env in
      case write_error env of
        Some e \<Rightarrow> ([CreateFile f, Unlink f], Inl e)
      | None \<Rightarrow>
          (case jlink_argv jlink f serial of
             Inl e \<Rightarrow> ([CreateFile f, WriteFile f pulse_script, Unlink f], Inl e)
           | Inr argv \<Rightarrow>
               ([CreateFile f, WriteFile f pulse_script, RunProcess argv, Unlink f],
                proc_outcome (jl_proc env))))"

section \<open>Holding the reset line\<close>

datatype release_result = Released | PipeBroken | ReleaseTimedOut

record hold_env =
  spawn_error :: "string option"
  stdin_broken :: bool              \<comment> \<open>writing the hold commands raises\<close>
  poll_hold :: "int option"         \<comment> \<open>\<open>process.poll()\<close> after the hold commands\<close>
  body_raises :: "exn option"       \<comment> \<open>the body of the \<open>with\<close> statement\<close>
  poll_exit :: "int option"         \<comment> \<open>\<open>process.poll()\<close> in the \<open>finally\<close> block\<close>
  release_result :: release_result
  reaped :: bool                    \<comment> \<open>\<open>process.wait\<close> after \<open>process.kill\<close> returns\<close>
  recovery :: pulse_env

definition hold_script :: string where
  "hold_script = ''SetRESET'' @ newline @ ''sleep 200'' @ newline"

definition release_script :: string where
  "release_script = ''ClrRESET'' @ newline @ ''sleep 200'' @ newline @ ''q'' @ newline"

text \<open>
  The \<open>try\<close> block: its effects, its outcome, and the return code \<open>Popen\<close> has cached by
  then, which a later \<open>poll\<close> repeats.
\<close>

definition hold_body :: "hold_env \<Rightarrow> jl_event list \<times> unit res \<times> int option" where
  "hold_body env =
     (if stdin_broken env then ([], Inl BrokenPipeError, poll_exit env)
      else case poll_hold env of
        Some rc \<Rightarrow>
          ([SendStdin hold_script],
           Inl (RuntimeError (''J-Link exited before nRST hold was established: '' @ str_int rc)),
           Some rc)
      | None \<Rightarrow>
          ([SendStdin hold_script, HeldBody],
           (case body_raises env of None \<Rightarrow> Inr () | Some e \<Rightarrow> Inl e), poll_exit env))"

text \<open>The \<open>finally\<close> block: an exception raised in it replaces the pending one.\<close>

definition hold_finally ::
    "string \<Rightarrow> string option \<Rightarrow> hold_env \<Rightarrow> int option \<Rightarrow> jl_event list \<times> unit res" where
  "hold_finally jlink serial env polled =
     (case polled of
        None \<Rightarrow>
          (if release_result env = Released then ([SendStdin release_script], Inr ())
           else if \<not> reaped env
           then ([SendStdin release_script, KillProcess], Inl TimeoutExpired)
           else (let (tr, r) = pulse_nrst jlink serial (recovery env)
                 in ([SendStdin release_script, KillProcess] @ tr, r)))
      | Some rc \<Rightarrow> if rc \<noteq> 0 then pulse_nrst jlink serial (recovery env) else ([], Inr ()))"

definition held_nrst :: "string \<Rightarrow> string option \<Rightarrow> hold_env \<Rightarrow> jl_event list \<times> unit res" where
  "held_nrst jlink serial env =
     (case interactive_jlink_argv jlink serial of
        Inl e \<Rightarrow> ([], Inl e)
      | Inr argv \<Rightarrow>
          (case spawn_error env of
             Some m \<Rightarrow> ([], Inl (OSError m))
           | None \<Rightarrow>
               (let (tr, r, polled) = hold_body env;
                    (tr', r') = hold_finally jlink serial env polled
                in (Spawn argv # tr @ tr', (case r' of Inl e \<Rightarrow> Inl e | Inr _ \<Rightarrow> r)))))"

section \<open>Lemmas\<close>

lemma jlink_argv_Inl:
  "(\<exists>e. jlink_argv jlink f serial = Inl e) \<longleftrightarrow> (\<exists>sn. serial = Some sn \<and> \<not> ascii_decimal sn)"
  by (auto simp: jlink_argv_def Let_def split: option.splits)

lemma pulse_nrst_serial:
  "snd (pulse_nrst jlink serial env) = Inr u \<Longrightarrow> serial = Some sn \<Longrightarrow> ascii_decimal sn"
  by (auto simp: pulse_nrst_def jlink_argv_def Let_def split: option.splits if_splits)

text \<open>An effect that ends with the line driven inactive: a release command or a full pulse.\<close>

definition releases :: "jl_event \<Rightarrow> bool" where
  "releases ev \<longleftrightarrow> ev = SendStdin release_script \<or> (\<exists>argv. ev = RunProcess argv)"

lemma hold_finally_releases:
  assumes "polled \<noteq> Some 0" and "write_error (recovery env) = None"
    and "\<And>sn. serial = Some sn \<Longrightarrow> ascii_decimal sn"
  shows "\<exists>ev\<in>set (fst (hold_finally jlink serial env polled)). releases ev"
proof -
  obtain argv where "jlink_argv jlink (tmp_path (recovery env)) serial = Inr argv"
    using assms(3) jlink_argv_Inl by (metis old.sum.exhaust)
  then show ?thesis using assms(1,2)
    by (auto simp: hold_finally_def pulse_nrst_def releases_def Let_def
             split: option.splits prod.splits)
qed

lemma HeldBody_notin_finally:
  "HeldBody \<notin> set (fst (hold_finally jlink serial env polled))"
  by (auto simp: hold_finally_def pulse_nrst_def Let_def
           split: option.splits sum.splits prod.splits)


text \<open>
  C2: the hold ends with a release.  If the hold was established (the body of the \<open>with\<close>
  statement ran), then whatever the body raised and however the Commander fared, a release
  command or a complete pulse is issued after the body, unless the Commander had already
  exited with return code 0.
\<close>

theorem held_nrst_releases_after_body:
  assumes "fst (held_nrst jlink serial env) = before @ HeldBody # after"
    and "poll_exit env \<noteq> Some 0"
    and "write_error (recovery env) = None"
  shows "\<exists>ev\<in>set after. releases ev"
proof -
  obtain argv where argv: "interactive_jlink_argv jlink serial = Inr argv"
    and sp: "spawn_error env = None"
    using assms(1) by (auto simp: held_nrst_def split: sum.splits option.splits)
  have sn: "\<And>sn. serial = Some sn \<Longrightarrow> ascii_decimal sn"
    using argv by (auto simp: interactive_jlink_argv_def Let_def split: if_splits)
  have trace: "before @ HeldBody # after = Spawn argv # fst (hold_body env)
      @ fst (hold_finally jlink serial env (snd (snd (hold_body env))))"
    using assms(1) argv sp by (simp add: held_nrst_def Let_def split: prod.splits)
  then have "HeldBody \<in> set (Spawn argv # fst (hold_body env)
      @ fst (hold_finally jlink serial env (snd (snd (hold_body env)))))"
    by (metis in_set_conv_decomp)
  with HeldBody_notin_finally have "HeldBody \<in> set (fst (hold_body env))" by simp
  then have body: "fst (hold_body env) = [SendStdin hold_script, HeldBody]"
    and polled: "snd (snd (hold_body env)) = poll_exit env"
    by (auto simp: hold_body_def split: if_splits option.splits)
  have "ys @ HeldBody # after \<noteq> fst (hold_finally jlink serial env (poll_exit env))" for ys
    using HeldBody_notin_finally by (metis in_set_conv_decomp)
  then have "after = fst (hold_finally jlink serial env (poll_exit env))"
    using trace
    by (auto simp: body polled Cons_eq_append_conv append_eq_Cons_conv)
  with hold_finally_releases [OF assms(2,3) sn] show ?thesis by simp
qed

end
