(* ===== verification/Pair_Capture.thy ===== *)
theory Pair_Capture
  imports JLink_Reset
begin

text \<open>
  What the paired-board harnesses have in common: the serial ports, the drain of a port, the
  settle loop and the collect loop, and the loop over the runs of a matrix.

  The environment of a run is a list of ticks, one for each time a loop reads the clock: the
  clock value, the bytes that have arrived on the two ports since the previous tick, and the
  clock values read later in the same iteration.  A loop that is still running when the list
  is used up has the value \<open>None\<close>; \<open>clock_passes\<close> says that the list is long enough.
\<close>

section \<open>Serial ports\<close>

record port =
  rxbuf :: bytes
  written :: bytes

definition arrive :: "bytes \<Rightarrow> port \<Rightarrow> port" where
  "arrive bs p = p\<lparr>rxbuf := rxbuf p @ bs\<rparr>"

definition reset_input_buffer :: "port \<Rightarrow> port" where
  "reset_input_buffer p = p\<lparr>rxbuf := []\<rparr>"

definition serial_read :: "nat \<Rightarrow> port \<Rightarrow> bytes \<times> port" where
  "serial_read n p = (take n (rxbuf p), p\<lparr>rxbuf := drop n (rxbuf p)\<rparr>)"

definition serial_write :: "bytes \<Rightarrow> port \<Rightarrow> port" where
  "serial_write bs p = p\<lparr>written := written p @ bs\<rparr>"

text \<open>
  \<open>waiting = port.in_waiting; return port.read(waiting) if waiting else b''\<close> (the same
  function in each of the harnesses)
\<close>

definition drain :: "port \<Rightarrow> bytes \<times> port" where
  "drain p =
     (let waiting = length (rxbuf p) in if waiting \<noteq> 0 then serial_read waiting p else ([], p))"

lemma drain_eq: "drain p = (rxbuf p, p\<lparr>rxbuf := []\<rparr>)"
  by (simp add: drain_def serial_read_def)

lemma port_simps [simp]:
  "rxbuf (arrive bs p) = rxbuf p @ bs" "written (arrive bs p) = written p"
  "rxbuf (reset_input_buffer p) = []" "written (reset_input_buffer p) = written p"
  "written (serial_write bs p) = written p @ bs" "rxbuf (serial_write bs p) = rxbuf p"
  by (simp_all add: arrive_def reset_input_buffer_def serial_write_def)

section \<open>The settle and collect loops\<close>

record tick =
  now :: secs         \<comment> \<open>\<open>time.monotonic()\<close> in the loop test\<close>
  rx1 :: bytes
  rx2 :: bytes
  mark_at :: secs     \<comment> \<open>\<open>time.monotonic()\<close> where completion is recorded\<close>
  check_at :: secs    \<comment> \<open>\<open>time.monotonic()\<close> in the test of the hold time\<close>

record pair_state =
  log1 :: bytes
  log2 :: bytes
  port1 :: port
  port2 :: port

definition tick_arrive :: "tick \<Rightarrow> pair_state \<Rightarrow> pair_state" where
  "tick_arrive t s = s\<lparr>port1 := arrive (rx1 t) (port1 s), port2 := arrive (rx2 t) (port2 s)\<rparr>"

definition drain1 :: "pair_state \<Rightarrow> pair_state" where
  "drain1 s = (let (d, p) = drain (port1 s) in s\<lparr>log1 := log1 s @ d, port1 := p\<rparr>)"

definition drain2 :: "pair_state \<Rightarrow> pair_state" where
  "drain2 s = (let (d, p) = drain (port2 s) in s\<lparr>log2 := log2 s @ d, port2 := p\<rparr>)"

text \<open>While the first board boots, only its port is drained.\<close>

fun settle_loop :: "secs \<Rightarrow> tick list \<Rightarrow> pair_state \<Rightarrow> (tick list \<times> pair_state) option" where
  "settle_loop deadline [] s = None"
| "settle_loop deadline (t # ts) s =
     (let s = tick_arrive t s
      in if now t < deadline then settle_loop deadline ts (drain1 s) else Some (ts, s))"

text \<open>Both ports are drained; completion is recorded once.\<close>

definition sweep :: "tick \<Rightarrow> pair_state \<Rightarrow> pair_state" where
  "sweep t s = drain2 (drain1 (tick_arrive t s))"

definition mark ::
    "(bytes \<Rightarrow> bytes \<Rightarrow> bool) \<Rightarrow> tick \<Rightarrow> pair_state \<Rightarrow> secs option \<Rightarrow> secs option" where
  "mark completed t s complete_at =
     (if completed (log1 s) (log2 s) \<and> complete_at = None then Some (mark_at t) else complete_at)"

text \<open>
  The main loop: drain both ports, record the time of completion, stop when completion is
  \<open>hold\<close> seconds old or the deadline has passed.
\<close>

fun collect_loop ::
    "(bytes \<Rightarrow> bytes \<Rightarrow> bool) \<Rightarrow> secs \<Rightarrow> secs \<Rightarrow> tick list \<Rightarrow> secs option \<Rightarrow> pair_state
       \<Rightarrow> (secs option \<times> pair_state) option" where
  "collect_loop completed hold deadline [] complete_at s = None"
| "collect_loop completed hold deadline (t # ts) complete_at s =
     (if now t < deadline then
        (let s = sweep t s;
             complete_at = mark completed t s complete_at
         in case complete_at of
              None \<Rightarrow> collect_loop completed hold deadline ts complete_at s
            | Some c \<Rightarrow>
                if check_at t - c \<ge> hold then Some (complete_at, s)
                else collect_loop completed hold deadline ts complete_at s)
      else Some (complete_at, tick_arrive t s))"

record pair_env =
  pulse_first :: pulse_env
  settle_from :: secs       \<comment> \<open>the clock when the settle deadline is computed\<close>
  pulse_second :: pulse_env
  collect_from :: secs      \<comment> \<open>the clock when the collect deadline is computed\<close>
  ticks :: "tick list"
  last1 :: bytes            \<comment> \<open>bytes that arrive between the last tick and the final drain\<close>
  last2 :: bytes

definition fresh_pair :: "port \<Rightarrow> port \<Rightarrow> pair_state" where
  "fresh_pair p q =
     \<lparr>log1 = [], log2 = [], port1 = reset_input_buffer p, port2 = reset_input_buffer q\<rparr>"

definition final_drain :: "bytes \<Rightarrow> bytes \<Rightarrow> pair_state \<Rightarrow> pair_state" where
  "final_drain l1 l2 s =
     drain2 (drain1 (s\<lparr>port1 := arrive l1 (port1 s), port2 := arrive l2 (port2 s)\<rparr>))"

text \<open>
  The body of \<open>capture_run\<close>: discard old input, reset the first board and let it settle,
  reset the second board, collect, drain once more.
\<close>

definition pair_capture ::
    "(bytes \<Rightarrow> bytes \<Rightarrow> bool) \<Rightarrow> secs \<Rightarrow> string \<Rightarrow> string \<Rightarrow> secs \<Rightarrow> secs \<Rightarrow> pair_env
       \<Rightarrow> port \<Rightarrow> port \<Rightarrow> pair_state res option" where
  "pair_capture completed hold jlink1 jlink2 settle timeout env p q =
     (case snd (pulse_nrst ''JLinkExe'' (Some jlink1) (pulse_first env)) of
        Inl e \<Rightarrow> Some (Inl e)
      | Inr _ \<Rightarrow>
          (case settle_loop (settle_from env + settle) (ticks env) (fresh_pair p q) of
             None \<Rightarrow> None
           | Some (rest, s) \<Rightarrow>
               (case snd (pulse_nrst ''JLinkExe'' (Some jlink2) (pulse_second env)) of
                  Inl e \<Rightarrow> Some (Inl e)
                | Inr _ \<Rightarrow>
                    (case collect_loop completed hold (collect_from env + timeout) rest None s of
                       None \<Rightarrow> None
                     | Some (_, s) \<Rightarrow> Some (Inr (final_drain (last1 env) (last2 env) s))))))"

section \<open>No byte is lost or invented\<close>

definition stream1 :: "tick list \<Rightarrow> bytes" where
  "stream1 ts = concat (map rx1 ts)"

definition stream2 :: "tick list \<Rightarrow> bytes" where
  "stream2 ts = concat (map rx2 ts)"

text \<open>All that has come in on a board's line: what is logged and what is still buffered.\<close>

definition seen1 :: "pair_state \<Rightarrow> bytes" where
  "seen1 s = log1 s @ rxbuf (port1 s)"

definition seen2 :: "pair_state \<Rightarrow> bytes" where
  "seen2 s = log2 s @ rxbuf (port2 s)"

named_theorems capture_simps \<open>the fields of a capture state after a step\<close>

lemma drain_fields [capture_simps]:
  "log1 (drain1 s) = seen1 s" "log2 (drain1 s) = log2 s" "seen1 (drain1 s) = seen1 s"
  "seen2 (drain1 s) = seen2 s" "rxbuf (port1 (drain1 s)) = []"
  "log2 (drain2 s) = seen2 s" "log1 (drain2 s) = log1 s" "seen1 (drain2 s) = seen1 s"
  "seen2 (drain2 s) = seen2 s" "rxbuf (port2 (drain2 s)) = []"
  "rxbuf (port1 (drain2 s)) = rxbuf (port1 s)" "rxbuf (port2 (drain1 s)) = rxbuf (port2 s)"
  by (simp_all add: drain1_def drain2_def drain_eq seen1_def seen2_def)

lemma tick_arrive_fields [capture_simps]:
  "log1 (tick_arrive t s) = log1 s" "log2 (tick_arrive t s) = log2 s"
  "seen1 (tick_arrive t s) = seen1 s @ rx1 t" "seen2 (tick_arrive t s) = seen2 s @ rx2 t"
  by (simp_all add: tick_arrive_def seen1_def seen2_def)

lemma fresh_pair_fields [capture_simps]:
  "seen1 (fresh_pair p q) = []" "seen2 (fresh_pair p q) = []"
  "log1 (fresh_pair p q) = []" "log2 (fresh_pair p q) = []"
  by (simp_all add: fresh_pair_def seen1_def seen2_def)

lemma final_drain_fields [capture_simps]:
  "log1 (final_drain l1 l2 s) = seen1 s @ l1" "log2 (final_drain l1 l2 s) = seen2 s @ l2"
  by (simp_all add: final_drain_def seen1_def seen2_def capture_simps)

lemma stream_simps [simp]:
  "stream1 [] = []" "stream1 (t # ts) = rx1 t @ stream1 ts" "stream1 (a @ b) = stream1 a @ stream1 b"
  "stream2 [] = []" "stream2 (t # ts) = rx2 t @ stream2 ts" "stream2 (a @ b) = stream2 a @ stream2 b"
  by (simp_all add: stream1_def stream2_def)

lemma settle_loop_seen:
  "settle_loop deadline ts s = Some (rest, s') \<Longrightarrow>
     \<exists>used. ts = used @ rest \<and> used \<noteq> [] \<and> seen1 s' = seen1 s @ stream1 used \<and>
       seen2 s' = seen2 s @ stream2 used"
proof (induction ts arbitrary: s)
  case Nil
  then show ?case by simp
next
  case (Cons t ts)
  show ?case
  proof (cases "now t < deadline")
    case True
    with Cons.prems have "settle_loop deadline ts (drain1 (tick_arrive t s)) = Some (rest, s')"
      by (simp add: Let_def)
    from Cons.IH [OF this] obtain used where "ts = used @ rest"
      "seen1 s' = (seen1 s @ rx1 t) @ stream1 used" "seen2 s' = (seen2 s @ rx2 t) @ stream2 used"
      by (auto simp: capture_simps)
    then show ?thesis by (intro exI [of _ "t # used"]) simp
  next
    case False
    with Cons.prems show ?thesis by (intro exI [of _ "[t]"]) (auto simp: Let_def capture_simps)
  qed
qed

lemma sweep_fields [capture_simps]:
  "log1 (sweep t s) = seen1 s @ rx1 t" "log2 (sweep t s) = seen2 s @ rx2 t"
  "seen1 (sweep t s) = seen1 s @ rx1 t" "seen2 (sweep t s) = seen2 s @ rx2 t"
  by (simp_all add: sweep_def capture_simps)

text \<open>Draining writes nothing to a board.\<close>

lemma written_simps [capture_simps]:
  "written (port1 (tick_arrive t s)) = written (port1 s)"
  "written (port2 (tick_arrive t s)) = written (port2 s)"
  "written (port1 (drain1 s)) = written (port1 s)" "written (port2 (drain1 s)) = written (port2 s)"
  "written (port1 (drain2 s)) = written (port1 s)" "written (port2 (drain2 s)) = written (port2 s)"
  "written (port1 (fresh_pair p q)) = written p" "written (port2 (fresh_pair p q)) = written q"
  by (simp_all add: tick_arrive_def drain1_def drain2_def drain_eq fresh_pair_def)

lemma written_sweep [capture_simps]:
  "written (port1 (sweep t s)) = written (port1 s)" "written (port2 (sweep t s)) = written (port2 s)"
  by (simp_all add: sweep_def capture_simps)

lemma written_final_drain [capture_simps]:
  "written (port1 (final_drain l1 l2 s)) = written (port1 s)"
  "written (port2 (final_drain l1 l2 s)) = written (port2 s)"
  by (simp_all add: final_drain_def capture_simps)

lemma settle_loop_written:
  "settle_loop deadline ts s = Some (rest, s') \<Longrightarrow>
     written (port1 s') = written (port1 s) \<and> written (port2 s') = written (port2 s)"
  by (induction ts arbitrary: s) (fastforce simp: Let_def capture_simps split: if_splits)+

text \<open>One iteration of the main loop.\<close>

lemma collect_loop_cases:
  assumes "collect_loop completed hold deadline (t # ts) c s = Some (c', s')"
  obtains
    (again) "now t < deadline"
      "collect_loop completed hold deadline ts (mark completed t (sweep t s) c) (sweep t s)
         = Some (c', s')"
  | (held) m where "now t < deadline" "c' = mark completed t (sweep t s) c" "s' = sweep t s"
      "c' = Some m" "hold \<le> check_at t - m"
  | (timeout) "deadline \<le> now t" "c' = c" "s' = tick_arrive t s"
proof (cases "now t < deadline")
  case True
  show ?thesis
  proof (cases "mark completed t (sweep t s) c")
    case None
    with True assms show ?thesis by (intro again) (simp_all add: Let_def)
  next
    case (Some m)
    show ?thesis
    proof (cases "hold \<le> check_at t - m")
      case True
      with Some \<open>now t < deadline\<close> assms show ?thesis by (intro held [of m]) (simp_all add: Let_def)
    next
      case False
      with Some \<open>now t < deadline\<close> assms show ?thesis by (intro again) (simp_all add: Let_def)
    qed
  qed
next
  case False
  with assms show ?thesis by (intro timeout) simp_all
qed

lemma collect_loop_seen:
  "collect_loop completed hold deadline ts c s = Some (c', s') \<Longrightarrow>
     \<exists>used rest. ts = used @ rest \<and> seen1 s' = seen1 s @ stream1 used \<and>
       seen2 s' = seen2 s @ stream2 used"
proof (induction ts arbitrary: c s)
  case Nil
  then show ?case by simp
next
  case (Cons t ts)
  from Cons.prems show ?case
  proof (cases rule: collect_loop_cases)
    case again
    from Cons.IH [OF again(2)] obtain used rest where "ts = used @ rest"
      "seen1 s' = (seen1 s @ rx1 t) @ stream1 used" "seen2 s' = (seen2 s @ rx2 t) @ stream2 used"
      by (auto simp: capture_simps)
    then show ?thesis by (intro exI [of _ "t # used"] exI [of _ rest]) simp
  next
    case held
    then show ?thesis by (intro exI [of _ "[t]"] exI [of _ ts]) (simp add: capture_simps)
  next
    case timeout
    then show ?thesis by (intro exI [of _ "[t]"] exI [of _ ts]) (simp add: capture_simps)
  qed
qed

text \<open>
  The logs of a capture are exactly the bytes that arrived from the reset of the input
  buffers on: those of the ticks that the two loops used, and the final ones.
\<close>

lemma pair_capture_logs:
  assumes "pair_capture completed hold j1 j2 settle timeout env p q = Some (Inr s)"
  shows "\<exists>used rest. ticks env = used @ rest \<and> used \<noteq> [] \<and>
           log1 s = stream1 used @ last1 env \<and> log2 s = stream2 used @ last2 env"
proof -
  from assms obtain rest s1 c s2 where
    st: "settle_loop (settle_from env + settle) (ticks env) (fresh_pair p q) = Some (rest, s1)"
    and co: "collect_loop completed hold (collect_from env + timeout) rest None s1 = Some (c, s2)"
    and s: "s = final_drain (last1 env) (last2 env) s2"
    by (auto simp: pair_capture_def split: sum.splits option.splits prod.splits)
  from settle_loop_seen [OF st] obtain u1 where u1: "ticks env = u1 @ rest" "u1 \<noteq> []"
    "seen1 s1 = stream1 u1" "seen2 s1 = stream2 u1" by (auto simp: capture_simps)
  from collect_loop_seen [OF co] obtain u2 rest2 where u2: "rest = u2 @ rest2"
    "seen1 s2 = seen1 s1 @ stream1 u2" "seen2 s2 = seen2 s1 @ stream2 u2" by auto
  from u1 u2 s show ?thesis
    by (intro exI [of _ "u1 @ u2"] exI [of _ rest2]) (simp add: capture_simps)
qed

section \<open>The loops end\<close>

lemma settle_loop_ends:
  "\<exists>t\<in>set ts. deadline \<le> now t \<Longrightarrow> settle_loop deadline ts s \<noteq> None"
  by (induction ts arbitrary: s) (auto simp: Let_def)

lemma collect_loop_ends:
  "\<exists>t\<in>set ts. deadline \<le> now t \<Longrightarrow> collect_loop completed hold deadline ts c s \<noteq> None"
proof (induction ts arbitrary: c s)
  case Nil
  then show ?case by simp
next
  case (Cons t ts)
  show ?case
  proof (cases "deadline \<le> now t")
    case True
    then show ?thesis by (simp add: Let_def)
  next
    case False
    with Cons.prems have "\<exists>t\<in>set ts. deadline \<le> now t" by auto
    then have "collect_loop completed hold deadline ts c' s' \<noteq> None" for c' s'
      by (rule Cons.IH)
    then show ?thesis by (simp add: Let_def split: option.split)
  qed
qed

text \<open>The settle loop stops at the first tick past its deadline.\<close>

lemma settle_loop_rest:
  "settle_loop deadline ts s = Some (rest, s') \<Longrightarrow>
     rest = tl (dropWhile (\<lambda>t. now t < deadline) ts)"
  by (induction ts arbitrary: s) (auto simp: Let_def split: if_splits)

definition clock_passes :: "secs \<Rightarrow> secs \<Rightarrow> pair_env \<Rightarrow> bool" where
  "clock_passes settle timeout env \<longleftrightarrow>
     (\<exists>t\<in>set (ticks env). settle_from env + settle \<le> now t) \<and>
     (\<exists>t\<in>set (tl (dropWhile (\<lambda>t. now t < settle_from env + settle) (ticks env))).
        collect_from env + timeout \<le> now t)"

lemma pair_capture_ends:
  assumes "clock_passes settle timeout env"
  shows "pair_capture completed hold j1 j2 settle timeout env p q \<noteq> None"
proof -
  note passes = assms [unfolded clock_passes_def]
  have "settle_loop (settle_from env + settle) (ticks env) (fresh_pair p q) \<noteq> None"
    by (rule settle_loop_ends) (rule conjunct1 [OF passes])
  then obtain rest s where
    st: "settle_loop (settle_from env + settle) (ticks env) (fresh_pair p q) = Some (rest, s)"
    by auto
  have "collect_loop completed hold (collect_from env + timeout) rest None s \<noteq> None"
    unfolding settle_loop_rest [OF st] by (rule collect_loop_ends) (rule conjunct2 [OF passes])
  with st show ?thesis by (auto simp: pair_capture_def split: sum.splits option.splits)
qed

text \<open>A capture raises only what one of its two pulses raises.\<close>

lemma pair_capture_raises:
  "pair_capture completed hold j1 j2 settle timeout env p q = Some (Inl e) \<Longrightarrow>
     snd (pulse_nrst ''JLinkExe'' (Some j1) (pulse_first env)) = Inl e \<or>
     snd (pulse_nrst ''JLinkExe'' (Some j2) (pulse_second env)) = Inl e"
  by (auto simp: pair_capture_def split: sum.splits option.splits)

section \<open>Completion\<close>

text \<open>Completion is recorded in an iteration in which the logs are complete.\<close>

lemma collect_loop_unmarked:
  "collect_loop completed hold deadline ts c s = Some (None, s') \<Longrightarrow>
     c = None \<and> (\<exists>t\<in>set ts. deadline \<le> now t)"
proof (induction ts arbitrary: c s)
  case Nil
  then show ?case by simp
next
  case (Cons t ts)
  from Cons.prems show ?case
  proof (cases rule: collect_loop_cases)
    case again
    from Cons.IH [OF again(2)] show ?thesis by (auto simp: mark_def split: if_splits)
  qed (auto simp: mark_def)
qed

text \<open>A loop that ends before its deadline ends because completion is \<open>hold\<close> seconds old.\<close>

lemma collect_loop_early:
  assumes "collect_loop completed hold deadline ts c s = Some (c', s')"
    and "\<forall>t\<in>set ts. now t < deadline"
  shows "\<exists>m. c' = Some m \<and> (\<exists>t\<in>set ts. hold \<le> check_at t - m)"
  using assms
proof (induction ts arbitrary: c s)
  case Nil
  then show ?case by simp
next
  case (Cons t ts)
  from Cons.prems(1) show ?case
  proof (cases rule: collect_loop_cases)
    case again
    with Cons.IH [OF again(2)] Cons.prems(2) show ?thesis by auto
  next
    case (held m)
    from held(4,5) show ?thesis by auto
  next
    case timeout
    with Cons.prems(2) show ?thesis by auto
  qed
qed

text \<open>
  The contract between a capture loop and the classifier that judges its logs: a pass needs
  completion, and completion is not lost when the logs grow.
\<close>

locale pair_contract =
  fixes passes :: "bytes \<Rightarrow> bytes \<Rightarrow> bool"
    and completed :: "bytes \<Rightarrow> bytes \<Rightarrow> bool"
  assumes passes_completed: "passes a b \<Longrightarrow> completed a b"
    and completed_mono: "completed a b \<Longrightarrow> completed (a @ x) (b @ y)"
begin

definition mark_sound :: "secs option \<Rightarrow> pair_state \<Rightarrow> bool" where
  "mark_sound c s \<longleftrightarrow> (c \<noteq> None \<longrightarrow> completed (log1 s) (log2 s))"

lemma mark_sound_arrive: "mark_sound c s \<Longrightarrow> mark_sound c (tick_arrive t s)"
  by (simp add: mark_sound_def capture_simps)

lemma mark_sound_sweep:
  "mark_sound c s \<Longrightarrow> mark_sound (mark completed t (sweep t s) c) (sweep t s)"
  using completed_mono by (auto simp: mark_sound_def mark_def capture_simps seen1_def seen2_def)

lemma collect_loop_mark_sound:
  "collect_loop completed hold deadline ts c s = Some (c', s') \<Longrightarrow> mark_sound c s \<Longrightarrow> mark_sound c' s'"
proof (induction ts arbitrary: c s)
  case Nil
  then show ?case by simp
next
  case (Cons t ts)
  note sound = mark_sound_sweep [OF Cons.prems(2), of t]
  from Cons.prems(1) show ?case
  proof (cases rule: collect_loop_cases)
    case again
    from again(2) sound show ?thesis by (rule Cons.IH)
  next
    case (held m)
    with sound show ?thesis by simp
  next
    case timeout
    with mark_sound_arrive [OF Cons.prems(2)] show ?thesis by simp
  qed
qed

text \<open>Logs that are not complete after the last drain never stopped the loop early.\<close>

lemma incomplete_capture_times_out:
  assumes "collect_loop completed hold deadline ts None s = Some (c, s')"
    and "\<not> completed (log1 (final_drain l1 l2 s')) (log2 (final_drain l1 l2 s'))"
  shows "c = None \<and> (\<exists>t\<in>set ts. deadline \<le> now t)"
proof -
  have "mark_sound c s'"
    using collect_loop_mark_sound [OF assms(1)] by (simp add: mark_sound_def)
  then have "c = None"
    using assms(2) completed_mono
    by (auto simp: mark_sound_def capture_simps seen1_def seen2_def)
  with assms(1) collect_loop_unmarked show ?thesis by blast
qed

text \<open>
  A capture whose logs do not complete the contract has run until its deadline, and its
  verdict is a failure.
\<close>

lemma incomplete_capture_fails:
  assumes "pair_capture completed hold j1 j2 settle timeout env p q = Some (Inr s)"
    and "\<not> completed (log1 s) (log2 s)"
  shows "\<not> passes (log1 s) (log2 s) \<and> (\<exists>t\<in>set (ticks env). collect_from env + timeout \<le> now t)"
proof -
  from assms(1) obtain rest s1 c s2 where
    st: "settle_loop (settle_from env + settle) (ticks env) (fresh_pair p q) = Some (rest, s1)"
    and co: "collect_loop completed hold (collect_from env + timeout) rest None s1 = Some (c, s2)"
    and s: "s = final_drain (last1 env) (last2 env) s2"
    by (auto simp: pair_capture_def split: sum.splits option.splits prod.splits)
  from settle_loop_seen [OF st] have "set rest \<subseteq> set (ticks env)" by auto
  with incomplete_capture_times_out [OF co] assms(2) s passes_completed show ?thesis by blast
qed

end

section \<open>Bytes of the second board from before its reset\<close>

text \<open>
  The input buffers are discarded before the first pulse only.  What the second board sends
  while the first one settles comes from the firmware it ran before its own reset.
\<close>

definition second_silent_after_reset :: "secs \<Rightarrow> pair_env \<Rightarrow> bool" where
  "second_silent_after_reset settle env \<longleftrightarrow>
     stream2 (tl (dropWhile (\<lambda>t. now t < settle_from env + settle) (ticks env))) = [] \<and>
     last2 env = []"

definition quiet_pulse :: pulse_env where
  "quiet_pulse = \<lparr>tmp_path = ''/tmp/nrst.jlink'', write_error = None, jl_proc = Exited 0 [] []\<rparr>"

definition quiet_tick :: "secs \<Rightarrow> tick" where
  "quiet_tick t = \<lparr>now = t, rx1 = [], rx2 = [], mark_at = t, check_at = t\<rparr>"

definition stale_env :: "bytes \<Rightarrow> bytes \<Rightarrow> secs \<Rightarrow> secs \<Rightarrow> pair_env" where
  "stale_env a b settle timeout =
     \<lparr>pulse_first = quiet_pulse, settle_from = 0, pulse_second = quiet_pulse, collect_from = settle,
      ticks = [\<lparr>now = 0, rx1 = a, rx2 = b, mark_at = 0, check_at = 0\<rparr>, quiet_tick settle,
               quiet_tick settle, quiet_tick (settle + timeout)],
      last1 = [], last2 = []\<rparr>"

lemma quiet_pulse_ok: "ascii_decimal sn \<Longrightarrow> snd (pulse_nrst jlink (Some sn) quiet_pulse) = Inr ()"
  by (simp add: pulse_nrst_def quiet_pulse_def jlink_argv_def proc_outcome_def Let_def)

lemma pair_capture_stale:
  assumes "ascii_decimal j1" "ascii_decimal j2" "0 < settle" "0 < timeout"
  shows "second_silent_after_reset settle (stale_env a b settle timeout)"
    "clock_passes settle timeout (stale_env a b settle timeout)"
    "\<exists>s. pair_capture completed hold j1 j2 settle timeout (stale_env a b settle timeout) p q
           = Some (Inr s) \<and> log1 s = a \<and> log2 s = b"
proof -
  let ?env = "stale_env a b settle timeout"
  show "second_silent_after_reset settle ?env"
    using assms by (simp add: second_silent_after_reset_def stale_env_def quiet_tick_def)
  show passes: "clock_passes settle timeout ?env"
    using assms by (simp add: clock_passes_def stale_env_def quiet_tick_def)
  have ok: "snd (pulse_nrst ''JLinkExe'' (Some j1) (pulse_first ?env)) = Inr ()"
    "snd (pulse_nrst ''JLinkExe'' (Some j2) (pulse_second ?env)) = Inr ()"
    using assms by (simp_all add: stale_env_def quiet_pulse_ok)
  obtain s where s: "pair_capture completed hold j1 j2 settle timeout ?env p q = Some (Inr s)"
    using pair_capture_ends [OF passes, of completed hold j1 j2 p q]
      pair_capture_raises [of completed hold j1 j2 settle timeout ?env p q] ok
    by (cases "pair_capture completed hold j1 j2 settle timeout ?env p q")
       (auto, metis old.sum.exhaust)
  obtain used rest where "ticks ?env = used @ rest" "log1 s = stream1 used" "log2 s = stream2 used"
    and used: "used \<noteq> []"
    using pair_capture_logs [OF s] by (auto simp: stale_env_def)
  then have "log1 s = a \<and> log2 s = b"
    by (cases used) (auto simp: stale_env_def quiet_tick_def Cons_eq_append_conv
        append_eq_Cons_conv)
  with s show "\<exists>s. pair_capture completed hold j1 j2 settle timeout ?env p q = Some (Inr s) \<and>
      log1 s = a \<and> log2 s = b" by blast
qed

end
