(* ===== verification/Pair_Matrix.thy ===== *)
theory Pair_Matrix
  imports Pair_Capture
begin

text \<open>
  The paired-board reset matrices that judge two UART logs by their markers:
  \<open>ws63-ble-gatt\<close>, \<open>ws63-ble-discovery\<close>, \<open>ws63-sle-connect\<close>, \<open>ws63-sle-ssap\<close>,
  \<open>ws63-sle-discovery\<close> and \<open>ws63-radio-u2\<close>.  Each has its marker tables, \<open>classify\<close>,
  \<open>capture_run\<close> and \<open>main\<close>; the loop over the runs and the exit status are shared.
\<close>

section \<open>The loop over the runs\<close>

text \<open>The arguments of \<open>main\<close>: 1 is the board that is reset first (and settles).\<close>

record pair_args =
  runs :: int
  settle_arg :: secs
  timeout_arg :: secs
  jlink1 :: string
  jlink2 :: string
  output_exists :: bool         \<comment> \<open>\<open>mkdir(exist_ok=False)\<close> raises\<close>
  open_error :: "exn option"    \<comment> \<open>\<open>serial.Serial\<close> raises\<close>

text \<open>One record of the summary: the verdict of \<open>classify\<close> and the run it belongs to.\<close>

record 'v run_record =
  verdict :: 'v
  run_no :: nat
  log_name1 :: string
  log_name2 :: string

record 'v matrix_result =
  summary_runs :: int
  summary_passed :: nat
  summary_failed :: int
  records :: "'v run_record list"
  log_files :: "(string \<times> bytes) list"
  exit_status :: nat

text \<open>The files a matrix reads: \<open>None\<close> where the path is not a regular file.\<close>

type_synonym elf_files = "string \<Rightarrow> bytes option"

definition run_log_name :: "nat \<Rightarrow> string \<Rightarrow> string" where
  "run_log_name run who = ''run-'' @ two_digits run @ ''.'' @ who @ ''.uart.log''"

fun pair_runs ::
    "(bytes \<Rightarrow> bytes \<Rightarrow> 'v) \<Rightarrow> (nat \<Rightarrow> port \<Rightarrow> port \<Rightarrow> pair_state res option) \<Rightarrow> string \<Rightarrow> string
       \<Rightarrow> nat \<Rightarrow> nat \<Rightarrow> port \<Rightarrow> port
       \<Rightarrow> ('v run_record list \<times> (string \<times> bytes) list) res option" where
  "pair_runs classify capture who1 who2 0 run p q = Some (Inr ([], []))"
| "pair_runs classify capture who1 who2 (Suc left) run p q =
     (case capture run p q of
        None \<Rightarrow> None
      | Some (Inl e) \<Rightarrow> Some (Inl e)
      | Some (Inr s) \<Rightarrow>
          (let name1 = run_log_name run who1; name2 = run_log_name run who2;
               rec = \<lparr>verdict = classify (log1 s) (log2 s), run_no = run,
                      log_name1 = name1, log_name2 = name2\<rparr>
           in case pair_runs classify capture who1 who2 left (Suc run) (port1 s) (port2 s) of
                None \<Rightarrow> None
              | Some (Inl e) \<Rightarrow> Some (Inl e)
              | Some (Inr (recs, files)) \<Rightarrow>
                  Some (Inr (rec # recs, (name1, log1 s) # (name2, log2 s) # files))))"

definition pair_main ::
    "string \<Rightarrow> (bytes \<Rightarrow> bytes \<Rightarrow> 'v) \<Rightarrow> ('v \<Rightarrow> bool) \<Rightarrow> (nat \<Rightarrow> port \<Rightarrow> port \<Rightarrow> pair_state res option)
       \<Rightarrow> string \<Rightarrow> string \<Rightarrow> pair_args \<Rightarrow> port \<Rightarrow> port \<Rightarrow> 'v matrix_result res option" where
  "pair_main usage classify passed_of capture who1 who2 args p q =
     (if runs args \<le> 0 \<or> settle_arg args \<le> 0 \<or> timeout_arg args \<le> 0
      then Some (Inl (SystemExit usage))
      else if output_exists args then Some (Inl (OSError ''FileExistsError''))
      else case open_error args of
        Some e \<Rightarrow> Some (Inl e)
      | None \<Rightarrow>
          (case pair_runs classify capture who1 who2 (nat (runs args)) 1 p q of
             None \<Rightarrow> None
           | Some (Inl e) \<Rightarrow> Some (Inl e)
           | Some (Inr (recs, files)) \<Rightarrow>
               (let ok = length (filter (\<lambda>r. passed_of (verdict r)) recs)
                in Some (Inr
                     \<lparr>summary_runs = runs args, summary_passed = ok,
                      summary_failed = runs args - int ok, records = recs, log_files = files,
                      exit_status = (if int ok = runs args then 0 else 1)\<rparr>))))"

lemma pair_runs_records:
  "pair_runs classify capture who1 who2 n run p q = Some (Inr (recs, files)) \<Longrightarrow>
     length recs = n \<and> length files = 2 * n \<and> map run_no recs = [run..<run + n] \<and>
     (\<forall>r\<in>set recs. \<exists>a b. verdict r = classify a b \<and>
        (log_name1 r, a) \<in> set files \<and> (log_name2 r, b) \<in> set files)"
proof (induction n arbitrary: run p q recs files)
  case 0
  then show ?case by simp
next
  case (Suc n)
  from Suc.prems obtain s where s: "capture run p q = Some (Inr s)"
    by (auto split: option.splits sum.splits)
  with Suc.prems obtain recs' files' where
    rest: "pair_runs classify capture who1 who2 n (Suc run) (port1 s) (port2 s) = Some (Inr (recs', files'))"
    by (auto simp: Let_def split: option.splits sum.splits prod.splits)
  from Suc.prems s rest have
    recs: "recs = \<lparr>verdict = classify (log1 s) (log2 s), run_no = run,
                 log_name1 = run_log_name run who1, log_name2 = run_log_name run who2\<rparr> # recs'"
    and files: "files = (run_log_name run who1, log1 s) # (run_log_name run who2, log2 s) # files'"
    by (simp_all add: Let_def)
  from Suc.IH [OF rest] show ?case
    by (auto simp: recs files upt_rec simp del: upt_Suc) blast+
qed

lemma length_filter_eq_length: "length (filter P xs) = length xs \<longleftrightarrow> (\<forall>x\<in>set xs. P x)"
  by (metis filter_True filter_id_conv length_filter_less nless_le)

lemma pair_main_result:
  assumes "pair_main usage classify passed_of capture who1 who2 args p q = Some (Inr m)"
  shows "0 < runs args" "length (records m) = nat (runs args)"
    "map run_no (records m) = [1..<1 + nat (runs args)]"
    "summary_failed m = int (length (filter (\<lambda>r. \<not> passed_of (verdict r)) (records m)))"
    "exit_status m = 0 \<longleftrightarrow> (\<forall>r\<in>set (records m). passed_of (verdict r))"
    "\<forall>r\<in>set (records m). \<exists>a b. verdict r = classify a b \<and>
       (log_name1 r, a) \<in> set (log_files m) \<and> (log_name2 r, b) \<in> set (log_files m)"
proof -
  from assms obtain recs files where pos: "0 < runs args"
    and pr: "pair_runs classify capture who1 who2 (nat (runs args)) 1 p q = Some (Inr (recs, files))"
    and m: "records m = recs" "log_files m = files"
      "summary_failed m = runs args - int (length (filter (\<lambda>r. passed_of (verdict r)) recs))"
      "exit_status m = (if int (length (filter (\<lambda>r. passed_of (verdict r)) recs)) = runs args
                        then 0 else 1)"
    by (auto simp: pair_main_def Let_def split: if_splits option.splits sum.splits prod.splits)
  note recs = pair_runs_records [OF pr]
  have split: "length (filter (\<lambda>r. passed_of (verdict r)) recs)
      + length (filter (\<lambda>r. \<not> passed_of (verdict r)) recs) = nat (runs args)"
    using recs sum_length_filter_compl [of "\<lambda>r. passed_of (verdict r)" recs] by simp
  show "0 < runs args" by (rule pos)
  show "length (records m) = nat (runs args)"
    "map run_no (records m) = [1..<1 + nat (runs args)]"
    "\<forall>r\<in>set (records m). \<exists>a b. verdict r = classify a b \<and>
       (log_name1 r, a) \<in> set (log_files m) \<and> (log_name2 r, b) \<in> set (log_files m)"
    using recs m by simp_all
  show "summary_failed m = int (length (filter (\<lambda>r. \<not> passed_of (verdict r)) (records m)))"
    using split m pos by simp
  have "int (length (filter (\<lambda>r. passed_of (verdict r)) recs)) = runs args
      \<longleftrightarrow> length (filter (\<lambda>r. passed_of (verdict r)) recs) = length recs"
    using recs pos by auto
  then show "exit_status m = 0 \<longleftrightarrow> (\<forall>r\<in>set (records m). passed_of (verdict r))"
    using m by (simp add: length_filter_eq_length)
qed

lemma pair_runs_ends:
  "(\<And>i p q. run \<le> i \<Longrightarrow> i < run + n \<Longrightarrow> capture i p q \<noteq> None) \<Longrightarrow>
     pair_runs classify capture who1 who2 n run p q \<noteq> None"
proof (induction n arbitrary: run p q)
  case 0
  then show ?case by simp
next
  case (Suc n)
  have head: "capture run p q \<noteq> None" by (rule Suc.prems) simp_all
  have tail: "pair_runs classify capture who1 who2 n (Suc run) p' q' \<noteq> None" for p' q'
    by (rule Suc.IH) (rule Suc.prems, simp_all)
  show ?case
  proof (cases "capture run p q")
    case None
    with head show ?thesis by simp
  next
    case (Some r)
    then show ?thesis
      using tail by (cases r) (auto simp: Let_def split: option.split sum.split)
  qed
qed

text \<open>If every capture returns, so does the loop.\<close>

lemma pair_runs_total:
  "(\<And>i p q. \<exists>s. capture i p q = Some (Inr s)) \<Longrightarrow>
     \<exists>recs files. pair_runs classify capture who1 who2 n run p q = Some (Inr (recs, files))"
proof (induction n arbitrary: run p q)
  case 0
  then show ?case by simp
next
  case (Suc n)
  from Suc.prems obtain s where s: "capture run p q = Some (Inr s)" by blast
  obtain recs files where
    "pair_runs classify capture who1 who2 n (Suc run) (port1 s) (port2 s) = Some (Inr (recs, files))"
    using Suc.IH [OF Suc.prems] by blast
  with s show ?case by (simp add: Let_def)
qed

lemma pair_main_ends:
  assumes "\<And>i p q. 1 \<le> i \<Longrightarrow> i \<le> nat (runs args) \<Longrightarrow> capture i p q \<noteq> None"
  shows "pair_main usage classify passed_of capture who1 who2 args p q \<noteq> None"
proof -
  have "pair_runs classify capture who1 who2 (nat (runs args)) 1 p q \<noteq> None"
    by (rule pair_runs_ends) (rule assms, simp_all)
  then show ?thesis
    by (auto simp: pair_main_def Let_def split: option.splits sum.splits prod.splits)
qed

section \<open>The verdict of two marker tables\<close>

text \<open>
  The dictionary that \<open>classify\<close> returns; the fields 1 and 2 are those of the two boards
  (\<open>server\<close> and \<open>client\<close>, \<open>announce\<close> and \<open>seek\<close>, \<open>source\<close> and \<open>observer\<close>,
  \<open>target\<close> and \<open>peer\<close>).
\<close>

record pair_verdict =
  passed :: bool
  missing1 :: "string list"
  missing2 :: "string list"
  failure_markers :: "string list"
  bytes1 :: nat
  bytes2 :: nat

section \<open>BLE GATT\<close>

definition gatt_SERVER_MARKERS :: "bytes list" where
  "gatt_SERVER_MARKERS =
     [''RFDBG_BLE_B3_INIT_OK'', ''RFDBG_BLE_B3_SERVICE_READY'',
      ''RFDBG_BLE_B3_SERVER_ADV_OK'', ''RFDBG_BLE_B3_SERVER_CONNECTED'',
      ''RFDBG_BLE_B3_NOTIFY_SENT'', ''RFDBG_BLE_B3_INDICATE_SENT'',
      ''RFDBG_BLE_B3_INDICATE_CONFIRMED'', ''RFDBG_BLE_B3_SERVER_DISCONNECTED'']"

definition gatt_CLIENT_MARKERS :: "bytes list" where
  "gatt_CLIENT_MARKERS =
     [''RFDBG_BLE_B3_INIT_OK'', ''RFDBG_BLE_B3_CLIENT_SCAN_READY'',
      ''RFDBG_BLE_B3_SCAN_MATCH'', ''RFDBG_BLE_B3_CLIENT_CONNECTED'',
      ''RFDBG_BLE_B3_SERVICE_FOUND'', ''RFDBG_BLE_B3_CHARACTERISTIC_FOUND'',
      ''RFDBG_BLE_B3_DESCRIPTOR_FOUND'', ''RFDBG_BLE_B3_NOTIFICATION_OK'',
      ''RFDBG_BLE_B3_INDICATION_OK'', ''RFDBG_BLE_B3_CLIENT_DISCONNECTED'',
      ''RFDBG_BLE_B3_GATT_OK'']"

definition gatt_FAILURE_MARKERS :: "bytes list" where
  "gatt_FAILURE_MARKERS =
     [''RFDBG_MISSING_ROM_CALLBACK'', ''RFDBG_BLE_B3_INIT_ERR'',
      ''RFDBG_BLE_B3_EVENT_DROP'', ''RFDBG_BLE_B3_SERVER_REGISTER_ERR'',
      ''RFDBG_BLE_B3_SERVER_ADV_ERR'', ''RFDBG_BLE_B3_SERVER_STATE_ERR'',
      ''RFDBG_BLE_B3_NOTIFY_ERR'', ''RFDBG_BLE_B3_INDICATE_ERR'',
      ''RFDBG_BLE_B3_CLIENT_REGISTER_ERR'', ''RFDBG_BLE_B3_CLIENT_SCAN_ERR'',
      ''RFDBG_BLE_B3_CONNECT_ERR'', ''RFDBG_BLE_B3_SERVICE_DISCOVERY_ERR'',
      ''RFDBG_BLE_B3_CHAR_DISCOVERY_ERR'', ''RFDBG_BLE_B3_DESC_DISCOVERY_ERR'',
      ''RFDBG_BLE_B3_CCC_NOTIFY_ERR'', ''RFDBG_BLE_B3_WRITE_NOTIFY_ERR'',
      ''RFDBG_BLE_B3_CCC_INDICATE_ERR'', ''RFDBG_BLE_B3_WRITE_INDICATE_ERR'',
      ''RFDBG_BLE_B3_DISCONNECT_ERR'']"

definition gatt_classify :: "bytes \<Rightarrow> bytes \<Rightarrow> pair_verdict" where
  "gatt_classify server client =
     (let server_missing = missing_markers gatt_SERVER_MARKERS server;
          client_missing = missing_markers gatt_CLIENT_MARKERS client;
          failures = failures_in gatt_FAILURE_MARKERS server client
      in \<lparr>passed = (server_missing = [] \<and> client_missing = [] \<and> failures = []),
          missing1 = server_missing, missing2 = client_missing, failure_markers = failures,
          bytes1 = length server, bytes2 = length client\<rparr>)"

definition gatt_complete :: "bytes \<Rightarrow> bytes \<Rightarrow> bool" where
  "gatt_complete server_log client_log \<longleftrightarrow>
     occurs (last gatt_CLIENT_MARKERS) client_log \<and> occurs (last gatt_SERVER_MARKERS) server_log"

definition gatt_capture_run ::
    "pair_args \<Rightarrow> pair_env \<Rightarrow> port \<Rightarrow> port \<Rightarrow> pair_state res option" where
  "gatt_capture_run args env server client =
     pair_capture gatt_complete 1 (jlink1 args) (jlink2 args) (settle_arg args) (timeout_arg args)
       env server client"

definition gatt_main ::
    "pair_args \<Rightarrow> (nat \<Rightarrow> pair_env) \<Rightarrow> port \<Rightarrow> port \<Rightarrow> pair_verdict matrix_result res option" where
  "gatt_main args env server client =
     pair_main ''--runs, --server-settle and --timeout must be positive'' gatt_classify passed
       (\<lambda>run. gatt_capture_run args (env run)) ''server'' ''client'' args server client"

section \<open>BLE discovery\<close>

definition disc_REQUIRED_BOOT_MARKERS :: "bytes list" where
  "disc_REQUIRED_BOOT_MARKERS =
     [''RFDBG_BLE_B1_INIT_OK'', ''RFDBG_BLE_B2_COMMANDS_OK'',
      ''RFDBG_BLE_B2_SCAN_READY'', ''RFDBG_BLE_B2_ADV_OK'']"

definition disc_FAILURE_MARKERS :: "bytes list" where
  "disc_FAILURE_MARKERS =
     [''RFDBG_MISSING_ROM_CALLBACK'', ''RFDBG_BLE_B2_COMMAND_ERR'',
      ''RFDBG_BLE_B2_EVENT_DROP'', ''RFDBG_BLE_B2_EVENT_ERR'']"

definition disc_MATCH_MARKER :: bytes where
  "disc_MATCH_MARKER = ''RFDBG_BLE_B2_SCAN_MATCH''"

record disc_verdict = pair_verdict +
  target_match :: bool
  peer_match :: bool

definition disc_classify :: "bytes \<Rightarrow> bytes \<Rightarrow> disc_verdict" where
  "disc_classify target peer =
     (let target_missing = missing_markers disc_REQUIRED_BOOT_MARKERS target;
          peer_missing = missing_markers disc_REQUIRED_BOOT_MARKERS peer;
          failures = failures_in disc_FAILURE_MARKERS target peer;
          matched = occurs disc_MATCH_MARKER target;
          peer_matched = occurs disc_MATCH_MARKER peer
      in \<lparr>passed = (target_missing = [] \<and> peer_missing = [] \<and> failures = [] \<and> matched),
          missing1 = target_missing, missing2 = peer_missing, failure_markers = failures,
          bytes1 = length target, bytes2 = length peer,
          target_match = matched, peer_match = peer_matched\<rparr>)"

text \<open>The peer is reset first and settles, but the target comes first in the arguments.\<close>

definition swap_boards :: "pair_state \<Rightarrow> pair_state" where
  "swap_boards s = \<lparr>log1 = log2 s, log2 = log1 s, port1 = port2 s, port2 = port1 s\<rparr>"

definition disc_complete :: "bytes \<Rightarrow> bytes \<Rightarrow> bool" where
  "disc_complete peer_log target_log \<longleftrightarrow> occurs disc_MATCH_MARKER target_log"

definition disc_capture_run ::
    "pair_args \<Rightarrow> pair_env \<Rightarrow> port \<Rightarrow> port \<Rightarrow> pair_state res option" where
  "disc_capture_run args env target peer =
     map_option (map_sum id swap_boards)
       (pair_capture disc_complete 1 (jlink1 args) (jlink2 args) (settle_arg args)
          (timeout_arg args) env peer target)"

definition disc_main ::
    "pair_args \<Rightarrow> (nat \<Rightarrow> pair_env) \<Rightarrow> port \<Rightarrow> port \<Rightarrow> disc_verdict matrix_result res option" where
  "disc_main args env target peer =
     pair_main ''--runs, --peer-settle and --timeout must be positive'' disc_classify passed
       (\<lambda>run. disc_capture_run args (env run)) ''target'' ''peer'' args target peer"

section \<open>SLE connect, and SLE SSAP over the same module\<close>

definition slec_SERVER_MARKERS :: "bytes list" where
  "slec_SERVER_MARKERS =
     [''RFDBG_SLE_S1_INIT_OK'', ''RFDBG_SLE_S2_SERVER_READY'',
      ''RFDBG_SLE_S2_SERVER_CONNECTED'', ''RFDBG_SLE_S2_SERVER_DISCONNECTED'']"

definition slec_CLIENT_MARKERS :: "bytes list" where
  "slec_CLIENT_MARKERS =
     [''RFDBG_SLE_S1_INIT_OK'', ''RFDBG_SLE_S2_CLIENT_SEEK_READY'',
      ''RFDBG_SLE_S2_CLIENT_CONNECTED'', ''RFDBG_SLE_S2_CONNECT_DISCONNECT_OK'']"

definition slec_FAILURE_MARKERS :: "bytes list" where
  "slec_FAILURE_MARKERS =
     [''RFDBG_MISSING_ROM_CALLBACK'', ''RFDBG_SLE_S1_INIT_ERR'',
      ''RFDBG_SLE_S2_SERVER_ADDR_ERR'', ''RFDBG_SLE_S2_SERVER_ANNOUNCE_ERR'',
      ''RFDBG_SLE_S2_SERVER_EVENT_DROP'', ''RFDBG_SLE_S2_CLIENT_START_ERR'',
      ''RFDBG_SLE_S2_CLIENT_STOP_SEEK_ERR'', ''RFDBG_SLE_S2_CLIENT_CONNECT_ERR'',
      ''RFDBG_SLE_S2_CLIENT_DISCONNECT_ERR'', ''RFDBG_SLE_S2_CLIENT_EVENT_DROP'']"

definition ssap_SERVER_MARKERS :: "bytes list" where
  "ssap_SERVER_MARKERS =
     [''RFDBG_SLE_S1_INIT_OK'', ''RFDBG_SLE_S3_SERVER_SERVICE_OK'',
      ''RFDBG_SLE_S3_SERVER_READY'', ''RFDBG_SLE_S3_SERVER_CONNECTED'',
      ''RFDBG_SLE_S3_SERVER_NOTIFY_OK'', ''RFDBG_SLE_S3_SERVER_DISCONNECTED'']"

definition ssap_CLIENT_MARKERS :: "bytes list" where
  "ssap_CLIENT_MARKERS =
     [''RFDBG_SLE_S1_INIT_OK'', ''RFDBG_SLE_S3_CLIENT_CONNECTED'',
      ''RFDBG_SLE_S3_CLIENT_LINK_READY'', ''RFDBG_SLE_S3_CLIENT_EXCHANGE_OK'',
      ''RFDBG_SLE_S3_CLIENT_SERVICE_OK'', ''RFDBG_SLE_S3_CLIENT_READ_OK'',
      ''RFDBG_SLE_S3_CLIENT_DATA_OK'', ''RFDBG_SLE_S3_DATA_DISCONNECT_OK'']"

definition ssap_FAILURE_MARKERS :: "bytes list" where
  "ssap_FAILURE_MARKERS =
     [''RFDBG_MISSING_ROM_CALLBACK'', ''RFDBG_SLE_S1_INIT_ERR'',
      ''RFDBG_SLE_S3_SERVER_ADDR_ERR'', ''RFDBG_SLE_S3_SERVER_SERVICE_ERR'',
      ''RFDBG_SLE_S3_SERVER_ANNOUNCE_ERR'', ''RFDBG_SLE_S3_SERVER_NOTIFY_ERR'',
      ''RFDBG_SLE_S3_SERVER_AUTH_ERR'', ''RFDBG_SLE_S3_SERVER_PAIR_ERR'',
      ''RFDBG_SLE_S3_SERVER_UNEXPECTED_DISCONNECT'', ''RFDBG_SLE_S3_SERVER_EVENT_DROP'',
      ''RFDBG_SLE_S3_CLIENT_START_ERR'', ''RFDBG_SLE_S3_CLIENT_STOP_SEEK_ERR'',
      ''RFDBG_SLE_S3_CLIENT_CONNECT_ERR'', ''RFDBG_SLE_S3_CLIENT_PAIR_ERR'',
      ''RFDBG_SLE_S3_CLIENT_AUTH_ERR'', ''RFDBG_SLE_S3_CLIENT_PAIR_CFM_ERR'',
      ''RFDBG_SLE_S3_CLIENT_PAIR_STATE_ERR'',
      ''RFDBG_SLE_S3_CLIENT_UNEXPECTED_DISCONNECT'',
      ''RFDBG_SLE_S3_CLIENT_EXCHANGE_ERR'', ''RFDBG_SLE_S3_CLIENT_DISCOVERY_ERR'',
      ''RFDBG_SLE_S3_CLIENT_SERVICE_MISSING'', ''RFDBG_SLE_S3_CLIENT_WRITE_ERR'',
      ''RFDBG_SLE_S3_CLIENT_READ_ERR'', ''RFDBG_SLE_S3_CLIENT_DATA_ERR'',
      ''RFDBG_SLE_S3_CLIENT_DISCONNECT_ERR'', ''RFDBG_SLE_S3_CLIENT_EVENT_DROP'']"

text \<open>
  The globals of the module \<open>ws63-sle-connect-reset-matrix\<close> that its functions read; the
  SSAP matrix loads the module and assigns the three of them.
\<close>

record sle_module =
  SERVER_MARKERS :: "bytes list"
  CLIENT_MARKERS :: "bytes list"
  FAILURE_MARKERS :: "bytes list"

definition slec_module :: sle_module where
  "slec_module = \<lparr>SERVER_MARKERS = slec_SERVER_MARKERS, CLIENT_MARKERS = slec_CLIENT_MARKERS,
                 FAILURE_MARKERS = slec_FAILURE_MARKERS\<rparr>"

definition ssap_module :: sle_module where
  "ssap_module = slec_module\<lparr>SERVER_MARKERS := ssap_SERVER_MARKERS,
     CLIENT_MARKERS := ssap_CLIENT_MARKERS, FAILURE_MARKERS := ssap_FAILURE_MARKERS\<rparr>"

definition sle_classify :: "sle_module \<Rightarrow> bytes \<Rightarrow> bytes \<Rightarrow> pair_verdict" where
  "sle_classify md server client =
     (let server_missing = missing_markers (SERVER_MARKERS md) server;
          client_missing = missing_markers (CLIENT_MARKERS md) client;
          failures = failures_in (FAILURE_MARKERS md) server client
      in \<lparr>passed = (server_missing = [] \<and> client_missing = [] \<and> failures = []),
          missing1 = server_missing, missing2 = client_missing, failure_markers = failures,
          bytes1 = length server, bytes2 = length client\<rparr>)"

definition sle_complete :: "sle_module \<Rightarrow> bytes \<Rightarrow> bytes \<Rightarrow> bool" where
  "sle_complete md server_log client_log \<longleftrightarrow>
     occurs (last (SERVER_MARKERS md)) server_log \<and> occurs (last (CLIENT_MARKERS md)) client_log"

definition sle_capture_run ::
    "sle_module \<Rightarrow> pair_args \<Rightarrow> pair_env \<Rightarrow> port \<Rightarrow> port \<Rightarrow> pair_state res option" where
  "sle_capture_run md args env server client =
     pair_capture (sle_complete md) 1 (jlink1 args) (jlink2 args) (settle_arg args)
       (timeout_arg args) env server client"

definition sle_main ::
    "sle_module \<Rightarrow> pair_args \<Rightarrow> (nat \<Rightarrow> pair_env) \<Rightarrow> port \<Rightarrow> port
       \<Rightarrow> pair_verdict matrix_result res option" where
  "sle_main md args env server client =
     pair_main ''--runs, --server-settle and --timeout must be positive'' (sle_classify md) passed
       (\<lambda>run. sle_capture_run md args (env run)) ''server'' ''client'' args server client"

section \<open>SLE discovery\<close>

definition sled_ANNOUNCE_MARKERS :: "bytes list" where
  "sled_ANNOUNCE_MARKERS =
     [''RFDBG_SLE_S1_INIT_OK'', ''RFDBG_SLE_S1_ANNOUNCE_OK'']"

definition sled_SEEK_MARKERS :: "bytes list" where
  "sled_SEEK_MARKERS =
     [''RFDBG_SLE_S1_INIT_OK'', ''RFDBG_SLE_S1_SEEK_READY'',
      ''RFDBG_SLE_S1_SEEK_MATCH'']"

definition sled_FAILURE_MARKERS :: "bytes list" where
  "sled_FAILURE_MARKERS =
     [''RFDBG_MISSING_ROM_CALLBACK'', ''RFDBG_SLE_S1_INIT_ERR'',
      ''RFDBG_SLE_S1_ANNOUNCE_ERR'', ''RFDBG_SLE_S1_SEEK_ERR'',
      ''RFDBG_SLE_S1_EVENT_DROP'']"

definition sled_classify :: "bytes \<Rightarrow> bytes \<Rightarrow> pair_verdict" where
  "sled_classify announce seek =
     (let announce_missing = missing_markers sled_ANNOUNCE_MARKERS announce;
          seek_missing = missing_markers sled_SEEK_MARKERS seek;
          failures = failures_in sled_FAILURE_MARKERS announce seek
      in \<lparr>passed = (announce_missing = [] \<and> seek_missing = [] \<and> failures = []),
          missing1 = announce_missing, missing2 = seek_missing, failure_markers = failures,
          bytes1 = length announce, bytes2 = length seek\<rparr>)"

definition sled_complete :: "bytes \<Rightarrow> bytes \<Rightarrow> bool" where
  "sled_complete announce_log seek_log \<longleftrightarrow>
     occurs (last sled_ANNOUNCE_MARKERS) announce_log \<and> occurs (last sled_SEEK_MARKERS) seek_log"

definition sled_capture_run ::
    "pair_args \<Rightarrow> pair_env \<Rightarrow> port \<Rightarrow> port \<Rightarrow> pair_state res option" where
  "sled_capture_run args env announce seek =
     pair_capture sled_complete 1 (jlink1 args) (jlink2 args) (settle_arg args) (timeout_arg args)
       env announce seek"

definition sled_main ::
    "pair_args \<Rightarrow> (nat \<Rightarrow> pair_env) \<Rightarrow> port \<Rightarrow> port \<Rightarrow> pair_verdict matrix_result res option" where
  "sled_main args env announce seek =
     pair_main ''--runs, --announce-settle and --timeout must be positive'' sled_classify passed
       (\<lambda>run. sled_capture_run args (env run)) ''announce'' ''seek'' args announce seek"

section \<open>The U2, U3 and U4 radio matrices\<close>

text \<open>The keys of \<open>PROTOCOLS\<close>, which are the choices of \<open>--protocol\<close>.\<close>

datatype protocol = P_ble | P_sle | P_u3_ble | P_u3_sle | P_u4_ble | P_u4_sle

fun u2_source_marker :: "protocol \<Rightarrow> bytes" where
  "u2_source_marker P_ble = ''RFDBG_RADIO_U2_BLE_ADV_OK''"
| "u2_source_marker P_sle = ''RFDBG_RADIO_U2_SLE_ANNOUNCE_OK''"
| "u2_source_marker P_u3_ble = ''RFDBG_RADIO_U3_BLE_GATT_OK''"
| "u2_source_marker P_u3_sle = ''RFDBG_RADIO_U3_SLE_SSAP_OK''"
| "u2_source_marker P_u4_ble = ''RFDBG_RADIO_U4_BLE_ADV_LIFECYCLE_OK''"
| "u2_source_marker P_u4_sle = ''RFDBG_RADIO_U4_SLE_ANNOUNCE_LIFECYCLE_OK''"

fun u2_observer_marker :: "protocol \<Rightarrow> bytes" where
  "u2_observer_marker P_ble = ''RFDBG_RADIO_U2_BLE_SCAN_OK''"
| "u2_observer_marker P_sle = ''RFDBG_RADIO_U2_SLE_SEEK_OK''"
| "u2_observer_marker P_u3_ble = ''RFDBG_RADIO_U2_BLE_SCAN_OK''"
| "u2_observer_marker P_u3_sle = ''RFDBG_RADIO_U2_SLE_SEEK_OK''"
| "u2_observer_marker P_u4_ble = ''RFDBG_RADIO_U4_BLE_SCAN_LIFECYCLE_OK''"
| "u2_observer_marker P_u4_sle = ''RFDBG_RADIO_U4_SLE_SEEK_LIFECYCLE_OK''"

fun u2_failure_prefixes :: "protocol \<Rightarrow> bytes list" where
  "u2_failure_prefixes P_ble = [''RFDBG_RADIO_U2_BLE_'']"
| "u2_failure_prefixes P_sle = [''RFDBG_RADIO_U2_SLE_'']"
| "u2_failure_prefixes P_u3_ble = [''RFDBG_RADIO_U3_BLE_'', ''RFDBG_RADIO_U2_BLE_'']"
| "u2_failure_prefixes P_u3_sle = [''RFDBG_RADIO_U3_SLE_'', ''RFDBG_RADIO_U2_SLE_'']"
| "u2_failure_prefixes P_u4_ble = [''RFDBG_RADIO_U4_BLE_'']"
| "u2_failure_prefixes P_u4_sle = [''RFDBG_RADIO_U4_SLE_'']"

definition u2_COMMON_MARKER :: bytes where
  "u2_COMMON_MARKER = ''RFDBG_RADIO_U2_INIT_OK''"

definition u2_FAILURE_SUFFIXES :: "bytes list" where
  "u2_FAILURE_SUFFIXES =
     [''INIT_ERR'', ''QUEUE_ERR'', ''CORRELATION_ERR'', ''COMMAND_ERR'', ''RUNNER_ERR'',
      ''LIFECYCLE_ERR'', ''EVENT_DROP'', ''STOP_ERR'']"

definition u2_COMMON_FAILURE_MARKERS :: "bytes list" where
  "u2_COMMON_FAILURE_MARKERS =
     [''RFDBG_MISSING_ROM_CALLBACK'', ''panicked at'']"

definition u2_failure_markers :: "protocol \<Rightarrow> bytes list" where
  "u2_failure_markers protocol =
     u2_COMMON_FAILURE_MARKERS
     @ concat (map (\<lambda>pre. map (\<lambda>suf. pre @ suf) u2_FAILURE_SUFFIXES) (u2_failure_prefixes protocol))"

definition u2_classify :: "protocol \<Rightarrow> bytes \<Rightarrow> bytes \<Rightarrow> pair_verdict" where
  "u2_classify protocol source observer =
     (let source_missing = missing_markers [u2_COMMON_MARKER, u2_source_marker protocol] source;
          observer_missing =
            missing_markers [u2_COMMON_MARKER, u2_observer_marker protocol] observer;
          failures = failures_in (u2_failure_markers protocol) source observer
      in \<lparr>passed = (source_missing = [] \<and> observer_missing = [] \<and> failures = []),
          missing1 = source_missing, missing2 = observer_missing, failure_markers = failures,
          bytes1 = length source, bytes2 = length observer\<rparr>)"

definition u2_complete :: "protocol \<Rightarrow> bytes \<Rightarrow> bytes \<Rightarrow> bool" where
  "u2_complete protocol source_log observer_log \<longleftrightarrow>
     occurs (u2_observer_marker protocol) observer_log"

definition u2_capture_run ::
    "protocol \<Rightarrow> pair_args \<Rightarrow> pair_env \<Rightarrow> port \<Rightarrow> port \<Rightarrow> pair_state res option" where
  "u2_capture_run protocol args env source observer =
     pair_capture (u2_complete protocol) 1 (jlink1 args) (jlink2 args) (settle_arg args)
       (timeout_arg args) env source observer"

definition u2_main ::
    "protocol \<Rightarrow> pair_args \<Rightarrow> (nat \<Rightarrow> pair_env) \<Rightarrow> port \<Rightarrow> port
       \<Rightarrow> pair_verdict matrix_result res option" where
  "u2_main protocol args env source observer =
     pair_main ''--runs, --source-settle and --timeout must be positive'' (u2_classify protocol)
       passed (\<lambda>run. u2_capture_run protocol args (env run)) ''source'' ''observer'' args
       source observer"

section \<open>The capture contract of every matrix\<close>

lemma last_marker_missing: "ms \<noteq> [] \<Longrightarrow> missing_markers ms data = [] \<Longrightarrow> occurs (last ms) data"
  by (simp add: marker_simps)

lemma sle_marker_tables:
  "SERVER_MARKERS slec_module \<noteq> []" "CLIENT_MARKERS slec_module \<noteq> []"
  "SERVER_MARKERS ssap_module \<noteq> []" "CLIENT_MARKERS ssap_module \<noteq> []"
  by (simp_all add: slec_module_def ssap_module_def slec_SERVER_MARKERS_def
      slec_CLIENT_MARKERS_def ssap_SERVER_MARKERS_def ssap_CLIENT_MARKERS_def)

interpretation gatt: pair_contract "\<lambda>a b. passed (gatt_classify a b)" gatt_complete
proof
  show "gatt_complete a b" if "passed (gatt_classify a b)" for a b
    using that last_marker_missing [of gatt_CLIENT_MARKERS b]
      last_marker_missing [of gatt_SERVER_MARKERS a]
    by (simp add: gatt_classify_def gatt_complete_def gatt_CLIENT_MARKERS_def
        gatt_SERVER_MARKERS_def Let_def)
  show "gatt_complete (a @ x) (b @ y)" if "gatt_complete a b" for a b x y
    using that by (auto simp: gatt_complete_def intro: occurs_append1)
qed

interpretation disc: pair_contract "\<lambda>a b. passed (disc_classify b a)" disc_complete
  by unfold_locales
     (auto simp: disc_classify_def disc_complete_def Let_def intro: occurs_append1)

interpretation slec: pair_contract "\<lambda>a b. passed (sle_classify slec_module a b)"
  "sle_complete slec_module"
  by unfold_locales
     (auto simp: sle_classify_def sle_complete_def Let_def sle_marker_tables
        intro: occurs_append1 last_marker_missing)

interpretation ssap: pair_contract "\<lambda>a b. passed (sle_classify ssap_module a b)"
  "sle_complete ssap_module"
  by unfold_locales
     (auto simp: sle_classify_def sle_complete_def Let_def sle_marker_tables
        intro: occurs_append1 last_marker_missing)

interpretation sled: pair_contract "\<lambda>a b. passed (sled_classify a b)" sled_complete
proof
  show "sled_complete a b" if "passed (sled_classify a b)" for a b
    using that last_marker_missing [of sled_ANNOUNCE_MARKERS a]
      last_marker_missing [of sled_SEEK_MARKERS b]
    by (simp add: sled_classify_def sled_complete_def sled_ANNOUNCE_MARKERS_def
        sled_SEEK_MARKERS_def Let_def)
  show "sled_complete (a @ x) (b @ y)" if "sled_complete a b" for a b x y
    using that by (auto simp: sled_complete_def intro: occurs_append1)
qed

interpretation u2: pair_contract "\<lambda>a b. passed (u2_classify protocol a b)" "u2_complete protocol"
  for protocol
  by unfold_locales
     (auto simp: u2_classify_def u2_complete_def Let_def marker_simps intro: occurs_append1)


section \<open>Properties of the matrices\<close>

text \<open>A board's logs as the passing transcript of its own markers, for the witnesses.\<close>

definition transcript :: "bytes list \<Rightarrow> bytes" where
  "transcript ms = concat (map (\<lambda>m. m @ [CHR 10]) ms)"

lemma occurs_transcript: "m \<in> set ms \<Longrightarrow> occurs m (transcript ms)"
proof (induction ms)
  case (Cons a ms)
  have split: "transcript (a # ms) = (a @ [CHR 10]) @ transcript ms" by (simp add: transcript_def)
  show ?case
  proof (cases "m = a")
    case True
    show ?thesis unfolding split True by (intro occurs_append1) simp
  next
    case False
    with Cons have "occurs m (transcript ms)" by simp
    then show ?thesis unfolding split by (rule occurs_append2)
  qed
qed simp

lemma occurs_line_iff:
  assumes "w \<noteq> []" "CHR 10 \<notin> set w"
  shows "occurs w (a @ CHR 10 # b) \<longleftrightarrow> occurs w a \<or> occurs w b"
proof
  assume "occurs w (a @ CHR 10 # b)"
  then consider "occurs w a" | "occurs w (CHR 10 # b)"
    | x y where "w = x @ y" "suffix x a" "prefix y (CHR 10 # b)"
    by (auto simp: sublist_append)
  then show "occurs w a \<or> occurs w b"
  proof cases
    case 2
    with assms show ?thesis by (cases w) (auto simp: sublist_Cons_right)
  next
    case 3
    with assms show ?thesis by (cases y) (auto intro: suffix_imp_sublist)
  qed simp
qed (use assms in \<open>auto simp: sublist_append sublist_Cons_right\<close>)

text \<open>A word occurs in a transcript if it occurs in one of its lines.\<close>

lemma occurs_transcript_iff:
  "w \<noteq> [] \<Longrightarrow> CHR 10 \<notin> set w \<Longrightarrow> occurs w (transcript ms) \<longleftrightarrow> list_ex (occurs w) ms"
proof (induction ms)
  case Nil
  then show ?case by (simp add: transcript_def)
next
  case (Cons a ms)
  have "transcript (a # ms) = a @ CHR 10 # transcript ms" by (simp add: transcript_def)
  with Cons show ?case by (simp add: occurs_line_iff)
qed

lemma transcript_append: "transcript (xs @ ys) = transcript xs @ transcript ys"
  and transcript_Cons: "transcript (x # ys) = x @ CHR 10 # transcript ys"
  by (simp_all add: transcript_def)

lemma present_markers_Nil: "present_markers ms data = [] \<longleftrightarrow> \<not> list_ex (\<lambda>m. occurs m data) ms"
  by (auto simp: present_markers_def filter_empty_conv list_ex_iff)

definition demo_args :: pair_args where
  "demo_args = \<lparr>runs = 2, settle_arg = 3, timeout_arg = 30, jlink1 = ''123'', jlink2 = ''456'',
                output_exists = False, open_error = None\<rparr>"

definition demo_port :: port where
  "demo_port = \<lparr>rxbuf = ''old'', written = []\<rparr>"

definition gatt_demo_env :: pair_env where
  "gatt_demo_env =
     stale_env (transcript gatt_SERVER_MARKERS) (transcript gatt_CLIENT_MARKERS) 3 30"

text \<open>
  the logs of a BLE GATT run are byte for byte what the two boards sent from the discard of
  the input buffers to the end of the run: nothing is lost, duplicated, reordered or carried
  over from an earlier run.
\<close>

theorem gatt_capture_run_logs_stream:
  assumes "gatt_capture_run args env server client = Some (Inr s)"
  shows "\<exists>used rest. ticks env = used @ rest \<and> used \<noteq> [] \<and>
           log1 s = concat (map rx1 used) @ last1 env \<and> log2 s = concat (map rx2 used) @ last2 env"
  using pair_capture_logs [OF assms [unfolded gatt_capture_run_def]]
  by (simp add: stream1_def stream2_def)

lemma gatt_capture_run_logs_stream_witness:
  "\<exists>s. gatt_capture_run demo_args gatt_demo_env demo_port demo_port = Some (Inr s) \<and>
     (\<exists>used rest. ticks gatt_demo_env = used @ rest \<and> used \<noteq> [] \<and>
        log1 s = concat (map rx1 used) @ last1 gatt_demo_env \<and>
        log2 s = concat (map rx2 used) @ last2 gatt_demo_env)"
proof -
  obtain s where "gatt_capture_run demo_args gatt_demo_env demo_port demo_port = Some (Inr s)"
    using pair_capture_stale(3) [of "''123''" "''456''" 3 30]
    by (force simp: gatt_capture_run_def gatt_demo_env_def demo_args_def ascii_decimal_def)
  with gatt_capture_run_logs_stream [OF this] show ?thesis by blast
qed

text \<open>
  A BLE GATT matrix ends, whatever the boards send: if in every run the clock passes the
  settle deadline and then the collect deadline, \<open>main\<close> returns or raises.
\<close>

theorem gatt_main_ends:
  assumes "\<And>i. 1 \<le> i \<Longrightarrow> i \<le> nat (runs args) \<Longrightarrow>
             clock_passes (settle_arg args) (timeout_arg args) (env i)"
  shows "gatt_main args env server client \<noteq> None"
  unfolding gatt_main_def gatt_capture_run_def
  by (rule pair_main_ends) (rule pair_capture_ends, rule assms)

lemma gatt_main_ends_witness:
  "gatt_main demo_args (\<lambda>_. gatt_demo_env) demo_port demo_port \<noteq> None"
  by (rule gatt_main_ends)
     (simp add: clock_passes_def gatt_demo_env_def stale_env_def quiet_tick_def demo_args_def)

text \<open>
  C1: exit status 0 of the BLE GATT matrix is a statement about the files it leaves: there is one
  record for each of the runs 1, 2, ..., in order, and the two logs saved for it contain every
  required marker of its board and no failure marker.  The summary counts every other run as
  failed.
\<close>

theorem gatt_main_exit_status:
  assumes "gatt_main args env server client = Some (Inr m)"
  shows "map run_no (records m) = [1..<1 + nat (runs args)] \<and>
    summary_failed m = int (length (filter (\<lambda>r. \<not> passed (verdict r)) (records m))) \<and>
    (exit_status m = 0 \<longleftrightarrow> (\<forall>r\<in>set (records m). passed (verdict r))) \<and>
    (exit_status m = 0 \<longrightarrow> (\<forall>r\<in>set (records m). \<exists>a b.
       (log_name1 r, a) \<in> set (log_files m) \<and> (log_name2 r, b) \<in> set (log_files m) \<and>
       (\<forall>x\<in>set gatt_SERVER_MARKERS. occurs x a) \<and> (\<forall>x\<in>set gatt_CLIENT_MARKERS. occurs x b) \<and>
       (\<forall>x\<in>set gatt_FAILURE_MARKERS. \<not> occurs x a \<and> \<not> occurs x b)))"
proof -
  note m = pair_main_result [OF assms [unfolded gatt_main_def]]
  have ok: "(\<forall>x\<in>set gatt_SERVER_MARKERS. occurs x a) \<and> (\<forall>x\<in>set gatt_CLIENT_MARKERS. occurs x b) \<and>
       (\<forall>x\<in>set gatt_FAILURE_MARKERS. \<not> occurs x a \<and> \<not> occurs x b)"
    if "passed (gatt_classify a b)" for a b
    using that by (simp add: gatt_classify_def Let_def marker_simps)
  show ?thesis
  proof (intro conjI)
    show "exit_status m = 0 \<longrightarrow> (\<forall>r\<in>set (records m). \<exists>a b.
       (log_name1 r, a) \<in> set (log_files m) \<and> (log_name2 r, b) \<in> set (log_files m) \<and>
       (\<forall>x\<in>set gatt_SERVER_MARKERS. occurs x a) \<and> (\<forall>x\<in>set gatt_CLIENT_MARKERS. occurs x b) \<and>
       (\<forall>x\<in>set gatt_FAILURE_MARKERS. \<not> occurs x a \<and> \<not> occurs x b))"
      using m(5,6) ok by metis
  qed (fact m)+
qed

lemma gatt_main_exit_status_witness:
  "\<exists>m. gatt_main demo_args (\<lambda>_. gatt_demo_env) demo_port demo_port = Some (Inr m) \<and>
     map run_no (records m) = [1, 2]"
proof -
  let ?r = "gatt_main demo_args (\<lambda>_. gatt_demo_env) demo_port demo_port"
  have "\<exists>s. gatt_capture_run demo_args gatt_demo_env p q = Some (Inr s)" for p q
    using pair_capture_stale(3) [of "''123''" "''456''" 3 30]
    by (force simp: gatt_capture_run_def gatt_demo_env_def demo_args_def ascii_decimal_def)
  then have "\<exists>recs files. pair_runs gatt_classify (\<lambda>run. gatt_capture_run demo_args gatt_demo_env)
      ''server'' ''client'' n i p q = Some (Inr (recs, files))" for n i p q
    by (rule pair_runs_total)
  then obtain recs files where "pair_runs gatt_classify
      (\<lambda>run. gatt_capture_run demo_args gatt_demo_env) ''server'' ''client'' (nat (runs demo_args)) 1
      demo_port demo_port = Some (Inr (recs, files))" by blast
  then obtain m where m: "?r = Some (Inr m)"
    by (simp add: gatt_main_def pair_main_def Let_def demo_args_def)
  with gatt_main_exit_status [OF m] show ?thesis
    by (simp add: demo_args_def upt_rec)
qed

text \<open>
  C2: a BLE GATT run never gives up early: if the logs it returns lack either board's last marker,
  the clock had reached the collect deadline, and the run is classified as failed.
\<close>

theorem gatt_incomplete_run_times_out:
  assumes "gatt_capture_run args env server client = Some (Inr s)"
    and "\<not> gatt_complete (log1 s) (log2 s)"
  shows "\<not> passed (gatt_classify (log1 s) (log2 s)) \<and>
    (\<exists>t\<in>set (ticks env). collect_from env + timeout_arg args \<le> now t)"
  using gatt.incomplete_capture_fails [OF assms(1) [unfolded gatt_capture_run_def] assms(2)] .

lemma gatt_incomplete_run_times_out_witness:
  "\<exists>s. gatt_capture_run demo_args (stale_env [] [] 3 30) demo_port demo_port = Some (Inr s) \<and>
     (\<exists>t\<in>set (ticks (stale_env [] [] 3 30)). collect_from (stale_env [] [] 3 30) + 30 \<le> now t)"
proof -
  obtain s where s: "gatt_capture_run demo_args (stale_env [] [] 3 30) demo_port demo_port
      = Some (Inr s)" "log1 s = []" "log2 s = []"
    using pair_capture_stale(3) [of "''123''" "''456''" 3 30]
    by (force simp: gatt_capture_run_def demo_args_def ascii_decimal_def)
  then have "\<not> gatt_complete (log1 s) (log2 s)"
    by (simp add: gatt_complete_def gatt_CLIENT_MARKERS_def)
  with gatt_incomplete_run_times_out [OF s(1)] s(1) show ?thesis
    by (auto simp: demo_args_def)
qed

text \<open>
  bytes the target sends before its own reset count.  For every pair of logs that passes there
  is a BLE discovery run that returns exactly these logs and in which the target, the board under
  test, is silent from its reset on: its input buffer is discarded before the peer's settle time,
  not before the target is reset.
\<close>

theorem disc_stale_target_log_passes:
  assumes "passed (disc_classify a b)"
    and "ascii_decimal (jlink1 args)" "ascii_decimal (jlink2 args)"
    and "0 < settle_arg args" "0 < timeout_arg args"
  shows "\<exists>env s. second_silent_after_reset (settle_arg args) env \<and>
    disc_capture_run args env target peer = Some (Inr s) \<and> log1 s = a \<and> log2 s = b \<and>
    passed (disc_classify (log1 s) (log2 s))"
proof -
  note stale = pair_capture_stale [where a = b and b = a, OF assms(2-5)]
  from stale(3) [of disc_complete 1 peer target] obtain s where
    "pair_capture disc_complete 1 (jlink1 args) (jlink2 args) (settle_arg args) (timeout_arg args)
       (stale_env b a (settle_arg args) (timeout_arg args)) peer target = Some (Inr s)"
    "log1 s = b" "log2 s = a" by blast
  with stale(1) assms(1) show ?thesis
    by (intro exI [of _ "stale_env b a (settle_arg args) (timeout_arg args)"]
        exI [of _ "swap_boards s"]) (simp add: disc_capture_run_def swap_boards_def)
qed

lemma disc_stale_target_log_passes_witness:
  "\<exists>env s. second_silent_after_reset 3 env \<and>
    disc_capture_run demo_args env demo_port demo_port = Some (Inr s) \<and>
    log1 s = transcript (disc_REQUIRED_BOOT_MARKERS @ [disc_MATCH_MARKER])"
proof -
  have "passed (disc_classify (transcript (disc_REQUIRED_BOOT_MARKERS @ [disc_MATCH_MARKER]))
      (transcript disc_REQUIRED_BOOT_MARKERS))"
    by code_simp
  from disc_stale_target_log_passes [OF this, of demo_args demo_port demo_port] show ?thesis
    by (auto simp: demo_args_def ascii_decimal_def)
qed

end
