(* ===== verification/Coexistence.thy ===== *)
theory Coexistence
  imports Py_Regex Py_Sha256 Pair_Matrix
begin

text \<open>
  \<open>hil/ws63-coexistence-reset-matrix.py\<close>: the Wi-Fi/BLE and Wi-Fi/SLE coexistence contracts.
  Board 1 is the port called \<open>ble\<close>, board 2 the one called \<open>sle\<close> or \<open>peer\<close>; which role a
  board plays depends on the contract.
\<close>

section \<open>Tables\<close>

text \<open>The choices of \<open>--contract\<close> and the roles of a board.\<close>

datatype coex_contract =
    Shared_init
  | Ble_activity
  | Wifi_ble_traffic
  | Wifi_ble_connected
  | Wifi_sle_traffic
  | Wifi_sle_connected

datatype coex_role = R_ble | R_sle | R_softap

definition coex_COMMON_MARKERS :: "bytes list" where
  "coex_COMMON_MARKERS =
     [''RFDBG_COEX_INIT_BEGIN'', ''RFDBG_COEX_RF_POWER_OK'', ''RFDBG_COEX_RTOS_OK'',
      ''RFDBG_COEX_INIT_OK'']"

definition coex_BLE_ACTIVITY_MARKERS :: "bytes list" where
  "coex_BLE_ACTIVITY_MARKERS =
     [''RFDBG_COEX_BLE_ADV_ACTIVE'', ''RFDBG_COEX_WIFI_BLE_ACTIVITY_OK'']"

definition coex_BLE_SCAN_MARKER :: bytes where
  "coex_BLE_SCAN_MARKER = ''RFDBG_COEX_WIFI_SCAN_OK''"

definition coex_BLE_TRAFFIC_MARKERS :: "bytes list" where
  "coex_BLE_TRAFFIC_MARKERS =
     [''RFDBG_COEX_BLE_ADV_ACTIVE'', ''RFDBG_COEX_WIFI_CONNECT_OK'',
      ''RFDBG_COEX_LOCAL_ECHO'', ''RFDBG_COEX_WIFI_BLE_TRAFFIC_OK'']"

definition coex_BLE_CONNECTED_TRAFFIC_MARKERS :: "bytes list" where
  "coex_BLE_CONNECTED_TRAFFIC_MARKERS =
     [''RFDBG_COEX_BLE_CONNECTED'', ''RFDBG_COEX_WIFI_CONNECT_OK'',
      ''RFDBG_COEX_LOCAL_ECHO'', ''RFDBG_COEX_WIFI_BLE_CONNECTED_TRAFFIC_OK'']"

definition coex_SLE_TRAFFIC_MARKERS :: "bytes list" where
  "coex_SLE_TRAFFIC_MARKERS =
     [''RFDBG_COEX_SLE_ANNOUNCE_ACTIVE'', ''RFDBG_COEX_WIFI_CONNECT_OK'',
      ''RFDBG_COEX_LOCAL_ECHO'', ''RFDBG_COEX_WIFI_SLE_TRAFFIC_OK'']"

definition coex_SLE_CONNECTED_TRAFFIC_MARKERS :: "bytes list" where
  "coex_SLE_CONNECTED_TRAFFIC_MARKERS =
     [''RFDBG_COEX_SLE_CONNECTED'', ''RFDBG_COEX_WIFI_CONNECT_OK'',
      ''RFDBG_COEX_LOCAL_ECHO'', ''RFDBG_COEX_WIFI_SLE_CONNECTED_TRAFFIC_OK'']"

definition coex_SOFTAP_SLE_CONNECTED_MARKERS :: "bytes list" where
  "coex_SOFTAP_SLE_CONNECTED_MARKERS =
     [''RFDBG_COEX_SLE_SERVER_READY'', ''RFDBG_COEX_SLE_SERVER_CONNECTED'']"

definition coex_SOFTAP_BLE_CONNECTED_MARKERS :: "bytes list" where
  "coex_SOFTAP_BLE_CONNECTED_MARKERS =
     [''RFDBG_COEX_BLE_SERVER_READY'', ''RFDBG_COEX_BLE_SERVER_CONNECTED'']"

definition coex_SOFTAP_TRAFFIC_MARKER :: bytes where
  "coex_SOFTAP_TRAFFIC_MARKER = ''RFDBG_SOFTAP_NET''"

definition coex_LOCAL_ECHO_PATTERN :: regex where
  "coex_LOCAL_ECHO_PATTERN =
     [RLit ''RFDBG_COEX_LOCAL_ECHO sent=0x'', RGroup is_hex 8, RLit '' received=0x'',
      RGroup is_hex 8, RLit '' attempts=0x'', RGroup is_hex 8]"

definition coex_SOFTAP_ECHO_PATTERN :: regex where
  "coex_SOFTAP_ECHO_PATTERN =
     [RLit ''RFDBG_SOFTAP_NET '', RLazyAny, RLit ''echo_rx='', RGroup is_hex 8,
      RLit '' echo_tx='', RGroup is_hex 8]"

definition coex_ACTIVITY_EVENT_PATTERN :: regex where
  "coex_ACTIVITY_EVENT_PATTERN =
     [RLit ''RFDBG_COEX_EVENT_CONSERVATION wifi_accepted=0x'', RGroup is_hex 8,
      RLit '' wifi_consumed=0x'', RGroup is_hex 8, RLit '' wifi_pending=0x'',
      RGroup is_hex 8, RLit '' wifi_dropped=0x'', RGroup is_hex 8,
      RLit '' wifi_high_water=0x'', RGroup is_hex 8, RLit '' protocol_accepted=0x'',
      RGroup is_hex 8, RLit '' protocol_consumed=0x'', RGroup is_hex 8,
      RLit '' protocol_pending=0x'', RGroup is_hex 8, RLit '' protocol_dropped=0x'',
      RGroup is_hex 8, RLit '' protocol_high_water=0x'', RGroup is_hex 8]"

definition coex_SERVER_EVENT_PATTERN :: regex where
  "coex_SERVER_EVENT_PATTERN =
     [RLit ''RFDBG_COEX_SERVER_EVENT_CONSERVATION accepted=0x'', RGroup is_hex 8,
      RLit '' consumed=0x'', RGroup is_hex 8, RLit '' pending=0x'', RGroup is_hex 8,
      RLit '' dropped=0x'', RGroup is_hex 8, RLit '' high_water=0x'', RGroup is_hex 8]"

definition coex_ACTIVITY_RESOURCE_PATTERN :: regex where
  "coex_ACTIVITY_RESOURCE_PATTERN =
     [RLit ''RFDBG_COEX_RESOURCE_ACCEPTANCE arena=0x'', RGroup is_hex 8, RLit '' free=0x'',
      RGroup is_hex 8, RLit '' peak=0x'', RGroup is_hex 8, RLit '' failures=0x'',
      RGroup is_hex 8, RLit '' min_free=0x'', RGroup is_hex 8, RLit '' max_ready_ms=0x'',
      RGroup is_hex 8, RLit '' ready_limit_ms=0x'', RGroup is_hex 8, RLit '' max_irq_ms=0x'',
      RGroup is_hex 8, RLit '' irq_limit_ms=0x'', RGroup is_hex 8,
      RLit '' ready_owner_err=0x'', RGroup is_hex 8, RLit '' ready_dup=0x'', RGroup is_hex 8,
      RLit '' ready_wrong_bucket=0x'', RGroup is_hex 8, RLit '' ready_bad_link=0x'',
      RGroup is_hex 8]"

definition coex_SERVER_RESOURCE_PATTERN :: regex where
  "coex_SERVER_RESOURCE_PATTERN =
     [RLit ''RFDBG_COEX_SERVER_RESOURCE_ACCEPTANCE arena=0x'', RGroup is_hex 8,
      RLit '' free=0x'', RGroup is_hex 8, RLit '' peak=0x'', RGroup is_hex 8,
      RLit '' failures=0x'', RGroup is_hex 8, RLit '' min_free=0x'', RGroup is_hex 8,
      RLit '' max_ready_ms=0x'', RGroup is_hex 8, RLit '' ready_limit_ms=0x'',
      RGroup is_hex 8, RLit '' max_irq_ms=0x'', RGroup is_hex 8, RLit '' irq_limit_ms=0x'',
      RGroup is_hex 8, RLit '' ready_owner_err=0x'', RGroup is_hex 8, RLit '' ready_dup=0x'',
      RGroup is_hex 8, RLit '' ready_wrong_bucket=0x'', RGroup is_hex 8,
      RLit '' ready_bad_link=0x'', RGroup is_hex 8]"

definition coex_FAILURE_MARKERS :: "bytes list" where
  "coex_FAILURE_MARKERS =
     [''panicked at'', ''RFDBG_MISSING_ROM_CALLBACK'', ''RFDBG_COEX_INIT_ERR'',
      ''RFDBG_COEX_WIFI_RUNNER_ERR'', ''RFDBG_COEX_BLE_ADV_ERR'',
      ''RFDBG_COEX_BLE_CONNECT_ERR'', ''RFDBG_COEX_BLE_EVENT_DROP'',
      ''RFDBG_COEX_BLE_SERVER_ERR'', ''RFDBG_COEX_BLE_SERVER_EVENT_DROP'',
      ''RFDBG_COEX_SLE_ANNOUNCE_ERR'', ''RFDBG_COEX_SLE_EVENT_DROP'',
      ''RFDBG_COEX_SLE_SERVER_ERR'', ''RFDBG_COEX_SLE_SERVER_EVENT_DROP'',
      ''RFDBG_COEX_WIFI_INITIALIZE_ERR'', ''RFDBG_COEX_WIFI_SCAN_ERR'',
      ''RFDBG_COEX_WIFI_CONNECT_ERR'', ''RFDBG_COEX_LOCAL_ECHO_ERR'',
      ''RFDBG_COEX_EVENT_ERR'', ''RFDBG_COEX_ACCEPTANCE_ERR'', ''RFDBG_SOFTAP_NET_ERR'',
      ''scheduler contract violation'']"

fun ROLE_MARKERS :: "coex_role \<Rightarrow> bytes list" where
  "ROLE_MARKERS R_ble = [''RFDBG_BLE_B1_SHARED_PLATFORM_OK'']"
| "ROLE_MARKERS R_sle = [''RFDBG_SLE_S1_SHARED_PLATFORM_OK'']"
| "ROLE_MARKERS R_softap = [''RFDBG_SOFTAP_READY'', ''RFDBG_SOFTAP_NET_READY'']"

definition BLE_ACTIVITY_SCAN_COUNT :: nat where
  "BLE_ACTIVITY_SCAN_COUNT = 3"

fun CONTRACT_NAMES :: "coex_contract \<Rightarrow> string" where
  "CONTRACT_NAMES Shared_init = ''ws63-wifi-bgle-shared-init/v1''"
| "CONTRACT_NAMES Ble_activity = ''ws63-wifi-ble-activity/v1''"
| "CONTRACT_NAMES Wifi_ble_traffic = ''ws63-wifi-ble-local-traffic/v1''"
| "CONTRACT_NAMES Wifi_ble_connected = ''ws63-wifi-ble-connected-local-traffic/v1''"
| "CONTRACT_NAMES Wifi_sle_traffic = ''ws63-wifi-sle-local-traffic/v1''"
| "CONTRACT_NAMES Wifi_sle_connected = ''ws63-wifi-sle-connected-local-traffic/v1''"

definition TRAFFIC_CONTRACTS :: "coex_contract list" where
  "TRAFFIC_CONTRACTS =
     [Wifi_ble_traffic, Wifi_ble_connected, Wifi_sle_traffic, Wifi_sle_connected]"

definition ACCEPTANCE_CONTRACTS :: "coex_contract list" where
  "ACCEPTANCE_CONTRACTS = [Wifi_ble_connected, Wifi_sle_connected]"

section \<open>Roles and markers of a contract\<close>

definition endpoint_roles :: "coex_contract \<Rightarrow> coex_role \<times> coex_role" where
  "endpoint_roles contract =
     (if contract = Wifi_ble_traffic then (R_ble, R_softap)
      else if contract = Wifi_ble_connected then (R_softap, R_ble)
      else if contract \<in> {Wifi_sle_traffic, Wifi_sle_connected} then (R_softap, R_sle)
      else (R_ble, R_sle))"

definition traffic_activity_role :: "coex_contract \<Rightarrow> coex_role option" where
  "traffic_activity_role contract =
     (if contract \<in> {Wifi_ble_traffic, Wifi_ble_connected} then Some R_ble
      else if contract \<in> {Wifi_sle_traffic, Wifi_sle_connected} then Some R_sle
      else None)"

definition required_markers :: "coex_contract \<Rightarrow> coex_role \<Rightarrow> bytes list" where
  "required_markers contract role =
     (if contract \<in> set TRAFFIC_CONTRACTS \<and> role = R_softap then
        (let required = ROLE_MARKERS role @ [coex_SOFTAP_TRAFFIC_MARKER]
         in if contract = Wifi_ble_connected then required @ coex_SOFTAP_BLE_CONNECTED_MARKERS
            else if contract = Wifi_sle_connected then required @ coex_SOFTAP_SLE_CONNECTED_MARKERS
            else required)
      else
        (let required = coex_COMMON_MARKERS @ ROLE_MARKERS role
         in if contract = Ble_activity \<and> role = R_ble then required @ coex_BLE_ACTIVITY_MARKERS
            else if contract = Wifi_ble_traffic \<and> role = R_ble
            then required @ coex_BLE_TRAFFIC_MARKERS
            else if contract = Wifi_ble_connected \<and> role = R_ble
            then required @ coex_BLE_CONNECTED_TRAFFIC_MARKERS
            else if contract = Wifi_sle_traffic \<and> role = R_sle
            then required @ coex_SLE_TRAFFIC_MARKERS
            else if contract = Wifi_sle_connected \<and> role = R_sle
            then required @ coex_SLE_CONNECTED_TRAFFIC_MARKERS
            else required))"

definition completion_marker :: "coex_contract \<Rightarrow> coex_role \<Rightarrow> bytes" where
  "completion_marker contract role =
     (if contract = Wifi_ble_traffic then
        (if role = R_ble then last coex_BLE_TRAFFIC_MARKERS else coex_SOFTAP_TRAFFIC_MARKER)
      else if contract = Wifi_ble_connected then
        (if role = R_ble then last coex_BLE_CONNECTED_TRAFFIC_MARKERS
         else coex_SOFTAP_TRAFFIC_MARKER)
      else if contract = Wifi_sle_traffic then
        (if role = R_sle then last coex_SLE_TRAFFIC_MARKERS else coex_SOFTAP_TRAFFIC_MARKER)
      else if contract = Wifi_sle_connected then
        (if role = R_sle then last coex_SLE_CONNECTED_TRAFFIC_MARKERS
         else coex_SOFTAP_TRAFFIC_MARKER)
      else if contract = Ble_activity \<and> role = R_ble then last coex_BLE_ACTIVITY_MARKERS
      else last coex_COMMON_MARKERS)"

section \<open>Counters printed in a log\<close>

definition activity_names :: "string list" where
  "activity_names =
     [''wifi_accepted'', ''wifi_consumed'', ''wifi_pending'', ''wifi_dropped'',
      ''wifi_high_water'', ''protocol_accepted'', ''protocol_consumed'', ''protocol_pending'',
      ''protocol_dropped'', ''protocol_high_water'']"

definition server_names :: "string list" where
  "server_names = [''accepted'', ''consumed'', ''pending'', ''dropped'', ''high_water'']"

definition resource_names :: "string list" where
  "resource_names =
     [''arena'', ''free'', ''peak'', ''failures'', ''min_free'', ''max_ready_ms'',
      ''ready_limit_ms'', ''max_irq_ms'', ''irq_limit_ms'', ''ready_owner_err'', ''ready_dup'',
      ''ready_wrong_bucket'', ''ready_bad_link'']"

text \<open>\<open>dict(zip(names, (int(value, 16) for value in matches[-1])))\<close>\<close>

definition last_values :: "string list \<Rightarrow> bytes list list \<Rightarrow> counters" where
  "last_values names matches = zip names (map hex_value (last matches))"

definition activity_ok :: "counters \<Rightarrow> bool" where
  "activity_ok v \<longleftrightarrow> \<not>
     (item ''wifi_accepted'' v \<noteq> item ''wifi_consumed'' v + item ''wifi_pending'' v \<or>
      item ''protocol_accepted'' v \<noteq> item ''protocol_consumed'' v + item ''protocol_pending'' v \<or>
      item ''wifi_dropped'' v \<noteq> 0 \<or> item ''protocol_dropped'' v \<noteq> 0 \<or>
      item ''wifi_pending'' v > 8 \<or> item ''wifi_high_water'' v > 8 \<or>
      item ''protocol_pending'' v > 32 \<or> item ''protocol_high_water'' v > 32)"

text \<open>The parsers append to the list \<open>missing\<close> of the caller, which they return.\<close>

definition parse_activity_events :: "bytes \<Rightarrow> string list \<Rightarrow> string list \<times> counters option" where
  "parse_activity_events payload missing =
     (let matches = re_findall coex_ACTIVITY_EVENT_PATTERN payload
      in if matches = [] then (missing @ [''parseable RFDBG_COEX_EVENT_CONSERVATION''], None)
         else (let values = last_values activity_names matches
               in (if \<not> activity_ok values
                   then missing @
                     [''activity event conservation requires zero drops and bounded ownership'']
                   else missing, Some values)))"

definition server_ok :: "counters \<Rightarrow> bool" where
  "server_ok v \<longleftrightarrow> \<not>
     (item ''accepted'' v \<noteq> item ''consumed'' v + item ''pending'' v \<or>
      item ''dropped'' v \<noteq> 0 \<or> item ''pending'' v > 32 \<or> item ''high_water'' v > 32)"

definition parse_server_events :: "bytes \<Rightarrow> string list \<Rightarrow> string list \<times> counters option" where
  "parse_server_events payload missing =
     (let matches = re_findall coex_SERVER_EVENT_PATTERN payload
      in if matches = []
         then (missing @ [''parseable RFDBG_COEX_SERVER_EVENT_CONSERVATION''], None)
         else (let values = last_values server_names matches
               in (if \<not> server_ok values
                   then missing @
                     [''server event conservation requires zero drops and bounded ownership'']
                   else missing, Some values)))"

definition resource_ok :: "counters \<Rightarrow> bool" where
  "resource_ok v \<longleftrightarrow> \<not>
     (item ''arena'' v = 0 \<or> item ''peak'' v > item ''arena'' v \<or>
      item ''free'' v < item ''min_free'' v \<or> item ''failures'' v \<noteq> 0 \<or>
      item ''max_ready_ms'' v > item ''ready_limit_ms'' v \<or>
      item ''max_irq_ms'' v > item ''irq_limit_ms'' v \<or>
      list_ex (\<lambda>name. item name v \<noteq> 0)
        [''ready_owner_err'', ''ready_dup'', ''ready_wrong_bucket'', ''ready_bad_link''])"

definition parse_resource_acceptance ::
    "regex \<Rightarrow> bytes \<Rightarrow> string list \<Rightarrow> string \<Rightarrow> string list \<times> counters option" where
  "parse_resource_acceptance pattern payload missing owner =
     (let matches = re_findall pattern payload
      in if matches = []
         then (missing @ [''parseable '' @ owner @ '' coexistence resource acceptance''], None)
         else (let values = last_values resource_names matches
               in (if \<not> resource_ok values
                   then missing @
                     [owner @ '' resource/latency acceptance exceeded its fixture contract'']
                   else missing, Some values)))"

section \<open>The verdict on one log\<close>

record coex_verdict =
  c_pass :: bool
  c_missing :: "string list"
  c_failures :: "string list"
  wifi_scan_ok_count :: nat
  local_echo :: "counters option"
  softap_echo :: "counters option"
  event_conservation :: "counters option"
  resource_acceptance :: "counters option"
  c_bytes :: nat

definition scan_missing :: "coex_contract \<Rightarrow> coex_role \<Rightarrow> nat \<Rightarrow> string list" where
  "scan_missing contract role scan_count =
     (if ((contract = Ble_activity \<and> role = R_ble) \<or>
          (contract \<in> set TRAFFIC_CONTRACTS \<and> Some role = traffic_activity_role contract)) \<and>
         scan_count \<noteq> BLE_ACTIVITY_SCAN_COUNT
      then [coex_BLE_SCAN_MARKER @ '' x'' @ digits_of BLE_ACTIVITY_SCAN_COUNT @ '' (observed ''
            @ digits_of scan_count @ '')''] else [])"

definition parse_local_echo :: "bytes \<Rightarrow> string list \<Rightarrow> string list \<times> counters option" where
  "parse_local_echo payload missing =
     (let matches = re_findall coex_LOCAL_ECHO_PATTERN payload
      in if matches = [] then (missing @ [''parseable RFDBG_COEX_LOCAL_ECHO''], None)
         else (let values = last_values [''sent'', ''received'', ''attempts''] matches
               in (if item ''sent'' values \<noteq> 10 \<or> item ''received'' values \<noteq> 10 \<or>
                      \<not> (10 \<le> item ''attempts'' values \<and> item ''attempts'' values \<le> 30)
                   then missing @
                     [''local echo requires sent=10 received=10 and 10<=attempts<=30'']
                   else missing, Some values)))"

definition parse_softap_echo :: "bytes \<Rightarrow> string list \<Rightarrow> string list \<times> counters option" where
  "parse_softap_echo payload missing =
     (let matches = re_findall coex_SOFTAP_ECHO_PATTERN payload
      in if matches = [] then (missing @ [''parseable RFDBG_SOFTAP_NET echo counters''], None)
         else (let values = map (\<lambda>m. (hex_value (m ! 0), hex_value (m ! 1))) matches;
                   rx = Max (set (map fst values));
                   tx = Max (set (map snd values))
               in (if rx < 10 \<or> tx < 10
                   then missing @ [''SoftAP echo requires received>=10 and sent>=10'']
                   else missing, Some [(''received'', rx), (''sent'', tx)])))"

definition coex_classify :: "coex_contract \<Rightarrow> coex_role \<Rightarrow> bytes \<Rightarrow> coex_verdict" where
  "coex_classify contract role payload =
     (let missing = missing_markers (required_markers contract role) payload;
          failures = present_markers coex_FAILURE_MARKERS payload;
          activity_role = traffic_activity_role contract;
          scan_count = (if role = R_ble \<or> Some role = activity_role
                        then bcount coex_BLE_SCAN_MARKER payload else 0);
          missing = missing @ scan_missing contract role scan_count;
          (missing, local_echo) =
            (if contract \<in> set TRAFFIC_CONTRACTS \<and> Some role = activity_role
             then parse_local_echo payload missing else (missing, None));
          (missing, softap_echo) =
            (if contract \<in> set TRAFFIC_CONTRACTS \<and> Some role \<noteq> activity_role \<and> role = R_softap
             then parse_softap_echo payload missing else (missing, None));
          accepts = (contract \<in> set ACCEPTANCE_CONTRACTS);
          (missing, event_conservation) =
            (if accepts \<and> Some role = activity_role then parse_activity_events payload missing
             else if accepts \<and> role = R_softap then parse_server_events payload missing
             else (missing, None));
          (missing, resource_acceptance) =
            (if accepts \<and> Some role = activity_role
             then parse_resource_acceptance coex_ACTIVITY_RESOURCE_PATTERN payload missing ''activity''
             else if accepts \<and> role = R_softap
             then parse_resource_acceptance coex_SERVER_RESOURCE_PATTERN payload missing ''server''
             else (missing, None))
      in \<lparr>c_pass = (missing = [] \<and> failures = []), c_missing = missing, c_failures = failures,
          wifi_scan_ok_count = scan_count, local_echo = local_echo, softap_echo = softap_echo,
          event_conservation = event_conservation, resource_acceptance = resource_acceptance,
          c_bytes = length payload\<rparr>)"

section \<open>The acceptance summary\<close>

record coex_record =
  c_run :: nat
  run_pass :: bool
  ble_result :: coex_verdict
  ble_log_name :: string
  sle_result :: coex_verdict
  sle_log_name :: string

definition snapshots :: "(coex_verdict \<Rightarrow> counters option) \<Rightarrow> coex_record list \<Rightarrow> counters list" where
  "snapshots field recs =
     concat (map (\<lambda>r. List.map_filter field [ble_result r, sle_result r]) recs)"

record acceptance =
  event_snapshots :: nat
  event_dropped_total :: int
  max_event_high_water :: int
  min_heap_free :: int
  max_heap_peak :: int
  allocation_failures_total :: int
  max_ready :: int
  max_irq :: int

definition add_events :: "counters \<Rightarrow> int \<times> int \<Rightarrow> int \<times> int" where
  "add_events events = (\<lambda>(dropped_total, high_water).
     (dropped_total + dget_or ''dropped'' 0 events + dget_or ''wifi_dropped'' 0 events
        + dget_or ''protocol_dropped'' 0 events,
      max (max (max high_water (dget_or ''high_water'' 0 events))
                    (dget_or ''wifi_high_water'' 0 events))
          (dget_or ''protocol_high_water'' 0 events)))"

definition summarize_acceptance :: "coex_record list \<Rightarrow> acceptance option" where
  "summarize_acceptance recs =
     (let events = snapshots event_conservation recs;
          resources = snapshots resource_acceptance recs
      in if events = [] \<or> resources = [] then None
         else (let (dropped_total, high_water) = fold add_events events (0, 0)
               in Some \<lparr>event_snapshots = length events, event_dropped_total = dropped_total,
                        max_event_high_water = high_water,
                        min_heap_free = Min (set (map (item ''free'') resources)),
                        max_heap_peak = Max (set (map (item ''peak'') resources)),
                        allocation_failures_total = sum_list (map (item ''failures'') resources),
                        max_ready = Max (set (map (item ''max_ready_ms'') resources)),
                        max_irq = Max (set (map (item ''max_irq_ms'') resources))\<rparr>))"

section \<open>The capture and the matrix\<close>

record coex_env =
  pulse_ble :: pulse_env
  pulse_peer :: pulse_env
  coex_from :: secs         \<comment> \<open>the clock when the deadline is computed\<close>
  coex_ticks :: "tick list"
  coex_last1 :: bytes
  coex_last2 :: bytes

definition both_complete :: "coex_contract \<Rightarrow> bytes \<Rightarrow> bytes \<Rightarrow> bool" where
  "both_complete contract ble_log peer_log =
     (let (first_role, second_role) = endpoint_roles contract
      in if contract \<in> set TRAFFIC_CONTRACTS
         then c_pass (coex_classify contract first_role ble_log) \<and>
              c_pass (coex_classify contract second_role peer_log)
         else occurs (completion_marker contract first_role) ble_log \<and>
              occurs (completion_marker contract second_role) peer_log)"

definition capture_pair ::
    "string \<Rightarrow> string \<Rightarrow> secs \<Rightarrow> coex_contract \<Rightarrow> coex_env \<Rightarrow> port \<Rightarrow> port
       \<Rightarrow> pair_state res option" where
  "capture_pair ble_jlink peer_jlink timeout contract env ble peer =
     (case snd (pulse_nrst ''JLinkExe'' (Some ble_jlink) (pulse_ble env)) of
        Inl e \<Rightarrow> Some (Inl e)
      | Inr _ \<Rightarrow>
          (case snd (pulse_nrst ''JLinkExe'' (Some peer_jlink) (pulse_peer env)) of
             Inl e \<Rightarrow> Some (Inl e)
           | Inr _ \<Rightarrow>
               (case collect_loop (both_complete contract) (1 / 2) (coex_from env + timeout)
                       (coex_ticks env) None (fresh_pair ble peer) of
                  None \<Rightarrow> None
                | Some (_, s) \<Rightarrow> Some (Inr (final_drain (coex_last1 env) (coex_last2 env) s)))))"

record coex_args =
  coex_runs :: int
  coex_timeout :: secs
  coex_jlink1 :: string
  coex_jlink2 :: string
  coex_elf1 :: string
  coex_elf2 :: string
  coex_exists :: bool
  coex_open_error :: "exn option"
  coex_contract_arg :: coex_contract

record coex_result =
  contract_name :: string
  coex_planned :: int
  coex_passed :: nat
  coex_failed :: int
  coex_roles :: "coex_role \<times> coex_role"
  coex_sha1 :: string
  coex_sha2 :: string
  coex_acceptance :: "acceptance option"
  coex_records :: "coex_record list"
  coex_files :: "(string \<times> bytes) list"
  coex_status :: nat

definition coex_record_of :: "coex_contract \<Rightarrow> nat \<Rightarrow> bytes \<Rightarrow> bytes \<Rightarrow> coex_record" where
  "coex_record_of contract run ble_log sle_log =
     (let (first_role, second_role) = endpoint_roles contract;
          b = coex_classify contract first_role ble_log;
          s = coex_classify contract second_role sle_log
      in \<lparr>c_run = run, run_pass = (c_pass b \<and> c_pass s),
          ble_result = b, ble_log_name = run_log_name run ''ble'',
          sle_result = s, sle_log_name = run_log_name run ''sle''\<rparr>)"

fun coex_loop ::
    "coex_args \<Rightarrow> (nat \<Rightarrow> coex_env) \<Rightarrow> nat \<Rightarrow> nat \<Rightarrow> port \<Rightarrow> port
       \<Rightarrow> (coex_record list \<times> (string \<times> bytes) list) res option" where
  "coex_loop args env 0 run p q = Some (Inr ([], []))"
| "coex_loop args env (Suc left) run p q =
     (case capture_pair (coex_jlink1 args) (coex_jlink2 args) (coex_timeout args)
             (coex_contract_arg args) (env run) p q of
        None \<Rightarrow> None
      | Some (Inl e) \<Rightarrow> Some (Inl e)
      | Some (Inr s) \<Rightarrow>
          (let rec = coex_record_of (coex_contract_arg args) run (log1 s) (log2 s)
           in case coex_loop args env left (Suc run) (port1 s) (port2 s) of
                None \<Rightarrow> None
              | Some (Inl e) \<Rightarrow> Some (Inl e)
              | Some (Inr (recs, files)) \<Rightarrow>
                  Some (Inr (rec # recs,
                    (ble_log_name rec, log1 s) # (sle_log_name rec, log2 s) # files))))"

definition coex_summary ::
    "coex_args \<Rightarrow> coex_record list \<Rightarrow> (string \<times> bytes) list \<Rightarrow> string \<Rightarrow> string \<Rightarrow> coex_result" where
  "coex_summary args recs files sha1 sha2 =
     (let ok = length (filter run_pass recs)
      in \<lparr>contract_name = CONTRACT_NAMES (coex_contract_arg args), coex_planned = coex_runs args,
          coex_passed = ok, coex_failed = coex_runs args - int ok,
          coex_roles = endpoint_roles (coex_contract_arg args),
          coex_sha1 = sha1, coex_sha2 = sha2, coex_acceptance = summarize_acceptance recs,
          coex_records = recs, coex_files = files,
          coex_status = (if int ok = coex_runs args then 0 else 1)\<rparr>)"

definition coex_main ::
    "coex_args \<Rightarrow> elf_files \<Rightarrow> elf_files \<Rightarrow> (nat \<Rightarrow> coex_env) \<Rightarrow> port \<Rightarrow> port
       \<Rightarrow> coex_result res option" where
  "coex_main args elf_before elf_after env ble sle =
     (if coex_runs args \<le> 0 \<or> coex_timeout args \<le> 0
      then Some (Inl (SystemExit ''--runs and --timeout must be positive''))
      else (case find (\<lambda>path. elf_before path = None) [coex_elf1 args, coex_elf2 args] of
        Some path \<Rightarrow> Some (Inl (SystemExit (''ELF not found: '' @ path)))
      | None \<Rightarrow>
          if coex_exists args then Some (Inl (OSError ''FileExistsError''))
          else (case coex_open_error args of
            Some e \<Rightarrow> Some (Inl e)
          | None \<Rightarrow>
              (case coex_loop args env (nat (coex_runs args)) 1 ble sle of
                 None \<Rightarrow> None
               | Some (Inl e) \<Rightarrow> Some (Inl e)
               | Some (Inr (recs, files)) \<Rightarrow>
                   (case (elf_after (coex_elf1 args), elf_after (coex_elf2 args)) of
                      (Some c1, Some c2) \<Rightarrow>
                        Some (Inr (coex_summary args recs files (sha256 c1) (sha256 c2)))
                    | _ \<Rightarrow> Some (Inl (OSError ''FileNotFoundError'')))))))"

section \<open>What a passing log has shown\<close>

lemma parse_local_echo_Nil:
  "parse_local_echo payload missing = ([], v) \<longleftrightarrow> missing = [] \<and>
     re_findall coex_LOCAL_ECHO_PATTERN payload \<noteq> [] \<and>
     v = Some (last_values [''sent'', ''received'', ''attempts'']
                 (re_findall coex_LOCAL_ECHO_PATTERN payload)) \<and>
     item ''sent'' (the v) = 10 \<and> item ''received'' (the v) = 10 \<and>
     10 \<le> item ''attempts'' (the v) \<and> item ''attempts'' (the v) \<le> 30"
  by (auto simp: parse_local_echo_def Let_def)

lemma parse_softap_echo_Nil:
  "parse_softap_echo payload missing = ([], v) \<Longrightarrow> missing = [] \<and>
     (\<exists>m\<in>set (re_findall coex_SOFTAP_ECHO_PATTERN payload). 10 \<le> hex_value (m ! 0)) \<and>
     (\<exists>m\<in>set (re_findall coex_SOFTAP_ECHO_PATTERN payload). 10 \<le> hex_value (m ! 1))"
  by (auto simp: parse_softap_echo_def Let_def not_less Max_ge_iff split: if_splits)

lemma parse_activity_events_Nil:
  "parse_activity_events payload missing = ([], v) \<longleftrightarrow> missing = [] \<and>
     re_findall coex_ACTIVITY_EVENT_PATTERN payload \<noteq> [] \<and>
     v = Some (last_values activity_names (re_findall coex_ACTIVITY_EVENT_PATTERN payload)) \<and>
     activity_ok (the v)"
  by (auto simp: parse_activity_events_def Let_def)

lemma parse_server_events_Nil:
  "parse_server_events payload missing = ([], v) \<longleftrightarrow> missing = [] \<and>
     re_findall coex_SERVER_EVENT_PATTERN payload \<noteq> [] \<and>
     v = Some (last_values server_names (re_findall coex_SERVER_EVENT_PATTERN payload)) \<and>
     server_ok (the v)"
  by (auto simp: parse_server_events_def Let_def)

lemma parse_resource_acceptance_Nil:
  "parse_resource_acceptance pattern payload missing owner = ([], v) \<longleftrightarrow> missing = [] \<and>
     re_findall pattern payload \<noteq> [] \<and>
     v = Some (last_values resource_names (re_findall pattern payload)) \<and> resource_ok (the v)"
  by (auto simp: parse_resource_acceptance_def Let_def)

lemmas parse_Nil = parse_local_echo_Nil parse_activity_events_Nil parse_server_events_Nil
  parse_resource_acceptance_Nil

text \<open>The fields of a verdict that passes, on the branches the role and the contract select.\<close>

lemma coex_pass_fields:
  assumes "c_pass (coex_classify contract role payload)"
  shows "missing_markers (required_markers contract role) payload = []"
    "present_markers coex_FAILURE_MARKERS payload = []"
    "contract \<in> set TRAFFIC_CONTRACTS \<Longrightarrow> Some role = traffic_activity_role contract \<Longrightarrow>
       \<exists>v. parse_local_echo payload [] = ([], v) \<and> local_echo (coex_classify contract role payload) = v \<and>
           bcount coex_BLE_SCAN_MARKER payload = BLE_ACTIVITY_SCAN_COUNT"
    "contract \<in> set TRAFFIC_CONTRACTS \<Longrightarrow> Some role \<noteq> traffic_activity_role contract \<Longrightarrow>
       role = R_softap \<Longrightarrow> \<exists>v. parse_softap_echo payload [] = ([], v)"
    "contract \<in> set ACCEPTANCE_CONTRACTS \<Longrightarrow> Some role = traffic_activity_role contract \<Longrightarrow>
       parse_activity_events payload []
         = ([], event_conservation (coex_classify contract role payload)) \<and>
       parse_resource_acceptance coex_ACTIVITY_RESOURCE_PATTERN payload [] ''activity''
         = ([], resource_acceptance (coex_classify contract role payload))"
    "contract \<in> set ACCEPTANCE_CONTRACTS \<Longrightarrow> Some role \<noteq> traffic_activity_role contract \<Longrightarrow>
       role = R_softap \<Longrightarrow>
       parse_server_events payload []
         = ([], event_conservation (coex_classify contract role payload)) \<and>
       parse_resource_acceptance coex_SERVER_RESOURCE_PATTERN payload [] ''server''
         = ([], resource_acceptance (coex_classify contract role payload))"
proof -
  obtain m1 where m1: "m1 = missing_markers (required_markers contract role) payload
      @ scan_missing contract role (if role = R_ble \<or> Some role = traffic_activity_role contract
                        then bcount coex_BLE_SCAN_MARKER payload else 0)" by blast
  obtain m2 le where m2: "(if contract \<in> set TRAFFIC_CONTRACTS \<and> Some role = traffic_activity_role contract
      then parse_local_echo payload m1 else (m1, None)) = (m2, le)" by fastforce
  obtain m3 se where m3: "(if contract \<in> set TRAFFIC_CONTRACTS \<and>
        Some role \<noteq> traffic_activity_role contract \<and> role = R_softap
      then parse_softap_echo payload m2 else (m2, None)) = (m3, se)" by fastforce
  obtain m4 ec where m4: "(if contract \<in> set ACCEPTANCE_CONTRACTS \<and>
        Some role = traffic_activity_role contract then parse_activity_events payload m3
      else if contract \<in> set ACCEPTANCE_CONTRACTS \<and> role = R_softap then parse_server_events payload m3
      else (m3, None)) = (m4, ec)" by fastforce
  obtain m5 ra where m5: "(if contract \<in> set ACCEPTANCE_CONTRACTS \<and>
        Some role = traffic_activity_role contract
      then parse_resource_acceptance coex_ACTIVITY_RESOURCE_PATTERN payload m4 ''activity''
      else if contract \<in> set ACCEPTANCE_CONTRACTS \<and> role = R_softap
      then parse_resource_acceptance coex_SERVER_RESOURCE_PATTERN payload m4 ''server''
      else (m4, None)) = (m5, ra)" by fastforce
  let ?v = "coex_classify contract role payload"
  have v: "c_pass ?v = (m5 = [] \<and> present_markers coex_FAILURE_MARKERS payload = [])"
    "local_echo ?v = le" "event_conservation ?v = ec" "resource_acceptance ?v = ra"
    unfolding coex_classify_def Let_def m1 [symmetric] m2 case_prod_conv m3 m4 m5 by simp_all
  with assms have 5: "m5 = []" and fl: "present_markers coex_FAILURE_MARKERS payload = []" by auto
  from m5 5 have 4: "m4 = []" by (auto simp: parse_Nil split: if_splits)
  from m4 4 have 3: "m3 = []" by (auto simp: parse_Nil split: if_splits)
  from m3 3 have 2: "m2 = []" by (auto dest: parse_softap_echo_Nil split: if_splits)
  from m2 2 have 1: "m1 = []" by (auto simp: parse_Nil split: if_splits)
  from 1 m1 show "missing_markers (required_markers contract role) payload = []" by simp
  show "present_markers coex_FAILURE_MARKERS payload = []" by (rule fl)
  show "\<exists>v. parse_local_echo payload [] = ([], v) \<and> local_echo ?v = v \<and>
      bcount coex_BLE_SCAN_MARKER payload = BLE_ACTIVITY_SCAN_COUNT"
    if "contract \<in> set TRAFFIC_CONTRACTS" "Some role = traffic_activity_role contract"
    using that m1 m2 1 2 v by (auto simp: scan_missing_def split: if_splits)
  show "\<exists>v. parse_softap_echo payload [] = ([], v)"
    if "contract \<in> set TRAFFIC_CONTRACTS" "Some role \<noteq> traffic_activity_role contract" "role = R_softap"
    using that m3 2 3 by auto
  show "parse_activity_events payload [] = ([], event_conservation ?v) \<and>
      parse_resource_acceptance coex_ACTIVITY_RESOURCE_PATTERN payload [] ''activity''
         = ([], resource_acceptance ?v)"
    if "contract \<in> set ACCEPTANCE_CONTRACTS" "Some role = traffic_activity_role contract"
    using that m4 m5 3 4 5 v by auto
  show "parse_server_events payload [] = ([], event_conservation ?v) \<and>
      parse_resource_acceptance coex_SERVER_RESOURCE_PATTERN payload [] ''server''
         = ([], resource_acceptance ?v)"
    if "contract \<in> set ACCEPTANCE_CONTRACTS" "Some role \<noteq> traffic_activity_role contract" "role = R_softap"
    using that m4 m5 3 4 5 v by auto
qed

text \<open>
  what a passing log of the Wi-Fi side of a traffic contract contains.  There is an echo
  report of ten packets sent, ten received and ten to thirty attempts, printed in the log as
  8-digit hexadecimal counters; exactly three Wi-Fi scans succeeded; all required markers are
  there and no failure marker is.
\<close>

theorem coex_traffic_pass_shows_echo:
  assumes "c_pass (coex_classify contract role payload)"
    and "contract \<in> set TRAFFIC_CONTRACTS" and "traffic_activity_role contract = Some role"
  shows "(\<exists>sent received attempts.
      occurs (''RFDBG_COEX_LOCAL_ECHO sent=0x'' @ sent @ '' received=0x'' @ received
        @ '' attempts=0x'' @ attempts) payload \<and>
      length sent = 8 \<and> length received = 8 \<and> length attempts = 8 \<and>
      hex_value sent = 10 \<and> hex_value received = 10 \<and>
      10 \<le> hex_value attempts \<and> hex_value attempts \<le> 30) \<and>
    bcount ''RFDBG_COEX_WIFI_SCAN_OK'' payload = 3 \<and>
    (\<forall>m\<in>set (required_markers contract role). occurs m payload) \<and>
    (\<forall>m\<in>set coex_FAILURE_MARKERS. \<not> occurs m payload)"
proof -
  note pass = coex_pass_fields [OF assms(1)]
  from pass(3) [OF assms(2) assms(3) [symmetric]] obtain v where
    v: "parse_local_echo payload [] = ([], v)"
    and scans: "bcount coex_BLE_SCAN_MARKER payload = BLE_ACTIVITY_SCAN_COUNT" by blast
  define g where "g = last (re_findall coex_LOCAL_ECHO_PATTERN payload)"
  from v have g: "g \<in> set (re_findall coex_LOCAL_ECHO_PATTERN payload)"
    by (simp add: parse_local_echo_Nil g_def)
  have lazy: "RLazyAny \<notin> set coex_LOCAL_ECHO_PATTERN" by (simp add: coex_LOCAL_ECHO_PATTERN_def)
  from re_findall_occurs(2) [OF g lazy] obtain sent received attempts where
    gs: "g = [sent, received, attempts]" "length sent = 8" "length received = 8" "length attempts = 8"
    by (auto simp: coex_LOCAL_ECHO_PATTERN_def List.map_filter_def list_all2_Cons2)
  have "occurs (''RFDBG_COEX_LOCAL_ECHO sent=0x'' @ sent @ '' received=0x'' @ received
        @ '' attempts=0x'' @ attempts) payload"
    using re_findall_occurs(1) [OF g lazy] gs(1) by (simp add: coex_LOCAL_ECHO_PATTERN_def)
  moreover have "hex_value sent = 10 \<and> hex_value received = 10 \<and>
      10 \<le> hex_value attempts \<and> hex_value attempts \<le> 30"
    using v gs(1)
    by (auto simp: parse_local_echo_Nil last_values_def g_def [symmetric] item_def)
  ultimately show ?thesis
    using gs scans pass(1,2)
    by (auto simp: missing_markers_Nil in_present_markers present_markers_def filter_empty_conv
        coex_BLE_SCAN_MARKER_def BLE_ACTIVITY_SCAN_COUNT_def)
qed

text \<open>The snapshots of a verdict that passes, of the Wi-Fi side and of the active side\<close>

lemma acceptance_snapshots:
  assumes "c_pass (coex_classify contract role payload)" and "contract \<in> set ACCEPTANCE_CONTRACTS"
  shows "role = R_softap \<Longrightarrow> \<exists>ms rs.
      event_conservation (coex_classify contract role payload) = Some (last_values server_names ms) \<and>
      server_ok (last_values server_names ms) \<and>
      resource_acceptance (coex_classify contract role payload) = Some (last_values resource_names rs) \<and>
      resource_ok (last_values resource_names rs)"
    and "Some role = traffic_activity_role contract \<Longrightarrow> \<exists>ms rs.
      event_conservation (coex_classify contract role payload) = Some (last_values activity_names ms) \<and>
      activity_ok (last_values activity_names ms) \<and>
      resource_acceptance (coex_classify contract role payload) = Some (last_values resource_names rs) \<and>
      resource_ok (last_values resource_names rs)"
proof -
  assume s: "role = R_softap"
  then have "Some role \<noteq> traffic_activity_role contract"
    by (simp add: traffic_activity_role_def)
  from coex_pass_fields(6) [OF assms this s, unfolded parse_Nil] show "\<exists>ms rs.
      event_conservation (coex_classify contract role payload) = Some (last_values server_names ms) \<and>
      server_ok (last_values server_names ms) \<and>
      resource_acceptance (coex_classify contract role payload) = Some (last_values resource_names rs) \<and>
      resource_ok (last_values resource_names rs)"
    by (metis option.sel)
next
  assume "Some role = traffic_activity_role contract"
  from coex_pass_fields(5) [OF assms this, unfolded parse_Nil] show "\<exists>ms rs.
      event_conservation (coex_classify contract role payload) = Some (last_values activity_names ms) \<and>
      activity_ok (last_values activity_names ms) \<and>
      resource_acceptance (coex_classify contract role payload) = Some (last_values resource_names rs) \<and>
      resource_ok (last_values resource_names rs)"
    by (metis option.sel)
qed

text \<open>
  C8: what a passing log of either board shows in an acceptance contract.  The event counters
  reported last are conserved (accepted is consumed plus pending), nothing was dropped, the
  queues stayed within 8 and 32 entries; the heap was within its arena without a failed
  allocation and above its floor, and the latencies within their limits.
\<close>

theorem coex_acceptance_pass_bounds:
  assumes "c_pass (coex_classify contract role payload)"
    and "contract \<in> set ACCEPTANCE_CONTRACTS"
    and "traffic_activity_role contract = Some role \<or> role = R_softap"
  shows "\<exists>e r. event_conservation (coex_classify contract role payload) = Some e \<and>
      resource_acceptance (coex_classify contract role payload) = Some r \<and>
      (if role = R_softap
       then item ''accepted'' e = item ''consumed'' e + item ''pending'' e \<and>
         item ''dropped'' e = 0 \<and> item ''pending'' e \<le> 32 \<and> item ''high_water'' e \<le> 32
       else item ''wifi_accepted'' e = item ''wifi_consumed'' e + item ''wifi_pending'' e \<and>
         item ''protocol_accepted'' e = item ''protocol_consumed'' e + item ''protocol_pending'' e \<and>
         item ''wifi_dropped'' e = 0 \<and> item ''protocol_dropped'' e = 0 \<and>
         item ''wifi_pending'' e \<le> 8 \<and> item ''wifi_high_water'' e \<le> 8 \<and>
         item ''protocol_pending'' e \<le> 32 \<and> item ''protocol_high_water'' e \<le> 32) \<and>
      item ''arena'' r \<noteq> 0 \<and> item ''peak'' r \<le> item ''arena'' r \<and>
      item ''min_free'' r \<le> item ''free'' r \<and> item ''failures'' r = 0 \<and>
      item ''max_ready_ms'' r \<le> item ''ready_limit_ms'' r \<and>
      item ''max_irq_ms'' r \<le> item ''irq_limit_ms'' r"
proof (cases "role = R_softap")
  case True
  from acceptance_snapshots(1) [OF assms(1,2) this] obtain e r where
    "event_conservation (coex_classify contract role payload) = Some e" "server_ok e"
    "resource_acceptance (coex_classify contract role payload) = Some r" "resource_ok r" by blast
  then show ?thesis unfolding server_ok_def resource_ok_def de_Morgan_disj not_not not_less if_P [OF True] by blast
next
  case False
  with assms(3) have "Some role = traffic_activity_role contract" by simp
  from acceptance_snapshots(2) [OF assms(1,2) this] obtain e r where
    "event_conservation (coex_classify contract role payload) = Some e" "activity_ok e"
    "resource_acceptance (coex_classify contract role payload) = Some r" "resource_ok r" by blast
  then show ?thesis unfolding activity_ok_def resource_ok_def de_Morgan_disj not_not not_less if_not_P [OF False] by blast
qed

section \<open>The matrix and its acceptance summary\<close>

lemma collect_loop_coex_ends:
  assumes "\<exists>t\<in>set (coex_ticks env). coex_from env + timeout \<le> now t"
  shows "capture_pair j1 j2 timeout contract env p q \<noteq> None"
  using collect_loop_ends [OF assms, of "both_complete contract" "1 / 2" None "fresh_pair p q"]
  by (auto simp: capture_pair_def split: sum.split option.split)

lemma coex_record_files:
  "ble_log_name (coex_record_of contract run a b) = run_log_name run ''ble''"
  "sle_log_name (coex_record_of contract run a b) = run_log_name run ''sle''"
  "c_run (coex_record_of contract run a b) = run"
  by (simp_all add: coex_record_of_def Let_def split: prod.split)

lemma coex_loop_facts:
  "coex_loop args env n run p q = Some (Inr (recs, files)) \<Longrightarrow>
     map c_run recs = [run..<run + n] \<and> length recs = n \<and>
     (\<forall>r\<in>set recs. \<exists>a b. (ble_log_name r, a) \<in> set files \<and> (sle_log_name r, b) \<in> set files \<and>
        r = coex_record_of (coex_contract_arg args) (c_run r) a b)"
proof (induction n arbitrary: run p q recs files)
  case 0
  then show ?case by simp
next
  case (Suc n)
  from Suc.prems obtain s where s: "capture_pair (coex_jlink1 args) (coex_jlink2 args)
      (coex_timeout args) (coex_contract_arg args) (env run) p q = Some (Inr s)"
    by (auto split: option.splits sum.splits)
  with Suc.prems obtain recs' files' where
    rest: "coex_loop args env n (Suc run) (port1 s) (port2 s) = Some (Inr (recs', files'))"
    and eq: "recs = coex_record_of (coex_contract_arg args) run (log1 s) (log2 s) # recs'"
      "files = (run_log_name run ''ble'', log1 s) # (run_log_name run ''sle'', log2 s) # files'"
    by (auto simp: Let_def coex_record_files split: option.splits sum.splits)
  from Suc.IH [OF rest] show ?case
    by (auto simp: eq coex_record_files upt_rec simp del: upt_Suc) blast+
qed

lemma coex_main_steps:
  assumes "coex_main args before after env ble sle = Some (Inr m)"
  obtains recs files sha1 sha2 where
    "coex_loop args env (nat (coex_runs args)) 1 ble sle = Some (Inr (recs, files))"
    "m = coex_summary args recs files sha1 sha2" "0 < coex_runs args"
  using assms by (auto simp: coex_main_def split: if_splits option.splits sum.splits)

text \<open>
  C9: exit status 0 of the coexistence matrix: one record per run in order, and exit status 0
  exactly if in every run both boards' logs pass for their roles in the contract; the verdicts
  are those of the two logs saved for the run.
\<close>

theorem coex_main_exit_status:
  assumes "coex_main args before after env ble sle = Some (Inr m)"
  shows "map c_run (coex_records m) = [1..<1 + nat (coex_runs args)] \<and>
    (coex_status m = 0 \<longleftrightarrow> (\<forall>r\<in>set (coex_records m). run_pass r)) \<and>
    coex_failed m = int (length (filter (\<lambda>r. \<not> run_pass r) (coex_records m))) \<and>
    (\<forall>r\<in>set (coex_records m). \<exists>a b.
       (ble_log_name r, a) \<in> set (coex_files m) \<and> (sle_log_name r, b) \<in> set (coex_files m) \<and>
       (run_pass r \<longleftrightarrow>
          c_pass (coex_classify (coex_contract_arg args) (fst (endpoint_roles (coex_contract_arg args))) a) \<and>
          c_pass (coex_classify (coex_contract_arg args) (snd (endpoint_roles (coex_contract_arg args))) b)))"
proof -
  from assms obtain recs files sha1 sha2 where
    lp: "coex_loop args env (nat (coex_runs args)) 1 ble sle = Some (Inr (recs, files))"
    and m: "m = coex_summary args recs files sha1 sha2" and pos: "0 < coex_runs args"
    by (rule coex_main_steps)
  note facts = coex_loop_facts [OF lp]
  have pass: "run_pass (coex_record_of c i a b) \<longleftrightarrow>
      c_pass (coex_classify c (fst (endpoint_roles c)) a) \<and>
      c_pass (coex_classify c (snd (endpoint_roles c)) b)" for c i a b
    by (simp add: coex_record_of_def Let_def split: prod.split)
  have "int (length (filter run_pass recs)) = coex_runs args \<longleftrightarrow>
      length (filter run_pass recs) = length recs" using facts pos by auto
  moreover have "length (filter run_pass recs) + length (filter (\<lambda>r. \<not> run_pass r) recs)
      = nat (coex_runs args)" using facts sum_length_filter_compl [of run_pass recs] by simp
  moreover have fields: "coex_records m = recs" "coex_files m = files"
    "coex_status m = (if int (length (filter run_pass recs)) = coex_runs args then 0 else 1)"
    "coex_failed m = coex_runs args - int (length (filter run_pass recs))"
    by (simp_all add: m coex_summary_def Let_def)
  moreover have "\<forall>r\<in>set recs. \<exists>a b. (ble_log_name r, a) \<in> set files \<and> (sle_log_name r, b) \<in> set files \<and>
       (run_pass r \<longleftrightarrow>
          c_pass (coex_classify (coex_contract_arg args) (fst (endpoint_roles (coex_contract_arg args))) a) \<and>
          c_pass (coex_classify (coex_contract_arg args) (snd (endpoint_roles (coex_contract_arg args))) b))"
    using facts pass by metis
  ultimately show ?thesis
    using facts pos length_filter_eq_length [of run_pass recs] by auto
qed

text \<open>An event snapshot that adds nothing to the dropped total and at most 32 to the mark.\<close>

definition clean_events :: "counters \<Rightarrow> bool" where
  "clean_events e \<longleftrightarrow>
     dget_or ''dropped'' 0 e = 0 \<and> dget_or ''wifi_dropped'' 0 e = 0 \<and>
     dget_or ''protocol_dropped'' 0 e = 0 \<and> dget_or ''high_water'' 0 e \<le> 32 \<and>
     dget_or ''wifi_high_water'' 0 e \<le> 32 \<and> dget_or ''protocol_high_water'' 0 e \<le> 32"

lemma last_values_absent: "k \<notin> set names \<Longrightarrow> dget_or k 0 (last_values names ms) = 0"
  by (rule dget_or_simps(2)) (auto simp: last_values_def map_of_eq_None_iff dest: set_zip_leftD)

lemma clean_server:
  assumes "server_ok (last_values server_names ms)"
  shows "clean_events (last_values server_names ms)"
proof -
  have a: "dget_or ''wifi_dropped'' 0 (last_values server_names ms) = 0"
    "dget_or ''protocol_dropped'' 0 (last_values server_names ms) = 0"
    "dget_or ''wifi_high_water'' 0 (last_values server_names ms) = 0"
    "dget_or ''protocol_high_water'' 0 (last_values server_names ms) = 0"
    by (rule last_values_absent, simp add: server_names_def)+
  have "(0::int) \<le> 32" by simp
  with assms show ?thesis
    unfolding clean_events_def server_ok_def item_def de_Morgan_disj not_not not_less a by blast
qed

lemma clean_activity:
  assumes "activity_ok (last_values activity_names ms)"
  shows "clean_events (last_values activity_names ms)"
proof -
  have a: "dget_or ''dropped'' 0 (last_values activity_names ms) = 0"
    "dget_or ''high_water'' 0 (last_values activity_names ms) = 0"
    by (rule last_values_absent, simp add: activity_names_def)+
  have "(0::int) \<le> 32" "dget_or ''wifi_high_water'' 0 (last_values activity_names ms) \<le> 32"
    using assms by (simp_all add: activity_ok_def item_def)
  with assms show ?thesis
    unfolding clean_events_def activity_ok_def item_def de_Morgan_disj not_not not_less a by blast
qed

lemma coex_pass_snapshot:
  assumes "c_pass (coex_classify contract role payload)"
    and "contract \<in> set ACCEPTANCE_CONTRACTS"
    and "traffic_activity_role contract = Some role \<or> role = R_softap"
  shows "\<exists>e r. event_conservation (coex_classify contract role payload) = Some e \<and> clean_events e \<and>
    resource_acceptance (coex_classify contract role payload) = Some r \<and> item ''failures'' r = 0"
proof -
  have ok: "item ''failures'' (last_values resource_names rs) = 0"
    if "resource_ok (last_values resource_names rs)" for rs
    using that by (simp add: resource_ok_def)
  from assms(3) show ?thesis
  proof
    assume "traffic_activity_role contract = Some role"
    from acceptance_snapshots(2) [OF assms(1,2) this [symmetric]] show ?thesis
      using clean_activity ok by blast
  next
    assume "role = R_softap"
    from acceptance_snapshots(1) [OF assms(1,2) this] show ?thesis
      using clean_server ok by blast
  qed
qed

lemma fold_add_events:
  "\<forall>e\<in>set es. clean_events e \<Longrightarrow> h \<le> 32 \<Longrightarrow>
     fst (fold add_events es (d, h)) = d \<and> snd (fold add_events es (d, h)) \<le> 32"
proof (induction es arbitrary: d h)
  case Nil
  then show ?case by simp
next
  case (Cons e es)
  then have e: "clean_events e" by simp
  then obtain h' where "add_events e (d, h) = (d, h')" "h' \<le> 32"
    using Cons.prems(2) by (auto simp: add_events_def clean_events_def)
  with Cons show ?case by simp
qed

lemma length_snapshots:
  "\<forall>r\<in>set recs. field (ble_result r) \<noteq> None \<and> field (sle_result r) \<noteq> None \<Longrightarrow>
     length (snapshots field recs) = 2 * length recs"
  by (induction recs) (auto simp: snapshots_def List.map_filter_def)

lemma in_snapshots:
  "x \<in> set (snapshots field recs) \<Longrightarrow>
     \<exists>r\<in>set recs. field (ble_result r) = Some x \<or> field (sle_result r) = Some x"
  by (auto simp: snapshots_def List.map_filter_def split: if_splits)

lemma accepting_roles:
  "contract \<in> set ACCEPTANCE_CONTRACTS \<Longrightarrow>
     fst (endpoint_roles contract) = R_softap \<and>
     traffic_activity_role contract = Some (snd (endpoint_roles contract))"
  by (auto simp: ACCEPTANCE_CONTRACTS_def endpoint_roles_def traffic_activity_role_def)

lemma coex_record_snapshots:
  assumes "run_pass (coex_record_of contract run a b)" and "contract \<in> set ACCEPTANCE_CONTRACTS"
    and "v \<in> {ble_result (coex_record_of contract run a b), sle_result (coex_record_of contract run a b)}"
  shows "\<exists>e r. event_conservation v = Some e \<and> clean_events e \<and>
    resource_acceptance v = Some r \<and> item ''failures'' r = 0"
proof -
  obtain r1 r2 where roles: "endpoint_roles contract = (r1, r2)" by fastforce
  with accepting_roles [OF assms(2)] have r: "r1 = R_softap" "traffic_activity_role contract = Some r2"
    by auto
  from assms(1) roles have pass: "c_pass (coex_classify contract r1 a)" "c_pass (coex_classify contract r2 b)"
    by (auto simp: coex_record_of_def Let_def)
  from assms(3) roles have "v = coex_classify contract r1 a \<or> v = coex_classify contract r2 b"
    by (auto simp: coex_record_of_def Let_def)
  with coex_pass_snapshot [OF pass(1) assms(2)] coex_pass_snapshot [OF pass(2) assms(2)] r
  show ?thesis by blast
qed

text \<open>
  the acceptance block of a coexistence summary.  When the matrix of a connected-traffic
  contract exits with 0, the summary has one event snapshot for each board of each run, no
  dropped event in total, no queue that grew beyond 32 entries and no failed allocation.
\<close>

theorem coex_acceptance_summary:
  assumes "coex_main args before after env ble sle = Some (Inr m)" and "coex_status m = 0"
    and "coex_contract_arg args \<in> set ACCEPTANCE_CONTRACTS"
  shows "\<exists>a. coex_acceptance m = Some a \<and> int (event_snapshots a) = 2 * coex_runs args \<and>
    event_dropped_total a = 0 \<and> max_event_high_water a \<le> 32 \<and> allocation_failures_total a = 0"
proof -
  from assms(1) obtain recs files sha1 sha2 where
    lp: "coex_loop args env (nat (coex_runs args)) 1 ble sle = Some (Inr (recs, files))"
    and m: "m = coex_summary args recs files sha1 sha2" and pos: "0 < coex_runs args"
    by (rule coex_main_steps)
  note facts = coex_loop_facts [OF lp]
  have "int (length (filter run_pass recs)) = coex_runs args"
    using assms(2) by (simp add: m coex_summary_def Let_def split: if_splits)
  then have "length (filter run_pass recs) = length recs" using facts by auto
  then have all: "\<forall>r\<in>set recs. run_pass r" by (simp add: length_filter_eq_length)
  have snap: "\<exists>e x. event_conservation v = Some e \<and> clean_events e \<and>
      resource_acceptance v = Some x \<and> item ''failures'' x = 0"
    if r: "r \<in> set recs" and v: "v = ble_result r \<or> v = sle_result r" for r v
  proof -
    from facts r obtain a b where ab: "r = coex_record_of (coex_contract_arg args) (c_run r) a b"
      by blast
    from all r have "run_pass r" by blast
    with ab have "run_pass (coex_record_of (coex_contract_arg args) (c_run r) a b)" by metis
    from coex_record_snapshots [OF this assms(3), of v] v ab show ?thesis by auto
  qed
  let ?ev = "snapshots event_conservation recs" and ?rs = "snapshots resource_acceptance recs"
  have le: "length ?ev = 2 * length recs" "length ?rs = 2 * length recs"
    using snap by (intro length_snapshots; force)+
  have ev: "\<forall>e\<in>set ?ev. clean_events e" using in_snapshots snap by (metis option.inject)
  have rs: "\<forall>x\<in>set ?rs. item ''failures'' x = 0" using in_snapshots snap by (metis option.inject)
  have sum: "sum_list (map (item ''failures'') ?rs) = 0" using rs by (simp add: sum_list_0 cong: map_cong)
  have ne: "?ev \<noteq> []" "?rs \<noteq> []" using le facts pos by auto
  obtain d h where dh: "fold add_events ?ev (0, 0) = (d, h)" by fastforce
  with fold_add_events [OF ev, of 0 0] have "d = 0" "h \<le> 32" by auto
  with ne dh le sum facts pos show ?thesis
    by (simp add: m coex_summary_def summarize_acceptance_def Let_def)
qed

end
