(* ===== verification/Coexistence_Runs.thy ===== *)
theory Coexistence_Runs
  imports Coexistence
begin

text \<open>
  Concrete runs of the coexistence matrix: two transcripts that satisfy the connected SLE
  contract, and the matrix on them.  They show that the hypotheses of the properties of
  \<open>Coexistence\<close> hold together.
\<close>

lemma re_findall_transcript:
  assumes pat: "pat = RLit l # r"
    and lines: "ms = xs @ fill pat g # ys"
    and "fits pat g" "l \<noteq> []" "CHR 10 \<notin> set l"
    and "\<not> list_ex (occurs l) xs" "\<not> list_ex (occurs l) ys"
  shows "re_findall pat (transcript ms) = [g]"
proof -
  have "\<not> occurs l ([] @ CHR 10 # transcript ys)"
    unfolding occurs_line_iff [OF assms(4,5)] using assms(4,5,7) by (simp add: occurs_transcript_iff)
  moreover have "transcript xs = [] \<or> last (transcript xs) = CHR 10"
    by (cases xs rule: rev_cases) (simp_all add: transcript_def)
  moreover have "\<not> occurs l (transcript xs)"
    using assms(4-6) by (simp add: occurs_transcript_iff)
  ultimately have "re_findall (RLit l # r)
      (transcript xs @ fill (RLit l # r) g @ (CHR 10 # transcript ys)) = [g]"
    using assms(3-5) unfolding pat by (intro re_findall_single) simp_all
  then show ?thesis by (simp add: pat lines transcript_append transcript_Cons)
qed

definition demo_server_groups :: "bytes list" where
  "demo_server_groups = [''00000004'', ''00000003'', ''00000001'', ''00000000'', ''00000002'']"

definition demo_activity_groups :: "bytes list" where
  "demo_activity_groups =
     [''00000004'', ''00000003'', ''00000001'', ''00000000'', ''00000002'',
      ''00000004'', ''00000004'', ''00000000'', ''00000000'', ''00000003'']"

definition demo_resource_groups :: "bytes list" where
  "demo_resource_groups =
     [''00001000'', ''00000800'', ''00000900'', ''00000000'', ''00000100'', ''00000002'',
      ''00000010'', ''00000001'', ''00000008'', ''00000000'', ''00000000'', ''00000000'',
      ''00000000'']"

definition demo_softap_lines :: "bytes list" where
  "demo_softap_lines =
     [''RFDBG_SOFTAP_READY'', ''RFDBG_SOFTAP_NET_READY'', ''RFDBG_SOFTAP_NET'',
      ''RFDBG_COEX_SLE_SERVER_READY'', ''RFDBG_COEX_SLE_SERVER_CONNECTED'']"

definition demo_activity_lines :: "bytes list" where
  "demo_activity_lines =
     coex_COMMON_MARKERS @ ROLE_MARKERS R_sle @ coex_SLE_CONNECTED_TRAFFIC_MARKERS
     @ replicate 3 coex_BLE_SCAN_MARKER"

definition coex_demo_softap :: "bytes list" where
  "coex_demo_softap = demo_softap_lines @
     [fill coex_SOFTAP_ECHO_PATTERN [''0000000a'', ''0000000b''],
      fill coex_SERVER_EVENT_PATTERN demo_server_groups,
      fill coex_SERVER_RESOURCE_PATTERN demo_resource_groups]"

definition coex_demo_activity :: "bytes list" where
  "coex_demo_activity = demo_activity_lines @
     [fill coex_LOCAL_ECHO_PATTERN [''0000000a'', ''0000000A'', ''0000000c''],
      fill coex_ACTIVITY_EVENT_PATTERN demo_activity_groups,
      fill coex_ACTIVITY_RESOURCE_PATTERN demo_resource_groups]"

lemma coex_failure_words:
  "list_all (\<lambda>m. occurs ''ERR'' m \<or> occurs ''DROP'' m \<or> occurs ''MISSING'' m \<or>
     occurs ''panicked'' m \<or> occurs ''scheduler'' m) coex_FAILURE_MARKERS"
  by code_simp

lemma no_coex_failures:
  assumes "\<not> occurs ''ERR'' data" "\<not> occurs ''DROP'' data" "\<not> occurs ''MISSING'' data"
    "\<not> occurs ''panicked'' data" "\<not> occurs ''scheduler'' data"
  shows "present_markers coex_FAILURE_MARKERS data = []"
  using assms coex_failure_words
  by (auto simp: present_markers_def filter_empty_conv list_all_iff dest: sublist_order.order.trans)

lemma coex_demo_softap_words:
  "\<not> list_ex (occurs ''ERR'') coex_demo_softap" "\<not> list_ex (occurs ''DROP'') coex_demo_softap"
  "\<not> list_ex (occurs ''MISSING'') coex_demo_softap"
  "\<not> list_ex (occurs ''panicked'') coex_demo_softap"
  "\<not> list_ex (occurs ''scheduler'') coex_demo_softap"
  by code_simp+

lemma coex_demo_activity_words:
  "\<not> list_ex (occurs ''ERR'') coex_demo_activity" "\<not> list_ex (occurs ''DROP'') coex_demo_activity"
  "\<not> list_ex (occurs ''MISSING'') coex_demo_activity"
  "\<not> list_ex (occurs ''panicked'') coex_demo_activity"
  "\<not> list_ex (occurs ''scheduler'') coex_demo_activity"
  by code_simp+

lemma demo_softap_echo:
  "re_findall coex_SOFTAP_ECHO_PATTERN (transcript coex_demo_softap) = [[''0000000a'', ''0000000b'']]"
  by (rule re_findall_transcript [OF coex_SOFTAP_ECHO_PATTERN_def, where xs = "demo_softap_lines" and ys = "[fill coex_SERVER_EVENT_PATTERN demo_server_groups, fill coex_SERVER_RESOURCE_PATTERN demo_resource_groups]"])
     (simp add: coex_demo_softap_def, code_simp+)

lemma demo_server_events:
  "re_findall coex_SERVER_EVENT_PATTERN (transcript coex_demo_softap) = [demo_server_groups]"
  by (rule re_findall_transcript [OF coex_SERVER_EVENT_PATTERN_def, where xs = "demo_softap_lines @ [fill coex_SOFTAP_ECHO_PATTERN [''0000000a'', ''0000000b'']]" and ys = "[fill coex_SERVER_RESOURCE_PATTERN demo_resource_groups]"])
     (simp add: coex_demo_softap_def, code_simp+)

lemma demo_server_resources:
  "re_findall coex_SERVER_RESOURCE_PATTERN (transcript coex_demo_softap) = [demo_resource_groups]"
  by (rule re_findall_transcript [OF coex_SERVER_RESOURCE_PATTERN_def, where xs = "demo_softap_lines @ [fill coex_SOFTAP_ECHO_PATTERN [''0000000a'', ''0000000b''], fill coex_SERVER_EVENT_PATTERN demo_server_groups]" and ys = "[]"])
     (simp add: coex_demo_softap_def, code_simp+)

lemma demo_local_echo:
  "re_findall coex_LOCAL_ECHO_PATTERN (transcript coex_demo_activity) = [[''0000000a'', ''0000000A'', ''0000000c'']]"
  by (rule re_findall_transcript [OF coex_LOCAL_ECHO_PATTERN_def, where xs = "demo_activity_lines" and ys = "[fill coex_ACTIVITY_EVENT_PATTERN demo_activity_groups, fill coex_ACTIVITY_RESOURCE_PATTERN demo_resource_groups]"])
     (simp add: coex_demo_activity_def, code_simp+)

lemma demo_activity_events:
  "re_findall coex_ACTIVITY_EVENT_PATTERN (transcript coex_demo_activity) = [demo_activity_groups]"
  by (rule re_findall_transcript [OF coex_ACTIVITY_EVENT_PATTERN_def, where xs = "demo_activity_lines @ [fill coex_LOCAL_ECHO_PATTERN [''0000000a'', ''0000000A'', ''0000000c'']]" and ys = "[fill coex_ACTIVITY_RESOURCE_PATTERN demo_resource_groups]"])
     (simp add: coex_demo_activity_def, code_simp+)

lemma demo_activity_resources:
  "re_findall coex_ACTIVITY_RESOURCE_PATTERN (transcript coex_demo_activity) = [demo_resource_groups]"
  by (rule re_findall_transcript [OF coex_ACTIVITY_RESOURCE_PATTERN_def, where xs = "demo_activity_lines @ [fill coex_LOCAL_ECHO_PATTERN [''0000000a'', ''0000000A'', ''0000000c''], fill coex_ACTIVITY_EVENT_PATTERN demo_activity_groups]" and ys = "[]"])
     (simp add: coex_demo_activity_def, code_simp+)

lemma demo_scans: "bcount coex_BLE_SCAN_MARKER (transcript coex_demo_activity) = 3"
  by code_simp

lemma demo_snapshots_ok:
  "server_ok (last_values server_names [demo_server_groups])"
  "activity_ok (last_values activity_names [demo_activity_groups])"
  "resource_ok (last_values resource_names [demo_resource_groups])"
  by code_simp+

lemma demo_parsed:
  "\<exists>v. parse_softap_echo (transcript coex_demo_softap) [] = ([], v)"
  "\<exists>v. parse_server_events (transcript coex_demo_softap) [] = ([], v)"
  "\<exists>v. parse_resource_acceptance coex_SERVER_RESOURCE_PATTERN (transcript coex_demo_softap) []
       ''server'' = ([], v)"
  "\<exists>v. parse_local_echo (transcript coex_demo_activity) [] = ([], v)"
  "\<exists>v. parse_activity_events (transcript coex_demo_activity) [] = ([], v)"
  "\<exists>v. parse_resource_acceptance coex_ACTIVITY_RESOURCE_PATTERN (transcript coex_demo_activity) []
       ''activity'' = ([], v)"
  apply -
  subgoal unfolding parse_softap_echo_def demo_softap_echo by (rule exI, code_simp)
  subgoal by (simp add: parse_Nil demo_server_events demo_snapshots_ok)
  subgoal by (simp add: parse_Nil demo_server_resources demo_snapshots_ok)
  subgoal unfolding parse_local_echo_def demo_local_echo by (rule exI, code_simp)
  subgoal by (simp add: parse_Nil demo_activity_events demo_snapshots_ok)
  subgoal by (simp add: parse_Nil demo_activity_resources demo_snapshots_ok)
  done

lemma demo_missing:
  "missing_markers (required_markers Wifi_sle_connected R_softap) (transcript coex_demo_softap) = []"
  "missing_markers (required_markers Wifi_sle_connected R_sle) (transcript coex_demo_activity) = []"
proof -
  have "set (required_markers Wifi_sle_connected R_softap) \<subseteq> set coex_demo_softap"
    "set (required_markers Wifi_sle_connected R_sle) \<subseteq> set coex_demo_activity"
    by (auto simp: required_markers_def TRAFFIC_CONTRACTS_def coex_demo_softap_def
        demo_softap_lines_def coex_SOFTAP_TRAFFIC_MARKER_def coex_SOFTAP_SLE_CONNECTED_MARKERS_def
        coex_demo_activity_def demo_activity_lines_def)
  then show
    "missing_markers (required_markers Wifi_sle_connected R_softap) (transcript coex_demo_softap) = []"
    "missing_markers (required_markers Wifi_sle_connected R_sle) (transcript coex_demo_activity) = []"
    unfolding missing_markers_Nil by (auto intro: occurs_transcript)
qed

lemma demo_clean:
  "present_markers coex_FAILURE_MARKERS (transcript coex_demo_softap) = []"
  "present_markers coex_FAILURE_MARKERS (transcript coex_demo_activity) = []"
  by (rule no_coex_failures;
      simp add: occurs_transcript_iff coex_demo_softap_words coex_demo_activity_words)+

lemma demo_softap_passes:
  "c_pass (coex_classify Wifi_sle_connected R_softap (transcript coex_demo_softap))"
  using demo_parsed(1-3)
  by (auto simp: coex_classify_def Let_def demo_missing demo_clean scan_missing_def
      traffic_activity_role_def TRAFFIC_CONTRACTS_def ACCEPTANCE_CONTRACTS_def)

lemma demo_activity_passes:
  "c_pass (coex_classify Wifi_sle_connected R_sle (transcript coex_demo_activity))"
  using demo_parsed(4-6)
  by (auto simp: coex_classify_def Let_def demo_missing demo_clean scan_missing_def demo_scans
      BLE_ACTIVITY_SCAN_COUNT_def
      traffic_activity_role_def TRAFFIC_CONTRACTS_def ACCEPTANCE_CONTRACTS_def)

section \<open>The matrix on the two transcripts\<close>

definition coex_demo_env :: "bytes \<Rightarrow> bytes \<Rightarrow> coex_env" where
  "coex_demo_env a b =
     \<lparr>pulse_ble = quiet_pulse, pulse_peer = quiet_pulse, coex_from = 0,
      coex_ticks = [\<lparr>now = 0, rx1 = a, rx2 = b, mark_at = 0, check_at = 0\<rparr>, quiet_tick 20],
      coex_last1 = [], coex_last2 = []\<rparr>"

lemma capture_pair_demo:
  assumes "ascii_decimal j1" "ascii_decimal j2"
  shows "\<exists>s. capture_pair j1 j2 20 contract (coex_demo_env a b) p q = Some (Inr s) \<and>
    log1 s = a \<and> log2 s = b"
proof -
  have fields: "pulse_ble (coex_demo_env a b) = quiet_pulse"
    "pulse_peer (coex_demo_env a b) = quiet_pulse" "coex_last1 (coex_demo_env a b) = []"
    "coex_last2 (coex_demo_env a b) = []" "coex_from (coex_demo_env a b) = 0"
    and ticks: "coex_ticks (coex_demo_env a b) =
      [\<lparr>now = 0, rx1 = a, rx2 = b, mark_at = 0, check_at = 0\<rparr>, quiet_tick 20]"
    by (simp_all add: coex_demo_env_def)
  let ?t = "\<lparr>now = 0, rx1 = a, rx2 = b, mark_at = 0, check_at = 0\<rparr> :: tick"
  let ?s = "sweep ?t (fresh_pair p q)"
  have "collect_loop (both_complete contract) (1 / 2) 20 [?t, quiet_tick 20] None (fresh_pair p q)
      = Some (mark (both_complete contract) ?t ?s None, tick_arrive (quiet_tick 20) ?s)"
    by (simp add: Let_def quiet_tick_def mark_def)
  then obtain c where "collect_loop (both_complete contract) (1 / 2) (0 + 20)
      [?t, quiet_tick 20] None (fresh_pair p q) = Some (c, tick_arrive (quiet_tick 20) ?s)" by simp
  then show ?thesis
    using assms
    by (simp add: capture_pair_def fields ticks quiet_pulse_ok capture_simps)
       (simp add: quiet_tick_def)
qed

definition coex_demo_args :: coex_args where
  "coex_demo_args =
     \<lparr>coex_runs = 1, coex_timeout = 20, coex_jlink1 = ''123'', coex_jlink2 = ''456'',
      coex_elf1 = ''a.elf'', coex_elf2 = ''b.elf'', coex_exists = False, coex_open_error = None,
      coex_contract_arg = Wifi_sle_connected\<rparr>"

definition coex_demo_main :: "coex_result res option" where
  "coex_demo_main = coex_main coex_demo_args (\<lambda>_. Some []) (\<lambda>_. Some [])
     (\<lambda>_. coex_demo_env (transcript coex_demo_softap) (transcript coex_demo_activity))
     demo_port demo_port"

lemma coex_demo_main_value:
  "\<exists>m. coex_demo_main = Some (Inr m) \<and> coex_status m = 0"
proof -
  let ?a = "transcript coex_demo_softap" and ?b = "transcript coex_demo_activity"
  obtain s where s: "capture_pair ''123'' ''456'' 20 Wifi_sle_connected (coex_demo_env ?a ?b)
      demo_port demo_port = Some (Inr s)" "log1 s = ?a" "log2 s = ?b"
    using capture_pair_demo [of "''123''" "''456''"] by (force simp: ascii_decimal_def)
  have "run_pass (coex_record_of Wifi_sle_connected (Suc 0) ?a ?b)"
    by (simp add: coex_record_of_def endpoint_roles_def demo_softap_passes demo_activity_passes)
  with s show ?thesis
    by (simp add: coex_demo_main_def coex_main_def coex_demo_args_def coex_summary_def Let_def)
qed

section \<open>The properties on these runs\<close>

lemma coex_traffic_pass_shows_echo_witness:
  "bcount ''RFDBG_COEX_WIFI_SCAN_OK'' (transcript coex_demo_activity) = 3 \<and>
     c_pass (coex_classify Wifi_sle_connected R_sle (transcript coex_demo_activity))"
  using coex_traffic_pass_shows_echo [OF demo_activity_passes] demo_activity_passes
  by (simp add: TRAFFIC_CONTRACTS_def traffic_activity_role_def)

lemma coex_acceptance_pass_bounds_witness:
  "\<exists>r. resource_acceptance (coex_classify Wifi_sle_connected R_softap (transcript coex_demo_softap))
       = Some r \<and> item ''peak'' r \<le> item ''arena'' r"
  using coex_acceptance_pass_bounds [OF demo_softap_passes]
  by (auto simp: ACCEPTANCE_CONTRACTS_def)

lemma coex_main_exit_status_witness:
  "\<exists>m. coex_demo_main = Some (Inr m) \<and> (\<forall>r\<in>set (coex_records m). run_pass r)"
proof -
  obtain m where m: "coex_demo_main = Some (Inr m)" "coex_status m = 0"
    using coex_demo_main_value by blast
  with coex_main_exit_status [OF m(1) [unfolded coex_demo_main_def]] show ?thesis by auto
qed

lemma coex_acceptance_summary_witness:
  "\<exists>m a. coex_demo_main = Some (Inr m) \<and> coex_acceptance m = Some a \<and> event_snapshots a = 2"
proof -
  obtain m where m: "coex_demo_main = Some (Inr m)" "coex_status m = 0"
    using coex_demo_main_value by blast
  with coex_acceptance_summary [OF m(1) [unfolded coex_demo_main_def] m(2)] show ?thesis
    by (auto simp: coex_demo_args_def ACCEPTANCE_CONTRACTS_def)
qed

end
