(* ===== verification/Ble_Bond.thy ===== *)
theory Ble_Bond
  imports Py_Regex Py_Sha256 Pair_Matrix
begin

text \<open>
  \<open>hil/ws63-ble-bond-reset-matrix.py\<close>: pairing with a passkey relayed from one board to the
  other, restored, removed and refused bonds, and what must persist from reset to reset.
  The peripheral is board 1, the central board 2.
\<close>

section \<open>Tables\<close>

definition bond_PERIPHERAL_MARKERS :: "bytes list" where
  "bond_PERIPHERAL_MARKERS =
     [''RFDBG_RADIO_U5_BLE_PERIPHERAL_READY'', ''RFDBG_RADIO_U5_BLE_PERIPHERAL_CONNECTED'',
      ''RFDBG_RADIO_U5_BLE_PERIPHERAL_PASSKEY_DISPLAY=[REDACTED]'',
      ''RFDBG_RADIO_U5_BLE_PERIPHERAL_PAIRED'', ''RFDBG_RADIO_U5_BLE_PERIPHERAL_AUTH_OK'',
      ''RFDBG_RADIO_U5_BLE_PERIPHERAL_BOND_OBSERVED'',
      ''RFDBG_RADIO_U5_BLE_PERIPHERAL_BOND_OK'']"

definition bond_PERIPHERAL_RESTORED_MARKERS :: "bytes list" where
  "bond_PERIPHERAL_RESTORED_MARKERS =
     [''RFDBG_RADIO_U5_BLE_PERIPHERAL_READY'', ''RFDBG_RADIO_U5_BLE_PERIPHERAL_CONNECTED'',
      ''RFDBG_RADIO_U5_BLE_PERIPHERAL_PAIRED'',
      ''RFDBG_RADIO_U5_BLE_PERIPHERAL_RESTORED_ACTIVE'',
      ''RFDBG_RADIO_U5_BLE_PERIPHERAL_BOND_OK'']"

definition bond_CENTRAL_MARKERS :: "bytes list" where
  "bond_CENTRAL_MARKERS =
     [''RFDBG_RADIO_U5_BLE_SCAN_MATCH'', ''RFDBG_RADIO_U5_BLE_CENTRAL_CONNECTED'',
      ''RFDBG_RADIO_U5_BLE_CENTRAL_PASSKEY_INPUT'',
      ''RFDBG_RADIO_U5_BLE_CENTRAL_PASSKEY_ACCEPTED'',
      ''RFDBG_RADIO_U5_BLE_PAIR_ACCEPTED'', ''RFDBG_RADIO_U5_BLE_CENTRAL_PAIRED'',
      ''RFDBG_RADIO_U5_BLE_CENTRAL_AUTH_OK'', ''RFDBG_RADIO_U5_BLE_CENTRAL_BOND_OBSERVED'',
      ''RFDBG_RADIO_U5_BLE_CENTRAL_BOND_OK'']"

definition bond_CENTRAL_RESTORED_MARKERS :: "bytes list" where
  "bond_CENTRAL_RESTORED_MARKERS =
     [''RFDBG_RADIO_U5_BLE_SCAN_MATCH'', ''RFDBG_RADIO_U5_BLE_CENTRAL_CONNECTED'',
      ''RFDBG_RADIO_U5_BLE_CENTRAL_PAIRED'',
      ''RFDBG_RADIO_U5_BLE_CENTRAL_RESTORED_ACTIVE'',
      ''RFDBG_RADIO_U5_BLE_CENTRAL_BOND_OK'']"

definition bond_PERIPHERAL_REMOVAL_MARKERS :: "bytes list" where
  "bond_PERIPHERAL_REMOVAL_MARKERS =
     bond_PERIPHERAL_RESTORED_MARKERS @
     [''RFDBG_RADIO_U5_BLE_PERIPHERAL_BOND_REMOVED'',
      ''RFDBG_RADIO_U5_BLE_PERIPHERAL_BOND_REMOVE_OK'']"

definition bond_CENTRAL_REMOVAL_MARKERS :: "bytes list" where
  "bond_CENTRAL_REMOVAL_MARKERS =
     bond_CENTRAL_RESTORED_MARKERS @
     [''RFDBG_RADIO_U5_BLE_CENTRAL_BOND_REMOVED'',
      ''RFDBG_RADIO_U5_BLE_CENTRAL_BOND_REMOVE_OK'']"

definition bond_PERIPHERAL_REJECT_MARKERS :: "bytes list" where
  "bond_PERIPHERAL_REJECT_MARKERS =
     [''RFDBG_RADIO_U5_BLE_PERIPHERAL_READY'', ''RFDBG_RADIO_U5_BLE_PERIPHERAL_CONNECTED'',
      ''RFDBG_RADIO_U5_BLE_PERIPHERAL_NEGATIVE_DISCONNECTED'',
      ''RFDBG_RADIO_U5_BLE_PERIPHERAL_REJECT_OK'']"

definition bond_CENTRAL_REJECT_MARKERS :: "bytes list" where
  "bond_CENTRAL_REJECT_MARKERS =
     [''RFDBG_RADIO_U5_BLE_SCAN_MATCH'', ''RFDBG_RADIO_U5_BLE_CENTRAL_CONNECTED'',
      ''RFDBG_RADIO_U5_BLE_CENTRAL_PASSKEY_INPUT'',
      ''RFDBG_RADIO_U5_BLE_CENTRAL_REJECT_ACCEPTED'',
      ''RFDBG_RADIO_U5_BLE_CENTRAL_NEGATIVE_DISCONNECTED'',
      ''RFDBG_RADIO_U5_BLE_CENTRAL_REJECT_OK'']"

definition bond_PERIPHERAL_STALE_MARKERS :: "bytes list" where
  "bond_PERIPHERAL_STALE_MARKERS =
     [''RFDBG_RADIO_U5_BLE_PERIPHERAL_READY'', ''RFDBG_RADIO_U5_BLE_PERIPHERAL_CONNECTED'',
      ''RFDBG_RADIO_U5_BLE_PERIPHERAL_NEGATIVE_DISCONNECTED'',
      ''RFDBG_RADIO_U5_BLE_PERIPHERAL_STALE_OK'']"

definition bond_CENTRAL_STALE_MARKERS :: "bytes list" where
  "bond_CENTRAL_STALE_MARKERS =
     [''RFDBG_RADIO_U5_BLE_SCAN_MATCH'', ''RFDBG_RADIO_U5_BLE_CENTRAL_CONNECTED'',
      ''RFDBG_RADIO_U5_BLE_CENTRAL_PASSKEY_INPUT'',
      ''RFDBG_RADIO_U5_BLE_CENTRAL_STALE_REJECTED'',
      ''RFDBG_RADIO_U5_BLE_CENTRAL_NEGATIVE_DISCONNECTED'',
      ''RFDBG_RADIO_U5_BLE_CENTRAL_STALE_OK'']"

definition bond_PERIPHERAL_STARTUP_MARKERS :: "bytes list" where
  "bond_PERIPHERAL_STARTUP_MARKERS =
     [''RFDBG_RADIO_U5_BLE_PERIPHERAL_BOND_EMPTY'',
      ''RFDBG_RADIO_U5_BLE_PERIPHERAL_BOND_RESTORED'']"

definition bond_CENTRAL_STARTUP_MARKERS :: "bytes list" where
  "bond_CENTRAL_STARTUP_MARKERS =
     [''RFDBG_RADIO_U5_BLE_CENTRAL_BOND_EMPTY'',
      ''RFDBG_RADIO_U5_BLE_CENTRAL_BOND_RESTORED'']"

definition bond_FAILURE_MARKERS :: "bytes list" where
  "bond_FAILURE_MARKERS =
     [''RFDBG_RADIO_U5_BLE_EVENT_DROP'', ''RFDBG_RADIO_U5_BLE_BOND_CONSERVATION_ERR'',
      ''RFDBG_RADIO_U5_BLE_PERIPHERAL_ERR'', ''RFDBG_RADIO_U5_BLE_CENTRAL_ERR'',
      ''RFDBG_RADIO_U5_BLE_COMMAND_ERR'', ''RFDBG_RADIO_U5_BLE_SCAN_LIFECYCLE_ERR'',
      ''RFDBG_RADIO_U5_BLE_SCAN_STOP_ERR'',
      ''RFDBG_RADIO_U5_BLE_PERIPHERAL_BOND_RESTORE_ERR'',
      ''RFDBG_RADIO_U5_BLE_CENTRAL_BOND_RESTORE_ERR'',
      ''RFDBG_RADIO_U5_BLE_RESTORED_STATE_ERR'', ''RFDBG_RADIO_U5_BLE_STATE_QUEUE_ERR'',
      ''RFDBG_RADIO_U5_BLE_PASSKEY_QUEUE_ERR'',
      ''RFDBG_RADIO_U5_BLE_PASSKEY_RESPONSE_ERR'',
      ''RFDBG_RADIO_U5_BLE_NEGATIVE_REQUIRES_EMPTY'',
      ''RFDBG_RADIO_U5_BLE_NEGATIVE_PAIRED_ERR'', ''RFDBG_RADIO_U5_BLE_NEGATIVE_AUTH_ERR'',
      ''RFDBG_RADIO_U5_BLE_NEGATIVE_BOND_ERR'',
      ''RFDBG_RADIO_U5_BLE_STALE_DISCONNECT_ERR'',
      ''RFDBG_RADIO_U5_BLE_NEGATIVE_CONSERVATION_ERR'', ''RFDBG_NV_WRITE_ERR'',
      ''panicked at'']"

definition PASSKEY_PATTERN :: regex where
  "PASSKEY_PATTERN =
     [RLit ''RFDBG_RADIO_U5_BLE_PERIPHERAL_PASSKEY_DISPLAY='', RGroup is_digit 6]"

definition PASSKEY_REDACTED :: bytes where
  "PASSKEY_REDACTED = ''RFDBG_RADIO_U5_BLE_PERIPHERAL_PASSKEY_DISPLAY=[REDACTED]''"

definition BOOT_MARKER :: bytes where
  "BOOT_MARKER = ''boot.''"

definition U5_MARKER_PREFIX :: bytes where
  "U5_MARKER_PREFIX = ''RFDBG_RADIO_U5_BLE_''"

definition redact_passkeys :: "bytes \<Rightarrow> bytes" where
  "redact_passkeys data = re_sub PASSKEY_PATTERN PASSKEY_REDACTED data"

section \<open>The verdict on one reset\<close>

datatype pairing_mode = Passkey | Reject | Stale

fun mode_name :: "pairing_mode \<Rightarrow> string" where
  "mode_name Passkey = ''passkey''"
| "mode_name Reject = ''reject''"
| "mode_name Stale = ''stale''"

definition marker_contract :: "pairing_mode \<Rightarrow> bool \<Rightarrow> bool \<Rightarrow> bool \<Rightarrow> bytes list" where
  "marker_contract pairing_mode peripheral restored expect_removal =
     (if pairing_mode = Reject
      then (if peripheral then bond_PERIPHERAL_REJECT_MARKERS else bond_CENTRAL_REJECT_MARKERS)
      else if pairing_mode = Stale
      then (if peripheral then bond_PERIPHERAL_STALE_MARKERS else bond_CENTRAL_STALE_MARKERS)
      else if peripheral
      then (if restored \<and> expect_removal then bond_PERIPHERAL_REMOVAL_MARKERS
            else if restored then bond_PERIPHERAL_RESTORED_MARKERS else bond_PERIPHERAL_MARKERS)
      else if restored \<and> expect_removal then bond_CENTRAL_REMOVAL_MARKERS
      else if restored then bond_CENTRAL_RESTORED_MARKERS else bond_CENTRAL_MARKERS)"

definition generation_errors :: "string \<Rightarrow> bytes \<Rightarrow> string list" where
  "generation_errors role data =
     (let boot_count = bcount BOOT_MARKER data;
          boot_at = bfind BOOT_MARKER data 0;
          protocol_at = bfind U5_MARKER_PREFIX data 0
      in (if boot_count \<noteq> 1
          then [role @ '' boot marker count was '' @ digits_of boot_count @ '', expected 1'']
          else [])
       @ (case protocol_at of
            None \<Rightarrow> []
          | Some p \<Rightarrow>
              if (case boot_at of None \<Rightarrow> True | Some b \<Rightarrow> p < b)
              then [role @ '' contained a U5 marker before its boot marker''] else []))"

record bond_verdict = pair_verdict +
  startup1 :: "string list"
  startup2 :: "string list"
  role_mismatch :: bool
  restore_mismatch :: bool
  negative_requires_empty :: bool
  generation_failures :: "string list"
  restored_contract :: bool

definition bond_classify ::
    "pairing_mode \<Rightarrow> bool \<Rightarrow> bool \<Rightarrow> bytes \<Rightarrow> bytes \<Rightarrow> bond_verdict" where
  "bond_classify pairing_mode expect_removal require_single_generation peripheral central =
     (let generation_failures =
            (if require_single_generation
             then generation_errors ''peripheral'' peripheral @ generation_errors ''central'' central
             else []);
          peripheral_restored = occurs (bond_PERIPHERAL_STARTUP_MARKERS ! 1) peripheral;
          central_restored = occurs (bond_CENTRAL_STARTUP_MARKERS ! 1) central;
          peripheral_contract = marker_contract pairing_mode True peripheral_restored expect_removal;
          central_contract = marker_contract pairing_mode False central_restored expect_removal;
          peripheral_missing = missing_markers peripheral_contract peripheral;
          central_missing = missing_markers central_contract central;
          failures = failures_in bond_FAILURE_MARKERS peripheral central;
          peripheral_startup = present_markers bond_PERIPHERAL_STARTUP_MARKERS peripheral;
          central_startup = present_markers bond_CENTRAL_STARTUP_MARKERS central;
          role_mismatch =
            (list_ex (\<lambda>m. occurs m peripheral) bond_CENTRAL_STARTUP_MARKERS \<or>
             list_ex (\<lambda>m. occurs m central) bond_PERIPHERAL_STARTUP_MARKERS);
          startup_valid = (length peripheral_startup = 1 \<and> length central_startup = 1);
          restore_mismatch = (peripheral_restored \<noteq> central_restored);
          negative_requires_empty =
            (pairing_mode \<noteq> Passkey \<and> (peripheral_restored \<or> central_restored))
      in \<lparr>passed = (peripheral_missing = [] \<and> central_missing = [] \<and> failures = [] \<and>
            \<not> role_mismatch \<and> startup_valid \<and> \<not> restore_mismatch \<and> \<not> negative_requires_empty \<and>
            generation_failures = []),
          missing1 = peripheral_missing, missing2 = central_missing, failure_markers = failures,
          bytes1 = length peripheral, bytes2 = length central,
          startup1 = peripheral_startup, startup2 = central_startup,
          role_mismatch = role_mismatch, restore_mismatch = restore_mismatch,
          negative_requires_empty = negative_requires_empty,
          generation_failures = generation_failures,
          restored_contract = (peripheral_restored \<and> central_restored)\<rparr>)"

section \<open>Persistence across the resets\<close>

type_synonym bond_record = "bond_verdict run_record"

record persistence =
  proven :: bool
  errors :: "string list"

definition run_text :: "bond_record \<Rightarrow> string" where
  "run_text r = ''run '' @ digits_of (run_no r)"

definition not_passed_errors :: "bond_record list \<Rightarrow> string list" where
  "not_passed_errors recs =
     map (\<lambda>r. run_text r @ '' did not satisfy the per-run contract'')
       (filter (\<lambda>r. \<not> passed (verdict r)) recs)"

definition restored :: "bond_record \<Rightarrow> bool" where
  "restored r = restored_contract (verdict r)"

definition removal_errors :: "bond_record list \<Rightarrow> string list" where
  "removal_errors recs =
     concat (map (\<lambda>(previous, current).
         let expected_restored = (\<not> restored previous)
         in if restored current \<noteq> expected_restored
            then [run_text current @ '' was not ''
                  @ (if expected_restored then ''restored'' else ''empty'')
                  @ '' after '' @ run_text previous] else [])
       (zip recs (tl recs)))"

definition validate_persistence ::
    "pairing_mode \<Rightarrow> bool \<Rightarrow> bond_record list \<Rightarrow> persistence" where
  "validate_persistence pairing_mode expect_removal recs =
     (let errs =
        (if recs = [] then [''no reset records''] else not_passed_errors recs)
      @ (if recs \<noteq> [] \<and> pairing_mode \<noteq> Passkey then
           (if length recs < 2 then [''a negative pairing mode needs a subsequent reset''] else [])
         @ map (\<lambda>r. run_text r @ '' restored a bond in '' @ mode_name pairing_mode @ '' mode'')
             (filter restored recs)
         else if recs \<noteq> [] \<and> expect_removal then removal_errors recs
         else if recs \<noteq> [] \<and> \<not> restored (hd recs) then
           (if length recs < 2
            then [''a fresh pairing needs a subsequent reset to prove restore''] else [])
         @ map (\<lambda>r. run_text r @ '' returned to an empty bond after fresh pairing'')
             (filter (\<lambda>r. \<not> restored r) (tl recs))
         else if recs \<noteq> [] then
           map (\<lambda>r. run_text r @ '' lost a bond restored by the preceding reset'')
             (filter (\<lambda>r. \<not> restored r) (tl recs))
         else [])
      in \<lparr>proven = (errs = []), errors = errs\<rparr>)"

definition empty_capture_roles :: "bond_record \<Rightarrow> string list" where
  "empty_capture_roles r =
     (if bytes1 (verdict r) = 0 then [''peripheral''] else [])
   @ (if bytes2 (verdict r) = 0 then [''central''] else [])"

section \<open>The capture of one reset\<close>

record bond_env =
  hold :: hold_env           \<comment> \<open>its \<open>body_raises\<close> is the outcome of the body below\<close>
  body_pulse :: pulse_env
  body_from :: secs          \<comment> \<open>the clock when the settle deadline is computed\<close>
  relay_from :: secs         \<comment> \<open>the clock when the collect deadline is computed\<close>
  bond_ticks :: "tick list"
  bond_last1 :: bytes
  bond_last2 :: bytes

definition bond_complete :: "pairing_mode \<Rightarrow> bool \<Rightarrow> bytes \<Rightarrow> bytes \<Rightarrow> bool" where
  "bond_complete pairing_mode expect_removal peripheral_log central_log =
     (let bond_complete =
            (occurs ''RFDBG_RADIO_U5_BLE_PERIPHERAL_BOND_OK'' peripheral_log \<and>
             occurs ''RFDBG_RADIO_U5_BLE_CENTRAL_BOND_OK'' central_log);
          restored =
            (occurs (bond_PERIPHERAL_STARTUP_MARKERS ! 1) peripheral_log \<and>
             occurs (bond_CENTRAL_STARTUP_MARKERS ! 1) central_log);
          removal_complete =
            (occurs (last bond_PERIPHERAL_REMOVAL_MARKERS) peripheral_log \<and>
             occurs (last bond_CENTRAL_REMOVAL_MARKERS) central_log);
          negative_complete =
            (case pairing_mode of
               Reject \<Rightarrow> occurs (last bond_PERIPHERAL_REJECT_MARKERS) peripheral_log \<and>
                         occurs (last bond_CENTRAL_REJECT_MARKERS) central_log
             | Stale \<Rightarrow> occurs (last bond_PERIPHERAL_STALE_MARKERS) peripheral_log \<and>
                        occurs (last bond_CENTRAL_STALE_MARKERS) central_log
             | Passkey \<Rightarrow> False)
      in if pairing_mode = Passkey
         then (if expect_removal \<and> restored then removal_complete else bond_complete)
         else negative_complete)"

definition relay_passkey ::
    "pairing_mode \<Rightarrow> bool \<Rightarrow> pair_state \<Rightarrow> bool \<times> pair_state" where
  "relay_passkey pairing_mode passkey_relayed s =
     (if pairing_mode = Passkey \<and> \<not> passkey_relayed then
        (case re_search PASSKEY_PATTERN (log1 s) of
           None \<Rightarrow> (passkey_relayed, s)
         | Some groups \<Rightarrow>
             (True, s\<lparr>port2 :=
                serial_write (''U5PASS='' @ hd groups @ [CHR 10]) (port2 s)\<rparr>))
      else (passkey_relayed, s))"

fun bond_loop ::
    "pairing_mode \<Rightarrow> bool \<Rightarrow> secs \<Rightarrow> tick list \<Rightarrow> bool \<Rightarrow> secs option \<Rightarrow> pair_state
       \<Rightarrow> pair_state option" where
  "bond_loop pairing_mode expect_removal deadline [] relayed complete_at s = None"
| "bond_loop pairing_mode expect_removal deadline (t # ts) relayed complete_at s =
     (if now t < deadline then
        (let (relayed, s) = relay_passkey pairing_mode relayed (sweep t s);
             complete_at = mark (bond_complete pairing_mode expect_removal) t s complete_at
         in case complete_at of
              None \<Rightarrow> bond_loop pairing_mode expect_removal deadline ts relayed complete_at s
            | Some c \<Rightarrow>
                if check_at t - c \<ge> 1 then Some s
                else bond_loop pairing_mode expect_removal deadline ts relayed complete_at s)
      else Some (tick_arrive t s))"

definition redact_logs :: "pair_state \<Rightarrow> pair_state" where
  "redact_logs s = s\<lparr>log1 := redact_passkeys (log1 s), log2 := redact_passkeys (log2 s)\<rparr>"

text \<open>
  The central is held in reset while the peripheral is reset and settles.  The outcome of that
  block is what \<open>held_nrst\<close> gets as the outcome of its body; where the hold is not
  established the body does not run.
\<close>

definition bond_capture_run ::
    "pairing_mode \<Rightarrow> bool \<Rightarrow> string \<Rightarrow> string \<Rightarrow> secs \<Rightarrow> secs \<Rightarrow> bond_env \<Rightarrow> port \<Rightarrow> port
       \<Rightarrow> pair_state res option" where
  "bond_capture_run pairing_mode expect_removal peripheral_jlink central_jlink settle timeout env
       peripheral central =
     (let body = snd (pulse_nrst ''JLinkExe'' (Some peripheral_jlink) (body_pulse env));
          body_error = (case body of Inl e \<Rightarrow> Some e | Inr _ \<Rightarrow> None);
          (effects, held) =
            held_nrst ''JLinkExe'' (Some central_jlink) ((hold env)\<lparr>body_raises := body_error\<rparr>);
          loop = (if HeldBody \<in> set effects \<and> body_error = None
                  then settle_loop (body_from env + settle) (bond_ticks env)
                         (fresh_pair peripheral central)
                  else Some ([], fresh_pair peripheral central))
      in case loop of
           None \<Rightarrow> None
         | Some (rest, s) \<Rightarrow>
             (case held of
                Inl e \<Rightarrow> Some (Inl e)
              | Inr _ \<Rightarrow>
                  (case bond_loop pairing_mode expect_removal (relay_from env + timeout) rest
                          False None s of
                     None \<Rightarrow> None
                   | Some s \<Rightarrow>
                       Some (Inr (redact_logs (final_drain (bond_last1 env) (bond_last2 env) s))))))"

section \<open>The matrix\<close>

record bond_args = pair_args +
  mode_arg :: pairing_mode
  removal_arg :: bool
  elf1 :: string
  elf2 :: string

record bond_result =
  planned_runs :: int
  executed_runs :: nat
  aborted_early :: bool
  abort_reason :: "string option"
  bond_passed :: nat
  bond_failed :: nat
  contract_pass :: bool
  persistence_of :: persistence
  restored_runs1 :: nat
  restored_runs2 :: nat
  elf_sha1 :: string
  elf_sha2 :: string
  bond_records :: "bond_record list"
  bond_files :: "(string \<times> bytes) list"
  bond_status :: nat

fun bond_runs ::
    "bond_args \<Rightarrow> (nat \<Rightarrow> bond_env) \<Rightarrow> nat \<Rightarrow> nat \<Rightarrow> port \<Rightarrow> port
       \<Rightarrow> (bond_record list \<times> (string \<times> bytes) list \<times> string option) res option" where
  "bond_runs args env 0 run p q = Some (Inr ([], [], None))"
| "bond_runs args env (Suc left) run p q =
     (case bond_capture_run (mode_arg args) (removal_arg args) (jlink1 args) (jlink2 args)
             (settle_arg args) (timeout_arg args) (env run) p q of
        None \<Rightarrow> None
      | Some (Inl e) \<Rightarrow> Some (Inl e)
      | Some (Inr s) \<Rightarrow>
          (let name1 = run_log_name run ''peripheral'';
               name2 = run_log_name run ''central'';
               rec = \<lparr>verdict = bond_classify (mode_arg args) (removal_arg args) True
                                   (log1 s) (log2 s),
                      run_no = run, log_name1 = name1, log_name2 = name2\<rparr>;
               files = [(name1, log1 s), (name2, log2 s)]
           in if run = 1 \<and> empty_capture_roles rec \<noteq> []
              then Some (Inr ([rec], files,
                     Some (''first reset produced no UART evidence for: ''
                           @ join '', '' (empty_capture_roles rec))))
              else (case bond_runs args env left (Suc run) (port1 s) (port2 s) of
                      None \<Rightarrow> None
                    | Some (Inl e) \<Rightarrow> Some (Inl e)
                    | Some (Inr (recs, files', reason)) \<Rightarrow>
                        Some (Inr (rec # recs, files @ files', reason)))))"

definition bond_summary ::
    "bond_args \<Rightarrow> bond_record list \<Rightarrow> (string \<times> bytes) list \<Rightarrow> string option \<Rightarrow> string \<Rightarrow> string
       \<Rightarrow> bond_result" where
  "bond_summary args recs files reason sha1 sha2 =
     (let ok = length (filter (\<lambda>r. passed (verdict r)) recs);
          persistence = validate_persistence (mode_arg args) (removal_arg args) recs;
          executed = length recs;
          contract = (int executed = runs args \<and> int ok = runs args \<and> proven persistence \<and>
                      reason = None)
      in \<lparr>planned_runs = runs args, executed_runs = executed, aborted_early = (reason \<noteq> None),
          abort_reason = reason, bond_passed = ok, bond_failed = executed - ok,
          contract_pass = contract, persistence_of = persistence,
          restored_runs1 = length (filter (\<lambda>r.
            bond_PERIPHERAL_STARTUP_MARKERS ! 1 \<in> set (startup1 (verdict r))) recs),
          restored_runs2 = length (filter (\<lambda>r.
            bond_CENTRAL_STARTUP_MARKERS ! 1 \<in> set (startup2 (verdict r))) recs),
          elf_sha1 = sha1, elf_sha2 = sha2, bond_records = recs, bond_files = files,
          bond_status = (if contract then 0 else 1)\<rparr>)"

definition bond_main ::
    "bond_args \<Rightarrow> elf_files \<Rightarrow> elf_files \<Rightarrow> (nat \<Rightarrow> bond_env) \<Rightarrow> port \<Rightarrow> port
       \<Rightarrow> bond_result res option" where
  "bond_main args elf_before elf_after env peripheral central =
     (if runs args \<le> 0 \<or> settle_arg args \<le> 0 \<or> timeout_arg args \<le> 0
      then Some (Inl (SystemExit ''--runs, --peripheral-settle and --timeout must be positive''))
      else if removal_arg args \<and> mode_arg args \<noteq> Passkey
      then Some (Inl (SystemExit ''--expect-removal is only valid with --pairing-mode passkey''))
      else (case find (\<lambda>path. elf_before path = None) [elf1 args, elf2 args] of
        Some path \<Rightarrow> Some (Inl (SystemExit (''ELF not found: '' @ path)))
      | None \<Rightarrow>
          if output_exists args then Some (Inl (OSError ''FileExistsError''))
          else (case open_error args of
            Some e \<Rightarrow> Some (Inl e)
          | None \<Rightarrow>
              (case bond_runs args env (nat (runs args)) 1 peripheral central of
                 None \<Rightarrow> None
               | Some (Inl e) \<Rightarrow> Some (Inl e)
               | Some (Inr (recs, files, reason)) \<Rightarrow>
                   (case (elf_after (elf1 args), elf_after (elf2 args)) of
                      (Some c1, Some c2) \<Rightarrow>
                        Some (Inr (bond_summary args recs files reason (sha256 c1) (sha256 c2)))
                    | _ \<Rightarrow> Some (Inl (OSError ''FileNotFoundError'')))))))"

section \<open>Redaction\<close>

definition passkey_lead :: bytes where
  "passkey_lead = ''RFDBG_RADIO_U5_BLE_PERIPHERAL_PASSKEY_DISPLAY=''"

text \<open>A displayed passkey at the start of \<open>u\<close>.\<close>

definition shows_passkey :: "bytes \<Rightarrow> bool" where
  "shows_passkey u \<longleftrightarrow>
     (\<exists>ds v. u = passkey_lead @ ds @ v \<and> length ds = 6 \<and> list_all is_digit ds)"

lemma rmatch_passkey:
  "rmatch PASSKEY_PATTERN u = Some (g, t) \<longleftrightarrow>
     (\<exists>ds. u = passkey_lead @ ds @ t \<and> length ds = 6 \<and> list_all is_digit ds \<and> g = [ds])"
  unfolding PASSKEY_PATTERN_def passkey_lead_def by (rule rmatch_lit_group)

lemma rmatch_passkey_None: "rmatch PASSKEY_PATTERN u = None \<longleftrightarrow> \<not> shows_passkey u"
  by (cases "rmatch PASSKEY_PATTERN u") (auto simp: shows_passkey_def rmatch_passkey split_paired_all
      not_Some_eq [symmetric] simp del: not_Some_eq)

lemma re_first_passkey_None:
  "re_first PASSKEY_PATTERN s = None \<longleftrightarrow> (\<forall>k. \<not> shows_passkey (drop k s))"
proof
  show "\<forall>k. \<not> shows_passkey (drop k s)" if "re_first PASSKEY_PATTERN s = None"
    using re_first_None [OF that] by (simp add: rmatch_passkey_None)
  show "re_first PASSKEY_PATTERN s = None" if none: "\<forall>k. \<not> shows_passkey (drop k s)"
  proof (rule ccontr)
    assume "re_first PASSKEY_PATTERN s \<noteq> None"
    then obtain p g t where "re_first PASSKEY_PATTERN s = Some (p, g, t)" by auto
    from re_first_Some [OF this] obtain u where "s = p @ u" "rmatch PASSKEY_PATTERN u = Some (g, t)"
      by blast
    then have "shows_passkey (drop (length p) s)"
      using rmatch_passkey_None [of u] by simp
    with none show False by blast
  qed
qed

text \<open>The replacement text overlaps no displayed passkey.\<close>

lemma lead_no_border: "\<forall>j\<in>{1..<46}. \<not> prefix (drop j passkey_lead) passkey_lead"
  by code_simp

lemma redacted_no_overlap:
  "\<forall>k\<in>{1..<56}. \<not> prefix passkey_lead (drop k PASSKEY_REDACTED) \<and>
     \<not> prefix (drop k PASSKEY_REDACTED) passkey_lead"
  by code_simp

lemma lead_length [simp]: "length passkey_lead = 46"
  and redacted_length [simp]: "length PASSKEY_REDACTED = 56"
  and redacted_split: "PASSKEY_REDACTED = passkey_lead @ ''[REDACTED]''"
  by (simp_all add: passkey_lead_def PASSKEY_REDACTED_def)

lemma redacted_head: "PASSKEY_REDACTED = CHR ''R'' # tl PASSKEY_REDACTED"
  by (simp add: PASSKEY_REDACTED_def)

lemma shows_in_redacted: "\<forall>k. \<not> shows_passkey (drop k t) \<Longrightarrow> \<not> shows_passkey (drop k (PASSKEY_REDACTED @ t))"
proof
  assume none: "\<forall>k. \<not> shows_passkey (drop k t)" and "shows_passkey (drop k (PASSKEY_REDACTED @ t))"
  then obtain ds v where eq: "drop k (PASSKEY_REDACTED @ t) = passkey_lead @ ds @ v"
    and ds: "length ds = 6" "list_all is_digit ds" by (auto simp: shows_passkey_def)
  consider "k = 0" | "0 < k" "k < 56" | "56 \<le> k" by linarith
  then show False
  proof cases
    case 1
    with eq have "''[REDACTED]'' @ t = ds @ v" by (simp add: redacted_split)
    with ds show False by (cases ds) (auto simp: is_digit_def)
  next
    case 2
    from 2 eq have "drop k PASSKEY_REDACTED @ t = passkey_lead @ ds @ v" by simp
    then have "prefix (drop k PASSKEY_REDACTED) passkey_lead \<or>
        prefix passkey_lead (drop k PASSKEY_REDACTED)"
      by (metis prefixI prefix_same_cases)
    with redacted_no_overlap 2 show False by simp
  next
    case 3
    with eq ds have "shows_passkey (drop (k - 56) t)" by (auto simp: shows_passkey_def)
    with none show False by blast
  qed
qed

lemma shows_before_redacted:
  assumes "k < length p" and "shows_passkey (drop k (p @ PASSKEY_REDACTED @ t))"
  shows "shows_passkey (drop k (p @ u))"
proof -
  define q where "q = drop k p"
  from assms have "0 < length q" by (simp add: q_def)
  from assms obtain ds v where eq: "q @ PASSKEY_REDACTED @ t = passkey_lead @ ds @ v"
    and ds: "length ds = 6" "list_all is_digit ds" by (auto simp: shows_passkey_def q_def)
  consider "52 \<le> length q" | "46 \<le> length q" "length q < 52" | "length q < 46" by linarith
  then show ?thesis
  proof cases
    case 1
    from arg_cong [OF eq, of "take 52"] 1 ds have "take 52 q = passkey_lead @ ds" by simp
    then have "q @ u = passkey_lead @ ds @ (drop 52 q @ u)"
      by (metis append.assoc append_take_drop_id)
    with ds assms(1) show ?thesis by (auto simp: shows_passkey_def q_def)
  next
    case 2
    from arg_cong [OF eq, of "drop (length q)"] 2
    have "PASSKEY_REDACTED @ t = drop (length q - 46) ds @ v"
      using ds by simp
    moreover have "drop (length q - 46) ds \<noteq> []" using 2 ds by simp
    ultimately have "hd (drop (length q - 46) ds) = CHR ''R''"
      using redacted_head by (metis append_Cons hd_append2 list.sel(1))
    then have "CHR ''R'' \<in> set ds"
      using \<open>drop (length q - 46) ds \<noteq> []\<close> by (metis hd_in_set in_set_dropD)
    with ds(2) show ?thesis by (auto simp: list_all_iff is_digit_def)
  next
    case 3
    from arg_cong [OF eq, of "drop (length q)"] 3
    have "PASSKEY_REDACTED @ t = drop (length q) passkey_lead @ ds @ v" by simp
    then have "prefix (drop (length q) passkey_lead) (PASSKEY_REDACTED @ t)"
      by (metis prefixI)
    moreover have "prefix passkey_lead (PASSKEY_REDACTED @ t)"
      by (metis prefixI redacted_split append.assoc)
    ultimately have "prefix (drop (length q) passkey_lead) passkey_lead"
      by (rule prefix_length_prefix) simp
    with bspec [OF lead_no_border, of "length q"] \<open>0 < length q\<close> 3 show ?thesis by simp
  qed
qed

text \<open>Redaction leaves no displayed passkey, also none that the replacement would create.\<close>

lemma redact_none: "\<not> shows_passkey (drop k (redact_passkeys data))"
  unfolding redact_passkeys_def
proof (induction data arbitrary: k rule: length_induct)
  case (1 data)
  show ?case
  proof (cases "re_first PASSKEY_PATTERN data")
    case None
    then show ?thesis
      using re_first_passkey_None [of data] by (subst re_sub.simps) simp
  next
    case (Some m)
    obtain p g t where m: "re_first PASSKEY_PATTERN data = Some (p, g, t)"
      using Some by (cases m) auto
    from re_first_Some [OF m] obtain u where u: "data = p @ u"
      "rmatch PASSKEY_PATTERN u = Some (g, t)"
      and before: "\<forall>k<length p. rmatch PASSKEY_PATTERN (drop k data) = None" by blast
    then have less: "length t < length data" by (auto simp: rmatch_passkey)
    define out where "out = re_sub PASSKEY_PATTERN PASSKEY_REDACTED t"
    have eq: "re_sub PASSKEY_PATTERN PASSKEY_REDACTED data = p @ PASSKEY_REDACTED @ out"
      using m less by (simp add: re_sub.simps [of _ _ data] out_def)
    have out: "\<forall>k. \<not> shows_passkey (drop k out)" using "1.IH" less by (simp add: out_def)
    show ?thesis
    proof (cases "k < length p")
      case True
      with before u have "\<not> shows_passkey (drop k (p @ u))" by (simp add: rmatch_passkey_None)
      with shows_before_redacted [OF True] eq show ?thesis by metis
    next
      case False
      with shows_in_redacted [OF out, of "k - length p"] eq show ?thesis by simp
    qed
  qed
qed

section \<open>Persistence\<close>

lemma not_passed_errors_Nil: "not_passed_errors recs = [] \<longleftrightarrow> (\<forall>r\<in>set recs. passed (verdict r))"
  by (simp add: not_passed_errors_def filter_empty_conv)

lemma removal_errors_Nil:
  "removal_errors recs = [] \<longleftrightarrow>
     (\<forall>i. Suc i < length recs \<longrightarrow> restored (recs ! Suc i) = (\<not> restored (recs ! i)))"
proof -
  have "removal_errors recs = [] \<longleftrightarrow>
      (\<forall>(a, b)\<in>set (zip recs (tl recs)). restored b = (\<not> restored a))"
    by (auto simp: removal_errors_def Let_def split: if_splits)
  also have "\<dots> \<longleftrightarrow> (\<forall>i. Suc i < length recs \<longrightarrow> restored (recs ! Suc i) = (\<not> restored (recs ! i)))"
    by (simp add: all_set_conv_all_nth split_beta nth_tl less_diff_conv)
  finally show ?thesis .
qed

lemma alternating:
  "(\<forall>i. Suc i < n \<longrightarrow> f (Suc i) = (\<not> f i)) \<longleftrightarrow> (\<forall>i<n. f i = (f 0 = even i))"
proof (rule iffI; intro allI impI)
  fix i
  assume step: "\<forall>i. Suc i < n \<longrightarrow> f (Suc i) = (\<not> f i)" and "i < n"
  from \<open>i < n\<close> show "f i = (f 0 = even i)"
  proof (induction i)
    case 0
    then show ?case by simp
  next
    case (Suc i)
    with step have "f (Suc i) = (\<not> f i)" by blast
    with Suc show ?case by auto
  qed
next
  fix i
  assume "\<forall>i<n. f i = (f 0 = even i)" and "Suc i < n"
  then have "f (Suc i) = (f 0 = even (Suc i))" "f i = (f 0 = even i)" using Suc_lessD by blast+
  then show "f (Suc i) = (\<not> f i)" by (cases "f 0"; cases "even i") simp_all
qed

text \<open>
  C6: what \<open>validate_persistence\<close> accepts as proven, in each mode.  Every run must have passed, and:
  in the two negative modes there are at least two resets and none restores a bond; with
  \<open>--expect-removal\<close> restored and empty boots alternate from the first record on; otherwise
  every reset after the first restores the bond, and a matrix that starts from an empty bond
  has at least two resets.
\<close>

theorem validate_persistence_proven:
  "proven (validate_persistence mode removal recs) \<longleftrightarrow>
     recs \<noteq> [] \<and> (\<forall>r\<in>set recs. passed (verdict r)) \<and>
     (if mode \<noteq> Passkey then 2 \<le> length recs \<and> (\<forall>r\<in>set recs. \<not> restored r)
      else if removal then
        \<forall>i<length recs. restored (recs ! i) = (restored (recs ! 0) = even i)
      else (\<forall>r\<in>set (tl recs). restored r) \<and> (restored (hd recs) \<or> 2 \<le> length recs))"
proof (cases "recs = []")
  case True
  then show ?thesis by (simp add: validate_persistence_def Let_def)
next
  case False
  note alt = alternating [of "length recs" "\<lambda>i. restored (recs ! i)"]
  note persist = validate_persistence_def Let_def not_passed_errors_Nil removal_errors_Nil
    filter_empty_conv not_less
  consider "mode \<noteq> Passkey" | "mode = Passkey" "removal"
    | "mode = Passkey" "\<not> removal" "restored (hd recs)"
    | "mode = Passkey" "\<not> removal" "\<not> restored (hd recs)" by blast
  then show ?thesis
  proof cases
    case 2
    with False show ?thesis by (simp only: alt [symmetric]) (simp add: persist)
  qed (use False in \<open>simp_all add: persist\<close>, blast?)
qed

section \<open>The relayed passkey\<close>

definition relay_message :: "bytes \<Rightarrow> bytes" where
  "relay_message ds = ''U5PASS='' @ ds @ [CHR 10]"

lemma re_search_passkey:
  assumes "re_search PASSKEY_PATTERN s = Some g"
  shows "\<exists>ds. g = [ds] \<and> length ds = 6 \<and> list_all is_digit ds \<and> occurs (passkey_lead @ ds) s"
proof -
  obtain p t where "re_first PASSKEY_PATTERN s = Some (p, g, t)"
    using assms by (auto simp: re_search_def)
  from re_first_Some [OF this] obtain ds where "s = p @ passkey_lead @ ds @ t" "length ds = 6"
    "list_all is_digit ds" "g = [ds]"
    by (auto simp: rmatch_passkey)
  then show ?thesis
    by (metis append.assoc sublist_appendI)
qed

text \<open>What has been written to the central between the states \<open>s\<close> and \<open>s'\<close>.\<close>

definition relayed_between :: "pairing_mode \<Rightarrow> bool \<Rightarrow> pair_state \<Rightarrow> pair_state \<Rightarrow> bool" where
  "relayed_between mode relayed s s' \<longleftrightarrow>
     written (port1 s') = written (port1 s) \<and>
     (written (port2 s') = written (port2 s) \<or>
      \<not> relayed \<and> mode = Passkey \<and>
      (\<exists>ds. length ds = 6 \<and> list_all is_digit ds \<and> occurs (passkey_lead @ ds) (seen1 s') \<and>
         written (port2 s') = written (port2 s) @ relay_message ds))"

lemma relay_passkey_fields:
  assumes "relay_passkey mode relayed s = (relayed', s')"
  shows "log1 s' = log1 s" "log2 s' = log2 s" "seen1 s' = seen1 s" "seen2 s' = seen2 s"
    "relayed' = relayed \<and> s' = s \<or> \<not> relayed \<and> relayed' \<and> relayed_between mode relayed s s'"
proof -
  show "relayed' = relayed \<and> s' = s \<or> \<not> relayed \<and> relayed' \<and> relayed_between mode relayed s s'"
  proof (cases "mode = Passkey \<and> \<not> relayed")
    case True
    show ?thesis
    proof (cases "re_search PASSKEY_PATTERN (log1 s)")
      case (Some g)
      from re_search_passkey [OF Some] obtain ds where g: "g = [ds]" "length ds = 6"
        "list_all is_digit ds" "occurs (passkey_lead @ ds) (log1 s)" by blast
      have "s' = s\<lparr>port2 := serial_write (relay_message ds) (port2 s)\<rparr>" "relayed'"
        using assms True Some g(1) by (simp_all add: relay_passkey_def relay_message_def)
      with True g(2-4) show ?thesis
        by (auto simp: relayed_between_def seen1_def intro: occurs_append1)
    qed (use assms True in \<open>simp add: relay_passkey_def\<close>)
  qed (use assms in \<open>auto simp: relay_passkey_def\<close>)
qed (use assms in \<open>auto simp: relay_passkey_def seen1_def seen2_def split: if_splits option.splits\<close>)

lemma bond_loop_cases:
  assumes "bond_loop mode removal deadline (t # ts) relayed c s = Some s'"
  obtains
    (again) relayed' s1 c' where "now t < deadline"
      "relay_passkey mode relayed (sweep t s) = (relayed', s1)"
      "bond_loop mode removal deadline ts relayed' c' s1 = Some s'"
  | (held) relayed' where "now t < deadline" "relay_passkey mode relayed (sweep t s) = (relayed', s')"
  | (timeout) "deadline \<le> now t" "s' = tick_arrive t s"
proof (cases "now t < deadline")
  case True
  obtain relayed' s1 where r: "relay_passkey mode relayed (sweep t s) = (relayed', s1)" by fastforce
  show ?thesis
  proof (cases "bond_loop mode removal deadline ts relayed'
      (mark (bond_complete mode removal) t s1 c) s1 = Some s'")
    case True
    with r \<open>now t < deadline\<close> show ?thesis by (blast intro: again)
  next
    case False
    with r assms True have "s' = s1"
      by (auto simp: Let_def split: option.splits if_splits)
    with held [of relayed'] r True show ?thesis by simp
  qed
next
  case False
  with assms show ?thesis by (intro timeout) simp_all
qed

lemma relayed_between_refl: "written (port1 s') = written (port1 s) \<Longrightarrow>
    written (port2 s') = written (port2 s) \<Longrightarrow> relayed_between mode relayed s s'"
  by (simp add: relayed_between_def)

lemma relayed_between_trans:
  assumes "relayed' = relayed \<and> written (port2 s1) = written (port2 s) \<and>
        written (port1 s1) = written (port1 s) \<or>
      \<not> relayed \<and> relayed' \<and> relayed_between mode relayed s s1"
    and "relayed_between mode relayed' s1 s'" and "seen1 s' = seen1 s1 @ x"
  shows "relayed_between mode relayed s s'"
  using assms by (auto simp: relayed_between_def intro: occurs_append1)

lemma relay_after_sweep:
  assumes "relay_passkey mode relayed (sweep t s) = (relayed', s1)"
  shows "seen1 s1 = seen1 s @ rx1 t" "seen2 s1 = seen2 s @ rx2 t"
    "relayed' = relayed \<and> written (port2 s1) = written (port2 s) \<and>
        written (port1 s1) = written (port1 s) \<or>
      \<not> relayed \<and> relayed' \<and> relayed_between mode relayed s s1"
  using relay_passkey_fields [OF assms] by (auto simp: capture_simps relayed_between_def)

lemma bond_loop_effect:
  "bond_loop mode removal deadline ts relayed c s = Some s' \<Longrightarrow>
     \<exists>used rest. ts = used @ rest \<and> seen1 s' = seen1 s @ stream1 used \<and>
       seen2 s' = seen2 s @ stream2 used \<and> relayed_between mode relayed s s'"
proof (induction ts arbitrary: relayed c s)
  case Nil
  then show ?case by simp
next
  case (Cons t ts)
  from Cons.prems show ?case
  proof (cases rule: bond_loop_cases)
    case (again relayed' s1 c')
    note step = relay_after_sweep [OF again(2)]
    from Cons.IH [OF again(3)] obtain used rest where IH: "ts = used @ rest"
      "seen1 s' = seen1 s1 @ stream1 used" "seen2 s' = seen2 s1 @ stream2 used"
      "relayed_between mode relayed' s1 s'" by blast
    from relayed_between_trans [OF step(3) IH(4,2)] IH step(1,2) show ?thesis
      by (intro exI [of _ "t # used"] exI [of _ rest]) simp
  next
    case (held relayed')
    note step = relay_after_sweep [OF held(2)]
    from step have "relayed_between mode relayed s s'" by (auto simp: relayed_between_def)
    with step(1,2) show ?thesis by (intro exI [of _ "[t]"] exI [of _ ts]) simp
  next
    case timeout
    then show ?thesis
      by (intro exI [of _ "[t]"] exI [of _ ts]) (simp add: capture_simps relayed_between_refl)
  qed
qed

lemma bond_capture_run_steps:
  assumes "bond_capture_run mode removal pj cj settle timeout env peripheral central = Some (Inr s)"
  obtains rest s1 s2 where
    "settle_loop (body_from env + settle) (bond_ticks env) (fresh_pair peripheral central)
       = Some (rest, s1)"
    "bond_loop mode removal (relay_from env + timeout) rest False None s1 = Some s2"
    "s = redact_logs (final_drain (bond_last1 env) (bond_last2 env) s2)"
  using assms
  by (auto simp: bond_capture_run_def Let_def split: prod.splits option.splits sum.splits if_splits)

text \<open>
  C5: one reset of the bond matrix.  The logs are the redaction of exactly what the two boards
  sent; nothing is ever written to the peripheral; and to the central nothing is written except,
  in the passkey mode and at most once, a six-digit passkey that the peripheral displayed.
\<close>

theorem bond_capture_run_effect:
  assumes "bond_capture_run mode removal pj cj settle timeout env peripheral central = Some (Inr s)"
  shows "\<exists>used rest. bond_ticks env = used @ rest \<and>
    log1 s = redact_passkeys (concat (map rx1 used) @ bond_last1 env) \<and>
    log2 s = redact_passkeys (concat (map rx2 used) @ bond_last2 env) \<and>
    written (port1 s) = written peripheral \<and>
    (written (port2 s) = written central \<or>
     mode = Passkey \<and>
     (\<exists>ds. length ds = 6 \<and> list_all is_digit ds \<and>
        occurs (passkey_lead @ ds) (concat (map rx1 used)) \<and>
        written (port2 s) = written central @ ''U5PASS='' @ ds @ [CHR 10]))"
proof -
  from assms obtain rest s1 s2 where
    st: "settle_loop (body_from env + settle) (bond_ticks env) (fresh_pair peripheral central)
       = Some (rest, s1)"
    and lp: "bond_loop mode removal (relay_from env + timeout) rest False None s1 = Some s2"
    and s: "s = redact_logs (final_drain (bond_last1 env) (bond_last2 env) s2)"
    by (rule bond_capture_run_steps)
  from settle_loop_seen [OF st] obtain u1 where u1: "bond_ticks env = u1 @ rest"
    "seen1 s1 = stream1 u1" "seen2 s1 = stream2 u1" by (auto simp: capture_simps)
  from bond_loop_effect [OF lp] obtain u2 rest2 where u2: "rest = u2 @ rest2"
    "seen1 s2 = seen1 s1 @ stream1 u2" "seen2 s2 = seen2 s1 @ stream2 u2"
    and w: "relayed_between mode False s1 s2" by blast
  from settle_loop_written [OF st] have w1: "written (port1 s1) = written peripheral"
    "written (port2 s1) = written central" by (simp_all add: capture_simps)
  have logs: "log1 s = redact_passkeys (stream1 (u1 @ u2) @ bond_last1 env)"
    "log2 s = redact_passkeys (stream2 (u1 @ u2) @ bond_last2 env)"
    "written (port1 s) = written (port1 s2)" "written (port2 s) = written (port2 s2)"
    using u1 u2 s by (simp_all add: redact_logs_def capture_simps)
  show ?thesis
    using w w1 logs u1 u2
    by (intro exI [of _ "u1 @ u2"] exI [of _ rest2])
       (auto simp: relayed_between_def relay_message_def stream1_def stream2_def)
qed

text \<open>A hold that ends normally had been established and its body had returned.\<close>

lemma held_nrst_Inr:
  assumes "snd (held_nrst jlink serial env) = Inr u"
  shows "HeldBody \<in> set (fst (held_nrst jlink serial env)) \<and> body_raises env = None"
  using assms
  by (auto simp: held_nrst_def hold_body_def Let_def split: sum.splits option.splits prod.splits if_splits)

lemma bond_loop_ends:
  "\<exists>t\<in>set ts. deadline \<le> now t \<Longrightarrow> bond_loop mode removal deadline ts relayed c s \<noteq> None"
proof (induction ts arbitrary: relayed c s)
  case Nil
  then show ?case by simp
next
  case (Cons t ts)
  show ?case
  proof (cases "deadline \<le> now t")
    case True
    then show ?thesis by (simp add: Let_def)
  next
    case False
    with Cons.prems have "\<exists>t\<in>set ts. deadline \<le> now t" by auto
    then have "bond_loop mode removal deadline ts r' c' s' \<noteq> None" for r' c' s'
      by (rule Cons.IH)
    then show ?thesis by (simp add: Let_def split: option.split prod.split)
  qed
qed

definition bond_clock_passes :: "secs \<Rightarrow> secs \<Rightarrow> bond_env \<Rightarrow> bool" where
  "bond_clock_passes settle timeout env \<longleftrightarrow>
     (\<exists>t\<in>set (bond_ticks env). body_from env + settle \<le> now t) \<and>
     (\<exists>t\<in>set (tl (dropWhile (\<lambda>t. now t < body_from env + settle) (bond_ticks env))).
        relay_from env + timeout \<le> now t)"

lemma bond_capture_run_ends:
  assumes "bond_clock_passes settle timeout env"
  shows "bond_capture_run mode removal pj cj settle timeout env peripheral central \<noteq> None"
proof -
  note passes = assms [unfolded bond_clock_passes_def]
  have "settle_loop (body_from env + settle) (bond_ticks env) (fresh_pair peripheral central) \<noteq> None"
    by (rule settle_loop_ends) (rule conjunct1 [OF passes])
  then obtain rest s where st: "settle_loop (body_from env + settle) (bond_ticks env)
      (fresh_pair peripheral central) = Some (rest, s)" by auto
  have "bond_loop mode removal (relay_from env + timeout) rest False None s \<noteq> None"
    unfolding settle_loop_rest [OF st] by (rule bond_loop_ends) (rule conjunct2 [OF passes])
  moreover obtain effects held where h: "held_nrst ''JLinkExe'' (Some cj) ((hold env)\<lparr>body_raises :=
      case snd (pulse_nrst ''JLinkExe'' (Some pj) (body_pulse env)) of
        Inl e \<Rightarrow> Some e | Inr _ \<Rightarrow> None\<rparr>) = (effects, held)" by fastforce
  ultimately show ?thesis
    using st held_nrst_Inr [of "''JLinkExe''" "Some cj" "(hold env)\<lparr>body_raises :=
      case snd (pulse_nrst ''JLinkExe'' (Some pj) (body_pulse env)) of
        Inl e \<Rightarrow> Some e | Inr _ \<Rightarrow> None\<rparr>"]
    by (auto simp: bond_capture_run_def Let_def split: sum.splits option.splits)
qed

section \<open>The verdicts and the matrix\<close>

lemma generation_errors_Nil:
  "generation_errors role data = [] \<Longrightarrow>
     bcount BOOT_MARKER data = 1 \<and>
     (\<forall>k. prefix U5_MARKER_PREFIX (drop k data) \<longrightarrow> (\<exists>b\<le>k. prefix BOOT_MARKER (drop b data)))"
proof -
  assume none: "generation_errors role data = []"
  have "\<exists>b\<le>k. prefix BOOT_MARKER (drop b data)" if k: "prefix U5_MARKER_PREFIX (drop k data)" for k
  proof -
    have "bfind U5_MARKER_PREFIX data 0 \<noteq> None"
      unfolding bfind_occurs using k by (rule prefix_drop_occurs)
    then obtain pos b where "bfind U5_MARKER_PREFIX data 0 = Some pos"
      "bfind BOOT_MARKER data 0 = Some b" "b \<le> pos"
      using none by (auto simp: generation_errors_def Let_def split: if_splits option.splits)
    with bfind_least [OF _ k] bfind_Some [of BOOT_MARKER data 0 b] show ?thesis
      by (metis le_trans)
  qed
  with none show ?thesis by (auto simp: generation_errors_def Let_def split: if_splits)
qed

lemma bond_classify_passed:
  assumes "passed (bond_classify mode removal single a b)"
  shows "missing_markers (marker_contract mode True (occurs (bond_PERIPHERAL_STARTUP_MARKERS ! 1) a)
           removal) a = []"
    "missing_markers (marker_contract mode False (occurs (bond_CENTRAL_STARTUP_MARKERS ! 1) b)
           removal) b = []"
    "failures_in bond_FAILURE_MARKERS a b = []"
    "occurs (bond_PERIPHERAL_STARTUP_MARKERS ! 1) a \<longleftrightarrow> occurs (bond_CENTRAL_STARTUP_MARKERS ! 1) b"
    "length (present_markers bond_PERIPHERAL_STARTUP_MARKERS a) = 1"
    "length (present_markers bond_CENTRAL_STARTUP_MARKERS b) = 1"
    "single \<Longrightarrow> generation_errors ''peripheral'' a = [] \<and> generation_errors ''central'' b = []"
  using assms by (auto simp: bond_classify_def Let_def)

text \<open>
  a reset that the bond matrix passes shows a single firmware generation on both boards: each
  log has exactly one boot marker, and every U5 marker comes after a boot marker.  Both boards
  agree on whether the bond was restored, neither log has a failure marker, and each shows
  exactly one of its two startup markers.
\<close>

theorem bond_pass_single_generation:
  assumes "passed (bond_classify mode removal True a b)" and "data = a \<or> data = b"
  shows "bcount BOOT_MARKER data = 1 \<and>
    (\<forall>k. prefix U5_MARKER_PREFIX (drop k data) \<longrightarrow> (\<exists>j\<le>k. prefix BOOT_MARKER (drop j data))) \<and>
    (occurs (bond_PERIPHERAL_STARTUP_MARKERS ! 1) a \<longleftrightarrow> occurs (bond_CENTRAL_STARTUP_MARKERS ! 1) b) \<and>
    length (present_markers bond_PERIPHERAL_STARTUP_MARKERS a) = 1 \<and>
    length (present_markers bond_CENTRAL_STARTUP_MARKERS b) = 1 \<and>
    (\<forall>m\<in>set bond_FAILURE_MARKERS. \<not> occurs m data)"
proof -
  note ok = bond_classify_passed [OF assms(1)]
  have "bcount BOOT_MARKER data = 1 \<and>
    (\<forall>k. prefix U5_MARKER_PREFIX (drop k data) \<longrightarrow> (\<exists>j\<le>k. prefix BOOT_MARKER (drop j data)))"
    using ok(7) assms(2) generation_errors_Nil by blast
  moreover have "\<forall>m\<in>set bond_FAILURE_MARKERS. \<not> occurs m data"
    using ok(3) assms(2) by (auto simp: failures_in_Nil)
  ultimately show ?thesis using ok(4-6) by blast
qed

lemma bond_runs_facts:
  "bond_runs args env n run p q = Some (Inr (recs, files, reason)) \<Longrightarrow>
     (\<forall>(name, log)\<in>set files. \<exists>raw. log = redact_passkeys raw) \<and>
     map run_no recs = [run..<run + length recs] \<and> length recs \<le> n \<and>
     (reason = None \<longrightarrow> length recs = n) \<and>
     (\<forall>r\<in>set recs. \<exists>a b. (log_name1 r, a) \<in> set files \<and> (log_name2 r, b) \<in> set files \<and>
        verdict r = bond_classify (mode_arg args) (removal_arg args) True a b)"
proof (induction n arbitrary: run p q recs files reason)
  case 0
  then show ?case by simp
next
  case (Suc n)
  let ?cap = "bond_capture_run (mode_arg args) (removal_arg args) (jlink1 args) (jlink2 args)
    (settle_arg args) (timeout_arg args) (env run) p q"
  from Suc.prems obtain s where s: "?cap = Some (Inr s)"
    by (auto split: option.splits sum.splits)
  define rec where "rec = \<lparr>verdict = bond_classify (mode_arg args) (removal_arg args) True
      (log1 s) (log2 s), run_no = run, log_name1 = run_log_name run ''peripheral'',
      log_name2 = run_log_name run ''central''\<rparr>"
  let ?files = "[(run_log_name run ''peripheral'', log1 s), (run_log_name run ''central'', log2 s)]"
  have step: "bond_runs args env (Suc n) run p q =
      (if run = 1 \<and> empty_capture_roles rec \<noteq> []
       then Some (Inr ([rec], ?files, Some (''first reset produced no UART evidence for: ''
              @ join '', '' (empty_capture_roles rec))))
       else (case bond_runs args env n (Suc run) (port1 s) (port2 s) of
               None \<Rightarrow> None
             | Some (Inl e) \<Rightarrow> Some (Inl e)
             | Some (Inr (recs, files', reason)) \<Rightarrow>
                 Some (Inr (rec # recs, ?files @ files', reason))))"
    using s by (simp only: bond_runs.simps Let_def rec_def option.case sum.case)
  have red: "\<exists>raw. log1 s = redact_passkeys raw" "\<exists>raw. log2 s = redact_passkeys raw"
    using bond_capture_run_effect [OF s] by blast+
  show ?case
  proof (cases "run = 1 \<and> empty_capture_roles rec \<noteq> []")
    case True
    with Suc.prems have "recs = [rec]" "files = ?files" "reason \<noteq> None"
      unfolding step by auto
    with red show ?thesis by (auto simp: rec_def)
  next
    case False
    with Suc.prems obtain recs' files' where
      rest: "bond_runs args env n (Suc run) (port1 s) (port2 s) = Some (Inr (recs', files', reason))"
      and eq: "recs = rec # recs'" "files = ?files @ files'"
      unfolding step if_not_P [OF False] by (auto split: option.splits sum.splits)
    from Suc.IH [OF rest] red show ?thesis
      unfolding eq by (auto simp: rec_def upt_rec simp del: upt_Suc) blast+
  qed
qed

text \<open>
  C4: no log file that a bond matrix saves contains a displayed passkey, in whatever way the
  bytes of the boards were split into reads and whatever the text around it: the marker
  followed by six digits occurs in none of them.
\<close>

theorem bond_main_saves_no_passkey:
  assumes "bond_main args before after env peripheral central = Some (Inr m)"
    and "(name, saved) \<in> set (bond_files m)"
    and "length ds = 6" and "list_all is_digit ds"
  shows "\<not> occurs (''RFDBG_RADIO_U5_BLE_PERIPHERAL_PASSKEY_DISPLAY='' @ ds) saved"
proof
  assume shown: "occurs (''RFDBG_RADIO_U5_BLE_PERIPHERAL_PASSKEY_DISPLAY='' @ ds) saved"
  obtain recs files reason where
    runs: "bond_runs args env (nat (runs args)) 1 peripheral central = Some (Inr (recs, files, reason))"
    and m: "bond_files m = files"
    using assms(1)
    by (auto simp: bond_main_def bond_summary_def Let_def split: if_splits option.splits sum.splits)
  from bond_runs_facts [OF runs] assms(2) m obtain raw where raw: "saved = redact_passkeys raw"
    by auto
  from shown obtain xs ys where "saved = xs @ passkey_lead @ ds @ ys"
    by (auto simp: sublist_def passkey_lead_def)
  then have "shows_passkey (drop (length xs) (redact_passkeys raw))"
    using raw assms(3,4) by (auto simp: shows_passkey_def)
  then show False by (simp add: redact_none)
qed

text \<open>
  C7: exit status 0 of the bond matrix.  All planned runs were executed in order without an early
  abort, every one passed, its verdict is the one of the two logs saved for it, and the
  sequence of runs satisfies the persistence contract of the mode.  Conversely such a matrix
  exits with 0.
\<close>

theorem bond_main_exit_status:
  assumes "bond_main args before after env peripheral central = Some (Inr m)"
  shows "(bond_status m = 0 \<longleftrightarrow>
      map run_no (bond_records m) = [1..<1 + nat (runs args)] \<and> abort_reason m = None \<and>
      (\<forall>r\<in>set (bond_records m). passed (verdict r)) \<and>
      proven (validate_persistence (mode_arg args) (removal_arg args) (bond_records m))) \<and>
    (\<forall>r\<in>set (bond_records m). \<exists>a b.
       (log_name1 r, a) \<in> set (bond_files m) \<and> (log_name2 r, b) \<in> set (bond_files m) \<and>
       verdict r = bond_classify (mode_arg args) (removal_arg args) True a b)"
proof -
  obtain recs files reason sha1 sha2 where
    runs: "bond_runs args env (nat (runs args)) 1 peripheral central = Some (Inr (recs, files, reason))"
    and m: "m = bond_summary args recs files reason sha1 sha2" and pos: "0 < runs args"
    using assms by (auto simp: bond_main_def split: if_splits option.splits sum.splits)
  note facts = bond_runs_facts [OF runs]
  have len: "map run_no recs = [1..<1 + nat (runs args)] \<longleftrightarrow> int (length recs) = runs args"
  proof
    assume "map run_no recs = [1..<1 + nat (runs args)]"
    then have "length (map run_no recs) = nat (runs args)" by simp
    with pos show "int (length recs) = runs args" by simp
  next
    assume "int (length recs) = runs args"
    then have "length recs = nat (runs args)" by simp
    with facts show "map run_no recs = [1..<1 + nat (runs args)]" by simp
  qed
  have "bond_status m = 0 \<longleftrightarrow> int (length recs) = runs args \<and>
      int (length (filter (\<lambda>r. passed (verdict r)) recs)) = runs args \<and>
      proven (validate_persistence (mode_arg args) (removal_arg args) recs) \<and> reason = None"
    by (simp add: m bond_summary_def Let_def)
  moreover have "bond_records m = recs" "bond_files m = files" "abort_reason m = reason"
    by (simp_all add: m bond_summary_def Let_def)
  ultimately show ?thesis
    using facts len length_filter_eq_length [of "\<lambda>r. passed (verdict r)" recs] by auto
qed

text \<open>
  A bond matrix ends: if in every run the clock passes the settle deadline and then the
  collect deadline, \<open>main\<close> returns or raises, however the J-Link processes fare.
\<close>

theorem bond_main_ends:
  assumes "\<And>i. bond_clock_passes (settle_arg args) (timeout_arg args) (env i)"
  shows "bond_main args before after env peripheral central \<noteq> None"
proof -
  have "bond_runs args env n run p q \<noteq> None" for n run p q
  proof (induction n arbitrary: run p q)
    case 0
    then show ?case by simp
  next
    case (Suc n)
    have "bond_capture_run (mode_arg args) (removal_arg args) (jlink1 args) (jlink2 args)
        (settle_arg args) (timeout_arg args) (env run) p q \<noteq> None"
      by (rule bond_capture_run_ends) (rule assms)
    with Suc.IH show ?case
      by (auto simp: Let_def simp del: not_None_eq split: option.split sum.split prod.split)
  qed
  then show ?thesis
    by (auto simp: bond_main_def Let_def simp del: not_None_eq
        split: option.splits sum.splits prod.splits)
qed

section \<open>Witnesses\<close>

definition bond_demo_hold :: hold_env where
  "bond_demo_hold =
     \<lparr>spawn_error = None, stdin_broken = False, poll_hold = None, body_raises = None,
      poll_exit = None, release_result = Released, reaped = True, recovery = quiet_pulse\<rparr>"

definition bond_demo_env :: "bytes \<Rightarrow> bytes \<Rightarrow> bond_env" where
  "bond_demo_env a b =
     \<lparr>hold = bond_demo_hold, body_pulse = quiet_pulse, body_from = 0, relay_from = 3,
      bond_ticks = [\<lparr>now = 0, rx1 = a, rx2 = b, mark_at = 0, check_at = 0\<rparr>, quiet_tick 3,
                    quiet_tick 3, quiet_tick 33],
      bond_last1 = [], bond_last2 = []\<rparr>"

definition bond_demo_args :: bond_args where
  "bond_demo_args =
     \<lparr>runs = 2, settle_arg = 3, timeout_arg = 30, jlink1 = ''123'', jlink2 = ''456'',
      output_exists = False, open_error = None, mode_arg = Passkey, removal_arg = False,
      elf1 = ''p.elf'', elf2 = ''c.elf''\<rparr>"

definition bond_demo_passkey :: bytes where
  "bond_demo_passkey = passkey_lead @ ''123456''"

definition bond_demo_run :: "port \<Rightarrow> port \<Rightarrow> pair_state res option" where
  "bond_demo_run p q = bond_capture_run Passkey False ''123'' ''456'' 3 30
     (bond_demo_env bond_demo_passkey ''x'') p q"

lemma bond_demo_run_value:
  "bond_demo_run demo_port demo_port =
     Some (Inr \<lparr>log1 = PASSKEY_REDACTED, log2 = ''x'',
                port1 = \<lparr>rxbuf = [], written = []\<rparr>,
                port2 = \<lparr>rxbuf = [], written = ''U5PASS=123456'' @ [CHR 10]\<rparr>\<rparr>)"
  by code_simp

lemma bond_capture_run_effect_witness:
  "\<exists>s. bond_demo_run demo_port demo_port = Some (Inr s) \<and>
     written (port2 s) = ''U5PASS=123456'' @ [CHR 10] \<and>
     (\<exists>ds. length ds = 6 \<and> list_all is_digit ds \<and>
        written (port2 s) = written demo_port @ ''U5PASS='' @ ds @ [CHR 10])"
proof -
  note run = bond_demo_run_value
  from bond_capture_run_effect [OF run [unfolded bond_demo_run_def]] run show ?thesis
    by (auto simp: demo_port_def)
qed

lemma bond_main_ends_witness:
  "bond_main bond_demo_args (\<lambda>_. Some []) (\<lambda>_. Some []) (\<lambda>_. bond_demo_env [] [])
     demo_port demo_port \<noteq> None"
  by (rule bond_main_ends)
     (simp add: bond_clock_passes_def bond_demo_env_def bond_demo_args_def quiet_tick_def)

definition bond_demo_main :: "bond_result res option" where
  "bond_demo_main = bond_main bond_demo_args (\<lambda>_. Some []) (\<lambda>_. Some [])
     (\<lambda>_. bond_demo_env bond_demo_passkey ''x'') demo_port demo_port"

lemma bond_demo_runs_value:
  "\<exists>recs. bond_runs bond_demo_args (\<lambda>_. bond_demo_env bond_demo_passkey ''x'') 2 1
       demo_port demo_port =
     Some (Inr (recs, [(''run-01.peripheral.uart.log'', PASSKEY_REDACTED),
                       (''run-01.central.uart.log'', ''x''),
                       (''run-02.peripheral.uart.log'', PASSKEY_REDACTED),
                       (''run-02.central.uart.log'', ''x'')], None))"
proof -
  have "map_option (map_sum id (\<lambda>(recs, files, reason). (files, reason)))
      (bond_runs bond_demo_args (\<lambda>_. bond_demo_env bond_demo_passkey ''x'') 2 1 demo_port demo_port) =
    Some (Inr ([(''run-01.peripheral.uart.log'', PASSKEY_REDACTED),
                       (''run-01.central.uart.log'', ''x''),
                       (''run-02.peripheral.uart.log'', PASSKEY_REDACTED),
                       (''run-02.central.uart.log'', ''x'')], None))"
    by code_simp
  then obtain z where z: "bond_runs bond_demo_args (\<lambda>_. bond_demo_env bond_demo_passkey ''x'') 2 1
      demo_port demo_port = Some z"
    and "map_sum id (\<lambda>(recs, files, reason). (files, reason)) z =
      Inr ([(''run-01.peripheral.uart.log'', PASSKEY_REDACTED),
            (''run-01.central.uart.log'', ''x''),
            (''run-02.peripheral.uart.log'', PASSKEY_REDACTED),
            (''run-02.central.uart.log'', ''x'')], None)"
    by auto
  then show ?thesis by (cases z) auto
qed

lemma bond_demo_main_value:
  "\<exists>m. bond_demo_main = Some (Inr m) \<and>
     (''run-01.peripheral.uart.log'', PASSKEY_REDACTED) \<in> set (bond_files m) \<and> runs bond_demo_args = 2"
  using bond_demo_runs_value
  by (auto simp: bond_demo_main_def bond_main_def bond_summary_def Let_def bond_demo_args_def)

lemma bond_main_saves_no_passkey_witness:
  "\<exists>m. bond_demo_main = Some (Inr m) \<and>
     (''run-01.peripheral.uart.log'', PASSKEY_REDACTED) \<in> set (bond_files m) \<and>
     \<not> occurs (''RFDBG_RADIO_U5_BLE_PERIPHERAL_PASSKEY_DISPLAY='' @ ''123456'') PASSKEY_REDACTED"
proof -
  obtain m where m: "bond_demo_main = Some (Inr m)"
    "(''run-01.peripheral.uart.log'', PASSKEY_REDACTED) \<in> set (bond_files m)"
    using bond_demo_main_value by blast
  from bond_main_saves_no_passkey [OF m(1) [unfolded bond_demo_main_def] m(2), of "''123456''"] m
  show ?thesis by (auto simp: is_digit_def)
qed

lemma bond_main_exit_status_witness:
  "\<exists>m. bond_demo_main = Some (Inr m) \<and>
     (bond_status m = 0 \<longrightarrow> (\<forall>r\<in>set (bond_records m). passed (verdict r)))"
proof -
  obtain m where m: "bond_demo_main = Some (Inr m)" using bond_demo_main_value by blast
  from bond_main_exit_status [OF m [unfolded bond_demo_main_def]] m show ?thesis by auto
qed

definition bond_demo_log1 :: bytes where
  "bond_demo_log1 = ''boot.'' @ transcript
     (bond_PERIPHERAL_RESTORED_MARKERS @ [''RFDBG_RADIO_U5_BLE_PERIPHERAL_BOND_RESTORED''])"

definition bond_demo_log2 :: bytes where
  "bond_demo_log2 = ''boot.'' @ transcript
     (bond_CENTRAL_RESTORED_MARKERS @ [''RFDBG_RADIO_U5_BLE_CENTRAL_BOND_RESTORED''])"

text \<open>Every failure marker contains one of four short words.\<close>

lemma bond_failure_words:
  "\<forall>m\<in>set bond_FAILURE_MARKERS.
     occurs ''ERR'' m \<or> occurs ''DROP'' m \<or> occurs ''REQUIRES'' m \<or> occurs ''panicked'' m"
  by code_simp

lemma no_bond_failures:
  assumes "\<not> occurs ''ERR'' data" "\<not> occurs ''DROP'' data" "\<not> occurs ''REQUIRES'' data"
    "\<not> occurs ''panicked'' data" and "m \<in> set bond_FAILURE_MARKERS"
  shows "\<not> occurs m data"
  using assms bond_failure_words by (meson sublist_order.order.trans)

lemma bond_demo_words:
  "\<not> occurs ''ERR'' bond_demo_log1" "\<not> occurs ''DROP'' bond_demo_log1"
  "\<not> occurs ''REQUIRES'' bond_demo_log1" "\<not> occurs ''panicked'' bond_demo_log1"
  "\<not> occurs ''ERR'' bond_demo_log2" "\<not> occurs ''DROP'' bond_demo_log2"
  "\<not> occurs ''REQUIRES'' bond_demo_log2" "\<not> occurs ''panicked'' bond_demo_log2"
  by code_simp+

lemma bond_demo_parts:
  "generation_errors ''peripheral'' bond_demo_log1 = []"
  "generation_errors ''central'' bond_demo_log2 = []"
  "present_markers bond_PERIPHERAL_STARTUP_MARKERS bond_demo_log1
     = [bond_PERIPHERAL_STARTUP_MARKERS ! 1]"
  "present_markers bond_CENTRAL_STARTUP_MARKERS bond_demo_log2
     = [bond_CENTRAL_STARTUP_MARKERS ! 1]"
  "present_markers bond_PERIPHERAL_STARTUP_MARKERS bond_demo_log2 = []"
  "present_markers bond_CENTRAL_STARTUP_MARKERS bond_demo_log1 = []"
  by code_simp+

lemma bond_demo_restored:
  "occurs (bond_PERIPHERAL_STARTUP_MARKERS ! 1) bond_demo_log1"
  "occurs (bond_CENTRAL_STARTUP_MARKERS ! 1) bond_demo_log2"
  using bond_demo_parts(3,4) in_present_markers by (metis list.set_intros(1))+

lemma bond_demo_missing:
  "missing_markers bond_PERIPHERAL_RESTORED_MARKERS bond_demo_log1 = []"
  "missing_markers bond_CENTRAL_RESTORED_MARKERS bond_demo_log2 = []"
  unfolding missing_markers_Nil bond_demo_log1_def bond_demo_log2_def
  by (intro ballI occurs_append2 occurs_transcript; simp)+

lemma bond_demo_passes: "passed (bond_classify Passkey False True bond_demo_log1 bond_demo_log2)"
proof -
  have "failures_in bond_FAILURE_MARKERS bond_demo_log1 bond_demo_log2 = []"
    using no_bond_failures bond_demo_words by (auto simp: failures_in_Nil)
  with bond_demo_parts bond_demo_restored bond_demo_missing show ?thesis
    by (simp add: bond_classify_def Let_def marker_contract_def present_markers_Nil)
qed

lemma bond_pass_single_generation_witness:
  "passed (bond_classify Passkey False True bond_demo_log1 bond_demo_log2) \<and>
     bcount BOOT_MARKER bond_demo_log1 = 1"
  using bond_pass_single_generation [OF bond_demo_passes, of bond_demo_log1] bond_demo_passes
  by blast

definition bond_demo_record :: "nat \<Rightarrow> bool \<Rightarrow> bond_record" where
  "bond_demo_record n was_restored =
     \<lparr>verdict = \<lparr>passed = True, missing1 = [], missing2 = [], failure_markers = [], bytes1 = 9,
        bytes2 = 9, startup1 = [], startup2 = [], role_mismatch = False, restore_mismatch = False,
        negative_requires_empty = False, generation_failures = [],
        restored_contract = was_restored\<rparr>,
      run_no = n, log_name1 = [], log_name2 = []\<rparr>"

lemma validate_persistence_proven_witness:
  "proven (validate_persistence Passkey True
     [bond_demo_record 1 False, bond_demo_record 2 True, bond_demo_record 3 False]) \<and>
   \<not> proven (validate_persistence Passkey False
     [bond_demo_record 1 False, bond_demo_record 2 True, bond_demo_record 3 False]) \<and>
   proven (validate_persistence Reject False [bond_demo_record 1 False, bond_demo_record 2 False]) \<and>
   proven (validate_persistence Passkey True [bond_demo_record 1 False])"
  unfolding validate_persistence_proven
  by (simp add: bond_demo_record_def restored_def less_Suc_eq numeral_3_eq_3)

end
