(* ===== verification/Conn_Parse.thy ===== *)
theory Conn_Parse
  imports Py_Text Py_Sha256
begin

text \<open>
  \<open>hil/ws63-connectivity-reset-matrix.py\<close>, first part: the marker tables and the functions
  that read counters and snapshots from a UART log.
\<close>

section \<open>Tables\<close>

text \<open>The choices of \<open>--profile\<close> and \<open>--stage\<close>.\<close>

datatype profile = Rust | Official_liteos

datatype stage = Init_scan | Connect | Connectivity

definition RUST_TERMINAL_MARKERS :: "bytes list" where
  "RUST_TERMINAL_MARKERS =
     [''RF5C_CONNECTIVITY_SUMMARY'', ''RFDBG_A5B_CONNECT_PROFILE_OK'',
      ''RFDBG_A5B_CONNECT_ERR'', ''RFDBG_A5B_SCAN_ERR'', ''RF5B_WPA_CONNECT_ERR:'',
      ''RF5B_CONNECT_ERR:'', ''W2D_WPA2_CONNECT_ERR'', ''W2E_WPA3_CONNECT_ERR'',
      ''A4_NET_ERR'', ''RF5B_AP_NOT_FOUND'', ''RF3_SCAN_ERR'', ''RF2_INIT_ERR:'',
      ''RFDBG_EXCEPTION'']"

definition RUST_TIMED_MARKERS :: "bytes list" where
  "RUST_TIMED_MARKERS =
     [''RFDBG_A5B_SCAN_OK'', ''RFDBG_A5B_CONNECT_OK'', ''RFDBG_A5B_CONNECT_PROFILE_OK'',
      ''RF1_IMAGE_OK'', ''RF2_INIT_OK'', ''RF3_SCAN_OK'', ''RF5B_CONNECT_BEGIN'',
      ''RF5B_WPA_CONNECT_OK'', ''W2D_WPA2_CONNECT_OK'', ''W2E_WPA3_CONNECT_OK'',
      ''RF5A_DHCP_OK'', ''RF5A_ARP_OK'', ''RF5C_PUBLIC_DNS_BEGIN'', ''RF5C_PUBLIC_DNS_OK'',
      ''RF5C_PUBLIC_DNS_SKIP'', ''RF5C_CONNECTIVITY_SUMMARY'']"

definition AUTH_RSP2_TIMEOUT_EVENT :: bytes where
  "AUTH_RSP2_TIMEOUT_EVENT = ''file=0x00000013 line=0x0000044f''"

definition OFFICIAL_AUTH_RSP2_TIMEOUT_EVENT :: bytes where
  "OFFICIAL_AUTH_RSP2_TIMEOUT_EVENT = ''wifi:auth fail[5201]''"

definition OFFICIAL_TERMINAL_MARKERS :: "bytes list" where
  "OFFICIAL_TERMINAL_MARKERS =
     [''APP|[WIFI_STA_SAMPLE]::STA DHCP success.'']"

definition OFFICIAL_TIMED_MARKERS :: "bytes list" where
  "OFFICIAL_TIMED_MARKERS =
     [''APP|[WIFI_STA_SAMPLE]::wifi init succ.'', ''APP|[WIFI_STA_SAMPLE]::Scan start!'',
      ''APP|[WIFI_STA_SAMPLE]::Scan done!.'', ''APP|[WIFI_STA_SAMPLE]::Connect start.'',
      ''wifi:rx auth seq 2 alg 0 code 0'', ''+NOTICE:CONNECTED'',
      ''APP|[WIFI_STA_SAMPLE]::STA DHCP success.'']"

definition A5B_METRIC_MARKERS :: "(string \<times> bytes \<times> string list) list" where
  "A5B_METRIC_MARKERS =
     [(''event_queue'', ''RFDBG_A5B_EVENT '',
       [''pending'', ''high_water'', ''dropped'']),
      (''control_queue'', ''RFDBG_A5B_CONTROL '',
       [''pending'', ''high_water'']),
      (''runner'', ''RFDBG_A5B_RUNNER run='',
       [''run'', ''waits'', ''wake'', ''immediate'', ''operations'', ''completed'', ''pending'', ''exhausted'', ''errors'']),
      (''wait'', ''RFDBG_A5B_WAIT '',
       [''backend'', ''l2'', ''waker'', ''polls'', ''pending'', ''ready'', ''timer'']),
      (''blocking'', ''RFDBG_A5B_BLOCKING '',
       [''init_calls'', ''init_max_ms'', ''scan_calls'', ''poll_calls'', ''internal_sleep'', ''supplicant_poll''])]"

definition ARTIFACT_IDENTITY_SCHEMA :: string where
  "ARTIFACT_IDENTITY_SCHEMA = ''hisi-connectivity-artifact/v1''"

definition MARKER_CONTRACT :: string where
  "MARKER_CONTRACT = ''ws63-connectivity-markers/v3''"

definition RUST_FATAL_MARKERS :: "bytes list" where
  "RUST_FATAL_MARKERS =
     [''A4_NET_ERR'', ''RF2_INIT_ERR:'', ''RF3_SCAN_ERR'', ''RF5B_AP_NOT_FOUND'',
      ''RF5B_CONNECT_ERR:'', ''RF5B_WPA_CONNECT_ERR:'', ''W2D_WPA2_CONNECT_ERR'',
      ''W2E_WPA3_CONNECT_ERR'', ''RFDBG_A5B_SCAN_ERR'', ''RFDBG_A5B_CONNECT_ERR'',
      ''RFDBG_A5B_RUNNER_ERR'', ''RFDBG_A5B_WAIT_ERR'', ''RF5C_PUBLIC_DNS_ERR'',
      ''RFDBG_EXCEPTION'', ''panicked at'', ''scheduler contract violation'',
      ''BUDGET_VIOLATION'']"

definition QEMU_CONTRACT_FIXTURE_MARKER :: bytes where
  "QEMU_CONTRACT_FIXTURE_MARKER = ''RFDBG_CONNECTIVITY_CONTRACT_FIXTURE''"

definition PUBLIC_DNS_TARGETS :: "string list" where
  "PUBLIC_DNS_TARGETS =
     [''223.5.5.5'', ''180.76.76.76'']"

definition L2_PROTOCOL_FIELDS :: "string list" where
  "L2_PROTOCOL_FIELDS =
     [''rx_arp_req'', ''rx_arp_reply'', ''rx_ipv4'', ''rx_other'', ''tx_arp_req'',
      ''tx_arp_reply'', ''tx_ipv4'', ''tx_other'']"

definition IRQ45_LIFECYCLE_FIELDS :: "string list" where
  "IRQ45_LIFECYCLE_FIELDS =
     [''irq45_en_calls'', ''irq45_dis_calls'', ''irq45_clr_calls'', ''irq45'',
      ''irq45_enabled'', ''irq45_pending'']"

definition READY_OWNERSHIP_FIELDS :: "string list" where
  "READY_OWNERSHIP_FIELDS =
     [''ready_owner_err'', ''ready_dup'', ''ready_wrong_bucket'', ''ready_bad_link'']"

text \<open>\<open>RUST_STAGE_MARKERS.get(stage)\<close>\<close>

fun RUST_STAGE_MARKERS :: "stage \<Rightarrow> (string \<times> bytes list) list option" where
  "RUST_STAGE_MARKERS Init_scan = Some
     [(''image'', [''RF1_IMAGE_OK'']),
      (''initialize'', [''RF2_INIT_OK'']),
      (''initialized_event'', [''A4_RADIO_EVENT kind=initialized'']),
      (''scan'', [''RF3_SCAN_OK'']),
      (''scan_event'', [''A4_RADIO_EVENT kind=scan-completed''])]"
| "RUST_STAGE_MARKERS Connect = None"
| "RUST_STAGE_MARKERS Connectivity = Some
     [(''image'', [''RF1_IMAGE_OK'']),
      (''initialize'', [''RF2_INIT_OK'']),
      (''initialized_event'', [''A4_RADIO_EVENT kind=initialized'']),
      (''scan'', [''RF3_SCAN_OK'']),
      (''scan_event'', [''A4_RADIO_EVENT kind=scan-completed'']),
      (''connect'', [''RF5B_WPA_CONNECT_OK'', ''W2D_WPA2_CONNECT_OK'', ''W2E_WPA3_CONNECT_OK'']),
      (''connected_event'', [''A4_RADIO_EVENT kind=connected'']),
      (''dhcp'', [''RF5A_DHCP_OK'']),
      (''neighbor'', [''RF5A_ARP_OK'']),
      (''local_data_path'', [''RF5C_LOCAL_DATA_PATH_OK'']),
      (''summary'', [''RF5C_CONNECTIVITY_SUMMARY'']),
      (''steady'', [''A4_NET_RUNNER_STEADY'']),
      (''dhcp_renew'', [''A4_DHCP_RENEW_OK''])]"

section \<open>Tokens of a line\<close>

text \<open>A value of the dictionaries that mix counters, words and lists of status codes.\<close>

datatype fval = VInt int | VStr string | VList "int list"

type_synonym counters = "(string, int) dict"
type_synonym sample = "(string, fval) dict"

definition tokens :: "bytes \<Rightarrow> string list" where
  "tokens line = tl (decode_split line)"

definition add_hex_field :: "counters \<Rightarrow> string \<Rightarrow> counters" where
  "add_hex_field fields token =
     (case split_once CHR ''='' token of
        None \<Rightarrow> fields
      | Some (key, val) \<Rightarrow>
          if \<not> hex_prefixed val then fields
          else (case py_int16 val of None \<Rightarrow> fields | Some n \<Rightarrow> dset key n fields))"

definition parse_hex_fields :: "bytes \<Rightarrow> counters" where
  "parse_hex_fields line = foldl add_hex_field [] (tokens line)"

definition parse_text_fields :: "bytes \<Rightarrow> (string, string) dict" where
  "parse_text_fields line =
     foldl (\<lambda>fields token. case split_once CHR ''='' token of
              None \<Rightarrow> fields | Some (key, val) \<Rightarrow> dset key val fields) [] (tokens line)"

definition parse_hex_values :: "bytes \<Rightarrow> int list" where
  "parse_hex_values line =
     List.map_filter (\<lambda>token. if hex_prefixed token then py_int16 token else None) (tokens line)"

definition last_prefixed_line :: "bytes \<Rightarrow> bytes \<Rightarrow> bytes option" where
  "last_prefixed_line uart pre = find (startswith pre) (rev (splitlines uart))"

text \<open>\<open>parse_hex_fields(line or b'')\<close>\<close>

definition fields_or_empty :: "bytes option \<Rightarrow> counters" where
  "fields_or_empty line = parse_hex_fields (case line of None \<Rightarrow> [] | Some l \<Rightarrow> l)"

section \<open>Public DNS\<close>

definition add_dns_field :: "sample \<Rightarrow> string \<Rightarrow> sample" where
  "add_dns_field fields token =
     (case split_once CHR ''='' token of
        None \<Rightarrow> fields
      | Some (key, val) \<Rightarrow>
          if key \<in> {''target'', ''reason''} then dset key (VStr val) fields
          else if hex_prefixed val
          then (case py_int16 val of None \<Rightarrow> fields | Some n \<Rightarrow> dset key (VInt n) fields)
          else fields)"

definition parse_dns_summary :: "bytes \<Rightarrow> sample option" where
  "parse_dns_summary uart =
     (case find (\<lambda>line. list_ex (\<lambda>p. startswith p line)
                   [''RF5C_PUBLIC_DNS_OK '', ''RF5C_PUBLIC_DNS_ERR '', ''RF5C_PUBLIC_DNS_SKIP ''])
            (rev (splitlines uart)) of
        None \<Rightarrow> None
      | Some line \<Rightarrow>
          (let status = (if startswith ''RF5C_PUBLIC_DNS_SKIP '' line then ''skipped''
                         else if startswith ''RF5C_PUBLIC_DNS_OK '' line then ''ok'' else ''error'')
           in Some (foldl add_dns_field [(''status'', VStr status)] (tokens line))))"

definition detected_ap_mode :: "bytes \<Rightarrow> string option" where
  "detected_ap_mode uart =
     find (\<lambda>mode. occurs (''W2E_AP_SECURITY mode='' @ mode) uart) [''pure-wpa3'', ''transition'']"

section \<open>Resource calibration\<close>

record calibration =
  cal_resource :: sample
  cal_heap :: counters
  cal_violations :: "string list"
  cal_complete :: bool

definition heap_violations :: "string \<Rightarrow> counters \<Rightarrow> string list" where
  "heap_violations who heap =
     (let arena = dget_or (who @ ''_arena'') 0 heap;
          used = dget_or (who @ ''_used'') 0 heap;
          free = dget_or (who @ ''_free'') 0 heap;
          peak = dget_or (who @ ''_peak'') 0 heap;
          failures = dget_or (who @ ''_failures'') 0 heap
      in (if arena \<le> 0 then [''invalid:'' @ who @ ''.arena''] else [])
       @ (if used + free \<noteq> arena then [''invalid:'' @ who @ ''.used_free''] else [])
       @ (if peak < used \<or> peak > arena then [''invalid:'' @ who @ ''.peak''] else [])
       @ (if failures \<noteq> 0 then [''nonzero:'' @ who @ ''.failures''] else []))"

definition text_or_empty :: "bytes option \<Rightarrow> (string, string) dict" where
  "text_or_empty line = parse_text_fields (case line of None \<Rightarrow> [] | Some l \<Rightarrow> l)"

definition calibration_violations :: "bytes option \<Rightarrow> bytes option \<Rightarrow> string list" where
  "calibration_violations resource_line heap_line =
     (let resource_text = text_or_empty resource_line;
          resource = fields_or_empty resource_line;
          heap = fields_or_empty heap_line;
          resource_runtime = dget_or ''runtime_arena'' 0 resource;
          resource_rf = dget_or ''rf_arena'' 0 resource
      in (if resource_line = None then [''missing:resource_contract''] else [])
       @ (if heap_line = None then [''missing:heap_metrics''] else [])
       @ (if resource_line \<noteq> None
          then (if dget_or ''schema'' [] resource_text = [] then [''missing:resource.schema''] else [])
             @ (if dget_or ''revision'' [] resource_text = []
                then [''missing:resource.revision''] else [])
             @ (if resource_runtime \<le> 0 then [''invalid:resource.runtime_arena''] else [])
             @ (if resource_rf \<le> 0 then [''invalid:resource.rf_arena''] else [])
          else [])
       @ (if heap_line \<noteq> None
          then heap_violations ''rtos'' heap @ heap_violations ''rf'' heap else [])
       @ (if resource_line \<noteq> None \<and> heap_line \<noteq> None
          then (if dget ''rtos_arena'' heap \<noteq> Some resource_runtime
                then [''mismatch:rtos.arena''] else [])
             @ (if dget ''rf_arena'' heap \<noteq> Some resource_rf then [''mismatch:rf.arena''] else [])
          else []))"

definition parse_resource_calibration :: "bytes \<Rightarrow> calibration option" where
  "parse_resource_calibration uart =
     (let resource_line = last_prefixed_line uart ''RFDBG_RESOURCE '';
          heap_line = last_prefixed_line uart ''RFDBG_HEAP '';
          violations = calibration_violations resource_line heap_line
      in if resource_line = None \<and> heap_line = None then None
         else Some \<lparr>cal_resource = foldl (\<lambda>d (k, v). dset k (VInt v) d)
                      (map (\<lambda>(k, v). (k, VStr v)) (text_or_empty resource_line))
                      (fields_or_empty resource_line),
                    cal_heap = fields_or_empty heap_line, cal_violations = violations,
                    cal_complete = (violations = [])\<rparr>)"

section \<open>Ready-queue ownership\<close>

definition take_ownership :: "counters \<Rightarrow> counters \<Rightarrow> counters" where
  "take_ownership found snapshot =
     foldl (\<lambda>s f. if \<not> has_key f s \<and> has_key f found then dset f (dget_or f 0 found) s else s)
       snapshot READY_OWNERSHIP_FIELDS"

fun ownership_scan :: "bytes \<Rightarrow> bytes list \<Rightarrow> counters \<Rightarrow> bool \<Rightarrow> counters \<times> bool" where
  "ownership_scan pre [] snapshot saw = (snapshot, saw)"
| "ownership_scan pre (line # ls) snapshot saw =
     (if \<not> startswith pre line then ownership_scan pre ls snapshot saw
      else (let snapshot = take_ownership (parse_hex_fields line) snapshot
            in if list_all (\<lambda>f. has_key f snapshot) READY_OWNERSHIP_FIELDS then (snapshot, True)
               else ownership_scan pre ls snapshot True))"

definition parse_ready_ownership :: "bytes \<Rightarrow> counters option" where
  "parse_ready_ownership uart =
     (let ls = splitlines uart;
          pre = (if \<not> list_ex (startswith ''RFDBG_A5B_SCHED '') ls
                 then ''RFDBG_SOFTAP_SCHED '' else ''RFDBG_A5B_SCHED '');
          (snapshot, saw) = ownership_scan pre (rev ls) [] False
      in if saw then Some snapshot else None)"

section \<open>The A5B trailer\<close>

record a5b_metrics =
  sections :: "(string, counters) dict"
  timings :: counters
  m_complete :: bool
  m_missing :: "string list"

definition add_section ::
    "bytes list \<Rightarrow> (string, counters) dict \<times> string list \<Rightarrow> string \<times> bytes \<times> string list
       \<Rightarrow> (string, counters) dict \<times> string list" where
  "add_section ls = (\<lambda>(metrics, missing) (section, pre, required_fields).
     (case find (startswith pre) (rev ls) of
        None \<Rightarrow> (metrics, missing @ [section])
      | Some line \<Rightarrow>
          (let fields = parse_hex_fields line;
               absent = filter (\<lambda>f. \<not> has_key f fields) required_fields
           in if absent \<noteq> []
              then (metrics, missing @ map (\<lambda>f. section @ ''.'' @ f) absent)
              else (dset section (map (\<lambda>f. (f, dget_or f 0 fields)) required_fields) metrics,
                    missing))))"

definition add_timing ::
    "bytes list \<Rightarrow> counters \<times> string list \<Rightarrow> string \<times> bytes \<Rightarrow> counters \<times> string list" where
  "add_timing ls = (\<lambda>(timings, missing) (name, pre).
     (case find (startswith pre) (rev ls) of
        None \<Rightarrow> (timings, missing @ [name])
      | Some line \<Rightarrow>
          (case dget ''elapsed_ms'' (parse_hex_fields line) of
             None \<Rightarrow> (timings, missing @ [name])
           | Some ms \<Rightarrow> (dset name ms timings, missing))))"

definition parse_a5b_metrics :: "bytes \<Rightarrow> bool \<Rightarrow> a5b_metrics option" where
  "parse_a5b_metrics uart require_disconnect =
     (let ls = splitlines uart
      in if \<not> list_ex (\<lambda>line. list_ex (\<lambda>(_, pre, _). startswith pre line) A5B_METRIC_MARKERS) ls
         then None
         else
           (let (metrics, missing) = foldl (add_section ls) ([], []) A5B_METRIC_MARKERS;
                runner_steps = List.map_filter
                  (\<lambda>line. if startswith ''RFDBG_A5B_RUNNER_ELAPSED_MS '' line
                          then dget ''value'' (parse_hex_fields line) else None) ls;
                timing_markers =
                  [(''initialize_elapsed_ms'', ''RFDBG_A5B_INITIALIZE_OK ''),
                   (''scan_elapsed_ms'', ''RFDBG_A5B_SCAN_OK ''),
                   (''connect_elapsed_ms'', ''RFDBG_A5B_CONNECT_OK '')]
                  @ (if require_disconnect
                     then [(''disconnect_elapsed_ms'', ''RFDBG_A5B_DISCONNECT_OK '')] else []);
                (timings, missing) = foldl (add_timing ls) ([], missing) timing_markers;
                association_values =
                  (case find (startswith ''RFDBG_A5B_CONNECT_ASSOC_IOCTL '') (rev ls) of
                     None \<Rightarrow> [] | Some line \<Rightarrow> parse_hex_values line);
                (timings, missing) =
                  (if length association_values = 12
                   then (dset ''association_ioctl_max_ms''
                           (Max (set (map (\<lambda>i. association_values ! i) [2, 5, 8, 11]))) timings,
                         missing)
                   else (timings, missing @ [''association_ioctl'']));
                (timings, missing) =
                  (if runner_steps \<noteq> []
                   then (dset ''runner_step_count'' (int (length runner_steps))
                           (dset ''runner_step_max_ms'' (Max (set runner_steps)) timings), missing)
                   else (timings, missing @ [''runner_step_elapsed'']))
            in Some \<lparr>sections = metrics, timings = timings, m_complete = (missing = []),
                     m_missing = missing\<rparr>))"

section \<open>Diagnostic snapshots\<close>

text \<open>\<open>{field: fields[field] for field in names if field in fields}\<close>\<close>

definition pick_fields :: "string list \<Rightarrow> counters \<Rightarrow> counters" where
  "pick_fields names found =
     map (\<lambda>f. (f, dget_or f 0 found)) (filter (\<lambda>f. has_key f found) names)"

definition parse_l2_protocol_diagnostics :: "bytes \<Rightarrow> counters option" where
  "parse_l2_protocol_diagnostics uart =
     (case last_prefixed_line uart ''RFDBG_A5B_L2 '' of
        None \<Rightarrow> None
      | Some line \<Rightarrow> Some (pick_fields L2_PROTOCOL_FIELDS (parse_hex_fields line)))"

definition as_sample :: "counters \<Rightarrow> sample" where
  "as_sample found = map (\<lambda>(k, v). (k, VInt v)) found"

definition none_if_empty :: "'a list \<Rightarrow> 'a list option" where
  "none_if_empty xs = (if xs = [] then None else Some xs)"

definition parse_local_echo_path :: "bytes \<Rightarrow> sample list option" where
  "parse_local_echo_path uart =
     none_if_empty (map (\<lambda>line.
         let sample = as_sample (parse_hex_fields line)
         in case dget ''phase'' (parse_text_fields line) of
              None \<Rightarrow> sample
            | Some phase \<Rightarrow> dset ''phase'' (VStr phase) sample)
       (filter (startswith ''RFDBG_LOCAL_ECHO_PATH '') (splitlines uart)))"

text \<open>The loop over the comma-separated statuses: one that is not a numeral voids them all.\<close>

fun echo_statuses :: "string list \<Rightarrow> int list \<Rightarrow> int list" where
  "echo_statuses [] statuses = statuses"
| "echo_statuses (encoded # later) statuses =
     (if encoded = [] then echo_statuses later statuses
      else case py_int16 encoded of
             None \<Rightarrow> []
           | Some n \<Rightarrow> echo_statuses later (statuses @ [n]))"

definition parse_softap_echo_path :: "bytes \<Rightarrow> sample list option" where
  "parse_softap_echo_path uart =
     none_if_empty (map (\<lambda>line.
         let sample = as_sample (parse_hex_fields line);
             encoded = dget_or ''tx_status_delta'' [] (parse_text_fields line)
         in dset ''tx_status_delta'' (VList (echo_statuses (split_all CHR '','' [] encoded) [])) sample)
       (filter (startswith ''RFDBG_SOFTAP_ECHO_PATH '') (splitlines uart)))"

definition parse_irq45_lifecycle :: "bytes \<Rightarrow> bytes \<Rightarrow> counters option" where
  "parse_irq45_lifecycle uart pre =
     (case last_prefixed_line uart pre of
        None \<Rightarrow> None
      | Some line \<Rightarrow>
          (let fields = parse_hex_fields line
           in if \<not> list_all (\<lambda>f. has_key f fields) IRQ45_LIFECYCLE_FIELDS then None
              else Some (map (\<lambda>f. (f, dget_or f 0 fields)) IRQ45_LIFECYCLE_FIELDS)))"

end
