(* ===== verification/Conn_Contract.thy ===== *)
theory Conn_Contract
  imports Conn_Parse
begin

text \<open>
  \<open>hil/ws63-connectivity-reset-matrix.py\<close>, second part: the contract of one boot
  (\<open>validate_a5b_metrics\<close>, \<open>validate_ready_ownership\<close>, \<open>validate_rust_contract\<close>) and
  \<open>classify\<close>.
\<close>

section \<open>The contract\<close>

definition marker_group_position :: "bytes \<Rightarrow> bytes list \<Rightarrow> nat \<Rightarrow> nat option" where
  "marker_group_position uart markers after =
     (let positions = List.map_filter (\<lambda>marker. bfind marker uart after) markers
      in if positions = [] then None else Some (Min (set positions)))"

text \<open>\<open>metrics[section]\<close> and \<open>section[field]\<close> of complete metrics: they are present.\<close>

definition metric :: "a5b_metrics \<Rightarrow> string \<Rightarrow> string \<Rightarrow> int" where
  "metric m section field = dget_or field 0 (dget_or section [] (sections m))"

definition complete_metrics :: "a5b_metrics option \<Rightarrow> bool" where
  "complete_metrics m = (case m of None \<Rightarrow> False | Some x \<Rightarrow> m_complete x)"

definition validate_a5b_metrics :: "bytes \<Rightarrow> int option \<Rightarrow> bool \<Rightarrow> string list" where
  "validate_a5b_metrics uart max_runner_step_ms require_disconnect =
     (if \<not> occurs ''RFDBG_A5B_CONNECT_PROFILE_OK'' uart
      then (if max_runner_step_ms \<noteq> None then [''missing:a5b_connect_profile''] else [])
      else
        (case parse_a5b_metrics uart require_disconnect of
           None \<Rightarrow> [''a5b_metrics_incomplete:'']
         | Some m \<Rightarrow>
             if \<not> m_complete m
             then [''a5b_metrics_incomplete:'' @ join '','' (m_missing m)]
             else
               (if metric m ''event_queue'' ''dropped'' \<noteq> 0
                then [''nonzero:event_queue.dropped''] else [])
             @ (if metric m ''runner'' ''errors'' \<noteq> 0 then [''nonzero:runner.errors''] else [])
             @ map (\<lambda>field. ''nonzero:blocking.'' @ field)
                 (filter (\<lambda>field. metric m ''blocking'' field \<noteq> 0)
                    [''scan_calls'', ''poll_calls'', ''internal_sleep'', ''supplicant_poll''])
             @ (case max_runner_step_ms of
                  None \<Rightarrow> []
                | Some limit \<Rightarrow>
                    let ms = dget_or ''runner_step_max_ms'' 0 (timings m)
                    in if ms > limit
                       then [''budget:runner_step_max_ms='' @ str_int ms @ ''>'' @ str_int limit]
                       else [])))"

definition validate_ready_ownership :: "bytes \<Rightarrow> string \<Rightarrow> string list" where
  "validate_ready_ownership uart role =
     (case parse_ready_ownership uart of
        None \<Rightarrow> [''missing:'' @ role @ ''.ready_ownership'']
      | Some snapshot \<Rightarrow>
          concat (map (\<lambda>field.
            case dget field snapshot of
              None \<Rightarrow> [''missing:'' @ role @ ''.ready_ownership.'' @ field]
            | Some v \<Rightarrow>
                if v \<noteq> 0
                then [''nonzero:'' @ role @ ''.ready_ownership.'' @ field @ ''='' @ str_int v]
                else []) READY_OWNERSHIP_FIELDS))"

text \<open>The cursor over the stage markers, with the violations found so far.\<close>

definition stage_step ::
    "bytes \<Rightarrow> nat \<times> string list \<Rightarrow> string \<times> bytes list \<Rightarrow> nat \<times> string list" where
  "stage_step uart = (\<lambda>(cursor, violations) (name, markers).
     (case marker_group_position uart markers cursor of
        None \<Rightarrow> (cursor, violations @ [''missing:'' @ name])
      | Some position \<Rightarrow>
          if position < cursor then (cursor, violations @ [''out_of_order:'' @ name])
          else (position + 1, violations)))"

definition stage_violations :: "bytes \<Rightarrow> stage \<Rightarrow> string list" where
  "stage_violations uart stage =
     (case RUST_STAGE_MARKERS stage of
        None \<Rightarrow> []
      | Some stage_markers \<Rightarrow>
          snd (foldl (stage_step uart) (0, []) stage_markers)
        @ (case last_prefixed_line uart ''RF3_SCAN_OK '' of
             None \<Rightarrow> []
           | Some line \<Rightarrow>
               if dget_or ''count'' 0 (parse_hex_fields line) \<le> 0
               then [''invalid:scan.count''] else []))"

definition SUMMARY_FIELDS :: "string list" where
  "SUMMARY_FIELDS =
     [''arp_request'', ''arp_reply'', ''dns_attempts'', ''dns_responses'', ''dns_invalid'',
      ''dns_tx_error'', ''rx_queue_drop'']"

definition summary_violations :: "bytes \<Rightarrow> string list" where
  "summary_violations uart =
     (let public_dns_skipped = occurs ''RF5C_PUBLIC_DNS_SKIP reason=no-default-route'' uart
      in case last_prefixed_line uart ''RF5C_CONNECTIVITY_SUMMARY '' of
           None \<Rightarrow> []
         | Some line \<Rightarrow>
             (let summary = parse_hex_fields line
              in map (\<lambda>field. ''missing:summary.'' @ field)
                   (filter (\<lambda>field. \<not> has_key field summary) SUMMARY_FIELDS)
               @ (if dget_or ''arp_request'' 0 summary \<le> 0
                  then [''invalid:summary.arp_request''] else [])
               @ (if dget_or ''arp_reply'' 0 summary \<le> 0
                  then [''invalid:summary.arp_reply''] else [])
               @ (if public_dns_skipped
                  then (if dget_or ''dns_attempts'' 0 summary \<noteq> 0
                        then [''nonzero:summary.dns_attempts''] else [])
                     @ (if dget_or ''dns_responses'' 0 summary \<noteq> 0
                        then [''nonzero:summary.dns_responses''] else [])
                  else (if dget_or ''dns_attempts'' 0 summary \<le> 0
                        then [''invalid:summary.dns_attempts''] else [])
                     @ (if dget_or ''dns_responses'' 0 summary \<le> 0
                        then [''invalid:summary.dns_responses''] else []))
               @ (if dget_or ''dns_tx_error'' 0 summary \<noteq> 0
                  then [''nonzero:summary.dns_tx_error''] else [])
               @ (if dget_or ''rx_queue_drop'' 0 summary \<noteq> 0
                  then [''nonzero:summary.rx_queue_drop''] else [])))"

text \<open>\<open>int(dns.get(field, 0))\<close> for a counter field, whose value is always an integer\<close>

definition dns_int :: "string \<Rightarrow> sample \<Rightarrow> int" where
  "dns_int field dns = (case dget field dns of Some (VInt n) \<Rightarrow> n | _ \<Rightarrow> 0)"

definition dns_violations :: "bytes \<Rightarrow> string list" where
  "dns_violations uart =
     (case parse_dns_summary uart of
        None \<Rightarrow> []
      | Some dns \<Rightarrow>
          if dget ''status'' dns = Some (VStr ''skipped'')
          then (if dget ''reason'' dns \<noteq> Some (VStr ''no-default-route'')
                then [''invalid:public_dns.skip_reason''] else [])
          else (if dget ''target'' dns \<notin> Some ` VStr ` set PUBLIC_DNS_TARGETS
                then [''invalid:public_dns.target''] else [])
             @ (if dget ''status'' dns \<noteq> Some (VStr ''ok'')
                then [''invalid:public_dns.status''] else [])
             @ (if dns_int ''attempts'' dns \<le> 0 then [''invalid:public_dns.attempts''] else [])
             @ (if dns_int ''responses'' dns \<le> 0 then [''invalid:public_dns.responses''] else [])
             @ (if dns_int ''tx_error'' dns \<noteq> 0 then [''nonzero:public_dns.tx_error''] else []))"

definition renew_violations :: "bytes \<Rightarrow> string list" where
  "renew_violations uart =
     (case last_prefixed_line uart ''A4_DHCP_RENEW_OK '' of
        None \<Rightarrow> []
      | Some line \<Rightarrow>
          (let renew = parse_hex_fields line
           in (if dget_or ''client'' 0 renew \<le> 0 then [''invalid:dhcp_renew.client''] else [])
            @ (if dget_or ''server'' 0 renew \<le> 0 then [''invalid:dhcp_renew.server''] else [])))"

definition connect_violations :: "bytes \<Rightarrow> string list" where
  "connect_violations uart =
     (if \<not> occurs ''RFDBG_A5B_CONNECT_PROFILE_OK'' uart \<and>
         \<not> list_ex (\<lambda>m. occurs m uart)
           [''RF5B_WPA_CONNECT_OK'', ''W2D_WPA2_CONNECT_OK'', ''W2E_WPA3_CONNECT_OK'']
      then [''missing:connect''] else [])"

definition connectivity_violations :: "bytes \<Rightarrow> string list" where
  "connectivity_violations uart =
     (if \<not> list_ex (\<lambda>m. occurs m uart) [''RF5C_PUBLIC_DNS_OK'', ''RF5C_PUBLIC_DNS_SKIP'']
      then [''missing:public_dns''] else [])
   @ (if occurs ''W2E_WPA3_CONNECT_OK'' uart \<and> \<not> occurs ''W2E_WPA3_CONNECT_OK pmf=required'' uart
      then [''invalid:wpa3.pmf''] else [])
   @ summary_violations uart @ dns_violations uart @ renew_violations uart"

text \<open>The options that decide how a boot is judged.\<close>

record contract_opts =
  require_contract :: bool
  max_runner_step_ms :: "int option"
  qemu_contract_fixture :: bool
  require_resource_calibration :: bool

definition validate_rust_contract :: "contract_opts \<Rightarrow> stage \<Rightarrow> bytes \<Rightarrow> string list" where
  "validate_rust_contract opts stage uart =
     (let has_fixture_marker = occurs QEMU_CONTRACT_FIXTURE_MARKER uart
      in (if qemu_contract_fixture opts \<and> \<not> has_fixture_marker
          then [''missing:qemu_contract_fixture''] else [])
       @ (if \<not> qemu_contract_fixture opts \<and> has_fixture_marker
          then [''forbidden:qemu_contract_fixture''] else [])
       @ map (\<lambda>marker. ''fatal:'' @ marker) (filter (\<lambda>m. occurs m uart) RUST_FATAL_MARKERS)
       @ stage_violations uart stage
       @ (if stage \<in> {Connect, Connectivity}
          then validate_ready_ownership uart ''sta''
             @ validate_a5b_metrics uart (max_runner_step_ms opts) (stage = Connect)
          else [])
       @ (if stage = Connect then connect_violations uart else [])
       @ (if stage = Connectivity then connectivity_violations uart else [])
       @ (if require_resource_calibration opts
          then (case parse_resource_calibration uart of
                  None \<Rightarrow> [''missing:resource_calibration'']
                | Some calibration \<Rightarrow> cal_violations calibration)
          else []))"

section \<open>Classification of a boot\<close>

definition classify_official :: "stage \<Rightarrow> bytes \<Rightarrow> string" where
  "classify_official stage uart =
     (if stage = Connect \<and> occurs ''+NOTICE:CONNECTED'' uart then ''pass''
      else if occurs ''APP|[WIFI_STA_SAMPLE]::STA DHCP success.'' uart then ''pass''
      else if occurs OFFICIAL_AUTH_RSP2_TIMEOUT_EVENT uart then ''auth_rsp2_timeout''
      else if occurs ''APP|[WIFI_STA_SAMPLE]::Connect fail!.'' uart then ''connect_error''
      else ''capture_timeout'')"

text \<open>The early returns for the access-point mode.\<close>

definition ap_mode_verdict :: "string option \<Rightarrow> bytes \<Rightarrow> string option" where
  "ap_mode_verdict required_ap_mode uart =
     (case required_ap_mode of
        None \<Rightarrow> None
      | Some mode \<Rightarrow>
          (let observed_ap_mode = detected_ap_mode uart;
               success_evidence =
                 (occurs ''W2E_WPA3_CONNECT_OK'' uart \<or>
                  occurs ''RFDBG_A5B_CONNECT_PROFILE_OK'' uart \<or> parse_dns_summary uart \<noteq> None)
           in if observed_ap_mode \<noteq> None \<and> observed_ap_mode \<noteq> Some mode
              then Some ''wrong_ap_mode''
              else if observed_ap_mode = None \<and> success_evidence then Some ''missing_ap_mode''
              else None))"

text \<open>The early returns for the failure markers.\<close>

definition failure_verdict :: "bytes \<Rightarrow> string option" where
  "failure_verdict uart =
     (if occurs ''RF5C_LOCAL_DATA_PATH_ERR'' uart then Some ''local_data_path_failure''
      else if occurs ''RF5C_PUBLIC_DNS_ERR'' uart then Some ''public_dns_failure''
      else if occurs ''RF5B_WPA_CONNECT_ERR:0x00001451'' uart then Some ''auth_rsp2_timeout''
      else if occurs ''RF5B_WPA_CONNECT_ERR:'' uart \<or> occurs ''RF5B_CONNECT_ERR:'' uart \<or>
              occurs ''W2D_WPA2_CONNECT_ERR'' uart \<or> occurs ''W2E_WPA3_CONNECT_ERR'' uart \<or>
              occurs ''RFDBG_A5B_CONNECT_ERR'' uart \<or> occurs ''A4_NET_ERR'' uart
      then Some ''connect_error''
      else if occurs ''RF5B_AP_NOT_FOUND'' uart then Some ''ap_not_found''
      else if occurs ''RF3_SCAN_ERR'' uart \<or> occurs ''RFDBG_A5B_SCAN_ERR'' uart
      then Some ''scan_error''
      else if occurs ''RF2_INIT_ERR:'' uart then Some ''init_error''
      else if occurs ''RFDBG_EXCEPTION'' uart then Some ''exception''
      else None)"

definition pass_or_contract_violation :: "contract_opts \<Rightarrow> stage \<Rightarrow> bytes \<Rightarrow> string" where
  "pass_or_contract_violation opts stage uart =
     (if (require_contract opts \<or> require_resource_calibration opts) \<and>
         validate_rust_contract opts stage uart \<noteq> []
      then ''contract_violation'' else ''pass'')"

definition conn_classify ::
    "contract_opts \<Rightarrow> profile \<Rightarrow> stage \<Rightarrow> string option \<Rightarrow> bytes \<Rightarrow> string" where
  "conn_classify opts profile stage required_ap_mode uart =
     (if profile = Official_liteos then classify_official stage uart
      else (case ap_mode_verdict required_ap_mode uart of
        Some verdict \<Rightarrow> verdict
      | None \<Rightarrow>
          (case failure_verdict uart of
             Some verdict \<Rightarrow> verdict
           | None \<Rightarrow>
               if occurs ''RFDBG_A5B_CONNECT_PROFILE_OK'' uart \<and>
                  \<not> complete_metrics (parse_a5b_metrics uart (stage = Connect))
               then ''missing_a5b_metrics''
               else if stage = Init_scan \<and>
                  (occurs ''RF3_SCAN_OK'' uart \<or> occurs ''RFDBG_A5B_SCAN_PROFILE_OK'' uart)
               then pass_or_contract_violation opts stage uart
               else if stage = Connect \<and> occurs ''RF5B_WPA_CONNECT_OK'' uart
               then pass_or_contract_violation opts stage uart
               else if stage = Connect \<and>
                  (occurs ''W2D_WPA2_CONNECT_OK'' uart \<or> occurs ''W2E_WPA3_CONNECT_OK'' uart)
               then pass_or_contract_violation opts stage uart
               else if stage = Connect \<and> occurs ''RFDBG_A5B_CONNECT_PROFILE_OK'' uart
               then pass_or_contract_violation opts stage uart
               else if occurs ''RF5C_LOCAL_DATA_PATH_OK'' uart
               then pass_or_contract_violation opts stage uart
               else ''capture_timeout'')))"

section \<open>Parsed counters\<close>

lemma map_of_in: "dget k d = Some v \<Longrightarrow> v \<in> snd ` set d"
  by (metis map_of_SomeD image_eqI snd_conv)

lemma set_dset: "v \<in> snd ` set (dset k x d) \<Longrightarrow> v = x \<or> v \<in> snd ` set d"
  by (induction d) (auto split: if_splits)

lemma add_hex_field_cases:
  "add_hex_field d t = d \<or> (\<exists>k n. add_hex_field d t = dset k n d \<and> 0 \<le> n)"
proof (cases "split_once CHR ''='' t")
  case (Some kv)
  obtain k v where kv: "kv = (k, v)" by fastforce
  show ?thesis
  proof (cases "hex_prefixed v")
    case True
    then show ?thesis
      using Some kv py_int16_nonneg [OF True]
      by (cases "py_int16 v") (auto simp: add_hex_field_def)
  qed (use Some kv in \<open>simp add: add_hex_field_def\<close>)
qed (simp add: add_hex_field_def)

lemma fold_fields_nonneg:
  "\<forall>v\<in>snd ` set (d :: counters). 0 \<le> v \<Longrightarrow>
     \<forall>v\<in>snd ` set (foldl add_hex_field d ts). 0 \<le> v"
proof (induction ts arbitrary: d)
  case (Cons t ts)
  from add_hex_field_cases [of d t] have "\<forall>v\<in>snd ` set (add_hex_field d t). 0 \<le> v"
  proof
    assume "\<exists>k n. add_hex_field d t = dset k n d \<and> 0 \<le> n"
    then obtain k n where kn: "add_hex_field d t = dset k n d" "0 \<le> n" by blast
    show ?thesis unfolding kn(1) using Cons.prems kn(2) set_dset [of _ k n d] by metis
  qed (use Cons.prems in simp)
  then show ?case unfolding foldl_Cons by (rule Cons.IH)
qed simp

lemma parse_hex_fields_nonneg:
  assumes "dget k (parse_hex_fields line) = Some v"
  shows "0 \<le> v"
proof -
  from fold_fields_nonneg [of "[]"] have "\<forall>v\<in>snd ` set (parse_hex_fields line). 0 \<le> v"
    by (simp add: parse_hex_fields_def)
  with map_of_in [OF assms] show ?thesis by blast
qed

section \<open>Ready-queue ownership\<close>

text \<open>The specification: for each counter the newest line that shows it.\<close>

fun first_some :: "('a \<Rightarrow> 'b option) \<Rightarrow> 'a list \<Rightarrow> 'b option" where
  "first_some f [] = None"
| "first_some f (x # xs) = (case f x of None \<Rightarrow> first_some f xs | Some y \<Rightarrow> Some y)"

definition newest :: "bytes \<Rightarrow> bytes list \<Rightarrow> string \<Rightarrow> int option" where
  "newest pre ls field =
     first_some (\<lambda>line. dget field (parse_hex_fields line)) (filter (startswith pre) (rev ls))"

lemma take_ownership_get:
  "dget k (take_ownership found snapshot) =
     (case dget k snapshot of
        Some v \<Rightarrow> Some v
      | None \<Rightarrow> if k \<in> set READY_OWNERSHIP_FIELDS then dget k found else None)"
proof -
  have "dget k (foldl (\<lambda>s f. if \<not> has_key f s \<and> has_key f found then dset f (dget_or f 0 found) s else s)
      snapshot fs) =
    (case dget k snapshot of
        Some v \<Rightarrow> Some v | None \<Rightarrow> if k \<in> set fs then dget k found else None)" for fs
  proof (induction fs arbitrary: snapshot)
    case Nil
    then show ?case by (simp split: option.split)
  next
    case (Cons f fs)
    then show ?case by (auto simp: has_key_def dget_or_def split: option.splits)
  qed
  then show ?thesis by (simp add: take_ownership_def)
qed

lemma ownership_scan_get:
  assumes "f \<in> set READY_OWNERSHIP_FIELDS"
  shows "dget f (fst (ownership_scan pre ls snapshot saw)) =
    (case dget f snapshot of
       Some v \<Rightarrow> Some v
     | None \<Rightarrow> first_some (\<lambda>line. dget f (parse_hex_fields line)) (filter (startswith pre) ls))"
proof (induction ls arbitrary: snapshot saw)
  case Nil
  then show ?case by (simp split: option.split)
next
  case (Cons line ls)
  show ?case
  proof (cases "startswith pre line")
    case False
    with Cons show ?thesis by (simp split: option.split)
  next
    case True
    let ?s = "take_ownership (parse_hex_fields line) snapshot"
    show ?thesis
    proof (cases "list_all (\<lambda>f. has_key f ?s) READY_OWNERSHIP_FIELDS")
      case all: True
      with assms have "dget f ?s \<noteq> None" by (auto simp: list_all_iff has_key_def)
      with all True assms show ?thesis
        by (auto simp: Let_def take_ownership_get split: option.splits)
    next
      case False
      with True Cons.IH assms show ?thesis
        by (simp add: Let_def take_ownership_get split: option.splits)
    qed
  qed
qed

lemma ownership_scan_saw:
  "snd (ownership_scan pre ls snapshot saw) \<longleftrightarrow> saw \<or> list_ex (startswith pre) ls"
  by (induction ls arbitrary: snapshot saw) (auto simp: Let_def)

definition ownership_prefix :: "bytes list \<Rightarrow> bytes" where
  "ownership_prefix ls =
     (if list_ex (startswith ''RFDBG_A5B_SCHED '') ls then ''RFDBG_A5B_SCHED ''
      else ''RFDBG_SOFTAP_SCHED '')"

text \<open>
  C13: what \<open>parse_ready_ownership\<close> reads.  The loop over the reversed lines with its early exit
  gives, for each of the four counters, the value in the newest scheduler line that shows the
  counter; a truncated last line hides no older value and no newer non-zero one.
\<close>

theorem parse_ready_ownership_newest:
  "(parse_ready_ownership uart = None \<longleftrightarrow>
      \<not> list_ex (startswith ''RFDBG_A5B_SCHED '') (splitlines uart) \<and>
      \<not> list_ex (startswith ''RFDBG_SOFTAP_SCHED '') (splitlines uart)) \<and>
   (case parse_ready_ownership uart of
      None \<Rightarrow> True
    | Some snapshot \<Rightarrow>
        list_all (\<lambda>f. dget f snapshot = newest (ownership_prefix (splitlines uart)) (splitlines uart) f)
          READY_OWNERSHIP_FIELDS)"
proof -
  define pre where "pre = ownership_prefix (splitlines uart)"
  define r where "r = ownership_scan pre (rev (splitlines uart)) [] False"
  have p: "parse_ready_ownership uart = (if snd r then Some (fst r) else None)"
    by (auto simp: parse_ready_ownership_def Let_def r_def pre_def ownership_prefix_def
        split: prod.splits)
  have "snd r \<longleftrightarrow> list_ex (startswith pre) (splitlines uart)"
    by (simp add: r_def ownership_scan_saw)
  moreover have "dget f (fst r) = newest pre (splitlines uart) f" if "f \<in> set READY_OWNERSHIP_FIELDS" for f
    using ownership_scan_get [OF that] by (simp add: r_def newest_def)
  ultimately show ?thesis
    by (auto simp: p list_all_iff pre_def [symmetric]) (auto simp: pre_def ownership_prefix_def split: if_splits)
qed

lemma validate_ready_ownership_Nil:
  "validate_ready_ownership uart role = [] \<longleftrightarrow>
     (\<exists>snapshot. parse_ready_ownership uart = Some snapshot \<and>
        (\<forall>f\<in>set READY_OWNERSHIP_FIELDS. dget f snapshot = Some 0))"
  by (fastforce simp: validate_ready_ownership_def split: option.splits if_splits)

section \<open>The stage markers\<close>

lemma marker_group_position_Some:
  assumes "marker_group_position uart markers after = Some p"
  shows "after \<le> p \<and> (\<exists>m\<in>set markers. prefix m (drop p uart))"
proof -
  let ?ps = "List.map_filter (\<lambda>marker. bfind marker uart after) markers"
  from assms have "?ps \<noteq> []" and p: "p = Min (set ?ps)"
    by (auto simp: marker_group_position_def Let_def split: if_splits)
  then have "p \<in> set ?ps" by simp
  then obtain m where "m \<in> set markers" "bfind m uart after = Some p"
    by (auto simp: List.map_filter_def)
  with bfind_Some show ?thesis by blast
qed

lemma stage_steps_grow:
  "length (snd (foldl (stage_step uart) (cursor, vs) groups)) \<ge> length vs"
proof (induction groups arbitrary: cursor vs)
  case Nil
  then show ?case by simp
next
  case (Cons g groups)
  obtain c' vs' where step: "stage_step uart (cursor, vs) g = (c', vs')" by fastforce
  then have "length vs \<le> length vs'"
    by (auto simp: stage_step_def split: prod.splits option.splits if_splits)
  with Cons.IH [of vs' c'] step show ?case by simp
qed

lemma stage_steps_Nil:
  "snd (foldl (stage_step uart) (cursor, []) groups) = [] \<Longrightarrow>
     \<exists>ps. sorted_wrt (<) ps \<and> (\<forall>p\<in>set ps. cursor \<le> p) \<and>
       list_all2 (\<lambda>p (name, ms). \<exists>m\<in>set ms. prefix m (drop p uart)) ps groups"
proof (induction groups arbitrary: cursor)
  case Nil
  then show ?case by simp
next
  case (Cons g groups)
  obtain name ms where g: "g = (name, ms)" by fastforce
  obtain c' vs' where step: "stage_step uart (cursor, []) g = (c', vs')" by fastforce
  with Cons.prems have "snd (foldl (stage_step uart) (c', vs') groups) = []" by simp
  with stage_steps_grow [where vs = vs' and cursor = c' and uart = uart and groups = groups] have rest: "vs' = []"
    "snd (foldl (stage_step uart) (c', []) groups) = []" by auto
  with step g obtain p where p: "marker_group_position uart ms cursor = Some p" "c' = Suc p"
    by (auto simp: stage_step_def split: option.splits if_splits)
  from Cons.IH [OF rest(2)] obtain ps where ps: "sorted_wrt (<) ps" "\<forall>q\<in>set ps. c' \<le> q"
    "list_all2 (\<lambda>p (name, ms). \<exists>m\<in>set ms. prefix m (drop p uart)) ps groups" by blast
  from marker_group_position_Some [OF p(1)] ps p(2) g show ?case
    by (intro exI [of _ "p # ps"]) auto
qed

text \<open>
  An out-of-order stage marker is never reported as such.  The search starts at the cursor, so
  a marker that occurs only before it is reported as missing; the branch that appends
  \<open>out_of_order\<close> is unreachable, and every step that finds nothing appends one \<open>missing\<close>.
\<close>

theorem stage_step_never_out_of_order:
  "stage_step uart (cursor, violations) (name, markers) =
     (case marker_group_position uart markers cursor of
        None \<Rightarrow> (cursor, violations @ [''missing:'' @ name])
      | Some position \<Rightarrow> (position + 1, violations))"
  using marker_group_position_Some
  by (fastforce simp: stage_step_def split: option.splits)

section \<open>What a pass shows\<close>

lemma verdicts_not_pass:
  "ap_mode_verdict required uart \<noteq> Some ''pass''" "failure_verdict uart \<noteq> Some ''pass''"
  by (auto simp: ap_mode_verdict_def failure_verdict_def Let_def split: option.splits if_splits)

lemma conn_classify_pass:
  assumes "conn_classify opts Rust stage required uart = ''pass''"
  shows "failure_verdict uart = None" "ap_mode_verdict required uart = None"
    "require_contract opts \<or> require_resource_calibration opts \<Longrightarrow>
       validate_rust_contract opts stage uart = []"
    "occurs ''RFDBG_A5B_CONNECT_PROFILE_OK'' uart \<Longrightarrow>
       complete_metrics (parse_a5b_metrics uart (stage = Connect))"
proof -
  show "failure_verdict uart = None" "ap_mode_verdict required uart = None"
    using assms verdicts_not_pass
    by (auto simp: conn_classify_def split: option.splits)
  with assms show "validate_rust_contract opts stage uart = []"
    if "require_contract opts \<or> require_resource_calibration opts"
    using that by (auto simp: conn_classify_def pass_or_contract_violation_def split: if_splits)
  show "complete_metrics (parse_a5b_metrics uart (stage = Connect))"
    if "occurs ''RFDBG_A5B_CONNECT_PROFILE_OK'' uart"
    using that assms \<open>failure_verdict uart = None\<close> \<open>ap_mode_verdict required uart = None\<close>
    by (auto simp: conn_classify_def split: if_splits)
qed

lemma validate_rust_contract_Nil:
  assumes "validate_rust_contract opts stage uart = []"
  shows "qemu_contract_fixture opts \<longleftrightarrow> occurs QEMU_CONTRACT_FIXTURE_MARKER uart"
    "\<forall>m\<in>set RUST_FATAL_MARKERS. \<not> occurs m uart"
    "stage_violations uart stage = []"
    "stage \<noteq> Init_scan \<Longrightarrow> validate_ready_ownership uart ''sta'' = [] \<and>
       validate_a5b_metrics uart (max_runner_step_ms opts) (stage = Connect) = []"
    "stage = Connectivity \<Longrightarrow> connectivity_violations uart = []"
    "require_resource_calibration opts \<Longrightarrow>
       \<exists>c. parse_resource_calibration uart = Some c \<and> cal_violations c = []"
  using assms
  by (cases stage; auto simp: validate_rust_contract_def Let_def filter_empty_conv
      split: if_splits option.splits)+

text \<open>
  C10: a boot that passes with the contract required has shown the stage markers in order: there are
  strictly increasing positions in the log, one for each stage, at each of which one of the
  markers of the stage stands.  No fatal marker occurs anywhere, and the contract-only fixture
  marker occurs exactly if the fixture was asked for.
\<close>

theorem conn_pass_stage_order:
  assumes "conn_classify opts Rust stage required uart = ''pass''"
    and "require_contract opts" and "RUST_STAGE_MARKERS stage = Some groups"
  shows "(\<exists>ps. sorted_wrt (<) ps \<and>
      list_all2 (\<lambda>p (name, ms). \<exists>m\<in>set ms. prefix m (drop p uart)) ps groups) \<and>
    (\<forall>m\<in>set RUST_FATAL_MARKERS. \<not> occurs m uart) \<and>
    (qemu_contract_fixture opts \<longleftrightarrow> occurs QEMU_CONTRACT_FIXTURE_MARKER uart)"
proof -
  have nil: "validate_rust_contract opts stage uart = []"
    using conn_classify_pass(3) [OF assms(1)] assms(2) by blast
  note ok = validate_rust_contract_Nil [OF nil]
  from ok(3) assms(3) have "snd (foldl (stage_step uart) (0, []) groups) = []"
    by (simp add: stage_violations_def)
  from stage_steps_Nil [OF this] ok(1,2) show ?thesis by blast
qed

lemma runner_step_max:
  assumes "parse_a5b_metrics uart rd = Some m" and "m_complete m"
    and "line \<in> set (splitlines uart)" "startswith ''RFDBG_A5B_RUNNER_ELAPSED_MS '' line"
    and "dget ''value'' (parse_hex_fields line) = Some v"
  shows "v \<le> dget_or ''runner_step_max_ms'' 0 (timings m)"
proof -
  define runner_steps where "runner_steps = List.map_filter
      (\<lambda>line. if startswith ''RFDBG_A5B_RUNNER_ELAPSED_MS '' line
              then dget ''value'' (parse_hex_fields line) else None) (splitlines uart)"
  have v: "v \<in> set runner_steps"
    using assms(3-5) by (auto simp: runner_steps_def List.map_filter_def intro!: image_eqI [of _ _ line])
  then have ne: "runner_steps \<noteq> []" by auto
  from assms(1) have "dget ''runner_step_max_ms'' (timings m) = Some (Max (set runner_steps))"
    unfolding parse_a5b_metrics_def Let_def runner_steps_def [symmetric] if_P [OF ne]
    by (simp split: if_split_asm prod.split_asm) (auto split: prod.split_asm)
  with v show ?thesis by (simp add: dget_or_def)
qed

lemma validate_a5b_metrics_Nil:
  assumes "validate_a5b_metrics uart max_ms rd = []"
    and "occurs ''RFDBG_A5B_CONNECT_PROFILE_OK'' uart"
  obtains m where "parse_a5b_metrics uart rd = Some m" "m_complete m"
    "metric m ''event_queue'' ''dropped'' = 0" "metric m ''runner'' ''errors'' = 0"
    "\<forall>f\<in>{''scan_calls'', ''poll_calls'', ''internal_sleep'', ''supplicant_poll''}.
       metric m ''blocking'' f = 0"
    "\<forall>limit. max_ms = Some limit \<longrightarrow> dget_or ''runner_step_max_ms'' 0 (timings m) \<le> limit"
  using assms
  by (auto simp: validate_a5b_metrics_def Let_def not_less split: option.splits if_splits)

text \<open>
  a boot that passes the connect or connectivity stage with the contract required has reported
  zero for each of the four ready-queue counters.  If it reached the connection profile, its
  A5B trailer is complete, no event was dropped, the runner had no error and no blocking call
  was made; and with a budget every runner step reported in the log is within it.
\<close>

theorem conn_pass_diagnostics:
  assumes "conn_classify opts Rust stage required uart = ''pass''"
    and "require_contract opts" and "stage \<noteq> Init_scan"
  shows "(\<exists>snapshot. parse_ready_ownership uart = Some snapshot \<and>
      (\<forall>f\<in>set READY_OWNERSHIP_FIELDS. dget f snapshot = Some 0)) \<and>
    (occurs ''RFDBG_A5B_CONNECT_PROFILE_OK'' uart \<longrightarrow>
      (\<exists>m. parse_a5b_metrics uart (stage = Connect) = Some m \<and> m_complete m \<and>
        metric m ''event_queue'' ''dropped'' = 0 \<and> metric m ''runner'' ''errors'' = 0 \<and>
        (\<forall>f\<in>{''scan_calls'', ''poll_calls'', ''internal_sleep'', ''supplicant_poll''}.
           metric m ''blocking'' f = 0))) \<and>
    (\<forall>limit line v. max_runner_step_ms opts = Some limit \<longrightarrow> line \<in> set (splitlines uart) \<longrightarrow>
       startswith ''RFDBG_A5B_RUNNER_ELAPSED_MS '' line \<longrightarrow>
       dget ''value'' (parse_hex_fields line) = Some v \<longrightarrow> v \<le> limit)"
proof -
  have nil: "validate_rust_contract opts stage uart = []"
    using conn_classify_pass(3) [OF assms(1)] assms(2) by blast
  from validate_rust_contract_Nil(4) [OF nil assms(3)]
  have own: "validate_ready_ownership uart ''sta'' = []"
    and a5b: "validate_a5b_metrics uart (max_runner_step_ms opts) (stage = Connect) = []" by auto
  show ?thesis
  proof (cases "occurs ''RFDBG_A5B_CONNECT_PROFILE_OK'' uart")
    case True
    from a5b True obtain m where m: "parse_a5b_metrics uart (stage = Connect) = Some m" "m_complete m"
      "metric m ''event_queue'' ''dropped'' = 0" "metric m ''runner'' ''errors'' = 0"
      "\<forall>f\<in>{''scan_calls'', ''poll_calls'', ''internal_sleep'', ''supplicant_poll''}.
         metric m ''blocking'' f = 0"
      "\<forall>limit. max_runner_step_ms opts = Some limit \<longrightarrow>
         dget_or ''runner_step_max_ms'' 0 (timings m) \<le> limit"
      by (rule validate_a5b_metrics_Nil)
    have "v \<le> limit" if "max_runner_step_ms opts = Some limit" "line \<in> set (splitlines uart)"
      "startswith ''RFDBG_A5B_RUNNER_ELAPSED_MS '' line"
      "dget ''value'' (parse_hex_fields line) = Some v" for limit line v
      using runner_step_max [OF m(1,2) that(2-4)] m(6) that(1) by fastforce
    with m own show ?thesis by (auto simp: validate_ready_ownership_Nil)
  next
    case False
    with a5b have "max_runner_step_ms opts = None"
      by (simp add: validate_a5b_metrics_def split: if_splits)
    with own False show ?thesis by (simp add: validate_ready_ownership_Nil)
  qed
qed

section \<open>Resource calibration\<close>

lemma heap_violations_Nil:
  "heap_violations who heap = [] \<longleftrightarrow>
     0 < dget_or (who @ ''_arena'') 0 heap \<and>
     dget_or (who @ ''_used'') 0 heap + dget_or (who @ ''_free'') 0 heap
       = dget_or (who @ ''_arena'') 0 heap \<and>
     dget_or (who @ ''_used'') 0 heap \<le> dget_or (who @ ''_peak'') 0 heap \<and>
     dget_or (who @ ''_peak'') 0 heap \<le> dget_or (who @ ''_arena'') 0 heap \<and>
     dget_or (who @ ''_failures'') 0 heap = 0"
  by (auto simp: heap_violations_def Let_def)

lemma calibration_violations_Nil:
  assumes "calibration_violations r h = []"
  shows "r \<noteq> None" "h \<noteq> None"
    "heap_violations ''rtos'' (fields_or_empty h) = []" "heap_violations ''rf'' (fields_or_empty h) = []"
    "dget ''rtos_arena'' (fields_or_empty h) = Some (dget_or ''runtime_arena'' 0 (fields_or_empty r))"
    "dget ''rf_arena'' (fields_or_empty h) = Some (dget_or ''rf_arena'' 0 (fields_or_empty r))"
  using assms unfolding calibration_violations_def Let_def append_is_Nil_conv if_list_Nil
  by simp_all

text \<open>
  complete resource calibration.  The last heap line accounts for every byte of each of the two
  arenas (used plus free is the arena, which is the one the resource line declares), the peak lies
  between the current use and the arena, and no allocation failed.
\<close>

theorem resource_calibration_complete:
  assumes "parse_resource_calibration uart = Some c" and "cal_complete c"
  shows "\<exists>resource_line heap_line.
      last_prefixed_line uart ''RFDBG_RESOURCE '' = Some resource_line \<and>
      last_prefixed_line uart ''RFDBG_HEAP '' = Some heap_line \<and>
      cal_heap c = parse_hex_fields heap_line \<and>
      dget ''rtos_arena'' (cal_heap c) = Some (dget_or ''runtime_arena'' 0 (parse_hex_fields resource_line)) \<and>
      dget ''rf_arena'' (cal_heap c) = Some (dget_or ''rf_arena'' 0 (parse_hex_fields resource_line)) \<and>
      (\<forall>who\<in>{''rtos'', ''rf''}.
        0 < dget_or (who @ ''_arena'') 0 (cal_heap c) \<and>
        dget_or (who @ ''_used'') 0 (cal_heap c) + dget_or (who @ ''_free'') 0 (cal_heap c)
          = dget_or (who @ ''_arena'') 0 (cal_heap c) \<and>
        dget_or (who @ ''_used'') 0 (cal_heap c) \<le> dget_or (who @ ''_peak'') 0 (cal_heap c) \<and>
        dget_or (who @ ''_peak'') 0 (cal_heap c) \<le> dget_or (who @ ''_arena'') 0 (cal_heap c) \<and>
        dget_or (who @ ''_failures'') 0 (cal_heap c) = 0)"
proof -
  let ?r = "last_prefixed_line uart ''RFDBG_RESOURCE ''" and ?h = "last_prefixed_line uart ''RFDBG_HEAP ''"
  have c: "cal_heap c = fields_or_empty ?h" "calibration_violations ?r ?h = []"
    using assms by (auto simp: parse_resource_calibration_def Let_def split: if_splits)
  note v = calibration_violations_Nil [OF c(2)]
  from v(1,2) obtain rl hl where lines: "?r = Some rl" "?h = Some hl" by blast
  with c(1) have heap: "cal_heap c = parse_hex_fields hl" by (simp add: fields_or_empty_def)
  from v(3-6) lines show ?thesis
    unfolding heap by (simp add: fields_or_empty_def heap_violations_Nil)
qed

end
