(* ===== verification/Conn_Report.thy ===== *)
theory Conn_Report
  imports Conn_Contract "HOL-Library.List_Lexorder" "HOL-Library.Multiset"
begin

text \<open>
  \<open>hil/ws63-connectivity-reset-matrix.py\<close>, third part: the correlation of the two boards' echo
  evidence, the record of a run and the aggregation of the records into the summary.
\<close>

section \<open>Echo correlation\<close>

text \<open>\<open>sample.get(key)\<close> when it is an integer\<close>

definition sample_int :: "string \<Rightarrow> sample \<Rightarrow> int option" where
  "sample_int key s = (case dget key s of Some (VInt n) \<Rightarrow> Some n | _ \<Rightarrow> None)"

definition sequences :: "string option \<Rightarrow> sample list \<Rightarrow> int set" where
  "sequences phase samples =
     set (List.map_filter
       (\<lambda>s. if phase \<noteq> None \<and> dget ''phase'' s \<noteq> map_option VStr phase then None
            else sample_int ''sequence'' s) samples)"

definition submitted :: "sample list \<Rightarrow> int set" where
  "submitted samples =
     set (List.map_filter
       (\<lambda>s. case (sample_int ''sequence'' s, sample_int ''vendor_tx_delta'' s) of
              (Some n, Some d) \<Rightarrow> if d > 0 then Some n else None
            | _ \<Rightarrow> None) samples)"

record correlation =
  sta_sent :: "int list"
  sta_received :: "int list"
  ap_observed :: "int list"
  ap_submitted :: "int list"
  sent_missing_at_ap :: "int list"
  ap_without_sta_send :: "int list"
  submitted_without_sta_receive :: "int list"

definition correlate_echo_paths ::
    "sample list option \<Rightarrow> sample list option \<Rightarrow> correlation option" where
  "correlate_echo_paths sta_samples ap_samples =
     (case (sta_samples, ap_samples) of
        (Some sta, Some ap) \<Rightarrow>
          (let sent = sequences (Some ''send'') sta;
               received = sequences (Some ''receive'') sta;
               observed = sequences None ap;
               submitted = submitted ap
           in Some \<lparr>sta_sent = sorted_list_of_set sent, sta_received = sorted_list_of_set received,
                    ap_observed = sorted_list_of_set observed,
                    ap_submitted = sorted_list_of_set submitted,
                    sent_missing_at_ap = sorted_list_of_set (sent - observed),
                    ap_without_sta_send = sorted_list_of_set (observed - sent),
                    submitted_without_sta_receive = sorted_list_of_set (submitted - received)\<rparr>)
      | _ \<Rightarrow> None)"

section \<open>The record of a run\<close>

record contract_block =
  required :: bool
  evidence_scope :: string
  violations :: "string list"

record conn_record =
  conn_run :: nat
  result :: string
  conn_bytes :: nat
  auth_rsp2_timeouts :: nat
  ap_mode :: "string option"
  dns :: "sample option"
  l2_protocol :: "counters option"
  local_echo_path :: "sample list option"
  irq45_lifecycle :: "counters option"
  ready_ownership :: "counters option"
  peer_bytes :: "nat option"
  peer_ready :: "bool option"
  peer_echo_path :: "sample list option"
  peer_irq45_lifecycle :: "counters option"
  peer_ready_ownership :: "counters option"
  echo_correlation :: "correlation option"
  a5b :: "a5b_metrics option"
  resource_calibration :: "calibration option"
  contract :: contract_block
  marker_seconds :: "(string, rat) dict"
  conn_log_name :: string
  peer_log_name :: "string option"

definition contract_violations_of ::
    "contract_opts \<Rightarrow> profile \<Rightarrow> stage \<Rightarrow> bytes \<Rightarrow> bytes option \<Rightarrow> string list" where
  "contract_violations_of opts profile stage uart peer_log =
     (if (require_contract opts \<or> require_resource_calibration opts) \<and> profile = Rust
      then validate_rust_contract opts stage uart else [])
   @ (case peer_log of
        None \<Rightarrow> []
      | Some peer \<Rightarrow>
          (if require_contract opts \<and> \<not> occurs ''RFDBG_SOFTAP_READY'' peer
           then [''missing peer RFDBG_SOFTAP_READY marker''] else [])
        @ (if require_contract opts then validate_ready_ownership peer ''peer'' else []))"

definition record_from_log ::
    "contract_opts \<Rightarrow> profile \<Rightarrow> stage \<Rightarrow> string option \<Rightarrow> nat \<Rightarrow> bytes \<Rightarrow> string
       \<Rightarrow> (string, rat) dict \<Rightarrow> bytes option \<Rightarrow> string option \<Rightarrow> conn_record" where
  "record_from_log opts profile stage required_ap_mode run uart name marker_times peer_log peer_name =
     (let contract_violations = contract_violations_of opts profile stage uart peer_log;
          verdict = conn_classify opts profile stage required_ap_mode uart;
          verdict = (if verdict = ''pass'' \<and> contract_violations \<noteq> []
                     then ''contract_violation'' else verdict);
          peer = (case peer_log of None \<Rightarrow> [] | Some p \<Rightarrow> p);
          echo_path = parse_local_echo_path uart;
          peer_path = parse_softap_echo_path peer
      in \<lparr>conn_run = run, result = verdict, conn_bytes = length uart,
          auth_rsp2_timeouts = bcount AUTH_RSP2_TIMEOUT_EVENT uart
                               + bcount OFFICIAL_AUTH_RSP2_TIMEOUT_EVENT uart,
          ap_mode = detected_ap_mode uart, dns = parse_dns_summary uart,
          l2_protocol = parse_l2_protocol_diagnostics uart, local_echo_path = echo_path,
          irq45_lifecycle = parse_irq45_lifecycle uart ''RFDBG_A5B_DATA_PATH '',
          ready_ownership = parse_ready_ownership uart,
          peer_bytes = map_option length peer_log,
          peer_ready = map_option (occurs ''RFDBG_SOFTAP_READY'') peer_log,
          peer_echo_path = peer_path,
          peer_irq45_lifecycle = parse_irq45_lifecycle peer ''RFDBG_SOFTAP_STATE '',
          peer_ready_ownership = parse_ready_ownership peer,
          echo_correlation = correlate_echo_paths echo_path peer_path,
          a5b = parse_a5b_metrics uart (stage = Connect),
          resource_calibration = parse_resource_calibration uart,
          contract = \<lparr>required = require_contract opts \<or> require_resource_calibration opts,
                      evidence_scope = (if qemu_contract_fixture opts then ''contract-only''
                                        else ''silicon''),
                      violations = contract_violations\<rparr>,
          marker_seconds = marker_times, conn_log_name = name, peer_log_name = peer_name\<rparr>)"

section \<open>Ranges over the records\<close>

type_synonym ranges = "(string, int \<times> int) dict"

text \<open>
  \<open>aggregate = ranges.setdefault(key, {'min': v, 'max': v})\<close> and the two updates of it
\<close>

definition widen :: "ranges \<Rightarrow> string \<times> int \<Rightarrow> ranges" where
  "widen ranges = (\<lambda>(key, v).
     (case dget key ranges of
        None \<Rightarrow> dset key (v, v) ranges
      | Some (lo, hi) \<Rightarrow> dset key (min lo v, max hi v) ranges))"

record aggregate =
  runs_with_markers :: nat
  runs_without_markers :: nat
  agg_ranges :: ranges

text \<open>The metrics of a run as the \<open>section.field\<close> observations of the loops.\<close>

definition a5b_observations :: "a5b_metrics \<Rightarrow> (string \<times> int) list" where
  "a5b_observations m =
     concat (map (\<lambda>(section, vals). map (\<lambda>(f, v). (section @ ''.'' @ f, v)) vals)
       (sections m @ [(''timings'', timings m)]))"

record a5b_aggregate =
  a5b_runs :: nat
  a5b_complete :: nat
  a5b_missing :: nat
  a5b_ranges :: ranges

definition aggregate_a5b_metrics :: "conn_record list \<Rightarrow> a5b_aggregate option" where
  "aggregate_a5b_metrics recs =
     (let parsed = List.map_filter a5b recs
      in if parsed = [] then None
         else (let full = filter m_complete parsed
               in Some \<lparr>a5b_runs = length parsed, a5b_complete = length full,
                        a5b_missing = length parsed - length full,
                        a5b_ranges = foldl widen [] (concat (map a5b_observations full))\<rparr>))"

definition aggregate_l2_protocol_diagnostics :: "conn_record list \<Rightarrow> aggregate option" where
  "aggregate_l2_protocol_diagnostics recs =
     (let parsed = List.map_filter l2_protocol recs
      in if parsed = [] then None
         else Some \<lparr>runs_with_markers = length parsed,
                    runs_without_markers = length recs - length parsed,
                    agg_ranges = List.map_filter
                      (\<lambda>f. let vals = List.map_filter (dget f) parsed
                           in if vals = [] then None else Some (f, Min (set vals), Max (set vals)))
                      L2_PROTOCOL_FIELDS\<rparr>)"

text \<open>The 32-bit differences of the counters of two successive samples.\<close>

definition step_deltas :: "sample \<Rightarrow> sample \<Rightarrow> (string \<times> int) list" where
  "step_deltas previous current =
     List.map_filter (\<lambda>(f, cur).
       case (sample_int f previous, cur) of
         (Some prev, VInt n) \<Rightarrow>
           if f = ''sequence'' then None else Some (f, (n - prev) mod 2 ^ 32)
       | _ \<Rightarrow> None) current"

definition path_deltas :: "sample list \<Rightarrow> (string \<times> int) list" where
  "path_deltas samples =
     concat (map (\<lambda>(previous, current). step_deltas previous current) (zip samples (tl samples)))"

record path_aggregate = aggregate +
  samples_min :: nat
  samples_max :: nat

definition aggregate_local_echo_path :: "conn_record list \<Rightarrow> path_aggregate option" where
  "aggregate_local_echo_path recs =
     (let parsed = List.map_filter local_echo_path recs
      in if parsed = [] then None
         else Some \<lparr>runs_with_markers = length parsed,
                    runs_without_markers = length recs - length parsed,
                    agg_ranges = foldl widen [] (concat (map path_deltas parsed)),
                    samples_min = Min (set (map length parsed)),
                    samples_max = Max (set (map length parsed))\<rparr>)"

record irq_aggregate = aggregate +
  disabled_runs :: nat
  pending_runs :: nat

definition aggregate_irq45_lifecycle ::
    "(conn_record \<Rightarrow> counters option) \<Rightarrow> conn_record list \<Rightarrow> irq_aggregate option" where
  "aggregate_irq45_lifecycle key recs =
     (let parsed = List.map_filter key recs
      in if parsed = [] then None
         else Some \<lparr>runs_with_markers = length parsed,
                    runs_without_markers = length recs - length parsed,
                    agg_ranges = map (\<lambda>f. (f, Min (set (map (dget_or f 0) parsed)),
                                              Max (set (map (dget_or f 0) parsed))))
                                   IRQ45_LIFECYCLE_FIELDS,
                    disabled_runs = length (filter (\<lambda>v. dget_or ''irq45_enabled'' 0 v = 0) parsed),
                    pending_runs = length (filter (\<lambda>v. dget_or ''irq45_pending'' 0 v \<noteq> 0) parsed)\<rparr>)"

section \<open>Echo correlation over the records\<close>

definition correlation_fields :: "(string \<times> (correlation \<Rightarrow> int list)) list" where
  "correlation_fields =
     [(''sta_sent'', sta_sent), (''sta_received'', sta_received), (''ap_observed'', ap_observed),
      (''ap_submitted'', ap_submitted), (''sent_missing_at_ap'', sent_missing_at_ap),
      (''submitted_without_sta_receive'', submitted_without_sta_receive)]"

definition totals :: "correlation list \<Rightarrow> (string, nat) dict" where
  "totals entries =
     map (\<lambda>(name, field). (name, sum_list (map (\<lambda>c. length (field c)) entries))) correlation_fields"

text \<open>\<open>grouped.setdefault(result, []).append(correlation)\<close>\<close>

definition add_group ::
    "(string, correlation list) dict \<Rightarrow> string \<times> correlation \<Rightarrow> (string, correlation list) dict" where
  "add_group grouped = (\<lambda>(res, c). dset res (dget_or res [] grouped @ [c]) grouped)"

record echo_aggregate =
  echo_with :: nat
  echo_without :: nat
  echo_totals :: "(string, nat) dict"
  by_result :: "(string, nat \<times> (string, nat) dict) dict"

definition aggregate_echo_correlation :: "conn_record list \<Rightarrow> echo_aggregate option" where
  "aggregate_echo_correlation recs =
     (let parsed = List.map_filter
            (\<lambda>r. map_option (\<lambda>c. (result r, c)) (echo_correlation r)) recs
      in if parsed = [] then None
         else (let grouped = foldl add_group [] parsed
               in Some \<lparr>echo_with = length parsed, echo_without = length recs - length parsed,
                        echo_totals = totals (map snd parsed),
                        by_result = map (\<lambda>(res, entries). (res, length entries, totals entries))
                                      (sort_key fst grouped)\<rparr>))"

section \<open>Readiness evidence and the summary\<close>

definition ownership_zero :: "counters option \<Rightarrow> bool" where
  "ownership_zero snapshot =
     (case snapshot of
        None \<Rightarrow> False
      | Some s \<Rightarrow> \<not> list_ex (\<lambda>name. dget name s \<noteq> Some 0) READY_OWNERSHIP_FIELDS)"

definition ready_ownership_hil_passed :: "conn_record list \<Rightarrow> bool" where
  "ready_ownership_hil_passed recs \<longleftrightarrow>
     recs \<noteq> [] \<and>
     list_all (\<lambda>r. \<not> (result r \<noteq> ''pass'' \<or> \<not> required (contract r) \<or> violations (contract r) \<noteq> []) \<and>
        ownership_zero (ready_ownership r) \<and> ownership_zero (peer_ready_ownership r)) recs"

text \<open>\<open>str(dns.get('status', 'missing')) if isinstance(dns, dict) else 'missing'\<close>\<close>

definition dns_observation :: "conn_record \<Rightarrow> string" where
  "dns_observation r =
     (case dns r of
        None \<Rightarrow> ''missing''
      | Some d \<Rightarrow>
          (case dget ''status'' d of
             Some (VStr s) \<Rightarrow> s
           | Some (VInt n) \<Rightarrow> str_int n
           | _ \<Rightarrow> ''missing''))"

definition DNS_TOTAL_FIELDS :: "string list" where
  "DNS_TOTAL_FIELDS = [''attempts'', ''responses'', ''invalid'', ''tx_error'']"

definition add_dns_totals :: "counters \<Rightarrow> conn_record \<Rightarrow> counters" where
  "add_dns_totals dns_totals r =
     (case dns r of
        None \<Rightarrow> dns_totals
      | Some d \<Rightarrow>
          foldl (\<lambda>t f. case dget f d of
                   Some (VInt n) \<Rightarrow> dset f (dget_or f 0 t + n) t
                 | _ \<Rightarrow> t) dns_totals DNS_TOTAL_FIELDS)"

definition HEAP_FIELDS :: "string list" where
  "HEAP_FIELDS =
     [''rtos_used'', ''rtos_free'', ''rtos_peak'', ''rtos_allocs'', ''rtos_failures'', ''rf_used'',
      ''rf_free'', ''rf_peak'', ''rf_failures'']"

record calibration_summary = aggregate +
  complete_runs :: nat
  first_resource :: sample
  runtime_headroom :: int
  rf_headroom :: int

definition heap_value :: "string \<Rightarrow> calibration \<Rightarrow> int" where
  "heap_value f c = dget_or f 0 (cal_heap c)"

definition summarize_calibration :: "conn_record list \<Rightarrow> calibration_summary option" where
  "summarize_calibration recs =
     (let calibrations = List.map_filter resource_calibration recs
      in if calibrations = [] then None
         else Some \<lparr>runs_with_markers = length calibrations,
                    runs_without_markers = length recs - length calibrations,
                    agg_ranges = map (\<lambda>f. (f, Min (set (map (heap_value f) calibrations)),
                                              Max (set (map (heap_value f) calibrations)))) HEAP_FIELDS,
                    complete_runs = length (filter cal_complete calibrations),
                    first_resource = cal_resource (hd calibrations),
                    runtime_headroom = Min (set (map (\<lambda>c. heap_value ''rtos_arena'' c
                                         - heap_value ''rtos_peak'' c) calibrations)),
                    rf_headroom = Min (set (map (\<lambda>c. heap_value ''rf_arena'' c
                                         - heap_value ''rf_peak'' c) calibrations))\<rparr>)"

record conn_summary =
  sum_runs :: nat
  counts :: "(string, nat) dict"
  dns_observations :: "(string, nat) dict"
  dns_totals :: counters
  sum_timeouts :: nat
  peer_ready_runs :: nat
  sum_a5b :: "a5b_aggregate option"
  sum_l2 :: "aggregate option"
  sum_echo_path :: "path_aggregate option"
  sum_echo :: "echo_aggregate option"
  sum_irq45 :: "irq_aggregate option"
  sum_peer_irq45 :: "irq_aggregate option"
  sum_calibration :: "calibration_summary option"
  evidence_markers :: "string list"
  sum_records :: "conn_record list"

definition summarize_records :: "conn_record list \<Rightarrow> conn_summary" where
  "summarize_records recs =
     \<lparr>sum_runs = length recs,
      counts = foldl (\<lambda>d r. dict_incr (result r) d) [] recs,
      dns_observations = foldl (\<lambda>d r. dict_incr (dns_observation r) d) [] recs,
      dns_totals = foldl add_dns_totals (map (\<lambda>f. (f, 0)) DNS_TOTAL_FIELDS) recs,
      sum_timeouts = sum_list (map auth_rsp2_timeouts recs),
      peer_ready_runs = length (filter (\<lambda>r. peer_ready r = Some True) recs),
      sum_a5b = aggregate_a5b_metrics recs,
      sum_l2 = aggregate_l2_protocol_diagnostics recs,
      sum_echo_path = aggregate_local_echo_path recs,
      sum_echo = aggregate_echo_correlation recs,
      sum_irq45 = aggregate_irq45_lifecycle irq45_lifecycle recs,
      sum_peer_irq45 = aggregate_irq45_lifecycle peer_irq45_lifecycle recs,
      sum_calibration = summarize_calibration recs,
      evidence_markers =
        (if ready_ownership_hil_passed recs then [''A5R_READY_OWNERSHIP_OK''] else []),
      sum_records = recs\<rparr>"

section \<open>Counting\<close>

lemma foldl_dict_incr:
  "distinct (map fst d) \<Longrightarrow>
     distinct (map fst (foldl (\<lambda>d r. dict_incr (f r) d) d xs)) \<and>
     sum_list (map snd (foldl (\<lambda>d r. dict_incr (f r) d) d xs)) = sum_list (map snd d) + length xs \<and>
     dget_or k 0 (foldl (\<lambda>d r. dict_incr (f r) d) d xs)
       = dget_or k 0 d + length (filter (\<lambda>r. f r = k) xs)"
  by (induction xs arbitrary: d) (simp_all add: sum_list_dict_incr)

text \<open>
  The counters of a connectivity summary.  Every run is counted once under its result and
  once under its DNS observation: the count of a result is the number of runs with that result,
  and the counts add up to the number of runs.
\<close>

theorem summary_counts_runs:
  "dget_or k 0 (counts (summarize_records recs)) = length (filter (\<lambda>r. result r = k) recs) \<and>
   sum_list (map snd (counts (summarize_records recs))) = length recs \<and>
   dget_or k 0 (dns_observations (summarize_records recs))
     = length (filter (\<lambda>r. dns_observation r = k) recs) \<and>
   sum_list (map snd (dns_observations (summarize_records recs))) = length recs"
  using foldl_dict_incr [of "[]" result recs k] foldl_dict_incr [of "[]" dns_observation recs k]
  by (simp add: summarize_records_def dget_or_def)

section \<open>Echo correlation\<close>

lemma finite_sequences [simp]: "finite (sequences phase samples)" "finite (submitted samples)"
  by (simp_all add: sequences_def submitted_def)

text \<open>
  the loss accounting between the boards.  The lists are strictly increasing; every sequence
  number the station sent is either missing at the access point or was observed there, the
  access point's surplus is what nobody sent, and the two sides balance:
  sent + surplus = observed + missing.
\<close>

theorem correlate_echo_paths_balance:
  assumes "correlate_echo_paths sta ap = Some c"
  shows "sorted_wrt (<) (sta_sent c) \<and> sorted_wrt (<) (ap_observed c) \<and>
    set (sent_missing_at_ap c) = set (sta_sent c) - set (ap_observed c) \<and>
    set (ap_without_sta_send c) = set (ap_observed c) - set (sta_sent c) \<and>
    set (submitted_without_sta_receive c) = set (ap_submitted c) - set (sta_received c) \<and>
    set (ap_submitted c) \<subseteq> set (ap_observed c) \<and>
    length (sta_sent c) + length (ap_without_sta_send c)
      = length (ap_observed c) + length (sent_missing_at_ap c)"
proof -
  from assms obtain xs ys where s: "sta = Some xs" "ap = Some ys"
    by (auto simp: correlate_echo_paths_def split: option.splits)
  define A where "A = sequences (Some ''send'') xs"
  define B where "B = sequences None ys"
  have fin: "finite A" "finite B" by (simp_all add: A_def B_def)
  have c: "sta_sent c = sorted_list_of_set A" "ap_observed c = sorted_list_of_set B"
    "sent_missing_at_ap c = sorted_list_of_set (A - B)" "ap_without_sta_send c = sorted_list_of_set (B - A)"
    "sta_received c = sorted_list_of_set (sequences (Some ''receive'') xs)"
    "ap_submitted c = sorted_list_of_set (submitted ys)"
    "submitted_without_sta_receive c
       = sorted_list_of_set (submitted ys - sequences (Some ''receive'') xs)"
    using assms s by (auto simp: correlate_echo_paths_def Let_def A_def B_def)
  have "card A = card (A \<inter> B) + card (A - B)" "card B = card (A \<inter> B) + card (B - A)"
    using fin by (simp_all add: card_Diff_subset_Int Int_commute card_mono)
  then have "card A + card (B - A) = card B + card (A - B)" by simp
  moreover have "submitted ys \<subseteq> B"
    by (force simp: submitted_def B_def sequences_def in_map_filter split: option.splits if_splits)
  ultimately show ?thesis
    unfolding c by (simp add: fin)
qed

section \<open>Ranges\<close>

definition observed :: "string \<Rightarrow> (string \<times> int) list \<Rightarrow> int set" where
  "observed k obs = {v. (k, v) \<in> set obs}"

lemma finite_observed [simp]: "finite (observed k obs)"
proof -
  have "observed k obs \<subseteq> snd ` set obs" by (force simp: observed_def)
  then show ?thesis by (rule finite_subset) simp
qed

lemma widen_get:
  "dget k (widen rs (k', v)) =
     (if k = k' then Some (case dget k rs of None \<Rightarrow> (v, v) | Some (lo, hi) \<Rightarrow> (min lo v, max hi v))
      else dget k rs)"
  by (auto simp: widen_def split: option.split)

lemma foldl_widen:
  "dget k (foldl widen [] obs) =
     (if observed k obs = {} then None else Some (Min (observed k obs), Max (observed k obs)))"
proof (induction obs rule: rev_induct)
  case Nil
  then show ?case by (simp add: observed_def)
next
  case (snoc o1 obs)
  obtain k' v where o1: "o1 = (k', v)" by fastforce
  have obs: "observed k (obs @ [(k', v)])
      = (if k = k' then insert v (observed k obs) else observed k obs)"
    by (auto simp: observed_def)
  from snoc.IH show ?case
    by (auto simp: o1 obs widen_get min.commute max.commute)
qed

text \<open>
  the ranges of the step deltas are those of the 32-bit differences.  For each counter the
  summary shows the least and the greatest difference, modulo \<open>2 ^ 32\<close>, between successive
  samples of a run; both lie in \<open>0 ..< 2 ^ 32\<close>, also when the counter wrapped around.
\<close>

theorem local_echo_path_ranges:
  assumes "aggregate_local_echo_path recs = Some a"
    and "dget k (agg_ranges a) = Some (lo, hi)"
  shows "0 \<le> lo \<and> lo \<le> hi \<and> hi < 2 ^ 32 \<and>
    (\<forall>b\<in>{lo, hi}. \<exists>r\<in>set recs. \<exists>samples i prev cur.
       local_echo_path r = Some samples \<and> Suc i < length samples \<and>
       sample_int k (samples ! i) = Some prev \<and> (k, VInt cur) \<in> set (samples ! Suc i) \<and>
       b = (cur - prev) mod 2 ^ 32)"
proof -
  let ?obs = "concat (map path_deltas (List.map_filter local_echo_path recs))"
  have "agg_ranges a = foldl widen [] ?obs"
    using assms(1) by (auto simp: aggregate_local_echo_path_def Let_def split: if_splits)
  with assms(2) have ne: "observed k ?obs \<noteq> {}" and b: "lo = Min (observed k ?obs)" "hi = Max (observed k ?obs)"
    by (auto simp: foldl_widen split: if_splits)
  have obs: "\<exists>r\<in>set recs. \<exists>samples i prev cur.
       local_echo_path r = Some samples \<and> Suc i < length samples \<and>
       sample_int k (samples ! i) = Some prev \<and> (k, VInt cur) \<in> set (samples ! Suc i) \<and>
       v = (cur - prev) mod 2 ^ 32" if "v \<in> observed k ?obs" for v
  proof -
    from that obtain r samples where r: "r \<in> set recs" "local_echo_path r = Some samples"
      and "(k, v) \<in> set (path_deltas samples)"
      by (auto simp: observed_def List.map_filter_def)
    then obtain prev cur where pc: "(prev, cur) \<in> set (zip samples (tl samples))"
      "(k, v) \<in> set (step_deltas prev cur)" by (auto simp: path_deltas_def)
    from pc(1) obtain i where i: "Suc i < length samples" "prev = samples ! i" "cur = samples ! Suc i"
      by (auto simp: set_zip nth_tl less_diff_conv)
    from pc(2) obtain p n where "sample_int k prev = Some p" "(k, VInt n) \<in> set cur"
      "v = (n - p) mod 2 ^ 32"
      by (auto simp: step_deltas_def List.map_filter_def split: option.splits fval.splits if_splits)
    with r i show ?thesis by blast
  qed
  have in_obs: "lo \<in> observed k ?obs" "hi \<in> observed k ?obs" using ne b by simp_all
  have "lo \<le> hi" using ne b by simp
  moreover have "0 \<le> v \<and> v < 2 ^ 32" if "v \<in> observed k ?obs" for v
    using obs [OF that] by auto
  ultimately show ?thesis using in_obs obs by blast
qed

section \<open>Grouping by result\<close>

lemma foldl_add_group:
  "distinct (map fst (foldl add_group [] parsed)) \<and>
   dget res (foldl add_group [] parsed) =
     (let es = map snd (filter (\<lambda>p. fst p = res) parsed) in if es = [] then None else Some es)"
proof (induction parsed arbitrary: res rule: rev_induct)
  case Nil
  then show ?case by simp
next
  case (snoc p parsed)
  obtain r c where p: "p = (r, c)" by fastforce
  show ?case
    using snoc.IH [of res] snoc.IH [of r]
    by (auto simp: p add_group_def Let_def dget_or_def distinct_update filter_empty_conv
        split: if_splits option.splits)
qed

lemma sum_lengths_grouped:
  "sum_list (map (\<lambda>(k, es). length es) (foldl add_group [] parsed)) = length parsed"
proof (induction parsed rule: rev_induct)
  case Nil
  then show ?case by simp
next
  case (snoc p parsed)
  obtain r c where p: "p = (r, c)" by fastforce
  let ?g = "foldl add_group [] parsed"
  have "sum_list (map (\<lambda>(k, es). length es) (dset r (dget_or r [] d @ [c]) d))
      = Suc (sum_list (map (\<lambda>(k, es). length es) d))" for d :: "(string, correlation list) dict"
    by (induction d) (auto simp: dget_or_def)
  with snoc.IH show ?case by (simp add: p add_group_def)
qed

lemma map_of_sorted: "distinct (map fst d) \<Longrightarrow> map_of (sort_key fst d) = map_of d"
  by (subst map_of_inject_set) (simp_all add: distinct_map)

text \<open>
  The echo summary by result.  The entry of a result covers exactly the runs with that result
  that have a correlation: it gives their number and the totals over them, a result without
  such a run has no entry, and the entries together cover every run with echo markers.
\<close>

theorem echo_by_result_partition:
  assumes "aggregate_echo_correlation recs = Some a"
  shows "dget res (by_result a) =
      (let es = List.map_filter echo_correlation (filter (\<lambda>r. result r = res) recs)
       in if es = [] then None else Some (length es, totals es)) \<and>
    sum_list (map (\<lambda>(k, n, t). n) (by_result a)) = echo_with a \<and>
    sorted (map fst (by_result a)) \<and> echo_with a + echo_without a = length recs"
proof -
  define parsed where "parsed = List.map_filter
      (\<lambda>r. map_option (\<lambda>c. (result r, c)) (echo_correlation r)) recs"
  have a: "by_result a = map (\<lambda>(res, es). (res, length es, totals es)) (sort_key fst (foldl add_group [] parsed))"
    "echo_with a = length parsed" "echo_without a = length recs - length parsed"
    using assms by (auto simp: aggregate_echo_correlation_def Let_def parsed_def split: if_splits)
  have dist: "distinct (map fst (foldl add_group [] parsed))" using foldl_add_group by blast
  have sel: "map snd (filter (\<lambda>p. fst p = res) parsed)
      = List.map_filter echo_correlation (filter (\<lambda>r. result r = res) recs)"
    unfolding parsed_def by (induction recs) (auto simp: List.map_filter_simps split: option.split)
  have "dget res (by_result a)
      = map_option (\<lambda>es. (length es, totals es)) (dget res (foldl add_group [] parsed))"
    by (simp only: a(1) map_of_map [where f = "\<lambda>es. (length es, totals es)"]
        map_of_sorted [OF dist] comp_apply)
  also have "\<dots> = (let es = List.map_filter echo_correlation (filter (\<lambda>r. result r = res) recs)
       in if es = [] then None else Some (length es, totals es))"
    using foldl_add_group [of parsed res] sel by (auto simp: Let_def)
  finally have get: "dget res (by_result a) = \<dots>" .
  have "mset (sort_key fst (foldl add_group [] parsed)) = mset (foldl add_group [] parsed)" by simp
  then have "sum_list (map (\<lambda>(k, es). length es) (sort_key fst (foldl add_group [] parsed)))
      = sum_list (map (\<lambda>(k, es). length es) (foldl add_group [] parsed))"
    by (metis mset_map sum_mset_sum_list)
  then have "sum_list (map (\<lambda>(k, n, t). n) (by_result a)) = echo_with a"
    using sum_lengths_grouped [of parsed] by (simp add: a comp_def case_prod_unfold)
  moreover have "sorted (map fst (by_result a))"
    by (simp add: a comp_def case_prod_unfold)
  moreover have "length parsed \<le> length recs"
    by (simp add: parsed_def length_map_filter)
  ultimately show ?thesis using get a by simp
qed

section \<open>Readiness evidence\<close>

lemma ownership_zero_iff:
  "ownership_zero (parse_ready_ownership uart) \<longleftrightarrow> validate_ready_ownership uart role = []"
  unfolding validate_ready_ownership_Nil
  by (auto simp: ownership_zero_def list_ex_iff split: option.split)

lemma record_pass:
  assumes "require_contract opts" and "stage \<noteq> Init_scan"
    and "result (record_from_log opts Rust stage ap i uart name tms (Some peer) pname) = ''pass''"
  shows "contract_violations_of opts Rust stage uart (Some peer) = []"
    "validate_ready_ownership uart ''sta'' = []" "validate_ready_ownership peer ''peer'' = []"
proof -
  show nil: "contract_violations_of opts Rust stage uart (Some peer) = []"
    using assms(3) by (auto simp: record_from_log_def Let_def split: if_splits)
  then show "validate_ready_ownership peer ''peer'' = []"
    using assms(1) by (simp add: contract_violations_of_def)
  from nil have "validate_rust_contract opts stage uart = []"
    using assms(1) by (simp add: contract_violations_of_def)
  from validate_rust_contract_Nil(4) [OF this assms(2)]
  show "validate_ready_ownership uart ''sta'' = []" by blast
qed


end
