(* ===== verification/Conn_Capture.thy ===== *)
theory Conn_Capture
  imports Conn_Report Pair_Matrix
begin

text \<open>
  \<open>hil/ws63-connectivity-reset-matrix.py\<close>, fourth part: \<open>capture_run\<close> with its serial
  reconnects.  As in \<open>Pair_Capture\<close> the environment is a list of ticks, one for each
  iteration of the main loop; a tick in which \<open>port.read\<close> raises carries the environment of
  the recovery.  The value \<open>None\<close> means that a loop is still running when its list is used up.
\<close>

section \<open>Helpers\<close>

definition post_terminal_elapsed :: "secs option \<Rightarrow> secs \<Rightarrow> secs \<Rightarrow> bool" where
  "post_terminal_elapsed seen_at post_seconds clock =
     (case seen_at of None \<Rightarrow> False | Some t \<Rightarrow> clock - t \<ge> post_seconds)"

text \<open>
  \<open>late\<close> is what arrives while \<open>port.read(4096)\<close> waits for its short timeout; the read waits
  only if nothing is queued.
\<close>

fun drain_serial :: "bytes \<Rightarrow> port option \<Rightarrow> bytes \<times> port option" where
  "drain_serial late None = ([], None)"
| "drain_serial late (Some p) =
     (let waiting = length (rxbuf p);
          (d, p) = (if waiting \<noteq> 0 then serial_read waiting p else serial_read 4096 (arrive late p))
      in (d, Some p))"

definition boot_marker :: bytes where
  "boot_marker = ''boot.'' @ [CHR 13, CHR 10]"

definition current_boot_log :: "bytes \<Rightarrow> bytes" where
  "current_boot_log uart =
     (case bfind boot_marker uart 0 of Some boot_start \<Rightarrow> drop boot_start uart | None \<Rightarrow> uart)"

text \<open>\<open>round(x, 3)\<close>: to the nearest thousandth, ties to even\<close>

definition round3 :: "secs \<Rightarrow> rat" where
  "round3 x =
     (let y = x * 1000; f = floor y; d = y - of_int f
      in of_int (if d < 1 / 2 then f else if d > 1 / 2 then f + 1
                 else if even f then f else f + 1) / 1000)"

section \<open>Markers of a profile and stage\<close>

definition timed_markers :: "profile \<Rightarrow> bytes list" where
  "timed_markers profile =
     (if profile = Official_liteos then OFFICIAL_TIMED_MARKERS else RUST_TIMED_MARKERS)"

definition terminal_markers :: "profile \<Rightarrow> stage \<Rightarrow> bytes list" where
  "terminal_markers profile stage =
     (if profile = Rust then
        (let failure_markers = filter (\<lambda>m. m \<notin> {''RF5C_CONNECTIVITY_SUMMARY'',
                                                   ''RFDBG_A5B_CONNECT_PROFILE_OK''})
                                 RUST_TERMINAL_MARKERS
         in if stage = Init_scan
            then failure_markers @ [''RF3_SCAN_OK'', ''RFDBG_A5B_SCAN_PROFILE_OK'']
            else if stage = Connect
            then failure_markers @ [''RFDBG_A5B_CONNECT_PROFILE_OK'', ''RF5B_WPA_CONNECT_OK'',
                                    ''W2D_WPA2_CONNECT_OK'', ''W2E_WPA3_CONNECT_OK'']
            else failure_markers @ [''A4_DHCP_RENEW_OK''])
      else if stage = Connect then OFFICIAL_TERMINAL_MARKERS @ [''+NOTICE:CONNECTED'']
      else OFFICIAL_TERMINAL_MARKERS)"

section \<open>State and environment\<close>

record conn_state =
  tport :: port
  pport :: "port option"
  uart_log :: bytes
  peer_log :: bytes
  marker_times :: "(string, rat) dict"
  started :: secs
  deadline :: secs
  terminal_seen :: "secs option"
  boot_seen :: bool
  reconnects :: nat

record settle_tick =
  s_now :: secs
  s_target_rx :: bytes
  s_peer_rx :: bytes
  s_late :: bytes

record recovery =
  reopen_from :: secs                   \<comment> \<open>the clock when the reopen deadline is computed\<close>
  reopen_tries :: "(exn option \<times> secs) list"
    \<comment> \<open>the \<open>OSError\<close> or \<open>SerialException\<close> of an attempt, and the clock after it\<close>
  restart_at :: secs
  again_peer_pulse :: pulse_env
  again_settle_from :: secs
  again_settle :: "settle_tick list"
  again_pulse :: pulse_env

record conn_tick =
  c_now :: secs          \<comment> \<open>\<open>time.monotonic()\<close> in the loop test\<close>
  c_post :: secs         \<comment> \<open>\<open>time.monotonic()\<close> for \<open>post_terminal_elapsed\<close>\<close>
  c_target_rx :: bytes
  c_peer_rx :: bytes
  c_broken :: bool       \<comment> \<open>\<open>port.read\<close> raises \<open>SerialException\<close>\<close>
  c_recovery :: recovery
  c_late :: bytes
  c_stamp :: secs        \<comment> \<open>\<open>time.monotonic()\<close> for the marker times\<close>
  c_mark :: secs         \<comment> \<open>\<open>time.monotonic()\<close> for \<open>terminal_seen_at\<close>\<close>

record conn_env =
  first_peer_pulse :: pulse_env
  first_settle_from :: secs
  first_settle :: "settle_tick list"
  started_at :: secs
  first_pulse :: pulse_env
  conn_ticks :: "conn_tick list"
  conn_last_peer :: bytes
  conn_last_late :: bytes

text \<open>The arguments of \<open>capture_run\<close>.\<close>

record conn_opts =
  jlink_exe :: string
  jlink_serial :: "string option"
  peer_jlink_serial :: "string option"
  peer_settle_seconds :: secs
  conn_timeout :: secs
  post_terminal_seconds :: secs
  conn_profile :: profile
  conn_stage :: stage

definition drain_peer :: "bytes \<Rightarrow> conn_state \<Rightarrow> conn_state" where
  "drain_peer late s =
     (let (d, p) = drain_serial late (pport s) in s\<lparr>peer_log := peer_log s @ d, pport := p\<rparr>)"

definition both_arrive :: "bytes \<Rightarrow> bytes \<Rightarrow> conn_state \<Rightarrow> conn_state" where
  "both_arrive target peer s =
     s\<lparr>tport := arrive target (tport s), pport := map_option (arrive peer) (pport s)\<rparr>"

fun settle_peer :: "secs \<Rightarrow> settle_tick list \<Rightarrow> conn_state \<Rightarrow> conn_state option" where
  "settle_peer limit [] s = None"
| "settle_peer limit (t # ts) s =
     (let s = both_arrive (s_target_rx t) (s_peer_rx t) s
      in if s_now t < limit then settle_peer limit ts (drain_peer (s_late t) s) else Some s)"

text \<open>Reset the peer, if it has a probe, and let it settle; then pulse the target.\<close>

definition reset_boards ::
    "conn_opts \<Rightarrow> pulse_env \<Rightarrow> secs \<Rightarrow> settle_tick list \<Rightarrow> conn_state \<Rightarrow> conn_state res option" where
  "reset_boards opts peer_pulse settle_start settle s =
     (case peer_jlink_serial opts of
        None \<Rightarrow> Some (Inr s)
      | Some sn \<Rightarrow>
          (case snd (pulse_nrst (jlink_exe opts) (Some sn) peer_pulse) of
             Inl e \<Rightarrow> Some (Inl e)
           | Inr _ \<Rightarrow> map_option Inr
               (settle_peer (settle_start + peer_settle_seconds opts) settle s)))"

fun reopen_port :: "secs \<Rightarrow> (exn option \<times> secs) list \<Rightarrow> unit res option" where
  "reopen_port limit [] = None"
| "reopen_port limit ((error, t) # tries) =
     (case error of
        None \<Rightarrow> Some (Inr ())
      | Some e \<Rightarrow> if t \<ge> limit then Some (Inl e) else reopen_port limit tries)"

section \<open>Recovery from a serial error\<close>

definition recover :: "conn_opts \<Rightarrow> recovery \<Rightarrow> conn_state \<Rightarrow> conn_state res option" where
  "recover opts r s =
     (let s = s\<lparr>reconnects := reconnects s + 1\<rparr>
      in if reconnects s > 3 then Some (Inl SerialException)
         else (case reopen_port (reopen_from r + 2) (reopen_tries r) of
           None \<Rightarrow> None
         | Some (Inl e) \<Rightarrow> Some (Inl e)
         | Some (Inr _) \<Rightarrow>
             (let s = s\<lparr>tport := reset_input_buffer (tport s), started := restart_at r,
                        deadline := restart_at r + conn_timeout opts, terminal_seen := None,
                        boot_seen := False, uart_log := [], peer_log := [], marker_times := []\<rparr>;
                  s = (if peer_jlink_serial opts \<noteq> None
                       then s\<lparr>pport := map_option reset_input_buffer (pport s)\<rparr> else s)
              in case reset_boards opts (again_peer_pulse r) (again_settle_from r) (again_settle r) s of
                   None \<Rightarrow> None
                 | Some (Inl e) \<Rightarrow> Some (Inl e)
                 | Some (Inr s) \<Rightarrow>
                     (case snd (pulse_nrst (jlink_exe opts) (jlink_serial opts) (again_pulse r)) of
                        Inl e \<Rightarrow> Some (Inl e)
                      | Inr _ \<Rightarrow> Some (Inr s)))))"

section \<open>One chunk and the loop\<close>

definition note_markers :: "conn_opts \<Rightarrow> conn_tick \<Rightarrow> conn_state \<Rightarrow> conn_state" where
  "note_markers opts t s =
     (let elapsed = c_stamp t - started s;
          tm = foldl (\<lambda>tm m. if \<not> has_key m tm \<and> occurs m (uart_log s) then dset m (round3 elapsed) tm else tm)
                 (marker_times s) (timed_markers (conn_profile opts))
      in s\<lparr>marker_times := tm,
           terminal_seen :=
             (if terminal_seen s = None \<and>
                 list_ex (\<lambda>m. occurs m (uart_log s))
                   (terminal_markers (conn_profile opts) (conn_stage opts))
              then Some (c_mark t) else terminal_seen s)\<rparr>)"

definition add_chunk :: "conn_opts \<Rightarrow> conn_tick \<Rightarrow> bytes \<Rightarrow> conn_state \<Rightarrow> conn_state" where
  "add_chunk opts t chunk s =
     (let s = s\<lparr>uart_log := uart_log s @ chunk\<rparr>
      in if boot_seen s then note_markers opts t s
         else (case bfind boot_marker (uart_log s) 0 of
           None \<Rightarrow> s
         | Some boot_start \<Rightarrow>
             note_markers opts t
               (s\<lparr>uart_log := drop boot_start (uart_log s), boot_seen := True\<rparr>)))"

definition take_chunk :: "conn_opts \<Rightarrow> conn_tick \<Rightarrow> conn_state \<Rightarrow> conn_state" where
  "take_chunk opts t s =
     (let (chunk, p) = serial_read 4096 (tport s);
          s = drain_peer (c_late t) (s\<lparr>tport := p\<rparr>)
      in if chunk = [] then s else add_chunk opts t chunk s)"

fun conn_loop :: "conn_opts \<Rightarrow> conn_tick list \<Rightarrow> conn_state \<Rightarrow> conn_state res option" where
  "conn_loop opts [] s = None"
| "conn_loop opts (t # ts) s =
     (let s = both_arrive (c_target_rx t) (c_peer_rx t) s
      in if \<not> c_now t < deadline s then Some (Inr s)
         else if post_terminal_elapsed (terminal_seen s) (post_terminal_seconds opts) (c_post t)
         then Some (Inr s)
         else if c_broken t
         then (case recover opts (c_recovery t) s of
                 None \<Rightarrow> None
               | Some (Inl e) \<Rightarrow> Some (Inl e)
               | Some (Inr s) \<Rightarrow> conn_loop opts ts s)
         else conn_loop opts ts (take_chunk opts t s))"

definition start_state :: "conn_opts \<Rightarrow> port \<Rightarrow> port option \<Rightarrow> conn_state" where
  "start_state opts port peer =
     \<lparr>tport = reset_input_buffer port, pport = map_option reset_input_buffer peer, uart_log = [],
      peer_log = [], marker_times = [], started = 0, deadline = 0, terminal_seen = None,
      boot_seen = False, reconnects = 0\<rparr>"

definition finish_capture :: "conn_env \<Rightarrow> conn_state \<Rightarrow> conn_state" where
  "finish_capture env s =
     (let s = drain_peer (conn_last_late env) (both_arrive [] (conn_last_peer env) s)
      in s\<lparr>peer_log := current_boot_log (peer_log s)\<rparr>)"

definition conn_capture_run ::
    "conn_opts \<Rightarrow> conn_env \<Rightarrow> port \<Rightarrow> port option \<Rightarrow> conn_state res option" where
  "conn_capture_run opts env port peer =
     (case reset_boards opts (first_peer_pulse env) (first_settle_from env) (first_settle env)
             (start_state opts port peer) of
        None \<Rightarrow> None
      | Some (Inl e) \<Rightarrow> Some (Inl e)
      | Some (Inr s) \<Rightarrow>
          (case snd (pulse_nrst (jlink_exe opts) (jlink_serial opts) (first_pulse env)) of
             Inl e \<Rightarrow> Some (Inl e)
           | Inr _ \<Rightarrow>
               (case conn_loop opts (conn_ticks env)
                       (s\<lparr>started := started_at env,
                          deadline := started_at env + conn_timeout opts\<rparr>) of
                  None \<Rightarrow> None
                | Some (Inl e) \<Rightarrow> Some (Inl e)
                | Some (Inr s) \<Rightarrow> Some (Inr (finish_capture env s)))))"

named_theorems conn_simps \<open>fields of the capture state that a step leaves alone\<close>

section \<open>Only the current boot counts\<close>

lemma find_at_append: "find_at i sub a = Some k \<Longrightarrow> find_at i sub (a @ b) = Some k"
proof (induction a arbitrary: i)
  case Nil
  then show ?case by (cases b) (auto split: if_splits)
next
  case (Cons c cs)
  show ?case
  proof (cases "prefix sub (c # cs)")
    case True
    then have "prefix sub ((c # cs) @ b)" by (rule prefix_prefix)
    with True Cons.prems show ?thesis by simp
  next
    case False
    with Cons.prems have later: "find_at (Suc i) sub cs = Some k" by simp
    then have "prefix sub (drop (k - Suc i) cs)" by (blast dest: find_at_Some)
    then have "length sub \<le> length (drop (k - Suc i) cs)" by (rule prefix_length_le)
    then have "length sub \<le> length (c # cs)" by simp
    then have "prefix sub ((c # cs) @ b) \<Longrightarrow> prefix sub (c # cs)"
      by (metis append_prefixD prefix_def prefix_length_prefix)
    with False Cons.IH [OF later] show ?thesis by auto
  qed
qed

lemma bfind_append: "bfind sub a 0 = Some k \<Longrightarrow> bfind sub (a @ b) 0 = Some k"
  by (simp add: bfind_def find_at_append)

text \<open>Cutting at the boot marker once, as soon as it is there, is cutting the whole log.\<close>

lemma current_boot_log_append:
  "occurs boot_marker raw \<Longrightarrow> current_boot_log (raw @ chunk) = current_boot_log raw @ chunk"
proof -
  assume "occurs boot_marker raw"
  then obtain k where k: "bfind boot_marker raw 0 = Some k" using bfind_occurs by blast
  from bfind_Some [OF k] have "k \<le> length raw" by simp
  with k bfind_append [OF k, of chunk] show ?thesis by (simp add: current_boot_log_def)
qed

lemma current_boot_log_absent: "\<not> occurs boot_marker raw \<Longrightarrow> current_boot_log raw = raw"
  using bfind_occurs [of boot_marker raw] by (simp add: current_boot_log_def)

lemma current_boot_log_starts:
  assumes "occurs boot_marker raw"
  shows "startswith boot_marker (current_boot_log raw)"
proof -
  from assms obtain k where k: "bfind boot_marker raw 0 = Some k" using bfind_occurs by blast
  with bfind_Some [OF k] show ?thesis by (simp add: current_boot_log_def)
qed

lemma current_boot_log_cases:
  "startswith boot_marker (current_boot_log raw) \<or> \<not> occurs boot_marker (current_boot_log raw)"
  using current_boot_log_starts current_boot_log_absent by metis

lemma occurs_current_boot_log: "occurs m (current_boot_log raw) \<Longrightarrow> occurs m raw"
  by (auto simp: current_boot_log_def dest: occurs_drop split: option.splits)

text \<open>
  The invariant of the loop, for the bytes \<open>acc\<close> that the target has sent since the last
  restart of the attempt: the log is cut at the boot marker, before that marker nothing is
  noted, and what is noted is in the log.
\<close>

definition boot_inv :: "conn_opts \<Rightarrow> bytes \<Rightarrow> conn_state \<Rightarrow> bool" where
  "boot_inv opts acc s \<longleftrightarrow>
     (\<exists>raw. acc = raw @ rxbuf (tport s) \<and> uart_log s = current_boot_log raw \<and>
        (boot_seen s \<longleftrightarrow> occurs boot_marker raw)) \<and>
     fst ` set (marker_times s) \<subseteq> {m. occurs m (uart_log s)} \<and>
     (\<not> boot_seen s \<longrightarrow> marker_times s = [] \<and> terminal_seen s = None) \<and>
     (terminal_seen s \<noteq> None \<longrightarrow>
        (\<exists>m\<in>set (terminal_markers (conn_profile opts) (conn_stage opts)). occurs m (uart_log s)))"

text \<open>The part of the state that the invariant and the loop test read.\<close>

definition conn_view ::
    "conn_state \<Rightarrow> bytes \<times> bytes \<times> (string, rat) dict \<times> secs option \<times> bool \<times> nat \<times> secs \<times> secs" where
  "conn_view s = (uart_log s, rxbuf (tport s), marker_times s, terminal_seen s, boot_seen s,
                  reconnects s, started s, deadline s)"

lemma boot_inv_cong: "conn_view s' = conn_view s \<Longrightarrow> boot_inv opts acc s' = boot_inv opts acc s"
  by (simp add: boot_inv_def conn_view_def)

lemma drain_peer_view: "conn_view (drain_peer l s) = conn_view s"
  by (simp add: conn_view_def drain_peer_def split: prod.split)

text \<open>The bytes that the target sends: while the peer settles, and in the loop.\<close>

fun settle_stream :: "secs \<Rightarrow> settle_tick list \<Rightarrow> bytes" where
  "settle_stream limit [] = []"
| "settle_stream limit (t # ts) =
     s_target_rx t @ (if s_now t < limit then settle_stream limit ts else [])"

definition reset_stream :: "conn_opts \<Rightarrow> secs \<Rightarrow> settle_tick list \<Rightarrow> bytes" where
  "reset_stream opts settle_start settle =
     (if peer_jlink_serial opts = None then []
      else settle_stream (settle_start + peer_settle_seconds opts) settle)"

text \<open>A broken read restarts the attempt: what came before it does not count.\<close>

fun conn_stream :: "conn_opts \<Rightarrow> conn_tick list \<Rightarrow> bytes \<Rightarrow> bytes" where
  "conn_stream opts [] acc = acc"
| "conn_stream opts (t # ts) acc =
     conn_stream opts ts
       (if c_broken t
        then reset_stream opts (again_settle_from (c_recovery t)) (again_settle (c_recovery t))
        else acc @ c_target_rx t)"

lemma settle_peer_view:
  "settle_peer limit ts s = Some s' \<Longrightarrow>
     conn_view s' = conn_view (s\<lparr>tport := arrive (settle_stream limit ts) (tport s)\<rparr>)"
proof (induction ts arbitrary: s)
  case Nil
  then show ?case by simp
next
  case (Cons t ts)
  let ?s = "both_arrive (s_target_rx t) (s_peer_rx t) s"
  show ?case
  proof (cases "s_now t < limit")
    case True
    with Cons.prems have "settle_peer limit ts (drain_peer (s_late t) ?s) = Some s'" by simp
    from Cons.IH [OF this] drain_peer_view [of "s_late t" ?s] True show ?thesis
      by (simp add: conn_view_def both_arrive_def)
  next
    case False
    with Cons.prems show ?thesis by (auto simp: conn_view_def both_arrive_def)
  qed
qed

lemma reset_boards_view:
  "reset_boards opts pe settle_start ts s = Some (Inr s') \<Longrightarrow>
     conn_view s' = conn_view (s\<lparr>tport := arrive (reset_stream opts settle_start ts) (tport s)\<rparr>)"
  by (auto simp: reset_boards_def reset_stream_def conn_view_def
      split: option.splits sum.splits dest!: settle_peer_view)

lemma note_markers_inv:
  assumes "boot_inv opts acc s" and "boot_seen s"
  shows "boot_inv opts acc (note_markers opts t s)"
proof -
  have "fst ` set (foldl (\<lambda>tm m. if \<not> has_key m tm \<and> occurs m uart then dset m x tm else tm) tm0 ms)
      \<subseteq> {m. occurs m uart}" if "fst ` set tm0 \<subseteq> {m. occurs m uart}"
    for uart x ms and tm0 :: "(string, rat) dict"
    using that by (induction ms arbitrary: tm0) (auto simp: dom_update)
  with assms show ?thesis
    by (auto simp: boot_inv_def note_markers_def Let_def list_ex_iff)
qed

lemma boot_inv_arrive:
  "boot_inv opts acc s \<Longrightarrow> boot_inv opts (acc @ a) (both_arrive a b s)"
  by (auto simp: boot_inv_def both_arrive_def)

text \<open>
  One chunk read: with \<open>raw\<close> the bytes read so far, the log stays the cut of what was read,
  before and after the boot marker arrives.
\<close>

lemma add_chunk_inv:
  assumes log: "uart_log s = current_boot_log raw" "boot_seen s \<longleftrightarrow> occurs boot_marker raw"
    and acc: "acc = (raw @ chunk) @ rxbuf (tport s)"
    and noted: "fst ` set (marker_times s) \<subseteq> {m. occurs m (uart_log s)}"
      "\<not> boot_seen s \<longrightarrow> marker_times s = [] \<and> terminal_seen s = None"
      "terminal_seen s \<noteq> None \<longrightarrow>
         (\<exists>m\<in>set (terminal_markers (conn_profile opts) (conn_stage opts)). occurs m (uart_log s))"
  shows "boot_inv opts acc (add_chunk opts t chunk s)"
proof (cases "boot_seen s")
  case True
  with log have cut: "current_boot_log (raw @ chunk) = uart_log s @ chunk"
    by (simp add: current_boot_log_append)
  have "boot_inv opts acc (s\<lparr>uart_log := uart_log s @ chunk\<rparr>)"
    using True log acc noted cut unfolding boot_inv_def
    by (auto simp: occurs_append1 intro!: exI [of _ "raw @ chunk"]) (blast intro: occurs_append1)
  from note_markers_inv [OF this] True show ?thesis by (simp add: add_chunk_def Let_def)
next
  case False
  with log have raw: "uart_log s = raw" by (simp add: current_boot_log_absent)
  show ?thesis
  proof (cases "bfind boot_marker (raw @ chunk) 0")
    case None
    then have "\<not> occurs boot_marker (raw @ chunk)"
      using bfind_occurs [of boot_marker "raw @ chunk"] by simp
    with False acc noted have "boot_inv opts acc (s\<lparr>uart_log := raw @ chunk\<rparr>)"
      unfolding boot_inv_def
      by (auto simp: current_boot_log_absent intro!: exI [of _ "raw @ chunk"])
    with None False raw show ?thesis by (simp add: add_chunk_def Let_def)
  next
    case (Some k)
    then have "occurs boot_marker (raw @ chunk)" "current_boot_log (raw @ chunk) = drop k (raw @ chunk)"
      using bfind_occurs [of boot_marker "raw @ chunk"] by (simp_all add: current_boot_log_def)
    with False acc noted
    have "boot_inv opts acc (s\<lparr>uart_log := drop k (raw @ chunk), boot_seen := True\<rparr>)"
      unfolding boot_inv_def by (auto intro!: exI [of _ "raw @ chunk"])
    from note_markers_inv [OF this] Some False raw show ?thesis by (simp add: add_chunk_def Let_def)
  qed
qed

lemma take_chunk_inv:
  assumes inv: "boot_inv opts acc s"
  shows "boot_inv opts acc (take_chunk opts t s)"
proof -
  let ?chunk = "take 4096 (rxbuf (tport s))" and ?p = "(tport s)\<lparr>rxbuf := drop 4096 (rxbuf (tport s))\<rparr>"
  let ?s = "drain_peer (c_late t) (s\<lparr>tport := ?p\<rparr>)"
  have view: "conn_view ?s = conn_view (s\<lparr>tport := ?p\<rparr>)" by (rule drain_peer_view)
  from inv obtain raw where raw: "acc = raw @ rxbuf (tport s)" "uart_log s = current_boot_log raw"
    "boot_seen s \<longleftrightarrow> occurs boot_marker raw" by (auto simp: boot_inv_def)
  show ?thesis
  proof (cases "?chunk = []")
    case True
    with view have "conn_view ?s = conn_view s" by (simp add: conn_view_def)
    from boot_inv_cong [OF this] inv have "boot_inv opts acc ?s" by simp
    then show ?thesis unfolding take_chunk_def serial_read_def Let_def prod.case using True by simp
  next
    case False
    have "boot_inv opts acc (add_chunk opts t ?chunk ?s)"
      by (rule add_chunk_inv [of _ raw])
        (use view raw inv in \<open>auto simp: conn_view_def boot_inv_def\<close>)
    with False show ?thesis by (simp add: take_chunk_def serial_read_def Let_def)
  qed
qed

section \<open>The recovery and the loop keep the invariant\<close>

lemma recover_inv:
  assumes "recover opts r s = Some (Inr s')"
  shows "boot_inv opts (reset_stream opts (again_settle_from r) (again_settle r)) s' \<and>
    reconnects s' = reconnects s + 1 \<and> reconnects s' \<le> 3 \<and> started s' = restart_at r \<and>
    deadline s' = restart_at r + conn_timeout opts"
proof -
  let ?stream = "reset_stream opts (again_settle_from r) (again_settle r)"
  from assms obtain s1 where s1: "reset_boards opts (again_peer_pulse r) (again_settle_from r)
      (again_settle r) s1 = Some (Inr s')"
    and view: "conn_view s1 =
      ([], [], [], None, False, reconnects s + 1, restart_at r, restart_at r + conn_timeout opts)"
    and less: "reconnects s + 1 \<le> 3"
    by (auto simp: recover_def Let_def conn_view_def split: if_splits option.splits sum.splits)
  from reset_boards_view [OF s1] view
  have "conn_view s' = ([], ?stream, [], None, False, reconnects s + 1, restart_at r,
      restart_at r + conn_timeout opts)"
    by (simp add: conn_view_def)
  with less show ?thesis
    by (auto simp: boot_inv_def conn_view_def current_boot_log_def boot_marker_def bfind_def)
qed

lemma add_chunk_fields [conn_simps]:
  "reconnects (add_chunk opts t c s) = reconnects s" "started (add_chunk opts t c s) = started s"
  "deadline (add_chunk opts t c s) = deadline s"
  by (simp_all add: add_chunk_def note_markers_def Let_def split: option.split)

lemma drain_peer_fields [conn_simps]:
  "reconnects (drain_peer l s) = reconnects s" "started (drain_peer l s) = started s"
  "deadline (drain_peer l s) = deadline s"
  by (simp_all add: drain_peer_def split: prod.split)

lemma take_chunk_fields [conn_simps]:
  "reconnects (take_chunk opts t s) = reconnects s" "started (take_chunk opts t s) = started s"
  "deadline (take_chunk opts t s) = deadline s"
  by (simp_all add: take_chunk_def serial_read_def Let_def conn_simps)

lemma conn_loop_cases [consumes 1, case_names stop broken chunk]:
  assumes "conn_loop opts (t # ts) s = Some (Inr s')"
  obtains (stop) "s' = both_arrive (c_target_rx t) (c_peer_rx t) s"
  | (broken) s1 where "c_broken t"
      "recover opts (c_recovery t) (both_arrive (c_target_rx t) (c_peer_rx t) s) = Some (Inr s1)"
      "conn_loop opts ts s1 = Some (Inr s')"
  | (chunk) "\<not> c_broken t"
      "conn_loop opts ts (take_chunk opts t (both_arrive (c_target_rx t) (c_peer_rx t) s)) = Some (Inr s')"
  using assms by (simp add: Let_def split: if_splits option.splits sum.splits)

lemma conn_loop_inv:
  assumes "conn_loop opts ts s = Some (Inr s')" and "boot_inv opts acc s" and "reconnects s \<le> 3"
  shows "\<exists>used t rest. ts = used @ t # rest \<and>
    boot_inv opts (conn_stream opts used acc @ c_target_rx t) s' \<and>
    reconnects s' = reconnects s + length (filter c_broken used) \<and> reconnects s' \<le> 3"
  using assms
proof (induction ts arbitrary: s acc)
  case Nil
  then show ?case by simp
next
  case (Cons t ts)
  note inv = boot_inv_arrive [OF Cons.prems(2), of "c_target_rx t" "c_peer_rx t"]
  from Cons.prems(1) show ?case
  proof (cases rule: conn_loop_cases)
    case stop
    with inv Cons.prems(3) show ?thesis
      by (intro exI [of _ "[]"] exI [of _ t] exI [of _ ts]) (simp add: both_arrive_def)
  next
    case (broken s1)
    note r = recover_inv [OF broken(2)]
    with Cons.IH [OF broken(3)] obtain used u rest where "ts = used @ u # rest"
      "boot_inv opts (conn_stream opts used
         (reset_stream opts (again_settle_from (c_recovery t)) (again_settle (c_recovery t)))
           @ c_target_rx u) s'"
      "reconnects s' = reconnects s1 + length (filter c_broken used)" "reconnects s' \<le> 3"
      by blast
    with broken r show ?thesis
      by (intro exI [of _ "t # used"] exI [of _ u] exI [of _ rest]) (simp add: both_arrive_def)
  next
    case chunk
    from Cons.IH [OF chunk(2) take_chunk_inv [OF inv]] Cons.prems(3)
    obtain used u rest where "ts = used @ u # rest"
      "boot_inv opts (conn_stream opts used (acc @ c_target_rx t) @ c_target_rx u) s'"
      "reconnects s' = reconnects s + length (filter c_broken used)" "reconnects s' \<le> 3"
      by (auto simp: conn_simps both_arrive_def)
    with chunk show ?thesis
      by (intro exI [of _ "t # used"] exI [of _ u] exI [of _ rest]) simp
  qed
qed

lemma boot_inv_result:
  assumes "boot_inv opts acc s"
  shows "\<exists>raw. prefix raw acc \<and> uart_log s = current_boot_log raw \<and>
    (startswith boot_marker (uart_log s) \<or>
       \<not> occurs boot_marker (uart_log s) \<and> marker_times s = []) \<and>
    (\<forall>m\<in>fst ` set (marker_times s). occurs m (uart_log s))"
proof -
  from assms obtain raw where raw: "acc = raw @ rxbuf (tport s)" "uart_log s = current_boot_log raw"
    "boot_seen s \<longleftrightarrow> occurs boot_marker raw"
    and noted: "\<not> boot_seen s \<Longrightarrow> marker_times s = []"
      "fst ` set (marker_times s) \<subseteq> {m. occurs m (uart_log s)}"
    by (auto simp: boot_inv_def)
  have "startswith boot_marker (uart_log s) \<or>
      \<not> occurs boot_marker (uart_log s) \<and> marker_times s = []"
    using raw noted(1) current_boot_log_starts current_boot_log_absent by (cases "boot_seen s") auto
  with raw(1,2) noted(2) show ?thesis by (intro exI [of _ raw]) auto
qed

lemma finish_capture_fields:
  "uart_log (finish_capture env s) = uart_log s" "reconnects (finish_capture env s) = reconnects s"
  "marker_times (finish_capture env s) = marker_times s"
  "\<exists>l. peer_log (finish_capture env s) = current_boot_log l"
  using drain_peer_view [of "conn_last_late env" "both_arrive [] (conn_last_peer env) s"]
  by (auto simp: finish_capture_def conn_view_def Let_def both_arrive_def)

text \<open>
  C11: The UART log that a run returns is the cut at the boot marker (as the function
  \<open>current_boot_log\<close> makes it for the peer) of bytes that the target sent since the last serial
  reconnect, in order and without gaps; a log with a boot marker starts with it; a log without
  one has no noted marker times; every noted marker is in the log; a run survives at most three
  broken reads, one reconnect for each.
\<close>

theorem conn_capture_run_current_boot:
  assumes "conn_capture_run opts env port peer = Some (Inr s)"
  shows "\<exists>used t rest raw. conn_ticks env = used @ t # rest \<and>
    prefix raw (conn_stream opts used (reset_stream opts (first_settle_from env) (first_settle env))
                  @ c_target_rx t) \<and>
    uart_log s = current_boot_log raw \<and>
    (startswith boot_marker (uart_log s) \<or>
       \<not> occurs boot_marker (uart_log s) \<and> marker_times s = []) \<and>
    (\<forall>m\<in>fst ` set (marker_times s). occurs m (uart_log s)) \<and>
    (startswith boot_marker (peer_log s) \<or> \<not> occurs boot_marker (peer_log s)) \<and>
    reconnects s = length (filter c_broken used) \<and> reconnects s \<le> 3"
proof -
  let ?stream = "reset_stream opts (first_settle_from env) (first_settle env)"
  let ?start = "\<lambda>s. s\<lparr>started := started_at env, deadline := started_at env + conn_timeout opts\<rparr>"
  from assms obtain s1 s2 where
    s1: "reset_boards opts (first_peer_pulse env) (first_settle_from env) (first_settle env)
           (start_state opts port peer) = Some (Inr s1)"
    and loop: "conn_loop opts (conn_ticks env) (?start s1) = Some (Inr s2)"
    and s: "s = finish_capture env s2"
    by (auto simp: conn_capture_run_def split: option.splits sum.splits)
  from reset_boards_view [OF s1] have "boot_inv opts ?stream (?start s1)" "reconnects (?start s1) = 0"
    by (auto simp: boot_inv_def conn_view_def start_state_def current_boot_log_def boot_marker_def
        bfind_def)
  with conn_loop_inv [OF loop] obtain used t rest where u: "conn_ticks env = used @ t # rest"
    and inv: "boot_inv opts (conn_stream opts used ?stream @ c_target_rx t) s2"
    and re: "reconnects s2 = length (filter c_broken used)" "reconnects s2 \<le> 3"
    by fastforce
  have fin: "uart_log s = uart_log s2" "marker_times s = marker_times s2" "reconnects s = reconnects s2"
    "\<exists>l. peer_log s = current_boot_log l"
    by (auto simp: s finish_capture_fields)
  then have "startswith boot_marker (peer_log s) \<or> \<not> occurs boot_marker (peer_log s)"
    using current_boot_log_cases by metis
  with u re fin(1-3) boot_inv_result [OF inv] show ?thesis by metis
qed

section \<open>What a run raises\<close>

definition broken_for_good :: "exn \<Rightarrow> conn_tick list \<Rightarrow> bool" where
  "broken_for_good e ts \<longleftrightarrow>
     e = SerialException \<and> 3 < length (filter c_broken ts) \<or>
     (\<exists>t\<in>set ts. c_broken t \<and>
        (\<exists>clock. (Some e, clock) \<in> set (reopen_tries (c_recovery t)) \<and>
           reopen_from (c_recovery t) + 2 \<le> clock))"

lemma reopen_port_raises:
  "reopen_port limit tries = Some (Inl e) \<Longrightarrow> \<exists>clock. (Some e, clock) \<in> set tries \<and> limit \<le> clock"
  by (induction tries rule: reopen_port.induct) (auto split: if_splits option.splits)

definition pulses_of :: "conn_opts \<Rightarrow> conn_env \<Rightarrow> (string option \<times> pulse_env) set" where
  "pulses_of opts env =
     (if peer_jlink_serial opts = None then {}
      else Pair (peer_jlink_serial opts) `
        ({first_peer_pulse env} \<union> (again_peer_pulse \<circ> c_recovery) ` set (conn_ticks env))) \<union>
     Pair (jlink_serial opts) ` ({first_pulse env} \<union> (again_pulse \<circ> c_recovery) ` set (conn_ticks env))"

lemma reset_boards_raises:
  "reset_boards opts pe settle_start ts s = Some (Inl e) \<Longrightarrow>
     peer_jlink_serial opts \<noteq> None \<and>
     snd (pulse_nrst (jlink_exe opts) (peer_jlink_serial opts) pe) = Inl e"
  by (auto simp: reset_boards_def split: option.splits sum.splits)

lemma recover_raises [consumes 1, case_names four reopen peer target]:
  assumes "recover opts r s = Some (Inl e)"
  obtains (four) "e = SerialException" "3 < reconnects s + 1"
  | (reopen) clock where "(Some e, clock) \<in> set (reopen_tries r)" "reopen_from r + 2 \<le> clock"
  | (peer) "peer_jlink_serial opts \<noteq> None"
      "snd (pulse_nrst (jlink_exe opts) (peer_jlink_serial opts) (again_peer_pulse r)) = Inl e"
  | (target) "snd (pulse_nrst (jlink_exe opts) (jlink_serial opts) (again_pulse r)) = Inl e"
  using assms
  by (auto simp: recover_def Let_def split: if_splits option.splits sum.splits
      dest: reopen_port_raises reset_boards_raises)

lemma conn_loop_raises:
  assumes "conn_loop opts ts s = Some (Inl e)"
  shows "e = SerialException \<and> 3 < reconnects s + length (filter c_broken ts) \<or>
    (\<exists>t\<in>set ts. c_broken t \<and>
       (\<exists>clock. (Some e, clock) \<in> set (reopen_tries (c_recovery t)) \<and>
          reopen_from (c_recovery t) + 2 \<le> clock)) \<or>
    (\<exists>t\<in>set ts.
       peer_jlink_serial opts \<noteq> None \<and>
         snd (pulse_nrst (jlink_exe opts) (peer_jlink_serial opts) (again_peer_pulse (c_recovery t))) = Inl e \<or>
       snd (pulse_nrst (jlink_exe opts) (jlink_serial opts) (again_pulse (c_recovery t))) = Inl e)"
  using assms
proof (induction ts arbitrary: s)
  case Nil
  then show ?case by simp
next
  case (Cons t ts)
  let ?s = "both_arrive (c_target_rx t) (c_peer_rx t) s"
  from Cons.prems consider
    (raise) "c_broken t" "recover opts (c_recovery t) ?s = Some (Inl e)"
  | (again) s1 where "c_broken t" "recover opts (c_recovery t) ?s = Some (Inr s1)"
      "conn_loop opts ts s1 = Some (Inl e)"
  | (chunk) "\<not> c_broken t" "conn_loop opts ts (take_chunk opts t ?s) = Some (Inl e)"
    by (auto simp: Let_def split: if_splits option.splits sum.splits)
  then show ?case
  proof cases
    case raise
    from raise(2) show ?thesis
      by (cases rule: recover_raises) (use raise(1) in \<open>auto simp: both_arrive_def\<close>)
  next
    case again
    from Cons.IH [OF again(3)] recover_inv [OF again(2)] again(1) show ?thesis
      by (auto simp: both_arrive_def)
  next
    case chunk
    from Cons.IH [OF chunk(2)] chunk(1) show ?thesis
      by (auto simp: conn_simps both_arrive_def)
  qed
qed

text \<open>
  A run raises only what one of its reset pulses raises, the serial error of a fourth broken
  read, or the error of an attempt to open the port again, made after two seconds of attempts.
\<close>

theorem conn_capture_run_raises:
  assumes "conn_capture_run opts env port peer = Some (Inl e)"
  shows "broken_for_good e (conn_ticks env) \<or>
    (\<exists>(sn, pe) \<in> pulses_of opts env. snd (pulse_nrst (jlink_exe opts) sn pe) = Inl e)"
proof -
  let ?start = "\<lambda>s. s\<lparr>started := started_at env, deadline := started_at env + conn_timeout opts\<rparr>"
  from assms consider
    (peer) "reset_boards opts (first_peer_pulse env) (first_settle_from env) (first_settle env)
       (start_state opts port peer) = Some (Inl e)"
  | (target) "snd (pulse_nrst (jlink_exe opts) (jlink_serial opts) (first_pulse env)) = Inl e"
  | (loop) s where "reset_boards opts (first_peer_pulse env) (first_settle_from env) (first_settle env)
       (start_state opts port peer) = Some (Inr s)"
      "conn_loop opts (conn_ticks env) (?start s) = Some (Inl e)"
    by (auto simp: conn_capture_run_def split: option.splits sum.splits)
  then show ?thesis
  proof cases
    case loop
    from reset_boards_view [OF loop(1)] have "reconnects (?start s) = 0"
      by (simp add: conn_view_def start_state_def)
    with conn_loop_raises [OF loop(2)] show ?thesis
      by (fastforce simp: broken_for_good_def pulses_of_def image_iff)
  qed (auto simp: pulses_of_def dest: reset_boards_raises)
qed

section \<open>A run ends\<close>

definition recovery_ends :: "conn_opts \<Rightarrow> recovery \<Rightarrow> bool" where
  "recovery_ends opts r \<longleftrightarrow>
     (\<exists>(error, t)\<in>set (reopen_tries r). error = None \<or> reopen_from r + 2 \<le> t) \<and>
     (peer_jlink_serial opts = None \<or>
        (\<exists>t\<in>set (again_settle r). again_settle_from r + peer_settle_seconds opts \<le> s_now t))"

text \<open>
  The clock passes every deadline: those of the settle loops, and that of the main loop however
  often the attempt is restarted.
\<close>

definition conn_clock_passes :: "conn_opts \<Rightarrow> conn_env \<Rightarrow> bool" where
  "conn_clock_passes opts env \<longleftrightarrow>
     (peer_jlink_serial opts = None \<or>
        (\<exists>t\<in>set (first_settle env). first_settle_from env + peer_settle_seconds opts \<le> s_now t)) \<and>
     (\<forall>t\<in>set (conn_ticks env). c_broken t \<longrightarrow> recovery_ends opts (c_recovery t)) \<and>
     (\<exists>t\<in>set (conn_ticks env). started_at env + conn_timeout opts \<le> c_now t \<and>
        (\<forall>u\<in>set (conn_ticks env). c_broken u \<longrightarrow>
           restart_at (c_recovery u) + conn_timeout opts \<le> c_now t))"

lemma settle_peer_ends: "\<exists>t\<in>set ts. limit \<le> s_now t \<Longrightarrow> settle_peer limit ts s \<noteq> None"
  by (induction ts arbitrary: s) (auto simp: Let_def)

lemma reset_boards_ends:
  "peer_jlink_serial opts = None \<or>
     (\<exists>t\<in>set ts. settle_start + peer_settle_seconds opts \<le> s_now t) \<Longrightarrow>
   reset_boards opts pe settle_start ts s \<noteq> None"
  using settle_peer_ends [of ts "settle_start + peer_settle_seconds opts" s]
  by (auto simp: reset_boards_def split: option.split sum.split)

lemma reopen_port_ends:
  "\<exists>(error, t)\<in>set tries. error = None \<or> limit \<le> t \<Longrightarrow> reopen_port limit tries \<noteq> None"
  by (induction tries) (auto 4 4 split: prod.splits option.splits)

lemma recover_ends:
  assumes "recovery_ends opts r"
  shows "recover opts r s \<noteq> None"
proof -
  have "reopen_port (reopen_from r + 2) (reopen_tries r) \<noteq> None"
    using assms by (intro reopen_port_ends) (simp add: recovery_ends_def)
  then obtain oc where "reopen_port (reopen_from r + 2) (reopen_tries r) = Some oc" by blast
  moreover have no: "reset_boards opts (again_peer_pulse r) (again_settle_from r) (again_settle r) s
      \<noteq> None" for s
    using assms by (intro reset_boards_ends) (simp add: recovery_ends_def)
  ultimately show ?thesis
    by (cases oc) (auto simp: recover_def Let_def no split: option.split sum.split)
qed

lemma conn_loop_ends:
  assumes "\<forall>u\<in>set ts. c_broken u \<longrightarrow> recovery_ends opts (c_recovery u)"
    and "\<exists>t\<in>set ts. deadline s \<le> c_now t \<and>
      (\<forall>u\<in>set ts. c_broken u \<longrightarrow> restart_at (c_recovery u) + conn_timeout opts \<le> c_now t)"
  shows "conn_loop opts ts s \<noteq> None"
  using assms
proof (induction ts arbitrary: s)
  case Nil
  then show ?case by simp
next
  case (Cons t ts)
  let ?s = "both_arrive (c_target_rx t) (c_peer_rx t) s"
  show ?case
  proof (cases "deadline s \<le> c_now t")
    case True
    then show ?thesis by (simp add: both_arrive_def Let_def)
  next
    case False
    from Cons.prems(2) False obtain u where u: "u \<in> set ts" "deadline s \<le> c_now u"
      "\<forall>v\<in>set (t # ts). c_broken v \<longrightarrow> restart_at (c_recovery v) + conn_timeout opts \<le> c_now u"
      by auto
    have chunk: "conn_loop opts ts (take_chunk opts t ?s) \<noteq> None"
      using Cons.prems(1) u by (intro Cons.IH) (auto simp: conn_simps both_arrive_def)
    have broken: "recover opts (c_recovery t) ?s = Some (Inr s1) \<Longrightarrow> c_broken t \<Longrightarrow>
        conn_loop opts ts s1 \<noteq> None" for s1
      using Cons.prems(1) u by (intro Cons.IH) (auto dest!: recover_inv)
    have "c_broken t \<Longrightarrow> recover opts (c_recovery t) ?s \<noteq> None"
      using Cons.prems(1) recover_ends by simp
    with chunk broken show ?thesis by (auto simp: Let_def split: option.split sum.split)
  qed
qed

text \<open>
  C12: A run ends, with its logs or with an exception, when the clock passes the deadlines: the
  main loop makes at most one restart for each broken read, and each restart moves the deadline.
\<close>

theorem conn_capture_run_ends:
  assumes "conn_clock_passes opts env"
  shows "\<exists>r. conn_capture_run opts env port peer = Some r"
proof -
  let ?start = "\<lambda>s. s\<lparr>started := started_at env, deadline := started_at env + conn_timeout opts\<rparr>"
  have loop: "conn_loop opts (conn_ticks env) (?start s) \<noteq> None" for s
    using assms by (intro conn_loop_ends) (auto simp: conn_clock_passes_def)
  have reset: "reset_boards opts (first_peer_pulse env) (first_settle_from env) (first_settle env) s
      \<noteq> None" for s
    using assms by (intro reset_boards_ends) (auto simp: conn_clock_passes_def)
  show ?thesis
    by (cases "conn_capture_run opts env port peer")
      (auto simp: conn_capture_run_def loop reset split: option.splits sum.splits)
qed

section \<open>When the boot marker never arrives\<close>

definition target_silent_after_reset :: "conn_env \<Rightarrow> bool" where
  "target_silent_after_reset env \<longleftrightarrow> (\<forall>t\<in>set (conn_ticks env). c_target_rx t = [] \<and> \<not> c_broken t)"

definition quiet_conn_tick :: "secs \<Rightarrow> conn_tick" where
  "quiet_conn_tick t =
     \<lparr>c_now = t, c_post = t, c_target_rx = [], c_peer_rx = [], c_broken = False,
      c_recovery = \<lparr>reopen_from = t, reopen_tries = [], restart_at = t, again_peer_pulse = quiet_pulse,
        again_settle_from = t, again_settle = [], again_pulse = quiet_pulse\<rparr>,
      c_late = [], c_stamp = t, c_mark = t\<rparr>"

definition stale_conn_env :: "conn_opts \<Rightarrow> bytes \<Rightarrow> conn_env" where
  "stale_conn_env opts b =
     \<lparr>first_peer_pulse = quiet_pulse, first_settle_from = 0,
      first_settle = [\<lparr>s_now = 0, s_target_rx = b, s_peer_rx = [], s_late = []\<rparr>,
        \<lparr>s_now = peer_settle_seconds opts, s_target_rx = [], s_peer_rx = [], s_late = []\<rparr>],
      started_at = 0, first_pulse = quiet_pulse,
      conn_ticks = [quiet_conn_tick 0, quiet_conn_tick (conn_timeout opts)],
      conn_last_peer = [], conn_last_late = []\<rparr>"

text \<open>
  Stale bytes are judged when the boot marker never arrives.  With a paired board the target
  runs its old firmware while the peer settles; if it prints \<open>b\<close> then and nothing at all after
  its own reset, the run returns the log \<open>b\<close>, although nothing in it is from the measured boot.
\<close>

theorem conn_stale_log_kept:
  assumes "\<not> occurs boot_marker b" "length b \<le> 4096"
    and "jlink_serial opts = Some j1" "peer_jlink_serial opts = Some j2"
    and "ascii_decimal j1" "ascii_decimal j2"
    and "0 < peer_settle_seconds opts" "0 < conn_timeout opts"
  shows "target_silent_after_reset (stale_conn_env opts b) \<and>
    conn_clock_passes opts (stale_conn_env opts b) \<and>
    (\<exists>s. conn_capture_run opts (stale_conn_env opts b) port peer = Some (Inr s) \<and> uart_log s = b)"
proof (intro conjI)
  let ?env = "stale_conn_env opts b"
  show "target_silent_after_reset ?env"
    by (simp add: target_silent_after_reset_def stale_conn_env_def quiet_conn_tick_def)
  show passes: "conn_clock_passes opts ?env"
    using assms(7,8) by (simp add: conn_clock_passes_def stale_conn_env_def quiet_conn_tick_def)
  have no: "bfind boot_marker b 0 = None" using assms(1) bfind_occurs [of boot_marker b] by simp
  have ok: "snd (pulse_nrst (jlink_exe opts) (Some j1) quiet_pulse) = Inr ()"
    "snd (pulse_nrst (jlink_exe opts) (Some j2) quiet_pulse) = Inr ()"
    using assms(5,6) by (simp_all add: quiet_pulse_ok)
  obtain s1 where s1: "reset_boards opts quiet_pulse 0 (first_settle ?env) (start_state opts port peer)
      = Some (Inr s1)" and v1: "conn_view s1 = ([], b, [], None, False, 0, 0, 0)"
  proof -
    obtain s1 where s1: "settle_peer (0 + peer_settle_seconds opts) (first_settle ?env)
        (start_state opts port peer) = Some s1"
      using settle_peer_ends [of "first_settle ?env" "0 + peer_settle_seconds opts"]
      by (fastforce simp: stale_conn_env_def)
    with settle_peer_view [OF s1] assms(4,7) ok(2) that [of s1] show thesis
      by (simp add: reset_boards_def conn_view_def start_state_def stale_conn_env_def)
  qed
  let ?s1 = "s1\<lparr>started := 0, deadline := conn_timeout opts\<rparr>"
  let ?s = "take_chunk opts (quiet_conn_tick 0) (both_arrive [] [] ?s1)"
  have read: "serial_read 4096 (arrive [] (tport s1)) = (b, (tport s1)\<lparr>rxbuf := []\<rparr>)"
    using v1 assms(2) by (simp add: serial_read_def conn_view_def arrive_def)
  have "conn_view ?s = (b, [], [], None, False, 0, 0, conn_timeout opts)"
    using v1 no drain_peer_view [of "[]" "(both_arrive [] [] ?s1)\<lparr>tport := (tport s1)\<lparr>rxbuf := []\<rparr>\<rparr>"]
    by (auto simp: take_chunk_def read add_chunk_def quiet_conn_tick_def conn_view_def both_arrive_def
        Let_def)
  then have "conn_loop opts (conn_ticks ?env) ?s1 = Some (Inr (both_arrive [] [] ?s))"
    using v1 assms(8)
    by (simp add: stale_conn_env_def quiet_conn_tick_def conn_view_def both_arrive_def
        post_terminal_elapsed_def Let_def)
  moreover have "snd (pulse_nrst (jlink_exe opts) (jlink_serial opts) quiet_pulse) = Inr ()"
    using ok(1) assms(3) by simp
  moreover have "uart_log (finish_capture ?env (both_arrive [] [] ?s)) = b"
    using \<open>conn_view ?s = _\<close> by (simp add: finish_capture_fields conn_view_def both_arrive_def)
  ultimately show "\<exists>s. conn_capture_run opts ?env port peer = Some (Inr s) \<and> uart_log s = b"
    using s1 by (simp add: conn_capture_run_def stale_conn_env_def)
qed

end
