(* ===== verification/Py_Json.thy ===== *)
theory Py_Json
  imports Py_Text
begin

text \<open>
  The values that \<open>json.load\<close> returns, and what the sources ask of them: the type tests, in
  which \<open>bool\<close> is a subclass of \<open>int\<close>, and the equality \<open>==\<close>, for which \<open>True\<close>, \<open>1\<close> and
  \<open>1.0\<close> are equal.  A document is represented by the value it denotes.
\<close>

section \<open>Values\<close>

datatype json =
    JNull
  | JBool bool
  | JInt int
  | JFloat rat
  | JNan
  | JInf bool
  | JStr string
  | JArr "json list"
  | JObj "(string \<times> json) list"

type_synonym json_object = "(string, json) dict"

text \<open>\<open>isinstance(value, int)\<close>, with the number; \<open>str\<close>, \<open>list\<close> and \<open>dict\<close> likewise\<close>

fun json_int :: "json \<Rightarrow> int option" where
  "json_int (JInt i) = Some i"
| "json_int (JBool b) = Some (if b then 1 else 0)"
| "json_int _ = None"

fun json_str :: "json \<Rightarrow> string option" where
  "json_str (JStr s) = Some s"
| "json_str _ = None"

fun json_items :: "json \<Rightarrow> json list option" where
  "json_items (JArr xs) = Some xs"
| "json_items _ = None"

fun json_dict :: "json \<Rightarrow> json_object option" where
  "json_dict (JObj d) = Some d"
| "json_dict _ = None"

definition json_number :: "json \<Rightarrow> rat option" where
  "json_number v = (case v of JFloat r \<Rightarrow> Some r | _ \<Rightarrow> map_option of_int (json_int v))"

text \<open>\<open>value == n\<close> for an integer\<close>

definition equals_int :: "json \<Rightarrow> int \<Rightarrow> bool" where
  "equals_int v n \<longleftrightarrow> json_number v = Some (of_int n)"

text \<open>\<open>d.get(key)\<close>: \<open>None\<close> is the value \<open>null\<close>\<close>

definition json_get :: "string \<Rightarrow> json_object \<Rightarrow> json" where
  "json_get key d = dget_or key JNull d"

text \<open>Arrays and objects cannot be looked up in a set or a dictionary.\<close>

fun hashable :: "json \<Rightarrow> bool" where
  "hashable (JArr _) = False"
| "hashable (JObj _) = False"
| "hashable _ = True"

definition one_of_names :: "json \<Rightarrow> string list \<Rightarrow> bool" where
  "one_of_names v names = (case json_str v of None \<Rightarrow> False | Some s \<Rightarrow> s \<in> set names)"

text \<open>\<open>d[key]\<close>, and \<open>isinstance(value, int) and not isinstance(value, bool)\<close>\<close>

definition json_item :: "string \<Rightarrow> json_object \<Rightarrow> json res" where
  "json_item key d = (case dget key d of None \<Rightarrow> Inl (KeyError key) | Some v \<Rightarrow> Inr v)"

fun plain_int :: "json \<Rightarrow> int option" where
  "plain_int (JInt i) = Some i"
| "plain_int _ = None"

lemma plain_int_Some [simp]: "plain_int v = Some i \<longleftrightarrow> v = JInt i"
  by (cases v) auto

lemma json_str_Some [simp]: "json_str v = Some s \<longleftrightarrow> v = JStr s"
  by (cases v) auto

lemma json_items_Some [simp]: "json_items v = Some xs \<longleftrightarrow> v = JArr xs"
  by (cases v) auto

lemma json_dict_Some [simp]: "json_dict v = Some d \<longleftrightarrow> v = JObj d"
  by (cases v) auto

lemma one_of_names_iff: "one_of_names v names \<longleftrightarrow> (\<exists>s\<in>set names. v = JStr s)"
  by (cases v) (auto simp: one_of_names_def)

lemma dget_or_of_get: "json_get field d = v \<Longrightarrow> v \<noteq> JNull \<Longrightarrow> dget_or field w d = v"
  by (auto simp: json_get_def dget_or_def split: option.splits)

lemma dget_of_get: "json_get field d = v \<Longrightarrow> v \<noteq> JNull \<Longrightarrow> dget field d = Some v"
  by (auto simp: json_get_def dget_or_def split: option.splits)

text \<open>\<open>bool(value)\<close>\<close>

fun truthy :: "json \<Rightarrow> bool" where
  "truthy JNull = False"
| "truthy (JBool b) = b"
| "truthy (JInt i) = (i \<noteq> 0)"
| "truthy (JFloat q) = (q \<noteq> 0)"
| "truthy (JStr s) = (s \<noteq> [])"
| "truthy (JArr xs) = (xs \<noteq> [])"
| "truthy (JObj d) = (d \<noteq> [])"
| "truthy _ = True"

text \<open>\<open>value.get(key, default)\<close>, \<open>value[key]\<close> and \<open>for x in value\<close> for a value of any type\<close>

definition attr_get :: "json \<Rightarrow> string \<Rightarrow> json \<Rightarrow> json res" where
  "attr_get v key dflt =
     (case json_dict v of None \<Rightarrow> Inl (AttributeError ''get'') | Some d \<Rightarrow> Inr (dget_or key dflt d))"

definition subscript :: "json \<Rightarrow> string \<Rightarrow> json res" where
  "subscript v key =
     (case json_dict v of None \<Rightarrow> Inl (TypeError ''indices'') | Some d \<Rightarrow> json_item key d)"

fun json_iter :: "json \<Rightarrow> json list res" where
  "json_iter (JArr xs) = Inr xs"
| "json_iter (JObj d) = Inr (map (\<lambda>(k, v). JStr k) d)"
| "json_iter (JStr s) = Inr (map JStr (decode_chars s))"
| "json_iter _ = Inl (TypeError ''not iterable'')"

text \<open>A comprehension over a list: the results, or what the first failing element raises\<close>

fun rmap :: "('a \<Rightarrow> 'b res) \<Rightarrow> 'a list \<Rightarrow> 'b list res" where
  "rmap f [] = Inr []"
| "rmap f (x # xs) = rbind (f x) (\<lambda>y. rbind (rmap f xs) (\<lambda>ys. Inr (y # ys)))"

lemma rmap_Inr: "rmap f xs = Inr ys \<longleftrightarrow> list_all2 (\<lambda>x y. f x = Inr y) xs ys"
  by (induction xs arbitrary: ys) (auto simp: res_simps list_all2_Cons1)

lemma rmap_of: "rmap f xs = Inr ys \<Longrightarrow> x \<in> set xs \<Longrightarrow> \<exists>y\<in>set ys. f x = Inr y"
  by (induction xs arbitrary: ys) (auto simp: res_simps)

lemma rmap_from: "rmap f xs = Inr ys \<Longrightarrow> y \<in> set ys \<Longrightarrow> \<exists>x\<in>set xs. f x = Inr y"
  by (induction xs arbitrary: ys) (auto simp: res_simps)

lemma attr_get_Inr [res_simps]:
  "attr_get v key dflt = Inr w \<longleftrightarrow> (\<exists>d. v = JObj d \<and> w = dget_or key dflt d)"
  by (auto simp: attr_get_def split: option.splits)

lemma subscript_Inr [res_simps]:
  "subscript v key = Inr w \<longleftrightarrow> (\<exists>d. v = JObj d \<and> dget key d = Some w)"
  by (cases v) (auto simp: subscript_def json_item_def split: option.splits)

section \<open>Equality\<close>

lemma size_in_array: "x \<in> set xs \<Longrightarrow> size x < Suc (size_list size xs)"
  by (simp add: less_Suc_eq_le size_list_estimation')

lemma size_in_object: "(k, v) \<in> set d \<Longrightarrow> size v < Suc (size_list (size_prod (\<lambda>x. 0) size) d)"
  using size_list_estimation' [of "(k, v)" d "size v" "size_prod (\<lambda>x. 0) size"] by simp

function py_eq :: "json \<Rightarrow> json \<Rightarrow> bool" where
  "py_eq a b =
     (case (a, b) of
        (JNull, JNull) \<Rightarrow> True
      | (JStr s, JStr t) \<Rightarrow> s = t
      | (JInf s, JInf t) \<Rightarrow> s = t
      | (JArr xs, JArr ys) \<Rightarrow> length xs = length ys \<and> list_all (\<lambda>(x, y). py_eq x y) (zip xs ys)
      | (JObj d, JObj e) \<Rightarrow>
          length d = length e \<and>
          list_all (\<lambda>(k, v). case map_of e k of None \<Rightarrow> False | Some w \<Rightarrow> py_eq v w) d
      | _ \<Rightarrow> (case (json_number a, json_number b) of
                (Some m, Some n) \<Rightarrow> m = n
              | _ \<Rightarrow> False))"
  by pat_completeness auto
termination
  by (relation "measure (size \<circ> fst)")
    (auto dest!: set_zip_leftD simp: size_in_array size_in_object)

declare py_eq.simps [simp del]

lemma py_eq_str: "py_eq a (JStr s) \<longleftrightarrow> a = JStr s"
  by (cases a) (simp_all add: py_eq.simps json_number_def)

end
