(* ===== verification/Conn_Main.thy ===== *)
theory Conn_Main
  imports Conn_Capture Py_Json
begin

text \<open>
  \<open>hil/ws63-connectivity-reset-matrix.py\<close>, fifth part: the identity of the tested artifact and
  \<open>main\<close>, which captures a matrix or analyses the saved logs of an earlier one.  The file system
  is an input: what reading a path as JSON and as bytes gives.  The host's \<open>ping\<close> is represented
  by the exception it may raise; the text of \<open>summary.json\<close> and of the progress lines is not
  modelled.
\<close>

section \<open>Artifact identity\<close>

record files =
  read_json :: "string \<Rightarrow> json res"
  read_raw :: "string \<Rightarrow> bytes res"

type_synonym identity = "(string, string) dict"

definition artifact_identity :: "files \<Rightarrow> string \<Rightarrow> string \<Rightarrow> identity res" where
  "artifact_identity fs elf profile_id =
     rbind (read_raw fs elf) (\<lambda>content.
       Inr [(''schema'', ARTIFACT_IDENTITY_SCHEMA), (''marker_contract'', MARKER_CONTRACT),
            (''profile_id'', profile_id), (''elf_sha256'', sha256 content)])"

text \<open>The value whose JSON text \<open>write_artifact_identity\<close> writes; keys are sorted in the text.\<close>

definition identity_json :: "identity \<Rightarrow> json" where
  "identity_json identity = JObj (map (\<lambda>(k, v). (k, JStr v)) identity)"

definition write_artifact_identity :: "files \<Rightarrow> string \<Rightarrow> string \<Rightarrow> json res" where
  "write_artifact_identity fs elf profile_id =
     rbind (artifact_identity fs elf profile_id) (\<lambda>identity. Inr (identity_json identity))"

fun unreadable :: "exn \<Rightarrow> exn" where
  "unreadable (OSError m) = ValueError (''cannot read artifact identity: '' @ m)"
| "unreadable (ValueError m) = ValueError (''cannot read artifact identity: '' @ m)"
| "unreadable e = e"

definition identity_mismatches :: "json_object \<Rightarrow> identity \<Rightarrow> string list" where
  "identity_mismatches expected actual =
     map fst (filter (\<lambda>(key, v). json_get key expected \<noteq> JStr v) actual)
     @ map (\<lambda>key. ''unknown:'' @ key)
         (sort (remdups (filter (\<lambda>key. \<not> has_key key actual) (map fst expected))))"

definition verify_artifact_identity :: "files \<Rightarrow> string \<Rightarrow> string \<Rightarrow> string \<Rightarrow> identity res" where
  "verify_artifact_identity fs path elf profile_id =
     (case read_json fs path of
        Inl e \<Rightarrow> Inl (unreadable e)
      | Inr v \<Rightarrow>
          (case json_dict v of
             None \<Rightarrow> Inl (ValueError ''artifact identity must be a JSON object'')
           | Some expected \<Rightarrow>
               rbind (artifact_identity fs elf profile_id) (\<lambda>actual.
               let mismatches = identity_mismatches expected actual
               in if mismatches \<noteq> []
                  then Inl (ValueError (''artifact identity mismatch: '' @ join '', '' (sort mismatches)))
                  else rbind (read_raw fs path) (\<lambda>raw.
                       Inr (dset ''manifest_sha256'' (sha256 raw) actual)))))"

definition verify_optional_identity ::
    "files \<Rightarrow> string option \<Rightarrow> string option \<Rightarrow> string option \<Rightarrow> string \<Rightarrow> identity option res" where
  "verify_optional_identity fs manifest elf profile_id label =
     (case (manifest, elf, profile_id) of
        (None, None, None) \<Rightarrow> Inr None
      | (Some m, Some e, Some p) \<Rightarrow> rbind (verify_artifact_identity fs m e p) (\<lambda>i. Inr (Some i))
      | _ \<Rightarrow> Inl (ValueError (label @ '' identity requires manifest, ELF and profile id together'')))"

text \<open>
  An identity is accepted exactly if the manifest names the schema, the marker contract, the
  profile and the digest of the ELF file, and nothing else.
\<close>


section \<open>The saved logs of a matrix\<close>

type_synonym directory = "(string, bytes) dict"

definition measured_uart_logs :: "directory \<Rightarrow> string list" where
  "measured_uart_logs dir =
     sort (filter (\<lambda>name. prefix ''run-'' name \<and> suffix ''.uart.log'' name \<and>
                          \<not> occurs ''.peer.uart.log'' name) (map fst dir))"

section \<open>Arguments and results\<close>

record conn_args =
  write_identity :: "string option"
  target_manifest :: "string option"
  target_elf :: "string option"
  target_profile_id :: "string option"
  peer_manifest :: "string option"
  peer_elf :: "string option"
  peer_profile_id :: "string option"
  matrix_runs :: int
  reference_count :: int
  reference_target :: "string option"
  required_ap_mode :: "string option"
  contract_of :: contract_opts
  capture_of :: conn_opts          \<comment> \<open>probes, times, profile and stage\<close>
  analyze_dir :: "string option"
  target_port :: "string option"
  peer_port_arg :: "string option"

record main_env =
  file_system :: files
  saved_logs :: directory            \<comment> \<open>the files of \<open>args.analyze_dir\<close>\<close>
  output_there :: bool
  ping_error :: "exn option"
  serial_error :: "exn option"
  run_env :: "nat \<Rightarrow> conn_env"
  port_at_start :: port
  peer_at_start :: port

record conn_result =
  conn_summary_of :: conn_summary
  target_identity :: "identity option"
  peer_identity :: "identity option"
  conn_scope :: string
  saved_files :: directory
  conn_exit :: nat

datatype conn_outcome = Identity_written json | Matrix_done conn_result

definition uart_name :: "nat \<Rightarrow> string" where
  "uart_name run = ''run-'' @ two_digits run @ ''.uart.log''"

definition peer_uart_name :: "nat \<Rightarrow> string" where
  "peer_uart_name run = ''run-'' @ two_digits run @ ''.peer.uart.log''"

section \<open>The runs\<close>

definition main_record ::
    "conn_args \<Rightarrow> nat \<Rightarrow> bytes \<Rightarrow> string \<Rightarrow> (string, rat) dict \<Rightarrow> bytes option \<Rightarrow> string option \<Rightarrow> conn_record" where
  "main_record args run uart name stamps peer peer_name =
     record_from_log (contract_of args) (conn_profile (capture_of args)) (conn_stage (capture_of args))
       (required_ap_mode args) run uart name stamps peer peer_name"

definition live_record :: "conn_args \<Rightarrow> nat \<Rightarrow> conn_state \<Rightarrow> conn_record" where
  "live_record args run s =
     (let has_peer = (peer_port_arg args \<noteq> None)
      in main_record args run (uart_log s) (uart_name run) (marker_times s)
           (if has_peer then Some (peer_log s) else None)
           (if has_peer then Some (peer_uart_name run) else None))"

definition live_files :: "conn_args \<Rightarrow> nat \<Rightarrow> conn_state \<Rightarrow> directory" where
  "live_files args run s =
     (uart_name run, uart_log s)
     # (if peer_port_arg args \<noteq> None then [(peer_uart_name run, peer_log s)] else [])"

fun conn_runs ::
    "conn_args \<Rightarrow> (nat \<Rightarrow> conn_env) \<Rightarrow> nat \<Rightarrow> nat \<Rightarrow> port \<Rightarrow> port option
       \<Rightarrow> (conn_record list \<times> directory) res option" where
  "conn_runs args env 0 run p q = Some (Inr ([], []))"
| "conn_runs args env (Suc left) run p q =
     (case conn_capture_run (capture_of args) (env run) p q of
        None \<Rightarrow> None
      | Some (Inl e) \<Rightarrow> Some (Inl e)
      | Some (Inr s) \<Rightarrow>
          (case conn_runs args env left (Suc run) (tport s) (pport s) of
             None \<Rightarrow> None
           | Some (Inl e) \<Rightarrow> Some (Inl e)
           | Some (Inr (recs, saved)) \<Rightarrow>
               Some (Inr (live_record args run s # recs, live_files args run s @ saved))))"

text \<open>\<open>for run, log_path in enumerate(source_logs, start=1)\<close>\<close>

definition saved_record :: "conn_args \<Rightarrow> directory \<Rightarrow> nat \<Rightarrow> string \<Rightarrow> conn_record" where
  "saved_record args dir run name =
     (let peer_name = replace_all ''.uart.log'' ''.peer.uart.log'' name;
          peer = dget peer_name dir
      in main_record args run (dget_or name [] dir) name [] peer
           (if peer \<noteq> None then Some peer_name else None))"

definition saved_records :: "conn_args \<Rightarrow> directory \<Rightarrow> conn_record list" where
  "saved_records args dir =
     (let names = measured_uart_logs dir
      in map (\<lambda>(run, name). saved_record args dir run name) (zip [1..<Suc (length names)] names))"

definition conn_result_of ::
    "conn_args \<Rightarrow> identity option \<Rightarrow> identity option \<Rightarrow> conn_record list \<Rightarrow> directory \<Rightarrow> int \<Rightarrow> conn_result" where
  "conn_result_of args identity peer recs saved passes =
     \<lparr>conn_summary_of = summarize_records recs, target_identity = identity, peer_identity = peer,
      conn_scope = (if qemu_contract_fixture (contract_of args) then ''contract-only'' else ''silicon''),
      saved_files = saved,
      conn_exit = (if int (dget_or ''pass'' 0 (counts (summarize_records recs))) = passes then 0 else 1)\<rparr>"

section \<open>main\<close>

definition analyze_main ::
    "conn_args \<Rightarrow> main_env \<Rightarrow> identity option \<Rightarrow> identity option \<Rightarrow> conn_result res" where
  "analyze_main args env identity peer =
     (if measured_uart_logs (saved_logs env) = []
      then Inl (SystemExit ''no run-*.uart.log files'')
      else if output_there env then Inl (OSError ''FileExistsError'')
      else (let recs = saved_records args (saved_logs env)
            in Inr (conn_result_of args identity peer recs [] (int (length recs)))))"

definition live_main ::
    "conn_args \<Rightarrow> main_env \<Rightarrow> identity option \<Rightarrow> identity option \<Rightarrow> conn_result res option" where
  "live_main args env identity peer =
     (if output_there env then Some (Inl (OSError ''FileExistsError''))
      else case (if reference_target args \<noteq> None then ping_error env else None) of
        Some e \<Rightarrow> Some (Inl e)
      | None \<Rightarrow>
          (case serial_error env of
             Some e \<Rightarrow> Some (Inl e)
           | None \<Rightarrow>
               (case conn_runs args (run_env env) (nat (matrix_runs args)) 1 (port_at_start env)
                       (if peer_port_arg args \<noteq> None then Some (peer_at_start env) else None) of
                  None \<Rightarrow> None
                | Some (Inl e) \<Rightarrow> Some (Inl e)
                | Some (Inr (recs, saved)) \<Rightarrow>
                    Some (Inr (conn_result_of args identity peer recs saved (matrix_runs args))))))"

definition bad_arguments :: "conn_args \<Rightarrow> exn option" where
  "bad_arguments args =
     (if matrix_runs args \<le> 0 \<or> conn_timeout (capture_of args) \<le> 0 \<or>
         post_terminal_seconds (capture_of args) < 0 \<or> reference_count args \<le> 0
      then Some (SystemExit ''--runs, --timeout and --reference-count must be positive; --post-terminal-seconds must be non-negative'')
      else if required_ap_mode args \<noteq> None \<and> conn_profile (capture_of args) \<noteq> Rust
      then Some (SystemExit ''--required-ap-mode is only valid with --profile rust'')
      else (case max_runner_step_ms (contract_of args) of
              None \<Rightarrow> None
            | Some ms \<Rightarrow> if ms \<le> 0 then Some (SystemExit ''--max-runner-step-ms must be positive'') else None))"

definition check_identities :: "conn_args \<Rightarrow> files \<Rightarrow> (identity option \<times> identity option) res" where
  "check_identities args fs =
     (case rbind (verify_optional_identity fs (target_manifest args) (target_elf args)
                    (target_profile_id args) ''target'') (\<lambda>identity.
            rbind (verify_optional_identity fs (peer_manifest args) (peer_elf args)
                    (peer_profile_id args) ''peer'') (\<lambda>peer. Inr (identity, peer))) of
        Inl (ValueError m) \<Rightarrow> Inl (SystemExit m)
      | r \<Rightarrow> r)"

definition conn_main :: "conn_args \<Rightarrow> main_env \<Rightarrow> conn_outcome res option" where
  "conn_main args env =
     (if write_identity args \<noteq> None
      then (case (target_elf args, target_profile_id args) of
              (Some elf, Some profile_id) \<Rightarrow>
                Some (rbind (write_artifact_identity (file_system env) elf profile_id)
                        (\<lambda>j. Inr (Identity_written j)))
            | _ \<Rightarrow> Some (Inl (SystemExit ''--write-artifact-identity requires --elf and --profile-id'')))
      else case bad_arguments args of
        Some e \<Rightarrow> Some (Inl e)
      | None \<Rightarrow>
          (case check_identities args (file_system env) of
             Inl e \<Rightarrow> Some (Inl e)
           | Inr (identity, peer) \<Rightarrow>
               if analyze_dir args = None \<and> target_port args = None
               then Some (Inl (SystemExit ''--port or PORT is required unless --analyze-dir is used''))
               else if analyze_dir args \<noteq> None
               then Some (rbind (analyze_main args env identity peer) (\<lambda>r. Inr (Matrix_done r)))
               else map_option (\<lambda>res. rbind res (\<lambda>r. Inr (Matrix_done r))) (live_main args env identity peer)))"

section \<open>What an accepted identity says\<close>

text \<open>
  The manifest is an object with the schema, the marker contract, the profile and the digest of
  the ELF file, and nothing else.
\<close>

definition attests :: "files \<Rightarrow> string \<Rightarrow> string \<Rightarrow> string \<Rightarrow> identity \<Rightarrow> bool" where
  "attests fs path elf profile_id i \<longleftrightarrow>
     (\<exists>expected content raw. read_json fs path = Inr (JObj expected) \<and> read_raw fs elf = Inr content \<and>
        read_raw fs path = Inr raw \<and>
        json_get ''schema'' expected = JStr ARTIFACT_IDENTITY_SCHEMA \<and>
        json_get ''marker_contract'' expected = JStr MARKER_CONTRACT \<and>
        json_get ''profile_id'' expected = JStr profile_id \<and>
        json_get ''elf_sha256'' expected = JStr (sha256 content) \<and>
        fst ` set expected \<subseteq> {''schema'', ''marker_contract'', ''profile_id'', ''elf_sha256''} \<and>
        i = [(''schema'', ARTIFACT_IDENTITY_SCHEMA), (''marker_contract'', MARKER_CONTRACT),
             (''profile_id'', profile_id), (''elf_sha256'', sha256 content), (''manifest_sha256'', sha256 raw)])"

lemma sort_Nil_iff [simp]: "sort xs = [] \<longleftrightarrow> xs = []"
  by (metis set_empty set_sort)

lemma identity_mismatches_Nil:
  "identity_mismatches expected actual = [] \<longleftrightarrow>
     (\<forall>(key, v)\<in>set actual. json_get key expected = JStr v) \<and> fst ` set expected \<subseteq> fst ` set actual"
  by (auto simp: identity_mismatches_def filter_empty_conv has_key_iff)

lemma verify_artifact_identity_Inr:
  "verify_artifact_identity fs path elf profile_id = Inr i \<longleftrightarrow> attests fs path elf profile_id i"
proof
  assume v: "verify_artifact_identity fs path elf profile_id = Inr i"
  then obtain expected actual raw where j: "read_json fs path = Inr (JObj expected)"
    and a: "artifact_identity fs elf profile_id = Inr actual" "identity_mismatches expected actual = []"
    and raw: "read_raw fs path = Inr raw" "i = dset ''manifest_sha256'' (sha256 raw) actual"
    by (auto simp: verify_artifact_identity_def Let_def res_simps split: sum.splits option.splits if_splits)
  then obtain content where "read_raw fs elf = Inr content" by (auto simp: artifact_identity_def res_simps)
  with j a raw show "attests fs path elf profile_id i"
    unfolding attests_def identity_mismatches_Nil by (auto simp: artifact_identity_def)
next
  assume "attests fs path elf profile_id i"
  then obtain expected content raw where a: "read_json fs path = Inr (JObj expected)" "read_raw fs elf = Inr content"
    "read_raw fs path = Inr raw" "json_get ''schema'' expected = JStr ARTIFACT_IDENTITY_SCHEMA"
    "json_get ''marker_contract'' expected = JStr MARKER_CONTRACT" "json_get ''profile_id'' expected = JStr profile_id"
    "json_get ''elf_sha256'' expected = JStr (sha256 content)"
    "fst ` set expected \<subseteq> {''schema'', ''marker_contract'', ''profile_id'', ''elf_sha256''}"
    "i = [(''schema'', ARTIFACT_IDENTITY_SCHEMA), (''marker_contract'', MARKER_CONTRACT),
          (''profile_id'', profile_id), (''elf_sha256'', sha256 content), (''manifest_sha256'', sha256 raw)]"
    unfolding attests_def by blast
  let ?actual = "[(''schema'', ARTIFACT_IDENTITY_SCHEMA), (''marker_contract'', MARKER_CONTRACT),
    (''profile_id'', profile_id), (''elf_sha256'', sha256 content)]"
  have "identity_mismatches expected ?actual = []" using a(4-8) unfolding identity_mismatches_Nil by simp
  with a show "verify_artifact_identity fs path elf profile_id = Inr i"
    by (simp add: verify_artifact_identity_def artifact_identity_def)
qed

text \<open>A written manifest is accepted for the ELF file and the profile it was written for.\<close>

lemma written_identity_accepted:
  assumes "write_artifact_identity fs elf profile_id = Inr doc"
    and "read_json fs' path = Inr doc" and "read_raw fs' path = Inr raw"
    and "read_raw fs' elf' = Inr content'"
  shows "(\<exists>i. verify_artifact_identity fs' path elf' profile' = Inr i) \<longleftrightarrow>
    profile' = profile_id \<and> (\<exists>content. read_raw fs elf = Inr content \<and> sha256 content' = sha256 content)"
proof -
  from assms(1) obtain content where c: "read_raw fs elf = Inr content"
    and w: "doc = identity_json [(''schema'', ARTIFACT_IDENTITY_SCHEMA), (''marker_contract'', MARKER_CONTRACT),
      (''profile_id'', profile_id), (''elf_sha256'', sha256 content)]"
    by (auto simp: write_artifact_identity_def artifact_identity_def res_simps)
  show ?thesis
    unfolding verify_artifact_identity_Inr attests_def assms(2) w identity_json_def
    by (auto simp: c assms(3,4) json_get_def dget_or_def)
qed

section \<open>Names of the logs\<close>

lemma two_digits_no_dot: "c \<in> set (two_digits n) \<Longrightarrow> c \<noteq> CHR ''.''"
proof -
  assume "c \<in> set (two_digits n)"
  moreover have "CHR ''0'' = char_of (48 + 0 :: nat)"
    using char_of_char [of "CHR ''0''", where 'a = nat] by (simp del: char_of_char)
  ultimately have "\<exists>k<10::nat. c = char_of (48 + k)"
    using digits_of_chars [of c n] zero_less_numeral by (fastforce simp: two_digits_def split: if_splits)
  then obtain k :: nat where "k < 10" "c = char_of (48 + k)" by blast
  with digit_char [of k] have "(of_char c :: nat) = 48 + k" by simp
  then show "c \<noteq> CHR ''.''" by auto
qed

lemma uart_name_inject [simp]: "uart_name i = uart_name j \<longleftrightarrow> i = j"
  by (simp add: uart_name_def) (metis dec_value_two_digits)

lemma peer_uart_name_inject [simp]: "peer_uart_name i = peer_uart_name j \<longleftrightarrow> i = j"
  by (simp add: peer_uart_name_def) (metis dec_value_two_digits)

lemma no_dot_occurs:
  "\<forall>c\<in>set xs. c \<noteq> CHR ''.'' \<Longrightarrow> occurs (CHR ''.'' # p) (xs @ ys) \<longleftrightarrow> occurs (CHR ''.'' # p) ys"
  by (induction xs) (auto simp: sublist_Cons_right)

lemma no_dot_replace:
  "\<forall>c\<in>set xs. c \<noteq> CHR ''.'' \<Longrightarrow>
     replace_all (CHR ''.'' # p) new (xs @ ys) = xs @ replace_all (CHR ''.'' # p) new ys"
  by (induction xs) auto

lemma uart_name_measured:
  "prefix ''run-'' (uart_name n)" "suffix ''.uart.log'' (uart_name n)" "\<not> occurs ''.peer.uart.log'' (uart_name n)"
  "occurs ''.peer.uart.log'' (peer_uart_name n)"
  "replace_all ''.uart.log'' ''.peer.uart.log'' (uart_name n) = peer_uart_name n"
proof -
  have dots: "\<forall>c\<in>set (''run-'' @ two_digits n). c \<noteq> CHR ''.''" using two_digits_no_dot by auto
  show "prefix ''run-'' (uart_name n)" by (simp add: uart_name_def)
  show "suffix ''.uart.log'' (uart_name n)" unfolding uart_name_def by (metis append.assoc suffixI)
  have "\<not> occurs ''.peer.uart.log'' ''.uart.log''" by (simp add: sublist_Cons_right)
  with no_dot_occurs [OF dots, of "''peer.uart.log''" "''.uart.log''"]
  show "\<not> occurs ''.peer.uart.log'' (uart_name n)" by (simp add: uart_name_def)
  show "occurs ''.peer.uart.log'' (peer_uart_name n)"
    unfolding peer_uart_name_def by (metis append.assoc occurs_append2 sublist_order.order_refl)
  show "replace_all ''.uart.log'' ''.peer.uart.log'' (uart_name n) = peer_uart_name n"
    using no_dot_replace [OF dots, of "''uart.log''" "''.peer.uart.log''" "''.uart.log''"]
    by (simp add: uart_name_def peer_uart_name_def)
qed

lemma uart_name_not_peer [simp]: "uart_name i \<noteq> peer_uart_name j" "peer_uart_name j \<noteq> uart_name i"
  using uart_name_measured(3,4) by metis+

section \<open>The runs and their logs\<close>

lemma conn_runs_states:
  "conn_runs args env k run p q = Some (Inr (recs, saved)) \<Longrightarrow>
     \<exists>ss. length ss = k \<and> recs = map (\<lambda>(i, s). live_record args i s) (zip [run..<run + k] ss) \<and>
       saved = concat (map (\<lambda>(i, s). live_files args i s) (zip [run..<run + k] ss))"
proof (induction k arbitrary: run p q recs saved)
  case 0
  then show ?case by simp
next
  case (Suc k)
  then obtain s recs' saved' where c: "conn_runs args env k (Suc run) (tport s) (pport s) = Some (Inr (recs', saved'))"
    and r: "recs = live_record args run s # recs'" "saved = live_files args run s @ saved'"
    by (auto split: option.splits sum.splits)
  from Suc.IH [OF c] obtain ss where "length ss = k"
    "recs' = map (\<lambda>(i, s). live_record args i s) (zip [Suc run..<Suc run + k] ss)"
    "saved' = concat (map (\<lambda>(i, s). live_files args i s) (zip [Suc run..<Suc run + k] ss))" by blast
  moreover have "[run..<run + Suc k] = run # [Suc run..<Suc run + k]" by (simp add: upt_conv_Cons del: upt_Suc)
  ultimately show ?case using r by (intro exI [of _ "s # ss"]) (simp del: upt_Suc)
qed

text \<open>The verdict depends on the two logs only.\<close>

definition verdict_of :: "conn_args \<Rightarrow> bytes \<Rightarrow> bytes option \<Rightarrow> string" where
  "verdict_of args uart peer = result (main_record args 0 uart [] [] peer None)"

lemma result_main_record: "result (main_record args run uart name stamps peer peer_name) = verdict_of args uart peer"
  by (simp add: verdict_of_def main_record_def record_from_log_def Let_def)

lemma result_live_record:
  "result (live_record args run s)
     = verdict_of args (uart_log s) (if peer_port_arg args \<noteq> None then Some (peer_log s) else None)"
  by (simp add: live_record_def Let_def result_main_record)

lemma result_saved_record:
  "result (saved_record args dir run name)
     = verdict_of args (dget_or name [] dir) (dget (replace_all ''.uart.log'' ''.peer.uart.log'' name) dir)"
  by (simp add: saved_record_def Let_def result_main_record)

lemma dget_unique: "(k, v) \<in> set d \<Longrightarrow> \<forall>w. (k, w) \<in> set d \<longrightarrow> w = v \<Longrightarrow> dget k d = Some v"
  by (metis map_of_SomeD map_of_eq_None_iff not_Some_eq fst_conv image_eqI)

lemma length_conn_summary [simp]: "sum_records (summarize_records recs) = recs"
  by (simp add: summarize_records_def)

lemma length_filter_all: "length (filter P xs) = length xs \<longleftrightarrow> (\<forall>x\<in>set xs. P x)"
  by (metis filter_True filter_id_conv length_filter_less less_irrefl)

lemma passes_iff:
  "int (dget_or ''pass'' 0 (counts (summarize_records recs))) = int (length recs) \<longleftrightarrow>
     (\<forall>r\<in>set recs. result r = ''pass'')"
proof -
  have "dget_or ''pass'' 0 (counts (summarize_records recs)) = length (filter (\<lambda>r. result r = ''pass'') recs)"
    using foldl_dict_incr [of "[]" result recs "''pass''"] by (simp add: summarize_records_def dget_or_def)
  then show ?thesis by (simp add: length_filter_all)
qed

section \<open>The saved logs give the same verdicts\<close>

definition is_measured :: "string \<Rightarrow> bool" where
  "is_measured name \<longleftrightarrow>
     prefix ''run-'' name \<and> suffix ''.uart.log'' name \<and> \<not> occurs ''.peer.uart.log'' name"

lemma measured_uart_logs_eq: "measured_uart_logs dir = sort (filter is_measured (map fst dir))"
  by (simp add: measured_uart_logs_def is_measured_def [abs_def])

lemma is_measured_names [simp]: "is_measured (uart_name i)" "\<not> is_measured (peer_uart_name i)"
  using uart_name_measured by (auto simp: is_measured_def)

lemma measured_live_files:
  "filter is_measured (map fst (concat (map (\<lambda>(i, s). live_files args i s) rs)))
     = map (\<lambda>(i, s). uart_name i) rs"
  by (induction rs) (auto simp: live_files_def)

lemma in_live_files:
  "(uart_name i, x) \<in> set (concat (map (\<lambda>(i, s). live_files args i s) rs)) \<longleftrightarrow>
     (\<exists>s. (i, s) \<in> set rs \<and> x = uart_log s)"
  "(peer_uart_name i, x) \<in> set (concat (map (\<lambda>(i, s). live_files args i s) rs)) \<longleftrightarrow>
     (\<exists>s. (i, s) \<in> set rs \<and> peer_port_arg args \<noteq> None \<and> x = peer_log s)"
  by (auto simp: live_files_def split: if_splits)

text \<open>The files that a matrix writes beside its logs\<close>

definition other_files :: "string list" where
  "other_files = [''summary.json'', ''reference-ping.log'']"

lemma other_files_not_logs: "name \<in> set other_files \<Longrightarrow> \<not> prefix ''run-'' name"
  by (auto simp: other_files_def)

lemma names_are_logs: "prefix ''run-'' (uart_name i)" "prefix ''run-'' (peer_uart_name i)"
  by (simp_all add: uart_name_def peer_uart_name_def)

lemma saved_directory:
  assumes dir: "mset dir = mset (concat (map (\<lambda>(i, s). live_files args i s) rs) @ extra)"
    and extra: "fst ` set extra \<subseteq> set other_files" and dist: "distinct (map fst rs)"
  shows "mset (measured_uart_logs dir) = mset (map (\<lambda>(i, s). uart_name i) rs)"
    and "(i, s) \<in> set rs \<Longrightarrow> dget (uart_name i) dir = Some (uart_log s)"
    and "(i, s) \<in> set rs \<Longrightarrow>
      dget (peer_uart_name i) dir = (if peer_port_arg args \<noteq> None then Some (peer_log s) else None)"
proof -
  let ?saved = "concat (map (\<lambda>(i, s). live_files args i s) rs)"
  have set_dir: "set dir = set ?saved \<union> set extra" using dir by (metis mset_eq_setD set_append)
  have not_extra: "(k, x) \<notin> set extra" if "prefix ''run-'' k" for k x
    using extra other_files_not_logs that by force
  have "filter is_measured (map fst extra) = []"
    using extra other_files_not_logs by (auto simp: filter_empty_conv is_measured_def)
  moreover have "mset (map fst dir) = mset (map fst ?saved) + mset (map fst extra)"
    using dir by (metis map_append mset_append mset_map)
  ultimately have "mset (filter is_measured (map fst dir)) = mset (filter is_measured (map fst ?saved))"
    by (metis append_Nil2 filter_append mset_append mset_filter)
  then show "mset (measured_uart_logs dir) = mset (map (\<lambda>(i, s). uart_name i) rs)"
    by (simp add: measured_uart_logs_eq measured_live_files)
  have same: "t = s" if "(i, s) \<in> set rs" "(i, t) \<in> set rs" for i s t
    using dist that by (metis eq_key_imp_eq_value)
  have in_dir: "(uart_name i, x) \<in> set dir \<longleftrightarrow> (\<exists>s. (i, s) \<in> set rs \<and> x = uart_log s)"
    "(peer_uart_name i, x) \<in> set dir \<longleftrightarrow>
       (\<exists>s. (i, s) \<in> set rs \<and> peer_port_arg args \<noteq> None \<and> x = peer_log s)" for i x
    unfolding set_dir using in_live_files not_extra [OF names_are_logs(1)] not_extra [OF names_are_logs(2)] by auto
  show "(i, s) \<in> set rs \<Longrightarrow> dget (uart_name i) dir = Some (uart_log s)"
    using same by (intro dget_unique) (auto simp: in_dir)
  show "dget (peer_uart_name i) dir = (if peer_port_arg args \<noteq> None then Some (peer_log s) else None)"
    if r: "(i, s) \<in> set rs"
  proof (cases "peer_port_arg args")
    case None
    then have "peer_uart_name i \<notin> fst ` set dir" using in_dir(2) by force
    with None show ?thesis by (simp add: map_of_eq_None_iff)
  next
    case (Some port)
    with r same have "dget (peer_uart_name i) dir = Some (peer_log s)"
      by (intro dget_unique) (auto simp: in_dir)
    with Some show ?thesis by simp
  qed
qed

lemma map_result_saved:
  "map result (saved_records args dir)
     = map (\<lambda>name. verdict_of args (dget_or name [] dir)
              (dget (replace_all ''.uart.log'' ''.peer.uart.log'' name) dir)) (measured_uart_logs dir)"
proof -
  let ?F = "\<lambda>name. verdict_of args (dget_or name [] dir)
              (dget (replace_all ''.uart.log'' ''.peer.uart.log'' name) dir)"
  have "map (?F \<circ> snd) (zip [1..<Suc (length names)] names) = map ?F names" for names
    by (simp only: map_map [symmetric] map_snd_zip length_upt diff_Suc_1)
  then show ?thesis
    by (simp add: saved_records_def Let_def result_saved_record comp_def case_prod_unfold del: upt_Suc)
qed

lemma saved_verdicts:
  assumes "mset dir = mset (concat (map (\<lambda>(i, s). live_files args i s) rs) @ extra)"
    and "fst ` set extra \<subseteq> set other_files" and "distinct (map fst rs)"
  shows "mset (map result (saved_records args dir)) = mset (map (\<lambda>(i, s). result (live_record args i s)) rs)"
proof -
  let ?F = "\<lambda>name. verdict_of args (dget_or name [] dir)
              (dget (replace_all ''.uart.log'' ''.peer.uart.log'' name) dir)"
  note d = saved_directory [OF assms]
  have "mset (map result (saved_records args dir)) = image_mset ?F (mset (measured_uart_logs dir))"
    by (simp add: map_result_saved)
  also have "\<dots> = mset (map (\<lambda>(i, s). ?F (uart_name i)) rs)"
    by (simp add: d(1) image_mset.compositionality comp_def case_prod_unfold)
  also have "map (\<lambda>(i, s). ?F (uart_name i)) rs = map (\<lambda>(i, s). result (live_record args i s)) rs"
    using d(2,3) by (auto simp: result_live_record uart_name_measured(5) dget_or_def)
  finally show ?thesis .
qed

section \<open>Exit status\<close>

lemma conn_main_done:
  assumes "conn_main args env = Some (Inr (Matrix_done rep))"
  obtains identity peer where "write_identity args = None" "bad_arguments args = None"
    "check_identities args (file_system env) = Inr (identity, peer)"
    "analyze_dir args = None \<longrightarrow> target_port args \<noteq> None \<and> live_main args env identity peer = Some (Inr rep)"
    "analyze_dir args \<noteq> None \<longrightarrow> analyze_main args env identity peer = Inr rep"
  using assms
  by (auto simp: conn_main_def res_simps split: if_splits option.splits sum.splits)

lemma live_main_done:
  assumes "live_main args env identity peer = Some (Inr rep)"
  obtains recs saved where "conn_runs args (run_env env) (nat (matrix_runs args)) 1 (port_at_start env)
      (if peer_port_arg args \<noteq> None then Some (peer_at_start env) else None) = Some (Inr (recs, saved))"
    "rep = conn_result_of args identity peer recs saved (matrix_runs args)"
  using assms by (auto simp: live_main_def split: if_splits option.splits sum.splits)

text \<open>The identities of a finished matrix\<close>

definition identity_checked ::
    "files \<Rightarrow> string option \<Rightarrow> string option \<Rightarrow> string option \<Rightarrow> identity option \<Rightarrow> bool" where
  "identity_checked fs manifest elf profile_id i \<longleftrightarrow>
     (case (manifest, elf, profile_id) of
        (None, None, None) \<Rightarrow> i = None
      | (Some m, Some e, Some p) \<Rightarrow> (\<exists>j. i = Some j \<and> attests fs m e p j)
      | _ \<Rightarrow> False)"

lemma verify_optional_identity_Inr:
  "verify_optional_identity fs manifest elf profile_id label = Inr i \<longleftrightarrow>
     identity_checked fs manifest elf profile_id i"
  by (auto simp: verify_optional_identity_def identity_checked_def res_simps verify_artifact_identity_Inr
      split: option.splits)

lemma check_identities_Inr:
  "check_identities args fs = Inr (identity, peer) \<longleftrightarrow>
     identity_checked fs (target_manifest args) (target_elf args) (target_profile_id args) identity \<and>
     identity_checked fs (peer_manifest args) (peer_elf args) (peer_profile_id args) peer"
proof -
  have "check_identities args fs = Inr (identity, peer) \<longleftrightarrow>
      rbind (verify_optional_identity fs (target_manifest args) (target_elf args)
               (target_profile_id args) ''target'') (\<lambda>identity.
        rbind (verify_optional_identity fs (peer_manifest args) (peer_elf args)
               (peer_profile_id args) ''peer'') (\<lambda>peer. Inr (identity, peer))) = Inr (identity, peer)"
    by (simp add: check_identities_def split: sum.splits exn.splits)
  then show ?thesis by (auto simp: rbind_Inr verify_optional_identity_Inr)
qed

text \<open>The number of records that all must pass\<close>

lemma conn_main_records:
  assumes "conn_main args env = Some (Inr (Matrix_done rep))"
  obtains identity peer recs saved where
    "check_identities args (file_system env) = Inr (identity, peer)" "recs \<noteq> []"
    "rep = conn_result_of args identity peer recs saved (int (length recs))"
    "length recs = (if analyze_dir args = None then nat (matrix_runs args)
                    else length (measured_uart_logs (saved_logs env)))"
proof -
  from assms obtain identity peer where b: "bad_arguments args = None"
    and c: "check_identities args (file_system env) = Inr (identity, peer)"
    and live: "analyze_dir args = None \<longrightarrow> target_port args \<noteq> None \<and>
      live_main args env identity peer = Some (Inr rep)"
    and saved: "analyze_dir args \<noteq> None \<longrightarrow> analyze_main args env identity peer = Inr rep"
    by (rule conn_main_done)
  show thesis
  proof (cases "analyze_dir args")
    case None
    with live have "live_main args env identity peer = Some (Inr rep)" by blast
    then obtain recs saved where r: "conn_runs args (run_env env) (nat (matrix_runs args)) 1
        (port_at_start env) (if peer_port_arg args \<noteq> None then Some (peer_at_start env) else None)
        = Some (Inr (recs, saved))" "rep = conn_result_of args identity peer recs saved (matrix_runs args)"
      by (rule live_main_done)
    from b have "0 < matrix_runs args" by (auto simp: bad_arguments_def split: if_splits)
    with conn_runs_states [OF r(1)] have len: "length recs = nat (matrix_runs args)"
      by (auto simp del: upt_Suc)
    with \<open>0 < matrix_runs args\<close> have "recs \<noteq> []" by auto
    with len r(2) c None \<open>0 < matrix_runs args\<close> show thesis by (intro that [of identity peer recs saved]) auto
  next
    case (Some dir)
    let ?recs = "saved_records args (saved_logs env)"
    from Some saved have "measured_uart_logs (saved_logs env) \<noteq> []"
      "rep = conn_result_of args identity peer ?recs [] (int (length ?recs))"
      by (auto simp: analyze_main_def Let_def split: if_splits)
    moreover have "length ?recs = length (measured_uart_logs (saved_logs env))"
      by (simp add: saved_records_def Let_def del: upt_Suc)
    ultimately show thesis using Some by (intro that [OF c, of ?recs]) (auto simp flip: length_greater_0_conv)
  qed
qed

lemma conn_main_status:
  assumes "conn_main args env = Some (Inr (Matrix_done rep))"
  shows "(conn_exit rep = 0 \<longleftrightarrow> (\<forall>r\<in>set (sum_records (conn_summary_of rep)). result r = ''pass'')) \<and>
    conn_exit rep \<le> 1"
  using assms by (rule conn_main_records) (simp add: conn_result_of_def passes_iff [symmetric])

text \<open>
  C28: The exit status of the connectivity matrix.  If \<open>main\<close> finishes a matrix, captured or
  analysed from saved logs, then the identities it was given were accepted, it has at least one
  record, one for each run or saved log, and its status is 0 exactly if every record passed.
\<close>

theorem conn_main_exit_status:
  assumes "conn_main args env = Some (Inr (Matrix_done rep))"
  shows "identity_checked (file_system env) (target_manifest args) (target_elf args) (target_profile_id args)
      (target_identity rep) \<and>
    identity_checked (file_system env) (peer_manifest args) (peer_elf args) (peer_profile_id args)
      (peer_identity rep) \<and>
    sum_records (conn_summary_of rep) \<noteq> [] \<and>
    length (sum_records (conn_summary_of rep)) =
      (if analyze_dir args = None then nat (matrix_runs args)
       else length (measured_uart_logs (saved_logs env))) \<and>
    (conn_exit rep = 0 \<longleftrightarrow> (\<forall>r\<in>set (sum_records (conn_summary_of rep)). result r = ''pass''))"
proof -
  from assms obtain identity peer recs saved where
    "check_identities args (file_system env) = Inr (identity, peer)" "recs \<noteq> []"
    "rep = conn_result_of args identity peer recs saved (int (length recs))"
    "length recs = (if analyze_dir args = None then nat (matrix_runs args)
                    else length (measured_uart_logs (saved_logs env)))"
    by (rule conn_main_records)
  then show ?thesis
    by (simp add: conn_result_of_def check_identities_Inr passes_iff [symmetric])
qed

section \<open>Analysing the logs of a matrix again\<close>

lemma live_matrix_runs:
  assumes "conn_main args env = Some (Inr (Matrix_done live))" and "analyze_dir args = None"
  obtains identity peer rs where "write_identity args = None" "bad_arguments args = None"
    "check_identities args (file_system env) = Inr (identity, peer)" "distinct (map fst rs)" "rs \<noteq> []"
    "sum_records (conn_summary_of live) = map (\<lambda>(i, s). live_record args i s) rs"
    "saved_files live = concat (map (\<lambda>(i, s). live_files args i s) rs)"
proof -
  from assms(1) obtain identity peer where b: "write_identity args = None" "bad_arguments args = None"
    "check_identities args (file_system env) = Inr (identity, peer)"
    and l: "analyze_dir args = None \<longrightarrow> target_port args \<noteq> None \<and>
      live_main args env identity peer = Some (Inr live)" by (rule conn_main_done)
  with assms(2) have "live_main args env identity peer = Some (Inr live)" by blast
  then obtain recs saved where r: "conn_runs args (run_env env) (nat (matrix_runs args)) 1
      (port_at_start env) (if peer_port_arg args \<noteq> None then Some (peer_at_start env) else None)
      = Some (Inr (recs, saved))" "live = conn_result_of args identity peer recs saved (matrix_runs args)"
    by (rule live_main_done)
  from b(2) have "0 < matrix_runs args" by (auto simp: bad_arguments_def split: if_splits)
  with conn_runs_states [OF r(1)] obtain ss where "length ss = nat (matrix_runs args)" "ss \<noteq> []"
    "recs = map (\<lambda>(i, s). live_record args i s) (zip [1..<1 + nat (matrix_runs args)] ss)"
    "saved = concat (map (\<lambda>(i, s). live_files args i s) (zip [1..<1 + nat (matrix_runs args)] ss))"
    by (metis length_0_conv nat_0_iff not_le)
  with b r(2) \<open>0 < matrix_runs args\<close> show thesis
    by (intro that [of identity peer "zip [1..<1 + nat (matrix_runs args)] ss"])
      (auto simp: conn_result_of_def map_fst_zip_take distinct_take zip_eq_Nil_iff simp del: upt_Suc)
qed

text \<open>
  C29: Analysing a matrix again gives the same verdicts.  Let a captured matrix finish, and let the
  directory be what it wrote, its logs, the summary and the log of the ping, in any order.  Then
  \<open>main --analyze-dir\<close> with the same options finishes, finds a log for every run, gives the runs
  the same verdicts (their order is that of the names of the logs) and ends with the same status.
\<close>

theorem reanalysis_same_verdicts:
  assumes live: "conn_main args env = Some (Inr (Matrix_done live))" and "analyze_dir args = None"
    and dir: "mset (saved_logs env') = mset (saved_files live @ extra)"
    and extra: "fst ` set extra \<subseteq> set other_files"
    and env': "file_system env' = file_system env" "\<not> output_there env'"
  shows "\<exists>again. conn_main (args\<lparr>analyze_dir := Some path\<rparr>) env' = Some (Inr (Matrix_done again)) \<and>
    mset (map result (sum_records (conn_summary_of again))) = mset (map result (sum_records (conn_summary_of live))) \<and>
    conn_exit again = conn_exit live"
proof -
  let ?args = "args\<lparr>analyze_dir := Some path\<rparr>"
  from live assms(2) obtain identity peer rs where a: "write_identity args = None" "bad_arguments args = None"
    "check_identities args (file_system env) = Inr (identity, peer)" "distinct (map fst rs)" "rs \<noteq> []"
    and recs: "sum_records (conn_summary_of live) = map (\<lambda>(i, s). live_record args i s) rs"
    and saved: "saved_files live = concat (map (\<lambda>(i, s). live_files args i s) rs)"
    by (rule live_matrix_runs)
  have same: "saved_records ?args dir = saved_records args dir" for dir
    by (simp add: saved_records_def saved_record_def main_record_def cong: prod.case_cong)
  let ?recs = "saved_records args (saved_logs env')"
  note d = dir [unfolded saved] extra a(4)
  have verdicts: "mset (map result ?recs) = mset (map result (sum_records (conn_summary_of live)))"
    using saved_verdicts [OF d] by (simp add: recs comp_def case_prod_unfold)
  have "mset (measured_uart_logs (saved_logs env')) = mset (map (\<lambda>(i, s). uart_name i) rs)"
    using saved_directory(1) [OF d] .
  with a(5) have names: "measured_uart_logs (saved_logs env') \<noteq> []" by (metis mset.simps(1) mset_zero_iff map_is_Nil_conv)
  let ?again = "conn_result_of ?args identity peer ?recs [] (int (length ?recs))"
  have "bad_arguments ?args = bad_arguments args" by (simp add: bad_arguments_def)
  moreover have "check_identities ?args (file_system env') = check_identities args (file_system env)"
    by (simp add: check_identities_def env'(1))
  ultimately have again: "conn_main ?args env' = Some (Inr (Matrix_done ?again))"
    using a(1-3) env'(2) names by (simp add: conn_main_def analyze_main_def same Let_def)
  moreover have "sum_records (conn_summary_of ?again) = ?recs" by (simp add: conn_result_of_def)
  moreover have "conn_exit ?again = 0 \<longleftrightarrow> conn_exit live = 0"
  proof -
    have "(\<forall>v\<in>#mset (map result ?recs). v = ''pass'') \<longleftrightarrow>
        (\<forall>v\<in>#mset (map result (sum_records (conn_summary_of live))). v = ''pass'')"
      by (simp only: verdicts)
    then show ?thesis
      using conn_main_status [OF again] conn_main_status [OF live] \<open>sum_records (conn_summary_of ?again) = ?recs\<close>
      by simp
  qed
  moreover have "conn_exit ?again \<le> 1" "conn_exit live \<le> 1"
    using conn_main_status [OF again] conn_main_status [OF live] by auto
  ultimately show ?thesis using verdicts by (metis le_Suc_eq One_nat_def le_zero_eq)
qed

end
