(* ===== verification/Counter_Lines.thy ===== *)
theory Counter_Lines
  imports Conn_Capture
begin

text \<open>
  The counter lines of the firmware, as the logs under \<open>docs/plan/evidence\<close> show them: a tag and
  \<open>key=0x\<close> fields of eight lower-case hexadecimal digits.  \<open>parse_hex_fields\<close> reads back the
  values that such a line was printed from, for every 32-bit value.
\<close>

section \<open>The values of a line\<close>

text \<open>The value \<open>0x\<close> and eight digits, of a 32-bit word.\<close>

definition hex_value :: "32 word \<Rightarrow> string" where
  "hex_value w = ''0x'' @ hex_fixed 8 (unat w)"

lemma numeral_text_ascii: "ascii s \<Longrightarrow> numeral_text s = s"
proof (induction s)
  case (Cons c s)
  then show ?case using numeral_text_cons_ascii [of c s] by (simp add: ascii_def)
qed (simp add: numeral_text_def)

lemma hex_fixed_head:
  assumes "k \<noteq> 0"
  shows "\<exists>e es. hex_fixed k n = e # es \<and> e \<noteq> CHR ''_''"
proof -
  from assms obtain e es where e: "hex_fixed k n = e # es"
    by (cases "hex_fixed k n") (auto dest: arg_cong [where f = length])
  then obtain d where "d < 16" "e = digit_char d" using hex_fixed_plain [of e k n] by auto
  with e digit_char_plain show ?thesis by blast
qed

lemma hex_value_ascii: "ascii (hex_value w)"
  using digit_char_plain hex_fixed_plain by (fastforce simp: ascii_def hex_value_def)

lemma py_int16_hex_value: "py_int16 (hex_value w) = Some (uint w)"
proof -
  obtain e es where e: "hex_fixed 8 (unat w) = e # es" "e \<noteq> CHR ''_''"
    using hex_fixed_head [of 8 "unat w"] by auto
  have "hex_number 0 False (hex_fixed 8 (unat w) @ []) = Some (unat w mod 16 ^ 8)"
    by (subst hex_number_fixed) simp_all
  moreover have "unat w < 16 ^ 8" using unsigned_less [where 'a = nat, of w] by simp
  ultimately have "hex_unsigned (hex_value w) = Some (unat w)"
    using e by (simp add: hex_value_def)
  then show ?thesis
    using numeral_text_ascii [OF hex_value_ascii [of w]] by (simp add: py_int16_def hex_value_def)
qed


section \<open>Words of a line\<close>

definition counter_line :: "string \<Rightarrow> (string \<times> 32 word) list \<Rightarrow> bytes" where
  "counter_line tag vals =
     tag @ concat (map (\<lambda>(k, w). CHR 32 # k @ CHR ''='' # hex_value w) vals)"

definition field_word :: "string \<times> 32 word \<Rightarrow> string" where
  "field_word = (\<lambda>(k, w). k @ CHR ''='' # hex_value w)"

lemma hex_value_chars: "c \<in> set (hex_value w) \<Longrightarrow> 33 \<le> ord c \<and> ord c < 127"
  using digit_char_plain hex_fixed_plain by (fastforce simp: hex_value_def)

lemma plain_field_word: "plain_word k \<Longrightarrow> plain_word (field_word (k, w))"
  using hex_value_chars by (auto simp: field_word_def plain_word_def)

lemma tokens_counter_line:
  assumes "plain_word tag" "\<forall>(k, w)\<in>set vals. plain_word k"
  shows "tokens (counter_line tag vals) = map field_word vals"
proof -
  have "counter_line tag vals = tag @ concat (map (\<lambda>w. CHR 32 # w) (map field_word vals))"
    by (simp add: counter_line_def field_word_def comp_def split_def)
  moreover have "\<forall>w\<in>set (map field_word vals). plain_word w"
    using assms(2) plain_field_word by auto
  ultimately show ?thesis
    using decode_split_words [OF assms(1), of "map field_word vals"] by (simp add: tokens_def)
qed
lemma add_hex_field_word:
  "CHR ''='' \<notin> set k \<Longrightarrow> add_hex_field d (field_word (k, w)) = dset k (uint w) d"
  using py_int16_hex_value [of w]
  by (simp add: add_hex_field_def field_word_def split_once_append) (simp add: hex_value_def)

lemma add_hex_field_words:
  "\<forall>(k, w)\<in>set vals. CHR ''='' \<notin> set k \<Longrightarrow> distinct (map fst d @ map fst vals) \<Longrightarrow>
     foldl add_hex_field d (map field_word vals) = d @ map (\<lambda>(k, w). (k, uint w)) vals"
proof (induction vals arbitrary: d)
  case (Cons v vals)
  obtain k w where v: "v = (k, w)" by (cases v)
  with Cons.prems have "add_hex_field d (field_word v) = d @ [(k, uint w)]"
    by (simp add: add_hex_field_word dset_fresh)
  with Cons v show ?case by simp
qed simp

lemma text_fields_words:
  "\<forall>(k, w)\<in>set vals. CHR ''='' \<notin> set k \<Longrightarrow> distinct (map fst d @ map fst vals) \<Longrightarrow>
     foldl (\<lambda>fields token. case split_once CHR ''='' token of
              None \<Rightarrow> fields | Some (key, val) \<Rightarrow> dset key val fields) d (map field_word vals)
       = d @ map (\<lambda>(k, w). (k, hex_value w)) vals"
proof (induction vals arbitrary: d)
  case (Cons v vals)
  obtain k w where v: "v = (k, w)" by (cases v)
  with Cons show ?case by (simp add: field_word_def split_once_append dset_fresh)
qed simp

text \<open>
  C14: the counters of a line come back as they were printed.  For a line of a tag and
  \<open>key=0x\<close> fields of 32-bit values, in the format of the firmware, \<open>parse_hex_fields\<close> returns
  exactly the keys and values, in their order: no field is lost, and no value is truncated or
  sign extended.
\<close>

theorem parse_hex_fields_roundtrip:
  assumes "plain_word tag" and "\<forall>(k, w)\<in>set vals. plain_word k \<and> CHR ''='' \<notin> set k"
    and "distinct (map fst vals)"
  shows "parse_hex_fields (counter_line tag vals) = map (\<lambda>(k, w). (k, uint w)) vals"
proof -
  have "tokens (counter_line tag vals) = map field_word vals"
    using assms(1,2) by (intro tokens_counter_line) auto
  then show ?thesis
    using add_hex_field_words [of vals "[]"] assms(2,3) by (fastforce simp: parse_hex_fields_def)
qed

theorem parse_hex_fields_roundtrip_witness:
  "parse_hex_fields (counter_line ''RFDBG_HEAP'' [(''rtos_arena'', 0x2a200), (''rtos_peak'', 0xffffffff)])
     = [(''rtos_arena'', 172544), (''rtos_peak'', 4294967295)]"
  using parse_hex_fields_roundtrip [of "''RFDBG_HEAP''" "[(''rtos_arena'', 0x2a200), (''rtos_peak'', 0xffffffff)]"]
  by (simp add: plain_word_def)

section \<open>Lines of a log\<close>

lemma splitlines_acc_line:
  "CHR 10 \<notin> set l \<Longrightarrow> CHR 13 \<notin> set l \<Longrightarrow>
     splitlines_acc cur (l @ CHR 10 # rest) = (rev cur @ l) # splitlines_acc [] rest"
  by (induction l arbitrary: cur) auto

lemma splitlines_transcript:
  "\<forall>l\<in>set ls. CHR 10 \<notin> set l \<and> CHR 13 \<notin> set l \<Longrightarrow> splitlines (transcript ls) = ls"
proof (induction ls)
  case Nil
  then show ?case by (simp add: splitlines_def transcript_def)
next
  case (Cons l ls)
  then show ?case
    using splitlines_acc_line [of l "[]" "transcript ls"] by (simp add: splitlines_def transcript_Cons)
qed

end
