(* ===== verification/Conn_Runs.thy ===== *)
theory Conn_Runs
  imports Counter_Lines
begin

text \<open>
  Concrete logs and captures of the connectivity matrix.  They show that the hypotheses of the
  properties of the \<open>Conn\<close> theories hold together.
\<close>

section \<open>Logs\<close>

definition strict_opts :: contract_opts where
  "strict_opts = \<lparr>require_contract = True, max_runner_step_ms = None,
     qemu_contract_fixture = False, require_resource_calibration = False\<rparr>"

definition scan_log :: bytes where
  "scan_log = ''RF1_IMAGE_OK RF2_INIT_OK A4_RADIO_EVENT kind=initialized RF3_SCAN_OK A4_RADIO_EVENT kind=scan-completed''"

lemma scan_log_passes: "conn_classify strict_opts Rust Init_scan None scan_log = ''pass''"
  by code_simp

lemma scan_groups: "\<exists>groups. RUST_STAGE_MARKERS Init_scan = Some groups"
  by simp

theorem conn_pass_stage_order_witness:
  "\<exists>groups. RUST_STAGE_MARKERS Init_scan = Some groups \<and> length groups = 5 \<and>
    (\<exists>ps. sorted_wrt (<) ps \<and>
      list_all2 (\<lambda>p (name, ms). \<exists>m\<in>set ms. prefix m (drop p scan_log)) ps groups)"
proof -
  obtain groups where g: "RUST_STAGE_MARKERS Init_scan = Some groups" by simp
  then have "length groups = 5" by auto
  with g conn_pass_stage_order [OF scan_log_passes _ g] show ?thesis by (simp add: strict_opts_def)
qed

lemma hex_fixed_0: "hex_fixed k 0 = replicate k CHR ''0''"
proof (induction k)
  case (Suc k)
  have "digit_char 0 = CHR ''0''" by code_simp
  with Suc show ?case by (simp add: replicate_append_same)
qed simp

lemma hex_value_0: "hex_value 0 = ''0x00000000''"
  by (simp add: hex_value_def hex_fixed_0 numeral_eq_Suc)

definition zero_owner :: "(string \<times> 32 word) list" where
  "zero_owner = map (\<lambda>f. (f, 0)) READY_OWNERSHIP_FIELDS"

lemma zero_owner_parsed:
  "parse_hex_fields (counter_line ''RFDBG_A5B_SCHED'' zero_owner) = map (\<lambda>f. (f, 0)) READY_OWNERSHIP_FIELDS"
  "parse_hex_fields (counter_line ''RFDBG_SOFTAP_SCHED'' zero_owner) = map (\<lambda>f. (f, 0)) READY_OWNERSHIP_FIELDS"
  by (subst parse_hex_fields_roundtrip;
      auto simp: zero_owner_def READY_OWNERSHIP_FIELDS_def plain_word_def)+

definition connect_lines :: "bytes list" where
  "connect_lines = [counter_line ''RFDBG_A5B_SCHED'' zero_owner, ''RF5B_WPA_CONNECT_OK'']"

definition connect_log :: bytes where
  "connect_log = transcript connect_lines"

definition peer_lines :: "bytes list" where
  "peer_lines = [counter_line ''RFDBG_SOFTAP_SCHED'' zero_owner, ''RFDBG_SOFTAP_READY'']"

definition peer_log_demo :: bytes where
  "peer_log_demo = transcript peer_lines"

lemma connect_lines_text: "connect_lines =
  [''RFDBG_A5B_SCHED ready_owner_err=0x00000000 ready_dup=0x00000000 ready_wrong_bucket=0x00000000 ready_bad_link=0x00000000'',
   ''RF5B_WPA_CONNECT_OK'']"
  by (simp add: connect_lines_def counter_line_def zero_owner_def hex_value_0 READY_OWNERSHIP_FIELDS_def)

lemma peer_lines_text: "peer_lines =
  [''RFDBG_SOFTAP_SCHED ready_owner_err=0x00000000 ready_dup=0x00000000 ready_wrong_bucket=0x00000000 ready_bad_link=0x00000000'',
   ''RFDBG_SOFTAP_READY'']"
  by (simp add: peer_lines_def counter_line_def zero_owner_def hex_value_0 READY_OWNERSHIP_FIELDS_def)

lemma demo_splitlines:
  "splitlines connect_log = connect_lines" "splitlines peer_log_demo = peer_lines"
  unfolding connect_log_def peer_log_demo_def
  by (rule splitlines_transcript; simp add: connect_lines_text peer_lines_text)+

lemma connect_ownership: "parse_ready_ownership connect_log = Some (map (\<lambda>f. (f, 0)) READY_OWNERSHIP_FIELDS)"
proof -
  have "startswith ''RFDBG_A5B_SCHED '' (counter_line ''RFDBG_A5B_SCHED'' zero_owner)"
    by (simp add: counter_line_def zero_owner_def READY_OWNERSHIP_FIELDS_def)
  then show ?thesis
    unfolding parse_ready_ownership_def demo_splitlines connect_lines_def
    by (simp add: zero_owner_parsed) (simp add: READY_OWNERSHIP_FIELDS_def take_ownership_def has_key_def)
qed

lemma peer_ownership: "parse_ready_ownership peer_log_demo = Some (map (\<lambda>f. (f, 0)) READY_OWNERSHIP_FIELDS)"
proof -
  have "startswith ''RFDBG_SOFTAP_SCHED '' (counter_line ''RFDBG_SOFTAP_SCHED'' zero_owner)"
    "\<not> startswith ''RFDBG_A5B_SCHED '' (counter_line ''RFDBG_SOFTAP_SCHED'' zero_owner)"
    by (simp_all add: counter_line_def zero_owner_def READY_OWNERSHIP_FIELDS_def)
  then show ?thesis
    unfolding parse_ready_ownership_def demo_splitlines peer_lines_def
    by (simp add: zero_owner_parsed) (simp add: READY_OWNERSHIP_FIELDS_def take_ownership_def has_key_def)
qed

definition failure_markers :: "bytes list" where
  "failure_markers = QEMU_CONTRACT_FIXTURE_MARKER # RUST_FATAL_MARKERS @
     [''RF5C_LOCAL_DATA_PATH_ERR'', ''RF5B_WPA_CONNECT_ERR:0x00001451'', ''RFDBG_A5B_CONNECT_PROFILE_OK'']"

lemma connect_absent: "\<forall>m\<in>set failure_markers. \<not> occurs m connect_log"
proof -
  have "list_all (\<lambda>m. m \<noteq> [] \<and> CHR 10 \<notin> set m \<and> \<not> list_ex (occurs m) connect_lines) failure_markers"
    unfolding connect_lines_text by code_simp
  then show ?thesis by (simp add: list_all_iff connect_log_def occurs_transcript_iff)
qed

lemma connect_ok: "occurs ''RF5B_WPA_CONNECT_OK'' connect_log"
  unfolding connect_log_def by (rule occurs_transcript) (simp add: connect_lines_text)

lemma connect_contract: "validate_rust_contract strict_opts Connect connect_log = []"
proof -
  have "validate_ready_ownership connect_log ''sta'' = []"
    by (simp add: validate_ready_ownership_def connect_ownership)
      (simp add: READY_OWNERSHIP_FIELDS_def)
  moreover have "validate_a5b_metrics connect_log None True = []"
    using connect_absent by (simp add: validate_a5b_metrics_def failure_markers_def)
  moreover have "filter (\<lambda>m. occurs m connect_log) RUST_FATAL_MARKERS = []"
    using connect_absent by (simp add: filter_empty_conv failure_markers_def)
  ultimately show ?thesis
    using connect_absent connect_ok
    by (simp add: validate_rust_contract_def strict_opts_def stage_violations_def
        connect_violations_def failure_markers_def)
qed

lemma connect_log_passes: "conn_classify strict_opts Rust Connect None connect_log = ''pass''"
proof -
  have "failure_verdict connect_log = None"
    using connect_absent by (simp add: failure_verdict_def failure_markers_def RUST_FATAL_MARKERS_def)
  then show ?thesis
    using connect_absent connect_ok connect_contract
    by (simp add: conn_classify_def ap_mode_verdict_def pass_or_contract_violation_def
        failure_markers_def)
qed

theorem conn_pass_diagnostics_witness:
  "\<exists>snapshot. parse_ready_ownership connect_log = Some snapshot \<and>
      (\<forall>f\<in>set READY_OWNERSHIP_FIELDS. dget f snapshot = Some 0)"
  using conn_pass_diagnostics [OF connect_log_passes] by (simp add: strict_opts_def)

definition resource_fields :: "(string \<times> 32 word) list" where
  "resource_fields = [(''schema'', 1), (''revision'', 2), (''runtime_arena'', 8), (''rf_arena'', 6)]"

definition heap_fields :: "(string \<times> 32 word) list" where
  "heap_fields =
     [(''rtos_arena'', 8), (''rtos_used'', 2), (''rtos_free'', 6), (''rtos_peak'', 4), (''rtos_failures'', 0),
      (''rf_arena'', 6), (''rf_used'', 5), (''rf_free'', 1), (''rf_peak'', 6), (''rf_failures'', 0)]"

definition heap_log :: bytes where
  "heap_log = transcript [counter_line ''RFDBG_RESOURCE'' resource_fields, counter_line ''RFDBG_HEAP'' heap_fields]"

lemma heap_lines:
  "last_prefixed_line heap_log ''RFDBG_RESOURCE '' = Some (counter_line ''RFDBG_RESOURCE'' resource_fields)"
  "last_prefixed_line heap_log ''RFDBG_HEAP '' = Some (counter_line ''RFDBG_HEAP'' heap_fields)"
proof -
  have "splitlines heap_log = [counter_line ''RFDBG_RESOURCE'' resource_fields, counter_line ''RFDBG_HEAP'' heap_fields]"
    unfolding heap_log_def
    by (rule splitlines_transcript)
      (auto simp: counter_line_def resource_fields_def heap_fields_def dest!: hex_value_chars)
  then show
    "last_prefixed_line heap_log ''RFDBG_RESOURCE '' = Some (counter_line ''RFDBG_RESOURCE'' resource_fields)"
    "last_prefixed_line heap_log ''RFDBG_HEAP '' = Some (counter_line ''RFDBG_HEAP'' heap_fields)"
    by (simp_all add: last_prefixed_line_def counter_line_def resource_fields_def heap_fields_def)
qed

lemma resource_tokens: "tokens (counter_line ''RFDBG_RESOURCE'' resource_fields) = map field_word resource_fields"
  by (rule tokens_counter_line) (auto simp: plain_word_def resource_fields_def)

lemma heap_values:
  "parse_hex_fields (counter_line ''RFDBG_RESOURCE'' resource_fields)
     = [(''schema'', 1), (''revision'', 2), (''runtime_arena'', 8), (''rf_arena'', 6)]"
  "parse_hex_fields (counter_line ''RFDBG_HEAP'' heap_fields)
     = [(''rtos_arena'', 8), (''rtos_used'', 2), (''rtos_free'', 6), (''rtos_peak'', 4), (''rtos_failures'', 0),
        (''rf_arena'', 6), (''rf_used'', 5), (''rf_free'', 1), (''rf_peak'', 6), (''rf_failures'', 0)]"
  by (subst parse_hex_fields_roundtrip; simp add: plain_word_def resource_fields_def heap_fields_def)+

lemma resource_text:
  "dget ''schema'' (text_or_empty (Some (counter_line ''RFDBG_RESOURCE'' resource_fields))) = Some (hex_value 1)"
  "dget ''revision'' (text_or_empty (Some (counter_line ''RFDBG_RESOURCE'' resource_fields))) = Some (hex_value 2)"
  by (subst text_or_empty_def, simp add: parse_text_fields_def resource_tokens,
      subst text_fields_words; simp add: resource_fields_def)+

lemma heap_log_complete:
  "\<exists>c. parse_resource_calibration heap_log = Some c \<and> cal_complete c \<and>
     dget_or ''rtos_arena'' 0 (cal_heap c) = 8"
  by (simp add: parse_resource_calibration_def heap_lines fields_or_empty_def heap_values
      calibration_violations_def heap_violations_def resource_text hex_value_def Let_def)

theorem resource_calibration_complete_witness:
  "\<exists>c. parse_resource_calibration heap_log = Some c \<and>
     dget_or ''rtos_used'' 0 (cal_heap c) + dget_or ''rtos_free'' 0 (cal_heap c) = 8"
proof -
  obtain c where c: "parse_resource_calibration heap_log = Some c" "cal_complete c"
    "dget_or ''rtos_arena'' 0 (cal_heap c) = 8"
    using heap_log_complete by blast
  from resource_calibration_complete [OF c(1,2)] c(1,3) show ?thesis by auto
qed

section \<open>Records\<close>

definition echo_sample :: "string \<Rightarrow> int \<Rightarrow> int \<Rightarrow> sample" where
  "echo_sample phase n done_count = [(''phase'', VStr phase), (''sequence'', VInt n), (''tx_done'', VInt done_count)]"

definition ap_sample :: "int \<Rightarrow> sample" where
  "ap_sample n = [(''sequence'', VInt n), (''vendor_tx_delta'', VInt 1)]"

text \<open>The station sent 1 and 2, the access point saw 2 and 3; the counter wraps around.\<close>

definition sta_demo :: "sample list" where
  "sta_demo = [echo_sample ''send'' 1 4294967295, echo_sample ''send'' 2 4, echo_sample ''receive'' 2 5]"

definition ap_demo :: "sample list" where
  "ap_demo = [ap_sample 2, ap_sample 3]"

definition demo_record :: "string \<Rightarrow> conn_record" where
  "demo_record res =
     \<lparr>conn_run = 1, result = res, conn_bytes = 0, auth_rsp2_timeouts = 0, ap_mode = None, dns = None,
      l2_protocol = None, local_echo_path = Some sta_demo, irq45_lifecycle = None,
      ready_ownership = None, peer_bytes = None, peer_ready = None, peer_echo_path = Some ap_demo,
      peer_irq45_lifecycle = None, peer_ready_ownership = None,
      echo_correlation = correlate_echo_paths (Some sta_demo) (Some ap_demo), a5b = None,
      resource_calibration = None,
      contract = \<lparr>required = False, evidence_scope = ''silicon'', violations = []\<rparr>,
      marker_seconds = [], conn_log_name = ''run-01.uart.log'', peer_log_name = None\<rparr>"

theorem correlate_echo_paths_balance_witness:
  "\<exists>c. correlate_echo_paths (Some sta_demo) (Some ap_demo) = Some c \<and>
     sent_missing_at_ap c = [1] \<and> ap_without_sta_send c = [3] \<and>
     length (sta_sent c) + length (ap_without_sta_send c)
       = length (ap_observed c) + length (sent_missing_at_ap c)"
proof -
  obtain c where c: "correlate_echo_paths (Some sta_demo) (Some ap_demo) = Some c"
    by (simp add: correlate_echo_paths_def Let_def)
  then have "sent_missing_at_ap c = [1]" "ap_without_sta_send c = [3]"
    by (auto simp: correlate_echo_paths_def sta_demo_def ap_demo_def echo_sample_def ap_sample_def
        sequences_def sample_int_def insert_Diff_if List.map_filter_simps Let_def)
  with c correlate_echo_paths_balance [OF c] show ?thesis by simp
qed

theorem local_echo_path_ranges_witness:
  "\<exists>a. aggregate_local_echo_path [demo_record ''pass''] = Some a \<and>
     dget ''tx_done'' (agg_ranges a) = Some (1, 5) \<and> (0::int) \<le> 1 \<and> (5::int) < 2 ^ 32"
proof -
  obtain a where a: "aggregate_local_echo_path [demo_record ''pass''] = Some a"
    by (simp add: aggregate_local_echo_path_def demo_record_def List.map_filter_simps)
  then have r: "dget ''tx_done'' (agg_ranges a) = Some (1, 5)"
    by (auto simp: aggregate_local_echo_path_def demo_record_def List.map_filter_simps sta_demo_def
        echo_sample_def path_deltas_def step_deltas_def sample_int_def widen_def)
  from a r local_echo_path_ranges [OF a r] show ?thesis by blast
qed

theorem echo_by_result_partition_witness:
  "\<exists>a. aggregate_echo_correlation [demo_record ''pass'', demo_record ''scan_error''] = Some a \<and>
     sum_list (map (\<lambda>(k, n, t). n) (by_result a)) = echo_with a \<and> echo_with a = 2"
proof -
  obtain a where a: "aggregate_echo_correlation [demo_record ''pass'', demo_record ''scan_error''] = Some a"
    and "echo_with a = 2"
    by (simp add: aggregate_echo_correlation_def demo_record_def List.map_filter_simps Let_def
        correlate_echo_paths_def)
  with echo_by_result_partition [OF a] show ?thesis by blast
qed

definition paired_record :: conn_record where
  "paired_record = record_from_log strict_opts Rust Connect None 1 connect_log ''run-01.uart.log'' []
     (Some peer_log_demo) (Some ''run-01.peer.uart.log'')"

lemma paired_contract: "contract_violations_of strict_opts Rust Connect connect_log (Some peer_log_demo) = []"
proof -
  have "validate_ready_ownership peer_log_demo ''peer'' = []"
    by (simp add: validate_ready_ownership_def peer_ownership)
      (simp add: READY_OWNERSHIP_FIELDS_def)
  moreover have "occurs ''RFDBG_SOFTAP_READY'' peer_log_demo"
    unfolding peer_log_demo_def by (rule occurs_transcript) (simp add: peer_lines_text)
  ultimately show ?thesis
    by (simp add: contract_violations_of_def connect_contract)
qed


section \<open>Captures\<close>

definition demo_opts :: conn_opts where
  "demo_opts = \<lparr>jlink_exe = ''JLinkExe'', jlink_serial = Some ''123'', peer_jlink_serial = None,
     peer_settle_seconds = 3, conn_timeout = 65, post_terminal_seconds = 1,
     conn_profile = Rust, conn_stage = Connect\<rparr>"

text \<open>A port that opens again at once, and one that stays closed for two seconds.\<close>

definition demo_recovery :: "exn option \<Rightarrow> recovery" where
  "demo_recovery error =
     \<lparr>reopen_from = 1, reopen_tries = [(error, 4)], restart_at = 4, again_peer_pulse = quiet_pulse,
      again_settle_from = 4, again_settle = [], again_pulse = quiet_pulse\<rparr>"

definition demo_tick :: "secs \<Rightarrow> bool \<Rightarrow> bytes \<Rightarrow> exn option \<Rightarrow> conn_tick" where
  "demo_tick t broken bs error =
     \<lparr>c_now = t, c_post = t, c_target_rx = bs, c_peer_rx = [], c_broken = broken,
      c_recovery = demo_recovery error, c_late = [], c_stamp = t, c_mark = t\<rparr>"

definition demo_env :: "conn_tick list \<Rightarrow> conn_env" where
  "demo_env ts =
     \<lparr>first_peer_pulse = quiet_pulse, first_settle_from = 0, first_settle = [], started_at = 0,
      first_pulse = quiet_pulse, conn_ticks = ts, conn_last_peer = [], conn_last_late = []\<rparr>"

definition demo_port :: port where
  "demo_port = \<lparr>rxbuf = ''old'', written = []\<rparr>"

text \<open>A broken read after a first boot; then the old firmware, the boot marker and the result.\<close>

definition broken_run :: conn_env where
  "broken_run = demo_env
     [demo_tick 1 False (''noise'' @ boot_marker) None, demo_tick 2 True ''xx'' None,
      demo_tick 5 False (''stale'' @ boot_marker @ ''RF5B_WPA_CONNECT_OK'') None,
      demo_tick 70 False ''late'' None]"

lemma quiet_pulses_ok:
  "snd (pulse_nrst ''JLinkExe'' (Some ''123'') quiet_pulse) = Inr ()"
  by (rule quiet_pulse_ok) (simp add: ascii_decimal_def)

lemma broken_run_logs:
  "map_option (map_sum id (\<lambda>s. (uart_log s, reconnects s)))
     (conn_capture_run demo_opts broken_run demo_port None)
    = Some (Inr (boot_marker @ ''RF5B_WPA_CONNECT_OK'', 1))"
  by code_simp

theorem conn_capture_run_current_boot_witness:
  "\<exists>s used t rest. conn_capture_run demo_opts broken_run demo_port None = Some (Inr s) \<and>
     uart_log s = boot_marker @ ''RF5B_WPA_CONNECT_OK'' \<and>
     conn_ticks broken_run = used @ t # rest \<and> length (filter c_broken used) = 1"
proof -
  obtain r where r: "conn_capture_run demo_opts broken_run demo_port None = Some r"
    "map_sum id (\<lambda>s. (uart_log s, reconnects s)) r = Inr (boot_marker @ ''RF5B_WPA_CONNECT_OK'', 1)"
    using broken_run_logs by blast
  then obtain s where s: "conn_capture_run demo_opts broken_run demo_port None = Some (Inr s)"
    "uart_log s = boot_marker @ ''RF5B_WPA_CONNECT_OK''" "reconnects s = 1"
    by (cases r) auto
  from conn_capture_run_current_boot [OF s(1)] s show ?thesis by metis
qed

definition closed_run :: conn_env where
  "closed_run = demo_env [demo_tick 1 False ''noise'' None, demo_tick 2 True ''xx'' (Some (OSError ''busy''))]"

lemma closed_run_raises:
  "conn_capture_run demo_opts closed_run demo_port None = Some (Inl (OSError ''busy''))"
  by code_simp

theorem conn_capture_run_raises_witness: "broken_for_good (OSError ''busy'') (conn_ticks closed_run)"
proof -
  have "\<forall>(sn, pe) \<in> pulses_of demo_opts closed_run. snd (pulse_nrst (jlink_exe demo_opts) sn pe) \<noteq> Inl (OSError ''busy'')"
    using quiet_pulses_ok
    by (auto simp: pulses_of_def demo_opts_def closed_run_def demo_env_def demo_tick_def
        demo_recovery_def)
  with conn_capture_run_raises [OF closed_run_raises] show ?thesis by blast
qed

theorem conn_capture_run_ends_witness:
  "\<exists>r. conn_capture_run demo_opts broken_run demo_port None = Some r"
  by (rule conn_capture_run_ends)
    (simp add: conn_clock_passes_def recovery_ends_def demo_opts_def broken_run_def demo_env_def
      demo_tick_def demo_recovery_def)

text \<open>The old firmware reports a connection; the measured boot prints nothing; the run passes.\<close>

definition paired_opts :: conn_opts where
  "paired_opts = demo_opts\<lparr>peer_jlink_serial := Some ''456''\<rparr>"

definition lenient_opts :: contract_opts where
  "lenient_opts = strict_opts\<lparr>require_contract := False\<rparr>"

theorem conn_stale_log_kept_witness:
  "\<exists>s. conn_capture_run paired_opts (stale_conn_env paired_opts ''RF5B_WPA_CONNECT_OK'') demo_port None
       = Some (Inr s) \<and>
     target_silent_after_reset (stale_conn_env paired_opts ''RF5B_WPA_CONNECT_OK'') \<and>
     conn_classify lenient_opts Rust Connect None (uart_log s) = ''pass''"
proof -
  have "\<not> occurs boot_marker ''RF5B_WPA_CONNECT_OK''" by code_simp
  moreover have "conn_classify lenient_opts Rust Connect None ''RF5B_WPA_CONNECT_OK'' = ''pass''"
    by code_simp
  ultimately show ?thesis
    using conn_stale_log_kept [of "''RF5B_WPA_CONNECT_OK''" paired_opts "''123''" "''456''" demo_port None]
    by (auto simp: paired_opts_def demo_opts_def ascii_decimal_def)
qed

end
