(* ===== verification/Conn_Main_Runs.thy ===== *)
theory Conn_Main_Runs
  imports Conn_Main Conn_Runs
begin

text \<open>A captured matrix of one run, and its analysis from the saved log.\<close>

definition matrix_args :: conn_args where
  "matrix_args =
     \<lparr>write_identity = None, target_manifest = Some ''id.json'', target_elf = Some ''fw.elf'',
      target_profile_id = Some ''wifi'', peer_manifest = None, peer_elf = None, peer_profile_id = None,
      matrix_runs = 1, reference_count = 5, reference_target = None, required_ap_mode = None,
      contract_of = strict_opts, capture_of = demo_opts, analyze_dir = None,
      target_port = Some ''/dev/ttyUSB0'', peer_port_arg = None\<rparr>"

definition matrix_files :: files where
  "matrix_files =
     \<lparr>read_json = (\<lambda>_. write_artifact_identity
                    \<lparr>read_json = \<lambda>_. Inl AssertionError, read_raw = \<lambda>_. Inr ''firmware''\<rparr> ''fw.elf'' ''wifi''),
      read_raw = (\<lambda>_. Inr ''firmware'')\<rparr>"

definition matrix_env :: "directory \<Rightarrow> main_env" where
  "matrix_env dir =
     \<lparr>file_system = matrix_files, saved_logs = dir, output_there = False, ping_error = None,
      serial_error = None, run_env = (\<lambda>_. broken_run), port_at_start = demo_port,
      peer_at_start = demo_port\<rparr>"

lemma matrix_fields:
  "write_identity matrix_args = None" "analyze_dir matrix_args = None" "matrix_runs matrix_args = 1"
  "target_port matrix_args = Some ''/dev/ttyUSB0''" "peer_port_arg matrix_args = None"
  "reference_target matrix_args = None" "capture_of matrix_args = demo_opts"
  by (simp_all add: matrix_args_def)

lemma matrix_run: "\<exists>s. conn_capture_run demo_opts broken_run demo_port None = Some (Inr s)"
proof -
  obtain r where "conn_capture_run demo_opts broken_run demo_port None = Some r"
    "map_sum id (\<lambda>s. (uart_log s, reconnects s)) r = Inr (boot_marker @ ''RF5B_WPA_CONNECT_OK'', 1)"
    using broken_run_logs by blast
  then show ?thesis by (cases r) auto
qed

lemma matrix_identity: "\<exists>i. check_identities matrix_args matrix_files = Inr (Some i, None)"
proof -
  obtain i where "verify_artifact_identity matrix_files ''id.json'' ''fw.elf'' ''wifi'' = Inr i"
    using written_identity_accepted [of "\<lparr>read_json = \<lambda>_. Inl AssertionError, read_raw = \<lambda>_. Inr ''firmware''\<rparr>"
        "''fw.elf''" "''wifi''" _ matrix_files "''id.json''" "''firmware''" "''fw.elf''" "''firmware''" "''wifi''"]
    by (auto simp: matrix_files_def write_artifact_identity_def artifact_identity_def)
  then show ?thesis
    by (simp add: check_identities_def matrix_args_def verify_optional_identity_def)
qed

lemma matrix_done: "\<exists>live. conn_main matrix_args (matrix_env []) = Some (Inr (Matrix_done live))"
proof -
  obtain s where s: "conn_capture_run demo_opts broken_run demo_port None = Some (Inr s)"
    using matrix_run ..
  obtain i where i: "check_identities matrix_args matrix_files = Inr (Some i, None)" using matrix_identity ..
  have "conn_runs matrix_args (\<lambda>_. broken_run) (Suc 0) (Suc 0) demo_port None
      = Some (Inr ([live_record matrix_args (Suc 0) s], live_files matrix_args (Suc 0) s))"
    using s by (simp add: matrix_fields)
  moreover have "bad_arguments matrix_args = None"
    by (simp add: bad_arguments_def matrix_args_def demo_opts_def strict_opts_def)
  ultimately show ?thesis
    using i by (simp add: conn_main_def live_main_def matrix_env_def matrix_fields del: conn_runs.simps)
qed

theorem conn_main_exit_status_witness:
  "\<exists>live i. conn_main matrix_args (matrix_env []) = Some (Inr (Matrix_done live)) \<and>
     target_identity live = Some i \<and> attests matrix_files ''id.json'' ''fw.elf'' ''wifi'' i \<and>
     length (sum_records (conn_summary_of live)) = 1"
proof -
  obtain live where l: "conn_main matrix_args (matrix_env []) = Some (Inr (Matrix_done live))"
    using matrix_done ..
  from conn_main_exit_status [OF l] l show ?thesis
    by (auto simp: matrix_args_def matrix_env_def identity_checked_def)
qed

theorem reanalysis_same_verdicts_witness:
  "\<exists>live again. conn_main matrix_args (matrix_env []) = Some (Inr (Matrix_done live)) \<and>
     conn_main (matrix_args\<lparr>analyze_dir := Some ''out''\<rparr>)
       (matrix_env ((''summary.json'', ''{}'') # saved_files live)) = Some (Inr (Matrix_done again)) \<and>
     conn_exit again = conn_exit live"
proof -
  obtain live where l: "conn_main matrix_args (matrix_env []) = Some (Inr (Matrix_done live))"
    using matrix_done ..
  have "mset (saved_logs (matrix_env ((''summary.json'', ''{}'') # saved_files live)))
      = mset (saved_files live @ [(''summary.json'', ''{}'')])" by (simp add: matrix_env_def)
  from reanalysis_same_verdicts [OF l _ this, where path = "''out''"] l show ?thesis
    by (auto simp: matrix_args_def matrix_env_def other_files_def)
qed

end
