(* ===== verification/Flash_Plan.thy ===== *)
theory Flash_Plan
  imports Py_Json Py_Sha256 "HOL-Library.Product_Lexorder" "HOL-Library.Multiset"
begin

text \<open>
  \<open>scripts/check-flash-plan.py\<close>: the checks on an executable flash plan, and what an accepted
  plan does to the flash.  The tool \<open>hisi-fwpkg\<close>, to which the checker delegates the image
  format, is a parameter: a function from the command's inputs to what the process did.
\<close>

section \<open>The plan and its ranges\<close>

definition REQUIRED_KEYS :: "string list" where
  "REQUIRED_KEYS =
     [''base_addr'', ''image_len'', ''body_range'', ''code_area_len'', ''code_area_hash'',
      ''erase_range'', ''write_chunks'']"

definition require_range :: "json \<Rightarrow> string \<Rightarrow> (int \<times> int) res" where
  "require_range v name =
     (case json_dict v of
        None \<Rightarrow> Inl (ValueError (name @ '' must be an object''))
      | Some d \<Rightarrow>
          (let start_key = (if name = ''body_range'' then ''image_offset'' else ''start'')
           in case (json_int (json_get start_key d), json_int (json_get ''len'' d)) of
                (Some start, Some len) \<Rightarrow>
                  if start < 0 \<or> len \<le> 0
                  then Inl (ValueError (name @ '' must be non-negative and non-empty''))
                  else Inr (start, len)
              | _ \<Rightarrow> Inl (ValueError (name @ '' must contain integer '' @ start_key @ '' and len''))))"

text \<open>\<open>str(list)\<close> of the names of keys, which need no escapes\<close>

definition repr_names :: "string list \<Rightarrow> string" where
  "repr_names names = CHR ''['' # join '', '' (map (\<lambda>s. CHR 39 # s @ [CHR 39]) names) @ '']''"

text \<open>\<open>f'{n:#x}'\<close>\<close>

fun hex_of_nat :: "nat \<Rightarrow> string" where
  "hex_of_nat n =
     (if n < 16 then [hex_char (int n)] else hex_of_nat (n div 16) @ [hex_char (int (n mod 16))])"

declare hex_of_nat.simps [simp del]

definition sharp_x :: "int \<Rightarrow> string" where
  "sharp_x i = (if i < 0 then ''-0x'' @ hex_of_nat (nat (- i)) else ''0x'' @ hex_of_nat (nat i))"

text \<open>\<open>bytes(values).hex()\<close> for values from 0 to 255; two digests are equal if their hexadecimal forms are\<close>

definition hex_byte :: "int \<Rightarrow> string" where
  "hex_byte b = [hex_char (b div 16), hex_char (b mod 16)]"

definition check_hash :: "json \<Rightarrow> bytes \<Rightarrow> unit res" where
  "check_hash expected_hash body =
     (let bad = Inl (ValueError ''code_area_hash must contain exactly 32 bytes'')
      in case json_items expected_hash of
           None \<Rightarrow> bad
         | Some items \<Rightarrow>
             if length items \<noteq> 32 \<or>
                list_ex (\<lambda>b. case json_int b of None \<Rightarrow> True | Some n \<Rightarrow> \<not> (0 \<le> n \<and> n \<le> 255)) items
             then bad
             else raise_if (sha256_hex body \<noteq> concat (map hex_byte (List.map_filter json_int items)))
                    (ValueError ''code_area_hash does not match the planned image body''))"

section \<open>The write chunks\<close>

record chunk =
  c_addr :: int
  c_offset :: int
  c_len :: int

definition chunk_error :: "nat \<Rightarrow> string \<Rightarrow> exn" where
  "chunk_error index text = ValueError (''write_chunks['' @ str_int (int index) @ '']'' @ text)"

definition check_chunk :: "int \<Rightarrow> int \<Rightarrow> int \<Rightarrow> int \<Rightarrow> nat \<Rightarrow> json \<Rightarrow> chunk res" where
  "check_chunk base_addr image_len erase_start erase_end index v =
     (case json_dict v of
        None \<Rightarrow> Inl (chunk_error index '' must be an object'')
      | Some d \<Rightarrow>
          (case (json_int (json_get ''addr'' d), json_int (json_get ''image_offset'' d),
                 json_int (json_get ''len'' d)) of
             (Some addr, Some off, Some len) \<Rightarrow>
               if off < 0 \<or> len \<le> 0 \<or> off + len > image_len
               then Inl (chunk_error index '' extends beyond the image'')
               else if addr \<noteq> base_addr + off
               then Inl (chunk_error index '' address does not match image offset'')
               else if addr < erase_start \<or> addr + len > erase_end
               then Inl (chunk_error index '' extends beyond erase_range'')
               else Inr \<lparr>c_addr = addr, c_offset = off, c_len = len\<rparr>
           | _ \<Rightarrow> Inl (chunk_error index '' fields must be integers'')))"

fun check_chunks :: "int \<Rightarrow> int \<Rightarrow> int \<Rightarrow> int \<Rightarrow> nat \<Rightarrow> json list \<Rightarrow> chunk list res" where
  "check_chunks base_addr image_len erase_start erase_end index [] = Inr []"
| "check_chunks base_addr image_len erase_start erase_end index (v # vs) =
     rbind (check_chunk base_addr image_len erase_start erase_end index v) (\<lambda>c.
     rbind (check_chunks base_addr image_len erase_start erase_end (Suc index) vs) (\<lambda>cs.
       Inr (c # cs)))"

definition chunk_span :: "chunk \<Rightarrow> int \<times> int" where
  "chunk_span c = (c_offset c, c_offset c + c_len c)"

text \<open>The loop over the sorted spans; \<open>None\<close> if one does not start where the last one ended.\<close>

fun cover_cursor :: "int \<Rightarrow> (int \<times> int) list \<Rightarrow> int option" where
  "cover_cursor cursor [] = Some cursor"
| "cover_cursor cursor ((start, fin) # spans) =
     (if start \<noteq> cursor then None else cover_cursor fin spans)"

section \<open>The checker\<close>

definition check_base :: "json_object \<Rightarrow> int option \<Rightarrow> int res" where
  "check_base plan expected_base_address =
     (let bad = Inl (ValueError ''base_addr must be a non-negative integer'')
      in case json_int (json_get ''base_addr'' plan) of
           None \<Rightarrow> bad
         | Some base_addr \<Rightarrow>
             if base_addr < 0 then bad
             else (case expected_base_address of
               None \<Rightarrow> Inr base_addr
             | Some expected \<Rightarrow>
                 if base_addr \<noteq> expected
                 then Inl (ValueError (''unexpected base_addr: '' @ sharp_x base_addr @ '', expected ''
                                       @ sharp_x expected))
                 else Inr base_addr))"

definition check_body :: "json_object \<Rightarrow> bytes \<Rightarrow> int \<Rightarrow> unit res" where
  "check_body plan img base_addr =
     rbind (require_range (json_get ''body_range'' plan) ''body_range'') (\<lambda>(body_offset, body_len).
     rbind (raise_if (body_offset + body_len > int (length img))
             (ValueError ''body_range extends beyond the image'')) (\<lambda>_.
     rbind (raise_if
             (\<not> equals_int (json_get ''flash_addr'' (the (json_dict (json_get ''body_range'' plan))))
                 (base_addr + body_offset))
             (ValueError ''body_range flash_addr does not match base_addr + image_offset'')) (\<lambda>_.
     rbind (raise_if (\<not> equals_int (json_get ''code_area_len'' plan) body_len)
             (ValueError ''code_area_len does not match body_range.len'')) (\<lambda>_.
     check_hash (json_get ''code_area_hash'' plan)
       (take (nat body_len) (drop (nat body_offset) img))))))"

definition check_writes :: "json_object \<Rightarrow> bytes \<Rightarrow> int \<Rightarrow> unit res" where
  "check_writes plan img base_addr =
     (let n = int (length img)
      in rbind (require_range (json_get ''erase_range'' plan) ''erase_range'')
           (\<lambda>(erase_start, erase_len).
         rbind (raise_if (erase_start > base_addr \<or> erase_start + erase_len < base_addr + n)
                 (ValueError ''erase_range does not cover the complete planned image'')) (\<lambda>_.
         case json_items (json_get ''write_chunks'' plan) of
           None \<Rightarrow> Inl (ValueError ''write_chunks must not be empty'')
         | Some chunks \<Rightarrow>
             if chunks = [] then Inl (ValueError ''write_chunks must not be empty'')
             else rbind (check_chunks base_addr n erase_start (erase_start + erase_len) 0 chunks)
               (\<lambda>covered.
                  raise_if (cover_cursor 0 (sort (map chunk_span covered)) \<noteq> Some n)
                    (ValueError ''write_chunks must cover the complete image exactly once'')))))"

definition validate_flash_plan :: "json_object \<Rightarrow> bytes \<Rightarrow> int option \<Rightarrow> unit res" where
  "validate_flash_plan plan img expected_base_address =
     (let missing = filter (\<lambda>key. \<not> has_key key plan) REQUIRED_KEYS
      in if missing \<noteq> [] then Inl (ValueError (''missing plan keys: '' @ repr_names missing))
         else rbind (check_base plan expected_base_address) (\<lambda>base_addr.
              if \<not> equals_int (json_get ''image_len'' plan) (int (length img))
              then Inl (ValueError ''plan image_len does not match image file size'')
              else rbind (check_body plan img base_addr) (\<lambda>_. check_writes plan img base_addr)))"

section \<open>Flash memory\<close>

unbundle bit_operations_syntax

text \<open>
  The contract of a plan, in terms of flash memory: an erase sets every bit of its range, and
  programming a byte can only clear bits.
\<close>

type_synonym flash = "int \<Rightarrow> 8 word"

definition image_byte :: "bytes \<Rightarrow> nat \<Rightarrow> 8 word" where
  "image_byte img i = of_char (img ! i)"

definition erase_flash :: "int \<times> int \<Rightarrow> flash \<Rightarrow> flash" where
  "erase_flash = (\<lambda>(start, len) mem a. if start \<le> a \<and> a < start + len then - 1 else mem a)"

definition write_chunk :: "bytes \<Rightarrow> flash \<Rightarrow> chunk \<Rightarrow> flash" where
  "write_chunk img mem c =
     (\<lambda>a. if c_addr c \<le> a \<and> a < c_addr c + c_len c
          then mem a AND image_byte img (nat (c_offset c + (a - c_addr c))) else mem a)"

definition program_flash :: "bytes \<Rightarrow> int \<times> int \<Rightarrow> chunk list \<Rightarrow> flash \<Rightarrow> flash" where
  "program_flash img erase cs mem = foldl (write_chunk img) (erase_flash erase mem) cs"

definition chunk_of_json :: "json \<Rightarrow> chunk option" where
  "chunk_of_json v =
     Option.bind (json_dict v) (\<lambda>d.
     Option.bind (json_int (json_get ''addr'' d)) (\<lambda>addr.
     Option.bind (json_int (json_get ''image_offset'' d)) (\<lambda>off.
     Option.bind (json_int (json_get ''len'' d)) (\<lambda>len.
       Some \<lparr>c_addr = addr, c_offset = off, c_len = len\<rparr>))))"

text \<open>The chunks of a plan, if each is an object with three integers.\<close>

definition planned_chunks :: "json_object \<Rightarrow> chunk list option" where
  "planned_chunks plan =
     Option.bind (json_items (json_get ''write_chunks'' plan)) (\<lambda>vs. those (map chunk_of_json vs))"

definition covers :: "int \<Rightarrow> chunk \<Rightarrow> bool" where
  "covers i c \<longleftrightarrow> c_offset c \<le> i \<and> i < c_offset c + c_len c"

definition good_chunk :: "int \<Rightarrow> int \<Rightarrow> int \<Rightarrow> int \<Rightarrow> chunk \<Rightarrow> bool" where
  "good_chunk n base es ee c \<longleftrightarrow>
     0 \<le> c_offset c \<and> 0 < c_len c \<and> c_offset c + c_len c \<le> n \<and>
     c_addr c = base + c_offset c \<and> es \<le> c_addr c \<and> c_addr c + c_len c \<le> ee"

lemma check_chunk_Inr:
  "check_chunk base n es ee k v = Inr c \<longleftrightarrow> chunk_of_json v = Some c \<and> good_chunk n base es ee c"
  by (auto simp: check_chunk_def chunk_of_json_def good_chunk_def split: option.splits if_splits
      Option.bind_splits)

lemma check_chunks_Inr:
  "check_chunks base n es ee k vs = Inr cs \<longleftrightarrow>
     those (map chunk_of_json vs) = Some cs \<and> (\<forall>c\<in>set cs. good_chunk n base es ee c)"
  by (induction vs arbitrary: k cs) (auto simp: res_simps check_chunk_Inr split: option.splits)

lemma foldl_write_chunk:
  "\<forall>c\<in>set cs. c_addr c = base + c_offset c \<Longrightarrow>
     foldl (write_chunk img) mem cs a
       = (if \<exists>c\<in>set cs. covers (a - base) c then mem a AND image_byte img (nat (a - base)) else mem a)"
proof (induction cs arbitrary: mem)
  case (Cons c cs)
  then have "write_chunk img mem c a
      = (if covers (a - base) c then mem a AND image_byte img (nat (a - base)) else mem a)"
    by (auto simp: write_chunk_def covers_def)
  with Cons show ?case by (auto simp: and.assoc)
qed simp

text \<open>Spans that follow each other without a gap contain each position once.\<close>

lemma cover_cursor_once:
  "cover_cursor c xs = Some e \<Longrightarrow> \<forall>(s, t)\<in>set xs. s < t \<Longrightarrow>
     c \<le> e \<and> length (filter (\<lambda>(s, t). s \<le> i \<and> i < t) xs) = (if c \<le> i \<and> i < e then 1 else 0)"
  by (induction c xs rule: cover_cursor.induct) (auto split: if_splits)

lemma length_filter_sort: "length (filter P (sort xs)) = length (filter P xs)"
  by (metis mset_filter mset_sort size_mset)

text \<open>Conversely, sorted spans that contain each position once follow each other without a gap.\<close>

lemma cover_cursor_complete:
  "sorted xs \<Longrightarrow> \<forall>(s, t)\<in>set xs. c \<le> s \<and> s < t \<and> t \<le> e \<Longrightarrow> c \<le> e \<Longrightarrow>
     \<forall>i. c \<le> i \<and> i < e \<longrightarrow> length (filter (\<lambda>(s, t). s \<le> i \<and> i < t) xs) = 1 \<Longrightarrow>
     cover_cursor c xs = Some e"
proof (induction xs arbitrary: c)
  case Nil
  then have "\<not> c < e" by fastforce
  with Nil show ?case by simp
next
  case (Cons x xs)
  obtain s t where x: "x = (s, t)" by (cases x)
  let ?in = "\<lambda>i (s, t). s \<le> i \<and> i < t"
  from Cons.prems(2) x have st: "c \<le> s" "s < t" "t \<le> e" by auto
  then have "length (filter (?in c) (x # xs)) = 1" using Cons.prems(4) by auto
  then have "filter (?in c) (x # xs) \<noteq> []" by (metis length_0_conv zero_neq_one)
  then obtain y where "y \<in> set (x # xs)" "?in c y" unfolding filter_empty_conv by blast
  then obtain s' t' where "(s', t') \<in> set (x # xs)" "s' \<le> c" "c < t'" by (cases y) auto
  with Cons.prems(1,2) x st have sc: "s = c" by fastforce
  have none: "filter (?in i) xs = []" if "c \<le> i" "i < t" for i
  proof -
    have "length (filter (?in i) (x # xs)) = 1" using Cons.prems(4) that st by auto
    with x sc that show ?thesis by simp
  qed
  have later: "t \<le> s'" if m: "(s', t') \<in> set xs" for s' t'
  proof (rule ccontr)
    assume "\<not> t \<le> s'"
    moreover from m Cons.prems(2) have "c \<le> s'" "s' < t'" by auto
    ultimately show False using none [of s'] m by (auto simp: filter_empty_conv)
  qed
  have "length (filter (?in i) xs) = 1" if "t \<le> i" "i < e" for i
  proof -
    have "length (filter (?in i) (x # xs)) = 1" using Cons.prems(4) that st by auto
    with x that show ?thesis by simp
  qed
  with Cons.IH [of t] Cons.prems(1,2) later st have "cover_cursor t xs = Some e" by fastforce
  with x sc show ?case by simp
qed

lemma cover_cursor_iff:
  assumes "\<forall>c\<in>set cs. good_chunk (int n) base es ee c"
  shows "cover_cursor 0 (sort (map chunk_span cs)) = Some (int n)
    \<longleftrightarrow> (\<forall>i < n. length (filter (covers (int i)) cs) = 1)"
proof -
  let ?xs = "sort (map chunk_span cs)"
  have count: "length (filter (\<lambda>(s, t). s \<le> i \<and> i < t) ?xs) = length (filter (covers i) cs)" for i
    by (simp add: length_filter_sort filter_map chunk_span_def comp_def covers_def [abs_def])
  have ok: "\<forall>(s, t)\<in>set ?xs. 0 \<le> s \<and> s < t \<and> t \<le> int n"
    using assms by (auto simp: chunk_span_def good_chunk_def)
  show ?thesis
  proof
    assume "cover_cursor 0 ?xs = Some (int n)"
    from cover_cursor_once [OF this] ok have
      "length (filter (\<lambda>(s, t). s \<le> i \<and> i < t) ?xs) = (if 0 \<le> i \<and> i < int n then 1 else 0)" for i
      by fastforce
    then show "\<forall>i<n. length (filter (covers (int i)) cs) = 1" by (simp add: count)
  next
    assume once: "\<forall>i<n. length (filter (covers (int i)) cs) = 1"
    have "length (filter (covers i) cs) = 1" if "0 \<le> i" "i < int n" for i
      using once [rule_format, of "nat i"] that by simp
    then show "cover_cursor 0 ?xs = Some (int n)"
      using ok by (intro cover_cursor_complete) (auto simp: count)
  qed
qed

lemma check_writes_Inr:
  "check_writes plan img base = Inr () \<longleftrightarrow>
     (\<exists>es el cs. require_range (json_get ''erase_range'' plan) ''erase_range'' = Inr (es, el) \<and>
        es \<le> base \<and> base + int (length img) \<le> es + el \<and>
        planned_chunks plan = Some cs \<and> cs \<noteq> [] \<and>
        (\<forall>c\<in>set cs. good_chunk (int (length img)) base es (es + el) c) \<and>
        (\<forall>i < length img. length (filter (covers (int i)) cs) = 1))"
    (is "_ \<longleftrightarrow> ?declared")
proof
  assume "check_writes plan img base = Inr ()"
  then obtain es el vs cs where er: "require_range (json_get ''erase_range'' plan) ''erase_range'' = Inr (es, el)"
    "es \<le> base" "base + int (length img) \<le> es + el" "json_items (json_get ''write_chunks'' plan) = Some vs"
    "vs \<noteq> []" "check_chunks base (int (length img)) es (es + el) 0 vs = Inr cs"
    "cover_cursor 0 (sort (map chunk_span cs)) = Some (int (length img))"
    by (auto simp: check_writes_def Let_def res_simps split: option.splits if_splits)
  note chunks = er(6) [unfolded check_chunks_Inr]
  then have good: "\<forall>c\<in>set cs. good_chunk (int (length img)) base es (es + el) c" by blast
  have "cs \<noteq> []" using er(5) chunks by (cases vs) (auto split: option.splits)
  with er chunks good cover_cursor_iff [OF good] show ?declared
    by (auto simp: planned_chunks_def intro!: exI [of _ es] exI [of _ el] exI [of _ cs])
next
  assume ?declared
  then obtain es el cs vs where d: "require_range (json_get ''erase_range'' plan) ''erase_range'' = Inr (es, el)"
    "es \<le> base" "base + int (length img) \<le> es + el" "json_items (json_get ''write_chunks'' plan) = Some vs"
    "those (map chunk_of_json vs) = Some cs" "cs \<noteq> []"
    and good: "\<forall>c\<in>set cs. good_chunk (int (length img)) base es (es + el) c"
    and once: "\<forall>i < length img. length (filter (covers (int i)) cs) = 1"
    by (auto simp: planned_chunks_def split: Option.bind_splits)
  have "check_chunks base (int (length img)) es (es + el) 0 vs = Inr cs"
    using good d(5) by (simp add: check_chunks_Inr)
  moreover have "vs \<noteq> []" using d(5,6) by auto
  ultimately show "check_writes plan img base = Inr ()"
    using d(1-4) once cover_cursor_iff [OF good] by (simp add: check_writes_def Let_def raise_if_def)
qed

text \<open>The chunks are sound, and together they write each byte of the image once.\<close>

definition write_once :: "int \<Rightarrow> int \<Rightarrow> int \<Rightarrow> nat \<Rightarrow> chunk list \<Rightarrow> bool" where
  "write_once base es ee n cs \<longleftrightarrow>
     (\<forall>c\<in>set cs. good_chunk (int n) base es ee c) \<and> (\<forall>i < n. length (filter (covers (int i)) cs) = 1)"

text \<open>
  C16: Which writes are accepted.  The erase range must contain the image, and the chunks must be
  objects with integers, each within the image and the erase range and at the address of its
  offset; together they write each byte of the image exactly once.  No other plan is accepted,
  and every such plan is, in whatever order its chunks are.
\<close>

theorem check_writes_iff:
  "check_writes plan img base = Inr () \<longleftrightarrow>
     (\<exists>es el cs. require_range (json_get ''erase_range'' plan) ''erase_range'' = Inr (es, el) \<and>
        es \<le> base \<and> base + int (length img) \<le> es + el \<and>
        planned_chunks plan = Some cs \<and> cs \<noteq> [] \<and> write_once base es (es + el) (length img) cs)"
  by (simp add: check_writes_Inr write_once_def)

text \<open>What an accepted plan satisfies.\<close>

lemma validate_flash_plan_Inr:
  assumes "validate_flash_plan plan img expected = Inr ()"
  obtains base where "json_int (json_get ''base_addr'' plan) = Some base" "0 \<le> base"
    "\<And>e. expected = Some e \<Longrightarrow> base = e" "check_writes plan img base = Inr ()"
proof -
  from assms obtain base where base: "check_base plan expected = Inr base"
    and w: "check_writes plan img base = Inr ()"
    by (auto simp: validate_flash_plan_def Let_def res_simps split: if_splits)
  from base have "json_int (json_get ''base_addr'' plan) = Some base \<and> 0 \<le> base \<and>
      (\<forall>e. expected = Some e \<longrightarrow> base = e)"
    by (auto simp: check_base_def Let_def split: option.splits if_splits)
  with w that show thesis by blast
qed

text \<open>What accepted checks of the writes mean for the flash\<close>

lemma accepted_plan_programs:
  assumes "validate_flash_plan plan img expected = Inr ()"
  shows "\<exists>base erase cs. json_int (json_get ''base_addr'' plan) = Some base \<and>
    require_range (json_get ''erase_range'' plan) ''erase_range'' = Inr erase \<and>
    planned_chunks plan = Some cs \<and>
    (\<forall>mem. (\<forall>i < length img. program_flash img erase cs mem (base + int i) = image_byte img i) \<and>
       (\<forall>a. a < fst erase \<or> fst erase + snd erase \<le> a \<longrightarrow> program_flash img erase cs mem a = mem a))"
proof -
  from assms obtain base where base: "json_int (json_get ''base_addr'' plan) = Some base"
    and w: "check_writes plan img base = Inr ()" by (rule validate_flash_plan_Inr)
  from w [unfolded check_writes_Inr] obtain es el cs where
    p: "require_range (json_get ''erase_range'' plan) ''erase_range'' = Inr (es, el)"
      "planned_chunks plan = Some cs"
    and er: "es \<le> base" "base + int (length img) \<le> es + el"
    and good: "\<forall>c\<in>set cs. good_chunk (int (length img)) base es (es + el) c"
    and once: "\<forall>i < length img. length (filter (covers (int i)) cs) = 1" by blast
  have at: "program_flash img (es, el) cs mem a
      = (if \<exists>c\<in>set cs. covers (a - base) c
         then erase_flash (es, el) mem a AND image_byte img (nat (a - base))
         else erase_flash (es, el) mem a)" for mem a
    unfolding program_flash_def by (rule foldl_write_chunk) (use good in \<open>simp add: good_chunk_def\<close>)
  have inside: "program_flash img (es, el) cs mem (base + int i) = image_byte img i"
    if i: "i < length img" for mem i
  proof -
    from once i have "filter (covers (int i)) cs \<noteq> []" by force
    then have "\<exists>c\<in>set cs. covers (int i) c" by (simp add: filter_empty_conv)
    moreover have "erase_flash (es, el) mem (base + int i) = - 1" using er i by (simp add: erase_flash_def)
    ultimately show ?thesis by (simp add: at)
  qed
  have outside: "program_flash img (es, el) cs mem a = mem a" if "a < es \<or> es + el \<le> a" for mem a
  proof -
    have "\<not> (\<exists>c\<in>set cs. covers (a - base) c)"
      using good that by (fastforce simp: covers_def good_chunk_def)
    with that show ?thesis by (auto simp: at erase_flash_def)
  qed
  show ?thesis
    using base p inside outside by (intro exI [of _ base] exI [of _ "(es, el)"] exI [of _ cs]) auto
qed

text \<open>
  C17: An accepted plan programs the image.  Whatever the flash holds, erasing the planned range and
  writing the planned chunks, in the order of the plan, leaves the image at the base address and
  changes no byte outside the erase range.
\<close>

theorem flash_plan_programs_image:
  assumes "validate_flash_plan plan img expected = Inr ()"
  shows "\<exists>base erase cs. json_int (json_get ''base_addr'' plan) = Some base \<and>
    require_range (json_get ''erase_range'' plan) ''erase_range'' = Inr erase \<and>
    planned_chunks plan = Some cs \<and>
    (\<forall>mem. (\<forall>i < length img. program_flash img erase cs mem (base + int i) = image_byte img i) \<and>
       (\<forall>a. a < fst erase \<or> fst erase + snd erase \<le> a \<longrightarrow> program_flash img erase cs mem a = mem a))"
  using assms by (rule accepted_plan_programs)

section \<open>The image format and the command\<close>

text \<open>
  What the process \<open>hisi-fwpkg plan\<close> does: it cannot be started, it exits with a status other
  than 0, or it prints a document (\<open>None\<close> if the output is not JSON) and leaves an output file, if any.
\<close>

datatype fwpkg_run =
    Not_started string
  | Exit_status int
  | Completed "json option" "bytes option"

text \<open>The tool: the image it reads, the chip and the application address of its command line.\<close>

type_synonym fwpkg = "bytes \<Rightarrow> string \<Rightarrow> string \<Rightarrow> fwpkg_run"

definition CANONICAL_KEYS :: "string list" where
  "CANONICAL_KEYS =
     [''base_addr'', ''image_len'', ''body_range'', ''code_area_len'', ''code_area_hash'']"

fun compare_keys :: "json_object \<Rightarrow> json \<Rightarrow> string list \<Rightarrow> unit res" where
  "compare_keys plan canonical [] = Inr ()"
| "compare_keys plan canonical (key # keys) =
     (case json_dict canonical of
        None \<Rightarrow> Inl (TypeError ''canonical'')
      | Some d \<Rightarrow>
          (case dget key d of
             None \<Rightarrow> Inl (KeyError key)
           | Some v \<Rightarrow>
               if \<not> py_eq (json_get key plan) v
               then Inl (ValueError (key @ '' disagrees with the actual image header''))
               else compare_keys plan canonical keys))"

definition validate_image_semantics :: "fwpkg \<Rightarrow> json_object \<Rightarrow> bytes \<Rightarrow> unit res" where
  "validate_image_semantics tool plan img =
     (case dget ''chip'' plan of
        None \<Rightarrow> Inl (KeyError ''chip'')
      | Some chip_value \<Rightarrow>
          (case (json_str chip_value, json_int (json_get ''base_addr'' plan)) of
             (Some chip, Some base) \<Rightarrow>
               (case tool img chip (sharp_x base) of
                  Not_started m \<Rightarrow> Inl (OSError m)
                | Exit_status n \<Rightarrow> Inl (CalledProcessError n)
                | Completed None canonical_image \<Rightarrow> Inl (ValueError ''JSON'')
                | Completed (Some canonical) None \<Rightarrow> Inl (OSError ''FileNotFoundError'')
                | Completed (Some canonical) (Some canonical_image) \<Rightarrow>
                    if canonical_image \<noteq> img
                    then Inl (ValueError ''image header/body is not a canonical hisi-fwpkg image'')
                    else compare_keys plan canonical CANONICAL_KEYS)
           | _ \<Rightarrow> Inl (TypeError ''argument'')))"

text \<open>Exit with a message, or with the exceptions that \<open>main\<close> does not catch.\<close>

datatype flash_outcome = Accepted | Rejected exn | Crashed exn

fun main_catches :: "exn \<Rightarrow> bool" where
  "main_catches (ValueError _) = True"
| "main_catches (KeyError _) = True"
| "main_catches (OSError _) = True"
| "main_catches (CalledProcessError _) = True"
| "main_catches _ = False"

text \<open>\<open>[key for key in REQUIRED_KEYS if key not in plan]\<close> for a document that is not an object\<close>

definition missing_in :: "json \<Rightarrow> string list option" where
  "missing_in doc =
     (case doc of
        JArr items \<Rightarrow> Some (filter (\<lambda>k. JStr k \<notin> set items) REQUIRED_KEYS)
      | JStr text \<Rightarrow> Some (filter (\<lambda>k. \<not> occurs k text) REQUIRED_KEYS)
      | _ \<Rightarrow> None)"

definition flash_checks :: "fwpkg \<Rightarrow> json \<Rightarrow> bytes \<Rightarrow> int option \<Rightarrow> unit res" where
  "flash_checks tool doc img base_address =
     (case json_dict doc of
        Some plan \<Rightarrow>
          rbind (validate_flash_plan plan img base_address) (\<lambda>_. validate_image_semantics tool plan img)
      | None \<Rightarrow>
          (case missing_in doc of
             None \<Rightarrow> Inl (TypeError ''plan'')
           | Some missing \<Rightarrow>
               if missing \<noteq> [] then Inl (ValueError (''missing plan keys: '' @ repr_names missing))
               else Inl (TypeError ''plan'')))"

definition flash_main :: "fwpkg \<Rightarrow> json \<Rightarrow> bytes \<Rightarrow> int option \<Rightarrow> flash_outcome" where
  "flash_main tool doc img base_address =
     (case flash_checks tool doc img base_address of
        Inr _ \<Rightarrow> Accepted
      | Inl e \<Rightarrow> if main_catches e then Rejected e else Crashed e)"

text \<open>The document that the tool prints states what the plan states.\<close>

definition states :: "json_object \<Rightarrow> json_object \<Rightarrow> bool" where
  "states canonical plan \<longleftrightarrow>
     (\<forall>key\<in>set CANONICAL_KEYS. \<exists>v. dget key canonical = Some v \<and> py_eq (json_get key plan) v)"

lemma compare_keys_Inr:
  "compare_keys plan canonical keys = Inr () \<longleftrightarrow>
     keys = [] \<or> (\<exists>d. json_dict canonical = Some d \<and>
       (\<forall>key\<in>set keys. \<exists>v. dget key d = Some v \<and> py_eq (json_get key plan) v))"
  by (induction keys) (auto split: option.splits)

lemma validate_image_semantics_Inr:
  "validate_image_semantics tool plan img = Inr () \<longleftrightarrow>
     (\<exists>chip base canonical. dget ''chip'' plan = Some (JStr chip) \<and>
        json_int (json_get ''base_addr'' plan) = Some base \<and>
        tool img chip (sharp_x base) = Completed (Some (JObj canonical)) (Some img) \<and>
        states canonical plan)"
  (is "?checked \<longleftrightarrow> ?agrees")
proof
  assume ?checked
  then show ?agrees
    by (auto simp: validate_image_semantics_def compare_keys_Inr states_def CANONICAL_KEYS_def
        split: option.splits fwpkg_run.splits if_splits elim!: json_str.elims json_dict.elims)
next
  assume ?agrees
  then show ?checked by (auto simp: validate_image_semantics_def compare_keys_Inr states_def)
qed

lemma flash_checks_Inr:
  "flash_checks tool doc img base = Inr () \<longleftrightarrow>
     (\<exists>plan. doc = JObj plan \<and> validate_flash_plan plan img base = Inr () \<and>
        validate_image_semantics tool plan img = Inr ())"
  by (auto simp: flash_checks_def res_simps split: option.splits elim!: json_dict.elims)

text \<open>
  C18: What the command accepts.  It ends with status 0 exactly if the document is an object that
  passes the checks of the plan, and \<open>hisi-fwpkg\<close>, run on the image for the chip and the address
  of the plan, reproduces the image and states the same base address, length, body range and
  digest; nothing is accepted because the tool is missing or fails.
\<close>

theorem flash_main_accepts:
  "flash_main tool doc img base_address = Accepted \<longleftrightarrow>
     (\<exists>plan chip base canonical. doc = JObj plan \<and>
        validate_flash_plan plan img base_address = Inr () \<and>
        dget ''chip'' plan = Some (JStr chip) \<and> json_int (json_get ''base_addr'' plan) = Some base \<and>
        tool img chip (sharp_x base) = Completed (Some (JObj canonical)) (Some img) \<and>
        states canonical plan)"
proof -
  have "flash_main tool doc img base_address = Accepted \<longleftrightarrow> flash_checks tool doc img base_address = Inr ()"
    by (auto simp: flash_main_def split: sum.splits)
  then show ?thesis by (simp add: flash_checks_Inr validate_image_semantics_Inr)
qed

section \<open>A plan\<close>

definition nibble :: "char \<Rightarrow> int" where
  "nibble c = (let b = of_char c in if b < 97 then b - 48 else b - 87)"

fun unhex :: "string \<Rightarrow> int list" where
  "unhex (a # b # cs) = (16 * nibble a + nibble b) # unhex cs"
| "unhex _ = []"

lemma nibble_hex_char: "0 \<le> n \<Longrightarrow> n < 16 \<Longrightarrow> nibble (hex_char n) = n"
  by (auto simp: nibble_def hex_char_def of_char_of take_bit_eq_mod Let_def)

lemma hex_char_nibbles:
  "0 \<le> m \<Longrightarrow> m < 16 \<Longrightarrow> 0 \<le> n \<Longrightarrow> n < 16 \<Longrightarrow>
     hex_byte (16 * nibble (hex_char m) + nibble (hex_char n)) = [hex_char m, hex_char n]"
  by (simp add: nibble_hex_char hex_byte_def)

lemma unhex_digits:
  "\<forall>c\<in>set s. \<exists>n\<ge>0. n < 16 \<and> c = hex_char n \<Longrightarrow> even (length s) \<Longrightarrow>
     concat (map hex_byte (unhex s)) = s \<and> length (unhex s) = length s div 2 \<and>
     (\<forall>b\<in>set (unhex s). 0 \<le> b \<and> b \<le> 255)"
proof (induction s rule: unhex.induct)
  case (1 a b cs)
  then obtain m n where mn: "0 \<le> m" "m < 16" "0 \<le> n" "n < 16" "a = hex_char m" "b = hex_char n" by auto
  then have "hex_byte (16 * nibble a + nibble b) = [a, b]"
    by (simp only: hex_char_nibbles)
  moreover from mn have "nibble a = m" "nibble b = n" by (simp_all add: nibble_hex_char)
  moreover from 1 have "concat (map hex_byte (unhex cs)) = cs \<and> length (unhex cs) = length cs div 2 \<and>
      (\<forall>b\<in>set (unhex cs). 0 \<le> b \<and> b \<le> 255)" by simp
  ultimately show ?case using mn(1-4) by simp
qed simp_all

lemma sha256_hex_digits: "\<forall>c\<in>set (sha256_hex data). \<exists>n\<ge>0. n < 16 \<and> c = hex_char n"
proof -
  have "\<forall>c\<in>set (word_hex w). \<exists>n\<ge>0. n < 16 \<and> c = hex_char n" for w
    by (auto simp: word_hex_def intro!: exI [where x = "uint w div 16 ^ i mod 16" for i])
  then show ?thesis by (auto simp: sha256_hex_def Let_def)
qed

text \<open>A plan for an image of two bytes: the chunks are not in order, the erase range is a page.\<close>

definition chunk_json :: "int \<Rightarrow> int \<Rightarrow> int \<Rightarrow> json" where
  "chunk_json addr off len = JObj [(''addr'', JInt addr), (''image_offset'', JInt off), (''len'', JInt len)]"

definition demo_plan :: json_object where
  "demo_plan =
     [(''chip'', JStr ''ws63''), (''base_addr'', JInt 0x230000), (''image_len'', JFloat 2),
      (''body_range'', JObj [(''image_offset'', JInt 1), (''flash_addr'', JInt 0x230001), (''len'', JBool True)]),
      (''code_area_len'', JInt 1),
      (''code_area_hash'', JArr (map JInt (unhex (sha256_hex ''B'')))),
      (''erase_range'', JObj [(''start'', JInt 0x230000), (''len'', JInt 4096)]),
      (''write_chunks'', JArr [chunk_json 0x230001 1 1, chunk_json 0x230000 0 1])]"

lemma map_filter_JInt: "List.map_filter json_int (map JInt ns) = ns"
  by (induction ns) (simp_all add: List.map_filter_simps)

lemma demo_hash: "check_hash (JArr (map JInt (unhex (sha256_hex data)))) data = Inr ()"
proof -
  have "even (length (sha256_hex data))" by (simp add: length_sha256_hex)
  from unhex_digits [OF sha256_hex_digits this] show ?thesis
    by (auto simp: check_hash_def Let_def list_ex_iff map_filter_JInt raise_if_def length_sha256_hex)
qed

lemma demo_plan_valid: "validate_flash_plan demo_plan ''AB'' (Some 0x230000) = Inr ()"
  unfolding validate_flash_plan_def check_base_def check_body_def
  by (simp add: check_writes_def demo_plan_def REQUIRED_KEYS_def has_key_def json_get_def dget_or_def
      require_range_def equals_int_def json_number_def demo_hash raise_if_def chunk_json_def
      check_chunk_def chunk_span_def Let_def)

theorem flash_plan_programs_image_witness:
  "\<exists>erase cs. planned_chunks demo_plan = Some cs \<and>
     (\<forall>mem. program_flash ''AB'' erase cs mem 0x230000 = image_byte ''AB'' 0)"
proof -
  from flash_plan_programs_image [OF demo_plan_valid] obtain base erase cs where
    b: "json_int (json_get ''base_addr'' demo_plan) = Some base"
    and cs: "planned_chunks demo_plan = Some cs"
    and m: "\<forall>mem. (\<forall>i < length ''AB''. program_flash ''AB'' erase cs mem (base + int i) = image_byte ''AB'' i) \<and>
       (\<forall>a. a < fst erase \<or> fst erase + snd erase \<le> a \<longrightarrow> program_flash ''AB'' erase cs mem a = mem a)"
    by (elim exE conjE)
  from b have "base = 0x230000" by (simp add: demo_plan_def json_get_def dget_or_def)
  with m [rule_format, THEN conjunct1, rule_format, of 0] cs show ?thesis
    by (intro exI [of _ erase] exI [of _ cs]) auto
qed

end
