(* ===== verification/Elf_Bytes.thy ===== *)
theory Elf_Bytes
  imports Py_Prelude "HOL-Library.Word"
begin

text \<open>
  The integers of a little-endian file, and a section of an ELF file as the parser shows it.
  Shared by the checks of firmware ELF files and memory dumps.
\<close>

record elf_section =
  sh_addr :: int
  sh_size :: int
  sec_data :: bytes

text \<open>\<open>int.from_bytes(data, 'little')\<close> and \<open>struct.unpack('<13I', data)\<close>\<close>

fun from_little_endian :: "bytes \<Rightarrow> int" where
  "from_little_endian [] = 0"
| "from_little_endian (c # cs) = of_char c + 256 * from_little_endian cs"

lemma from_little_endian_nonneg: "0 \<le> from_little_endian bs"
proof (induction bs)
  case (Cons c bs)
  have "0 \<le> (of_char c :: int)" by (metis of_nat_0_le_iff of_nat_of_char)
  with Cons show ?case by simp
qed simp

definition unpack_words :: "nat \<Rightarrow> bytes \<Rightarrow> int list" where
  "unpack_words n data = map (\<lambda>i. from_little_endian (take 4 (drop (4 * i) data))) [0..<n]"

text \<open>The 32-bit word at an offset, as \<open>struct.unpack_from('<I', data, offset)\<close> reads it\<close>

definition word_at :: "bytes \<Rightarrow> nat \<Rightarrow> 32 word" where
  "word_at data off = word_of_int (from_little_endian (take 4 (drop off data)))"

text \<open>A file of words, for the witnesses: reading at the place of a word gives that word.\<close>

definition le_bytes :: "nat \<Rightarrow> bytes" where
  "le_bytes n = map (\<lambda>i. char_of (n div 256 ^ i mod 256)) [0, 1, 2, 3]"

lemma le_bytes_value:
  assumes "n < 2 ^ 32"
  shows "from_little_endian (le_bytes n) = int n"
proof -
  have byte: "of_char (char_of (m mod 256)) = int (m mod 256)" for m :: nat
    by (metis mod_mod_trivial of_char_of of_nat_of_char)
  define a b c where abc: "a = n div 256" "b = a div 256" "c = b div 256"
  have p: "n div 256 ^ 1 = a" "n div 256 ^ 2 = b" "n div 256 ^ 3 = c" "n div 256 ^ 0 = n"
    by (simp_all add: abc div_mult2_eq [symmetric])
  have "c mod 256 = c" using assms by (simp add: abc div_mult2_eq [symmetric])
  moreover have "n = n mod 256 + 256 * a" "a = a mod 256 + 256 * b" "b = b mod 256 + 256 * c"
    unfolding abc by (rule mod_mult_div_eq [symmetric])+
  ultimately have "n = n mod 256 + 256 * (a mod 256 + 256 * (b mod 256 + 256 * (c mod 256)))" by metis
  then have "int n = int (n mod 256 + 256 * (a mod 256 + 256 * (b mod 256 + 256 * (c mod 256))))" by (rule arg_cong)
  then show ?thesis
    by (simp only: le_bytes_def list.map from_little_endian.simps byte p of_nat_add of_nat_mult of_nat_numeral
        mult_zero_right add_0_right)
qed

lemma length_le_bytes [simp]: "length (le_bytes n) = 4"
  by (simp add: le_bytes_def)

lemma drop_words: "drop (4 * k) (concat (map le_bytes ns)) = concat (map le_bytes (drop k ns))"
proof (induction k arbitrary: ns)
  case (Suc k)
  show ?case
  proof (cases ns)
    case (Cons n rest)
    then show ?thesis using Suc [of rest] by simp
  qed simp
qed simp

lemma word_at_words:
  assumes "k < length ns" "\<forall>n\<in>set ns. n < 2 ^ 32"
  shows "unat (word_at (concat (map le_bytes ns)) (4 * k)) = ns ! k"
proof -
  have "drop k ns = ns ! k # drop (Suc k) ns" using assms(1) by (rule Cons_nth_drop_Suc [symmetric])
  then have "take 4 (drop (4 * k) (concat (map le_bytes ns))) = le_bytes (ns ! k)"
    unfolding drop_words by simp
  moreover have "ns ! k < 2 ^ 32" using assms by simp
  ultimately show ?thesis
    by (simp add: word_at_def le_bytes_value unat_of_nat)
qed

end
