(* ===== verification/Radio_Report.thy ===== *)
theory Radio_Report
  imports Flash_Plan Elf_Bytes
begin

text \<open>
  \<open>scripts/assemble-radio-build-report.py\<close>: the checks on a resource report of a radio profile,
  by the revision of its schema, and its merge with a flash plan into the build report.  The
  ELF parser is a package outside the repository: a parsed file is a value of the record
  \<open>elf_view\<close>, and parsing is a function among the inputs.
\<close>

section \<open>Schemas and requirements\<close>

definition radio_SCHEMA :: string where
  "radio_SCHEMA = ''hisi-rf-build-report/v1''"

definition schema_name :: "nat \<Rightarrow> string" where
  "schema_name n = ''hisi-rf-resource-report/v'' @ digits_of n"

text \<open>The schemas from one revision to another, and the test \<open>resource['schema'] in {...}\<close>\<close>

definition revisions :: "nat \<Rightarrow> nat \<Rightarrow> string list" where
  "revisions low high = map schema_name [low..<Suc high]"

definition RESOURCE_SCHEMAS :: "string list" where
  "RESOURCE_SCHEMAS = revisions 3 14"

definition in_revisions :: "nat \<Rightarrow> nat \<Rightarrow> json_object \<Rightarrow> bool res" where
  "in_revisions low high d =
     rbind (json_item ''schema'' d) (\<lambda>v.
       if \<not> hashable v then Inl (TypeError ''unhashable'') else Inr (one_of_names v (revisions low high)))"

definition for_revisions :: "nat \<Rightarrow> nat \<Rightarrow> json_object \<Rightarrow> unit res \<Rightarrow> unit res" where
  "for_revisions low high d checks =
     rbind (in_revisions low high d) (\<lambda>yes. if yes then checks else Inr ())"

text \<open>\<open>resource['schema'] == ...\<close>\<close>

definition for_revision :: "nat \<Rightarrow> json_object \<Rightarrow> unit res \<Rightarrow> unit res" where
  "for_revision n d checks =
     rbind (json_item ''schema'' d) (\<lambda>v. if v = JStr (schema_name n) then checks else Inr ())"

text \<open>\<open>resource['schema'].rsplit('/', 1)[-1]\<close> of a known schema\<close>

definition revision_text :: "json_object \<Rightarrow> string" where
  "revision_text d =
     (case json_get ''schema'' d of
        JStr s \<Rightarrow> ''resource report '' @ drop (length ''hisi-rf-resource-report/'') s
      | _ \<Rightarrow> [])"

definition positive :: "int \<Rightarrow> bool" where
  "positive i \<longleftrightarrow> 0 < i"

definition non_negative :: "int \<Rightarrow> bool" where
  "non_negative i \<longleftrightarrow> 0 \<le> i"

text \<open>The loops \<open>for key in keys\<close> that require integers, booleans excluded\<close>

fun require_all :: "(int \<Rightarrow> bool) \<Rightarrow> string \<Rightarrow> json_object \<Rightarrow> string list \<Rightarrow> unit res" where
  "require_all ok message d [] = Inr ()"
| "require_all ok message d (key # keys) =
     (case plain_int (json_get key d) of
        None \<Rightarrow> Inl (ValueError (message @ key))
      | Some i \<Rightarrow> if \<not> ok i then Inl (ValueError (message @ key)) else require_all ok message d keys)"

text \<open>A field that \<open>assemble\<close> has required to be an integer\<close>

definition the_int :: "string \<Rightarrow> json_object \<Rightarrow> int" where
  "the_int key d = (case plain_int (json_get key d) of None \<Rightarrow> 0 | Some i \<Rightarrow> i)"

section \<open>The tree of task resources\<close>

definition worker_value :: "json_object \<Rightarrow> string \<Rightarrow> int res" where
  "worker_value d key =
     rbind (in_revisions 12 14 d) (\<lambda>optional.
       if optional \<and> json_get key d = JNull then Inr 0
       else (case plain_int (json_get key d) of
               Some i \<Rightarrow> if 0 \<le> i then Inr i else Inl (ValueError key)
             | None \<Rightarrow> Inl (ValueError key)))"

definition coexistence_values :: "json_object \<Rightarrow> (int \<times> int) res" where
  "coexistence_values d =
     rbind (in_revisions 11 14 d) (\<lambda>yes.
       if \<not> yes then Inr (0, 0)
       else rbind (require_all non_negative (revision_text d @ '' requires non-negative integer '') d
                     [''coexistence_task_slots'', ''coexistence_stack_bytes'']) (\<lambda>_.
            let slots = the_int ''coexistence_task_slots'' d;
                stacks = the_int ''coexistence_stack_bytes'' d
            in if (slots = 0) \<noteq> (stacks = 0)
               then Inl (ValueError (revision_text d @
                 '' coexistence slots and stacks must both be zero or both be positive''))
               else Inr (slots, stacks)))"

definition validate_task_resource_tree :: "json_object \<Rightarrow> unit res" where
  "validate_task_resource_tree d =
     for_revisions 10 14 d (
       rbind (require_all positive (revision_text d @ '' requires positive integer '') d
                [''vendor_task_slots'', ''vendor_stack_bytes_per_task'']) (\<lambda>_.
       rbind (worker_value d ''worker_task_slots'') (\<lambda>worker_slots.
       rbind (worker_value d ''worker_stack_bytes_per_task'') (\<lambda>worker_stack_bytes.
       rbind (raise_if ((worker_slots = 0) \<noteq> (worker_stack_bytes = 0))
               (ValueError (revision_text d @ '' worker slots and stack bytes must both be absent/zero or both be positive''))) (\<lambda>_.
       rbind (coexistence_values d) (\<lambda>(coexistence_slots, coexistence_stacks).
       let vendor_slots = the_int ''vendor_task_slots'' d;
           child_slots = vendor_slots + worker_slots + coexistence_slots;
           child_stacks = vendor_slots * the_int ''vendor_stack_bytes_per_task'' d
             + worker_slots * worker_stack_bytes + coexistence_stacks
       in rbind (json_item ''dynamic_tasks_required'' d) (\<lambda>tasks.
          rbind (raise_if (\<not> equals_int tasks child_slots)
                  (ValueError (revision_text d @ '' task total does not equal child groups''))) (\<lambda>_.
          rbind (json_item ''task_stack_bytes'' d) (\<lambda>stacks.
          raise_if (\<not> equals_int stacks child_stacks)
            (ValueError (revision_text d @ '' stack total does not equal child groups'')))))))))))"

section \<open>The layer 2 storage of revision 14\<close>

definition L2_KEYS :: "string list" where
  "L2_KEYS = [''rx_slots'', ''tx_slots'', ''mtu'', ''payload_bytes'', ''metadata_bytes'', ''total_bytes'']"

text \<open>\<open>n > value\<close>\<close>

definition int_exceeds :: "int \<Rightarrow> json \<Rightarrow> bool res" where
  "int_exceeds n v =
     (case v of
        JNan \<Rightarrow> Inr False
      | JInf negative \<Rightarrow> Inr negative
      | _ \<Rightarrow> (case json_number v of None \<Rightarrow> Inl (TypeError ''>'') | Some q \<Rightarrow> Inr (of_int n > q)))"

definition l2_errors :: "json_object \<Rightarrow> json_object \<Rightarrow> unit res" where
  "l2_errors d l2 =
     rbind (require_all positive ''resource report v14 requires positive L2 '' l2 L2_KEYS) (\<lambda>_.
     case plain_int (json_get ''l2_storage_offset'' d) of
       None \<Rightarrow> Inl (ValueError ''resource report v14 requires non-negative l2_storage_offset'')
     | Some off \<Rightarrow>
         if off < 0 then Inl (ValueError ''resource report v14 requires non-negative l2_storage_offset'')
         else if the_int ''payload_bytes'' l2
                   \<noteq> (the_int ''rx_slots'' l2 + the_int ''tx_slots'' l2) * the_int ''mtu'' l2
         then Inl (ValueError ''resource report v14 L2 payload does not equal slot capacity'')
         else if the_int ''total_bytes'' l2 \<noteq> the_int ''payload_bytes'' l2 + the_int ''metadata_bytes'' l2
         then Inl (ValueError ''resource report v14 L2 size does not equal its children'')
         else rbind (json_item ''control_storage_bytes'' d) (\<lambda>control.
              rbind (int_exceeds (off + the_int ''total_bytes'' l2) control) (\<lambda>exceeds.
              raise_if exceeds
                (ValueError ''resource report v14 L2 storage exceeds control storage''))))"

definition validate_l2_storage :: "json_object \<Rightarrow> unit res" where
  "validate_l2_storage d =
     for_revision 14 d
       (case json_dict (json_get ''l2_storage'' d) of
          None \<Rightarrow> Inl (ValueError ''resource report v14 requires l2_storage'')
        | Some l2 \<Rightarrow> l2_errors d l2)"

section \<open>The layout descriptor in the ELF file\<close>

record elf_symbol =
  st_size :: int
  st_value :: int
  st_section :: "elf_section res"      \<comment> \<open>\<open>parsed.get_section(symbol['st_shndx'])\<close>\<close>

record elf_view =
  elfclass :: int
  little_endian :: bool
  e_machine :: string
  symbols_of :: "(string \<Rightarrow> elf_symbol list option) option"   \<comment> \<open>the section \<open>.symtab\<close>, if any\<close>
  named_section :: "string \<Rightarrow> elf_section option"

definition unique_symbol :: "elf_view \<Rightarrow> string \<Rightarrow> elf_symbol res" where
  "unique_symbol parsed name =
     (let bad = Inl (ValueError (''v14 target layout is missing or ambiguous: '' @ name))
      in case symbols_of parsed of
           None \<Rightarrow> bad
         | Some table \<Rightarrow> (case table name of Some [s] \<Rightarrow> Inr s | _ \<Rightarrow> bad))"

definition expected_layout :: "json_object \<Rightarrow> json_object \<Rightarrow> int list" where
  "expected_layout d l2 =
     [from_little_endian ''NET0'', 1,
      the_int ''control_storage_bytes'' d, the_int ''l2_storage_offset'' d,
      the_int ''total_bytes'' l2, the_int ''payload_bytes'' l2, the_int ''metadata_bytes'' l2,
      the_int ''rx_slots'' l2, the_int ''tx_slots'' l2, the_int ''mtu'' l2,
      the_int ''arena_storage_bytes'' d + the_int ''runtime_arena_bytes'' d,
      the_int ''main_stack_bytes_required'' d, the_int ''linker_packet_ram_bytes'' d]"

definition layout_errors :: "json_object \<Rightarrow> json_object \<Rightarrow> elf_symbol \<Rightarrow> elf_section \<Rightarrow> unit res" where
  "layout_errors d l2 layout section =
     (let off = st_value layout - sh_addr section
      in if off < 0 \<or> off + 52 > int (length (sec_data section))
         then Inl (ValueError ''v14 descriptor is outside its ELF section'')
         else raise_if (unpack_words 13 (take 52 (drop (nat off) (sec_data section))) \<noteq> expected_layout d l2)
                (ValueError ''v14 resource report differs from target-built layout descriptor''))"

definition validate_l2_layout :: "json_object \<Rightarrow> elf_view \<Rightarrow> unit res" where
  "validate_l2_layout d parsed =
     for_revision 14 d (
       if elfclass parsed \<noteq> 32 \<or> \<not> little_endian parsed \<or> e_machine parsed \<noteq> ''EM_RISCV''
       then Inl (ValueError ''resource report v14 requires the RV32 target ELF'')
       else rbind (unique_symbol parsed ''NET0_CONTROL'') (\<lambda>control.
            rbind (unique_symbol parsed ''NET0_STORAGE_LAYOUT'') (\<lambda>layout.
            if st_size control \<noteq> the_int ''control_storage_bytes'' d \<or> st_size layout \<noteq> 52
            then Inl (ValueError ''v14 control storage or descriptor size differs from target ELF'')
            else rbind (st_section layout) (\<lambda>section.
              case json_dict (json_get ''l2_storage'' d) of
                None \<Rightarrow> Inl (TypeError ''l2_storage'')
              | Some l2 \<Rightarrow> layout_errors d l2 layout section))))"

section \<open>The checks of the resource report, by revision\<close>

definition PLAN_KEYS :: "string list" where
  "PLAN_KEYS =
     [''base_addr'', ''image_len'', ''body_range'', ''code_area_len'', ''code_area_hash'',
      ''erase_range'', ''write_chunks'']"

definition POSITIVE_KEYS :: "string list" where
  "POSITIVE_KEYS =
     [''event_capacity'', ''caller_owned_bytes'', ''control_storage_bytes'', ''radio_state_bytes'',
      ''crypto_dma_bytes'', ''arena_storage_bytes'', ''main_stack_bytes_required'',
      ''dynamic_tasks_required'', ''task_stack_bytes'']"

definition check_v4 :: "json_object \<Rightarrow> unit res" where
  "check_v4 d =
     for_revisions 4 14 d
       (require_all non_negative ''resource report v4 requires non-negative integer '' d
          [''runtime_internal_tasks'', ''task_stack_bytes''])"

definition check_v5 :: "json_object \<Rightarrow> unit res" where
  "check_v5 d =
     for_revisions 5 14 d
       (require_all positive (revision_text d @ '' requires positive integer '') d
          [''shared_rf_arena_bytes''])"

fun is_bool :: "json \<Rightarrow> bool" where
  "is_bool (JBool _) = True"
| "is_bool _ = False"

definition check_v6 :: "json_object \<Rightarrow> unit res" where
  "check_v6 d =
     for_revisions 6 14 d (
       rbind (require_all positive ''resource report v6 requires positive integer '' d POSITIVE_KEYS) (\<lambda>_.
       rbind (require_all non_negative ''resource report v6 requires non-negative integer '' d
                [''composition_handle_bytes'', ''linker_packet_ram_bytes'']) (\<lambda>_.
       rbind (raise_if (the_int ''arena_storage_bytes'' d < the_int ''shared_rf_arena_bytes'' d)
               (ValueError (revision_text d @ '' arena_storage_bytes must cover shared_rf_arena_bytes''))) (\<lambda>_.
       raise_if (\<not> is_bool (json_get ''runtime_resources_calibrated'' d))
         (ValueError (revision_text d @ '' requires boolean runtime_resources_calibrated''))))))"

definition check_v6_total :: "json_object \<Rightarrow> unit res" where
  "check_v6_total d =
     for_revision 6 d
       (raise_if (the_int ''caller_owned_bytes'' d
                    \<noteq> the_int ''control_storage_bytes'' d + the_int ''arena_storage_bytes'' d)
         (ValueError ''resource report v6 caller_owned_bytes must equal control_storage_bytes + arena_storage_bytes''))"

definition check_v7_total :: "json_object \<Rightarrow> unit res" where
  "check_v7_total d =
     for_revision 7 d (
       rbind (require_all positive ''resource report v7 requires positive integer '' d
                [''task_stack_arena_bytes'']) (\<lambda>_.
       let stack_arena = the_int ''task_stack_arena_bytes'' d
       in if stack_arena < the_int ''task_stack_bytes'' d
          then Inl (ValueError ''resource report v7 task_stack_arena_bytes must cover task_stack_bytes'')
          else raise_if (the_int ''caller_owned_bytes'' d
                 \<noteq> the_int ''control_storage_bytes'' d + the_int ''arena_storage_bytes'' d + stack_arena)
             (ValueError ''resource report v7 caller_owned_bytes must equal control_storage_bytes + arena_storage_bytes + task_stack_arena_bytes'')))"

definition check_v8_total :: "json_object \<Rightarrow> unit res" where
  "check_v8_total d =
     for_revisions 8 14 d (
       rbind (require_all positive (revision_text d @ '' requires positive integer '') d
                [''runtime_object_headroom_bytes'', ''runtime_arena_bytes'']) (\<lambda>_.
       if the_int ''runtime_arena_bytes'' d
            < the_int ''task_stack_bytes'' d + the_int ''runtime_object_headroom_bytes'' d
       then Inl (ValueError (revision_text d @ '' runtime_arena_bytes must cover task_stack_bytes + runtime_object_headroom_bytes''))
       else raise_if (the_int ''caller_owned_bytes'' d
              \<noteq> the_int ''control_storage_bytes'' d + the_int ''arena_storage_bytes'' d
                + the_int ''runtime_arena_bytes'' d)
          (ValueError (revision_text d @ '' caller_owned_bytes must equal control_storage_bytes + arena_storage_bytes + runtime_arena_bytes''))))"

definition check_v9 :: "json_object \<Rightarrow> unit res" where
  "check_v9 d =
     for_revisions 9 14 d
       (require_all positive ''resource report v9+ requires positive integer '' d
          [''minimum_task_stack_bytes''])"

definition check_resource :: "json_object \<Rightarrow> unit res" where
  "check_resource d =
     (let schema = json_get ''schema'' d
      in if \<not> hashable schema then Inl (TypeError ''unhashable'')
         else if \<not> one_of_names schema RESOURCE_SCHEMAS
         then Inl (ValueError ''unsupported resource schema'')
         else rbind (check_v4 d) (\<lambda>_. rbind (check_v5 d) (\<lambda>_. rbind (check_v6 d) (\<lambda>_.
              rbind (check_v6_total d) (\<lambda>_. rbind (check_v7_total d) (\<lambda>_.
              rbind (check_v8_total d) (\<lambda>_. check_v9 d)))))))"

section \<open>The build report\<close>

text \<open>
  The two documents as \<open>json.load\<close> returns them, or what loading raises; the bytes of the plan
  file; the ELF file and the image, \<open>None\<close> for a path that is no file; and the parser.
\<close>

record radio_inputs =
  resource_doc :: "json res"
  plan_doc :: "json res"
  plan_bytes :: bytes
  elf_name :: string
  elf_file :: "bytes option"
  image_name :: string
  image_file :: "bytes option"
  parse_elf :: "bytes \<Rightarrow> elf_view res"

definition load_object :: "json res \<Rightarrow> string \<Rightarrow> json_object res" where
  "load_object doc label =
     rbind doc (\<lambda>v.
       case json_dict v of
         None \<Rightarrow> Inl (ValueError (label @ '' must contain one JSON object''))
       | Some d \<Rightarrow> Inr d)"

text \<open>\<open>sha256\<close> of this script reads chunks of 64 KiB.\<close>

definition radio_sha256 :: "bytes \<Rightarrow> string" where
  "radio_sha256 content = sha256_chunks (read_chunks (64 * 1024) content)"

definition linked_shared_arena :: "json_object \<Rightarrow> (bytes \<Rightarrow> elf_view res) \<Rightarrow> bytes \<Rightarrow> int option res" where
  "linked_shared_arena d parser elf =
     rbind (in_revisions 10 14 d) (\<lambda>yes.
       if \<not> yes then Inr None
       else rbind (parser elf) (\<lambda>parsed.
            rbind (validate_l2_layout d parsed) (\<lambda>_.
            case named_section parsed ''.hisi_shared_arenas'' of
              None \<Rightarrow> Inl (ValueError ''ELF is missing .hisi_shared_arenas'')
            | Some section \<Rightarrow>
                let expected = the_int ''arena_storage_bytes'' d + the_int ''runtime_arena_bytes'' d
                in if sh_size section \<noteq> expected
                   then Inl (ValueError (''ELF .hisi_shared_arenas size does not match resource report: linked=''
                          @ str_int (sh_size section) @ '', expected='' @ str_int expected))
                   else Inr (Some (sh_size section)))))"

definition build_report ::
    "radio_inputs \<Rightarrow> json_object \<Rightarrow> json_object \<Rightarrow> bytes \<Rightarrow> bytes \<Rightarrow> int option \<Rightarrow> json_object" where
  "build_report inputs d plan elf img linked =
     (let resolved = dset ''flash_bytes'' (json_get ''image_len'' plan) d;
          resolved = (case linked of
                        None \<Rightarrow> resolved
                      | Some n \<Rightarrow> dset ''linked_shared_arena_bytes'' (JInt n) resolved)
      in [(''schema'', JStr radio_SCHEMA), (''profile'', json_get ''profile'' d),
          (''profile_revision'', json_get ''profile_revision'' d), (''resource'', JObj resolved),
          (''artifact'', JObj
             [(''elf_name'', JStr (elf_name inputs)), (''elf_file_bytes'', JInt (int (length elf))),
              (''elf_sha256'', JStr (radio_sha256 elf)), (''image_name'', JStr (image_name inputs)),
              (''image_bytes'', JInt (int (length img))), (''image_sha256'', JStr (radio_sha256 img)),
              (''flash_plan_sha256'', JStr (radio_sha256 (plan_bytes inputs))),
              (''flash_plan'', JObj (map (\<lambda>key. (key, json_get key plan)) PLAN_KEYS))])])"

definition assemble :: "radio_inputs \<Rightarrow> json_object res" where
  "assemble inputs =
     rbind (load_object (resource_doc inputs) ''resource report'') (\<lambda>d.
     rbind (load_object (plan_doc inputs) ''FlashPlan'') (\<lambda>plan.
     rbind (check_resource d) (\<lambda>_.
     let missing = filter (\<lambda>key. \<not> has_key key plan) PLAN_KEYS
     in if missing \<noteq> [] then Inl (ValueError (''FlashPlan is missing keys: '' @ repr_names missing))
        else (case elf_file inputs of
          None \<Rightarrow> Inl (ValueError (''ELF does not exist: '' @ elf_name inputs))
        | Some elf \<Rightarrow>
            (case image_file inputs of
               None \<Rightarrow> Inl (ValueError (''image does not exist: '' @ image_name inputs))
             | Some img \<Rightarrow>
                 if \<not> equals_int (json_get ''image_len'' plan) (int (length img))
                 then Inl (ValueError ''FlashPlan image_len does not match the generated image'')
                 else rbind (validate_task_resource_tree d) (\<lambda>_.
                      rbind (validate_l2_storage d) (\<lambda>_.
                      rbind (linked_shared_arena d (parse_elf inputs) elf) (\<lambda>linked.
                        Inr (build_report inputs d plan elf img linked)))))))))"

section \<open>What an assembled report accounts for\<close>

lemma radio_sha256_eq: "radio_sha256 content = sha256_hex content"
  by (simp add: radio_sha256_def sha256_chunks_def foldl_append concat_read_chunks)

lemma require_all_Inr:
  "require_all ok message d keys = Inr () \<longleftrightarrow>
     (\<forall>key\<in>set keys. \<exists>i. json_get key d = JInt i \<and> ok i)"
  by (induction keys) (auto split: option.splits)

declare require_all.simps [simp del]

lemma the_int_JInt [simp]: "json_get key d = JInt i \<Longrightarrow> the_int key d = i"
  by (simp add: the_int_def)

text \<open>The checks of a revision run for the reports of that revision.\<close>

lemma in_revisions_of:
  "json_get ''schema'' d = JStr (schema_name n) \<Longrightarrow> low \<le> n \<Longrightarrow> n \<le> high \<Longrightarrow> in_revisions low high d = Inr True"
  by (auto simp: in_revisions_def json_item_def dget_of_get one_of_names_def revisions_def
      simp del: upt_Suc)

lemma for_revisions_of:
  "json_get ''schema'' d = JStr (schema_name n) \<Longrightarrow> low \<le> n \<Longrightarrow> n \<le> high \<Longrightarrow> for_revisions low high d c = c"
  by (simp add: for_revisions_def in_revisions_of)

lemma for_revision_of: "json_get ''schema'' d = JStr (schema_name n) \<Longrightarrow> for_revision n d c = c"
  by (simp add: for_revision_def json_item_def dget_of_get)

text \<open>Tasks and memory: the groups of tasks make up the totals, the arena of the runtime holds
  their stacks, and the linked section holds the arenas.\<close>

definition memory_accounted :: "json_object \<Rightarrow> elf_view \<Rightarrow> bool" where
  "memory_accounted d parsed \<longleftrightarrow>
     (\<exists>vendor vendor_stack workers worker_stack coex coex_stacks arenas.
        0 < vendor \<and> 0 < vendor_stack \<and> 0 \<le> workers \<and> 0 \<le> worker_stack \<and> 0 \<le> coex \<and> 0 \<le> coex_stacks \<and>
        the_int ''vendor_task_slots'' d = vendor \<and> the_int ''vendor_stack_bytes_per_task'' d = vendor_stack \<and>
        the_int ''dynamic_tasks_required'' d = vendor + workers + coex \<and>
        vendor * vendor_stack + workers * worker_stack + coex_stacks
          + the_int ''runtime_object_headroom_bytes'' d \<le> the_int ''runtime_arena_bytes'' d \<and>
        the_int ''shared_rf_arena_bytes'' d \<le> the_int ''arena_storage_bytes'' d \<and>
        named_section parsed ''.hisi_shared_arenas'' = Some arenas \<and>
        sh_size arenas = the_int ''arena_storage_bytes'' d + the_int ''runtime_arena_bytes'' d \<and>
        the_int ''caller_owned_bytes'' d = the_int ''control_storage_bytes'' d + sh_size arenas)"

text \<open>Layer 2: the storage of the slots lies in the control storage, and the descriptor that the
  target was built with says so.\<close>

definition l2_accounted :: "json_object \<Rightarrow> elf_view \<Rightarrow> bool" where
  "l2_accounted d parsed \<longleftrightarrow>
     (\<exists>l2 layout section.
        json_get ''l2_storage'' d = JObj l2 \<and>
        0 \<le> the_int ''l2_storage_offset'' d \<and>
        the_int ''l2_storage_offset'' d
          + (the_int ''rx_slots'' l2 + the_int ''tx_slots'' l2) * the_int ''mtu'' l2 + the_int ''metadata_bytes'' l2
          \<le> the_int ''control_storage_bytes'' d \<and>
        unique_symbol parsed ''NET0_STORAGE_LAYOUT'' = Inr layout \<and> st_section layout = Inr section \<and>
        sh_addr section \<le> st_value layout \<and>
        unpack_words 13 (take 52 (drop (nat (st_value layout - sh_addr section)) (sec_data section)))
          = expected_layout d l2)"

lemma worker_value_Inr:
  "worker_value d key = Inr i \<Longrightarrow> 0 \<le> i"
  by (auto simp: worker_value_def res_simps split: if_splits option.splits)

lemma equals_int_JInt [simp]: "equals_int (JInt i) n \<longleftrightarrow> i = n"
  by (simp add: equals_int_def json_number_def)

lemma coexistence_values_Inr:
  assumes "coexistence_values d = Inr (slots, stacks)"
  shows "0 \<le> slots \<and> 0 \<le> stacks"
proof -
  from assms obtain yes where "in_revisions 11 14 d = Inr yes"
    and rest: "(if \<not> yes then Inr (0, 0)
       else rbind (require_all non_negative (revision_text d @ '' requires non-negative integer '') d
                     [''coexistence_task_slots'', ''coexistence_stack_bytes'']) (\<lambda>_.
            let slots = the_int ''coexistence_task_slots'' d;
                stacks = the_int ''coexistence_stack_bytes'' d
            in if (slots = 0) \<noteq> (stacks = 0)
               then Inl (ValueError (revision_text d @
                 '' coexistence slots and stacks must both be zero or both be positive''))
               else Inr (slots, stacks))) = (Inr (slots, stacks) :: (int \<times> int) res)"
    unfolding coexistence_values_def rbind_Inr by blast
  show ?thesis
  proof (cases yes)
    case True
    with rest show ?thesis
      by (auto simp: rbind_Inr require_all_Inr non_negative_def Let_def split: if_splits)
  qed (use rest in auto)
qed

lemma tree_accounted:
  assumes "validate_task_resource_tree d = Inr ()" and "json_get ''schema'' d = JStr (schema_name n)"
    and "10 \<le> n" "n \<le> 14" and "json_get ''dynamic_tasks_required'' d = JInt t"
    and "json_get ''task_stack_bytes'' d = JInt b"
  obtains v vb w wb c cb where "0 < v" "0 < vb" "0 \<le> w" "0 \<le> wb" "0 \<le> c" "0 \<le> cb"
    "the_int ''vendor_task_slots'' d = v" "the_int ''vendor_stack_bytes_per_task'' d = vb"
    "t = v + w + c" "b = v * vb + w * wb + cb"
proof -
  from assms(1) obtain w wb c cb where
    r: "require_all positive (revision_text d @ '' requires positive integer '') d
          [''vendor_task_slots'', ''vendor_stack_bytes_per_task''] = Inr ()"
    and w: "worker_value d ''worker_task_slots'' = Inr w" "worker_value d ''worker_stack_bytes_per_task'' = Inr wb"
    and c: "coexistence_values d = Inr (c, cb)"
    and tot: "equals_int (json_get ''dynamic_tasks_required'' d) (the_int ''vendor_task_slots'' d + w + c)"
      "equals_int (json_get ''task_stack_bytes'' d)
         (the_int ''vendor_task_slots'' d * the_int ''vendor_stack_bytes_per_task'' d + w * wb + cb)"
    using assms(5,6) unfolding validate_task_resource_tree_def for_revisions_of [OF assms(2-4)]
    by (auto simp: rbind_Inr raise_if_Inr Let_def json_item_def dget_of_get split: option.splits)
  show thesis
    using that [OF _ _ worker_value_Inr [OF w(1)] worker_value_Inr [OF w(2)]] r tot assms(5,6)
      coexistence_values_Inr [OF c] by (auto simp: require_all_Inr positive_def)
qed

text \<open>The integer fields that the checks of revision 6 and later establish\<close>

lemma check_resource_fields:
  assumes "check_resource d = Inr ()" and "json_get ''schema'' d = JStr (schema_name n)" "10 \<le> n" "n \<le> 14"
  obtains t b where "json_get ''dynamic_tasks_required'' d = JInt t" "json_get ''task_stack_bytes'' d = JInt b"
    "b + the_int ''runtime_object_headroom_bytes'' d \<le> the_int ''runtime_arena_bytes'' d"
    "the_int ''shared_rf_arena_bytes'' d \<le> the_int ''arena_storage_bytes'' d"
    "the_int ''caller_owned_bytes'' d
       = the_int ''control_storage_bytes'' d + the_int ''arena_storage_bytes'' d + the_int ''runtime_arena_bytes'' d"
    "\<exists>i. json_get ''control_storage_bytes'' d = JInt i"
proof -
  have "check_v6 d = Inr ()" "check_v8_total d = Inr ()"
    using assms(1) by (auto simp: check_resource_def Let_def rbind_Inr split: if_splits)
  then have v6: "require_all positive ''resource report v6 requires positive integer '' d POSITIVE_KEYS = Inr ()"
      "\<not> the_int ''arena_storage_bytes'' d < the_int ''shared_rf_arena_bytes'' d"
    and v8: "\<not> the_int ''runtime_arena_bytes'' d
               < the_int ''task_stack_bytes'' d + the_int ''runtime_object_headroom_bytes'' d"
      "the_int ''caller_owned_bytes'' d
         = the_int ''control_storage_bytes'' d + the_int ''arena_storage_bytes'' d + the_int ''runtime_arena_bytes'' d"
    using assms(3,4) unfolding check_v6_def check_v8_total_def
    by (auto simp: for_revisions_of [OF assms(2)] rbind_Inr raise_if_Inr split: if_splits)
  from v6(1) obtain t b where "json_get ''dynamic_tasks_required'' d = JInt t"
    "json_get ''task_stack_bytes'' d = JInt b" "\<exists>i. json_get ''control_storage_bytes'' d = JInt i"
    by (auto simp: require_all_Inr POSITIVE_KEYS_def)
  with v6(2) v8 show thesis by (intro that) auto
qed

lemma linked_accounted:
  assumes "linked_shared_arena d parser elf = Inr linked" and "json_get ''schema'' d = JStr (schema_name n)"
    and "10 \<le> n" "n \<le> 14"
  obtains parsed arenas where "parser elf = Inr parsed" "validate_l2_layout d parsed = Inr ()"
    "named_section parsed ''.hisi_shared_arenas'' = Some arenas" "linked = Some (sh_size arenas)"
    "sh_size arenas = the_int ''arena_storage_bytes'' d + the_int ''runtime_arena_bytes'' d"
  using assms(1) unfolding linked_shared_arena_def in_revisions_of [OF assms(2-4)]
  by (auto simp: rbind_Inr Let_def split: option.splits if_splits)

lemma l2_storage_accounted:
  assumes "validate_l2_storage d = Inr ()" and "json_get ''schema'' d = JStr (schema_name 14)"
    and "json_get ''control_storage_bytes'' d = JInt control"
  obtains l2 where "json_get ''l2_storage'' d = JObj l2" "0 \<le> the_int ''l2_storage_offset'' d"
    "the_int ''l2_storage_offset'' d
       + (the_int ''rx_slots'' l2 + the_int ''tx_slots'' l2) * the_int ''mtu'' l2 + the_int ''metadata_bytes'' l2
       \<le> control"
proof -
  from assms(1) obtain l2 where l2: "json_get ''l2_storage'' d = JObj l2" and e: "l2_errors d l2 = Inr ()"
    unfolding validate_l2_storage_def for_revision_of [OF assms(2)] by (auto split: option.splits)
  from e obtain off where o: "json_get ''l2_storage_offset'' d = JInt off" "0 \<le> off"
    and total: "the_int ''payload_bytes'' l2 = (the_int ''rx_slots'' l2 + the_int ''tx_slots'' l2) * the_int ''mtu'' l2"
      "the_int ''total_bytes'' l2 = the_int ''payload_bytes'' l2 + the_int ''metadata_bytes'' l2"
      "int_exceeds (off + the_int ''total_bytes'' l2) (JInt control) = Inr False"
    by (auto simp: l2_errors_def rbind_Inr raise_if_Inr json_item_def dget_of_get assms(3)
        split: option.splits if_splits)
  from total(3) have "off + the_int ''total_bytes'' l2 \<le> control"
    by (simp add: int_exceeds_def json_number_def not_less)
  with l2 o total that show thesis by simp
qed

lemma l2_layout_accounted:
  assumes "validate_l2_layout d parsed = Inr ()" and "json_get ''schema'' d = JStr (schema_name 14)"
    and "json_get ''l2_storage'' d = JObj l2"
  obtains layout sec where "unique_symbol parsed ''NET0_STORAGE_LAYOUT'' = Inr layout"
    "st_section layout = Inr sec" "sh_addr sec \<le> st_value layout"
    "unpack_words 13 (take 52 (drop (nat (st_value layout - sh_addr sec)) (sec_data sec)))
       = expected_layout d l2"
  using assms(1) unfolding validate_l2_layout_def for_revision_of [OF assms(2)]
  by (auto simp: rbind_Inr raise_if_Inr layout_errors_def Let_def assms(3) split: if_splits)

text \<open>What an assembled report went through\<close>

lemma assemble_Inr:
  assumes "assemble inputs = Inr report" and "resource_doc inputs = Inr (JObj d)"
  obtains plan elf img linked where "check_resource d = Inr ()" "plan_doc inputs = Inr (JObj plan)"
    "elf_file inputs = Some elf" "image_file inputs = Some img"
    "equals_int (json_get ''image_len'' plan) (int (length img))"
    "validate_task_resource_tree d = Inr ()" "validate_l2_storage d = Inr ()"
    "linked_shared_arena d (parse_elf inputs) elf = Inr linked"
    "report = build_report inputs d plan elf img linked"
proof -
  have d: "load_object (resource_doc inputs) ''resource report'' = Inr d"
    using assms(2) by (simp add: load_object_def)
  from assms(1) obtain plan where p: "load_object (plan_doc inputs) ''FlashPlan'' = Inr plan"
    and c: "check_resource d = Inr ()" by (auto simp: assemble_def d rbind_Inr)
  then have doc: "plan_doc inputs = Inr (JObj plan)"
    by (auto simp: load_object_def rbind_Inr split: option.splits)
  from assms(1) obtain elf img where f: "elf_file inputs = Some elf" "image_file inputs = Some img"
    by (auto simp: assemble_def d p c Let_def split: option.splits if_splits)
  with assms(1) show thesis
    by (auto simp: assemble_def d p c Let_def rbind_Inr split: if_splits intro: that [OF c doc])
qed


section \<open>A report of revision 14\<close>

fun le_bytes :: "nat \<Rightarrow> int \<Rightarrow> bytes" where
  "le_bytes 0 i = []"
| "le_bytes (Suc n) i = char_of (i mod 256) # le_bytes n (i div 256)"

definition demo_l2 :: json_object where
  "demo_l2 =
     [(''rx_slots'', JInt 4), (''tx_slots'', JInt 4), (''mtu'', JInt 1514),
      (''payload_bytes'', JInt 12112), (''metadata_bytes'', JInt 448), (''total_bytes'', JInt 12560)]"

definition demo_report :: json_object where
  "demo_report =
     [(''schema'', JStr (schema_name 14)), (''runtime_internal_tasks'', JInt 2), (''task_stack_bytes'', JInt 182272),
      (''shared_rf_arena_bytes'', JInt 114176), (''event_capacity'', JInt 8), (''caller_owned_bytes'', JInt 334272),
      (''control_storage_bytes'', JInt 21376), (''radio_state_bytes'', JInt 2216), (''crypto_dma_bytes'', JInt 6336),
      (''arena_storage_bytes'', JInt 114240), (''main_stack_bytes_required'', JInt 32768),
      (''dynamic_tasks_required'', JInt 11), (''composition_handle_bytes'', JInt 0),
      (''linker_packet_ram_bytes'', JInt 147456), (''runtime_resources_calibrated'', JBool False),
      (''runtime_object_headroom_bytes'', JInt 16384), (''runtime_arena_bytes'', JInt 198656),
      (''minimum_task_stack_bytes'', JInt 24576), (''vendor_task_slots'', JInt 7),
      (''vendor_stack_bytes_per_task'', JInt 24576), (''worker_task_slots'', JNull),
      (''coexistence_task_slots'', JInt 4), (''coexistence_stack_bytes'', JInt 10240),
      (''l2_storage_offset'', JInt 2296), (''l2_storage'', JObj demo_l2)]"

definition demo_descriptor :: bytes where
  "demo_descriptor =
     concat (map (le_bytes 4) [from_little_endian ''NET0'', 1, 21376, 2296, 12560, 12112, 448, 4, 4, 1514,
                               312896, 32768, 147456])"

definition demo_elf :: elf_view where
  "demo_elf =
     \<lparr>elfclass = 32, little_endian = True, e_machine = ''EM_RISCV'',
      symbols_of = Some (\<lambda>name.
        if name = ''NET0_CONTROL'' then Some [\<lparr>st_size = 21376, st_value = 0, st_section = Inl AssertionError\<rparr>]
        else if name = ''NET0_STORAGE_LAYOUT''
        then Some [\<lparr>st_size = 52, st_value = 0x230404,
                    st_section = Inr \<lparr>sh_addr = 0x230400, sh_size = 56, sec_data = ''text'' @ demo_descriptor\<rparr>\<rparr>]
        else None),
      named_section = (\<lambda>name. if name = ''.hisi_shared_arenas''
                              then Some \<lparr>sh_addr = 0, sh_size = 312896, sec_data = []\<rparr> else None)\<rparr>"

definition demo_inputs :: radio_inputs where
  "demo_inputs =
     \<lparr>resource_doc = Inr (JObj demo_report),
      plan_doc = Inr (JObj (map (\<lambda>key. (key, if key = ''image_len'' then JInt 2 else JNull)) PLAN_KEYS)),
      plan_bytes = [], elf_name = ''a.elf'', elf_file = Some ''ELF'', image_name = ''a.img'',
      image_file = Some ''AB'', parse_elf = (\<lambda>_. Inr demo_elf)\<rparr>"

lemma demo_resource: "check_resource demo_report = Inr ()"
  by code_simp

lemma demo_tree: "validate_task_resource_tree demo_report = Inr ()"
  by code_simp

lemma demo_storage: "validate_l2_storage demo_report = Inr ()"
  by code_simp

lemma demo_linked: "linked_shared_arena demo_report (\<lambda>_. Inr demo_elf) elf = Inr (Some 312896)"
  by code_simp

lemma demo_assembles: "\<exists>report. assemble demo_inputs = Inr report"
  by (simp add: assemble_def load_object_def demo_inputs_def demo_resource demo_tree demo_storage demo_linked
      PLAN_KEYS_def has_key_def json_get_def dget_or_def)


end
