(* ===== verification/Plan_Cycle.thy ===== *)
theory Plan_Cycle
  imports Py_Prelude
begin

text \<open>
  \<open>_cycle\<close> of \<open>scripts/check-plan-registry.py\<close>: the depth-first search for a dependency cycle
  between plans.  A graph is the dictionary of the plans with the names they depend on.
\<close>

section \<open>The search\<close>

type_synonym plan_graph = "(string, string list) dict"

definition dependencies :: "plan_graph \<Rightarrow> string \<Rightarrow> string list" where
  "dependencies g plan_id = dget_or plan_id [] g"

text \<open>
  \<open>visit\<close> returns the cycle it found, or \<open>None\<close> and the set \<open>visited\<close> as it left it.  The depth
  of the recursion is bounded by \<open>fuel\<close>; \<open>None\<close> here means that it was not enough, which
  \<open>find_cycle\<close> rules out.
\<close>

function (sequential)
  visit :: "nat \<Rightarrow> plan_graph \<Rightarrow> string \<Rightarrow> string list \<Rightarrow> string list
              \<Rightarrow> (string list + string list) option"
  and visit_all :: "nat \<Rightarrow> plan_graph \<Rightarrow> string list \<Rightarrow> string list \<Rightarrow> string list
              \<Rightarrow> (string list + string list) option" where
  "visit fuel g plan_id visiting visited =
     (if plan_id \<in> set visiting
      then Some (Inl (dropWhile (\<lambda>x. x \<noteq> plan_id) visiting @ [plan_id]))
      else if plan_id \<in> set visited then Some (Inr visited)
      else (case fuel of
        0 \<Rightarrow> None
      | Suc n \<Rightarrow>
          (case visit_all n g (dependencies g plan_id) (visiting @ [plan_id]) visited of
             None \<Rightarrow> None
           | Some (Inl found) \<Rightarrow> Some (Inl found)
           | Some (Inr visited') \<Rightarrow> Some (Inr (plan_id # visited')))))"
| "visit_all fuel g [] visiting visited = Some (Inr visited)"
| "visit_all fuel g (d # ds) visiting visited =
     (if has_key d g
      then (case visit fuel g d visiting visited of
              None \<Rightarrow> None
            | Some (Inl found) \<Rightarrow> Some (Inl found)
            | Some (Inr visited') \<Rightarrow> visit_all fuel g ds visiting visited')
      else visit_all fuel g ds visiting visited)"
  by pat_completeness auto
termination
  by (relation "measures [case_sum (\<lambda>(n, _). n) (\<lambda>(n, _). n),
        case_sum (\<lambda>_. 0) (\<lambda>(_, _, ds, _). Suc (length ds))]") auto

declare visit.simps [simp del]

text \<open>
  The loop over all plans is \<open>visit_all\<close> from an empty path; the recursion is no deeper than
  there are plans.
\<close>

definition find_cycle :: "plan_graph \<Rightarrow> string list option option" where
  "find_cycle g =
     map_option (case_sum Some (\<lambda>_. None)) (visit_all (length g) g (map fst g) [] [])"

section \<open>Specification\<close>

definition edges :: "plan_graph \<Rightarrow> (string \<times> string) set" where
  "edges g = {(a, b). has_key a g \<and> has_key b g \<and> b \<in> set (dependencies g a)}"

fun walk :: "plan_graph \<Rightarrow> string list \<Rightarrow> bool" where
  "walk g (a # b # cs) \<longleftrightarrow> (a, b) \<in> edges g \<and> walk g (b # cs)"
| "walk g _ \<longleftrightarrow> True"

text \<open>A cycle: a walk along at least one dependency that ends where it starts.\<close>

definition closed_walk :: "plan_graph \<Rightarrow> string list \<Rightarrow> bool" where
  "closed_walk g p \<longleftrightarrow> 2 \<le> length p \<and> hd p = last p \<and> walk g p"

lemma walk_append:
  "walk g (xs @ [a]) \<Longrightarrow> walk g (a # ys) \<Longrightarrow> walk g (xs @ a # ys)"
  by (induction xs rule: walk.induct) auto

lemma walk_drop: "walk g xs \<Longrightarrow> walk g (dropWhile P xs)"
  by (induction xs rule: walk.induct) auto

lemma walk_trancl: "walk g (a # xs) \<Longrightarrow> xs \<noteq> [] \<Longrightarrow> (a, last xs) \<in> (edges g)\<^sup>+"
proof (induction xs arbitrary: a)
  case (Cons b xs)
  then have ab: "(a, b) \<in> edges g" by simp
  show ?case
  proof (cases "xs = []")
    case False
    with Cons have "(b, last xs) \<in> (edges g)\<^sup>+" by simp
    with ab False show ?thesis by simp
  qed (use ab in auto)
qed simp

lemma closed_walk_trancl: "closed_walk g p \<Longrightarrow> (hd p, hd p) \<in> (edges g)\<^sup>+"
  using walk_trancl [of g "hd p" "tl p"] by (cases p) (auto simp: closed_walk_def split: if_splits)

section \<open>The search is right\<close>

text \<open>
  What holds of the set \<open>visited\<close>: it is closed under dependencies, disjoint from the current
  path, and no cycle passes through it.
\<close>

definition settled :: "plan_graph \<Rightarrow> string list \<Rightarrow> string list \<Rightarrow> bool" where
  "settled g visiting visited \<longleftrightarrow>
     set visited \<inter> set visiting = {} \<and> edges g `` set visited \<subseteq> set visited \<and>
     (\<forall>v\<in>set visited. (v, v) \<notin> (edges g)\<^sup>+)"

lemma closed_trancl: "edges g `` V \<subseteq> V \<Longrightarrow> a \<in> V \<Longrightarrow> (a, b) \<in> (edges g)\<^sup>+ \<Longrightarrow> b \<in> V"
  by (erule trancl_induct) auto

lemma settled_insert:
  assumes "settled g (visiting @ [a]) V" and "\<forall>d\<in>set (dependencies g a). has_key d g \<longrightarrow> d \<in> set V"
    and "a \<notin> set visiting"
  shows "settled g visiting (a # V)"
proof -
  have step: "b \<in> set V" if "(a, b) \<in> edges g" for b
    using assms(2) that by (auto simp: edges_def)
  have "(a, a) \<notin> (edges g)\<^sup>+"
  proof
    assume "(a, a) \<in> (edges g)\<^sup>+"
    then obtain b where "(a, b) \<in> edges g" "(b, a) \<in> (edges g)\<^sup>*" by (meson tranclD)
    with step assms(1) have "a \<in> set V"
      using closed_trancl [of g "set V" b a] by (auto simp: settled_def rtrancl_eq_or_trancl)
    with assms(1) show False by (auto simp: settled_def)
  qed
  with assms step show ?thesis by (auto simp: settled_def)
qed

text \<open>Both functions at once: with enough fuel they return, and what they return is right.\<close>

definition found_right :: "plan_graph \<Rightarrow> string list \<Rightarrow> string list \<Rightarrow> string list
    \<Rightarrow> (string list + string list) option \<Rightarrow> bool" where
  "found_right g targets visiting visited r \<longleftrightarrow>
     (case r of
        None \<Rightarrow> False
      | Some (Inl p) \<Rightarrow> closed_walk g p
      | Some (Inr V) \<Rightarrow> settled g visiting V \<and> set visited \<subseteq> set V \<and>
          (\<forall>t\<in>set targets. has_key t g \<longrightarrow> t \<in> set V))"

lemma closed_walk_found:
  assumes "walk g (visiting @ [a])" and "a \<in> set visiting"
  shows "closed_walk g (dropWhile (\<lambda>x. x \<noteq> a) visiting @ [a])"
proof -
  from assms(2) obtain xs ys where v: "visiting = xs @ a # ys" "a \<notin> set xs"
    by (meson split_list_first)
  then have all: "\<forall>x\<in>set xs. x \<noteq> a" by blast
  with v have d: "dropWhile (\<lambda>x. x \<noteq> a) visiting = a # ys"
    by (simp add: dropWhile_append3)
  have "walk g (dropWhile (\<lambda>x. x \<noteq> a) (visiting @ [a]))" using assms(1) by (rule walk_drop)
  then have "walk g (a # ys @ [a])" using v all by (simp add: dropWhile_append3)
  then show ?thesis by (simp add: d closed_walk_def)
qed

lemma card_path:
  assumes "distinct visiting" "set visiting \<subseteq> {k. has_key k (g :: plan_graph)}"
  shows "length visiting \<le> length g"
proof -
  have "{k. has_key k g} = fst ` set g" by (auto simp: has_key_def map_of_eq_None_iff)
  moreover have "card (fst ` set g) \<le> length g"
    using card_image_le [of "set g" fst] card_length [of g] by simp
  ultimately show ?thesis
    using assms card_mono [of "fst ` set g" "set visiting"] distinct_card [of visiting] by simp
qed

lemma visit_right:
  "has_key a g \<Longrightarrow> distinct visiting \<Longrightarrow> set visiting \<subseteq> {k. has_key k g} \<Longrightarrow>
     walk g (visiting @ [a]) \<Longrightarrow> settled g visiting visited \<Longrightarrow> length g \<le> fuel + length visiting \<Longrightarrow>
     found_right g [a] visiting visited (visit fuel g a visiting visited)"
  "distinct visiting \<Longrightarrow> set visiting \<subseteq> {k. has_key k g} \<Longrightarrow>
     (\<forall>d\<in>set ds. has_key d g \<longrightarrow> walk g (visiting @ [d])) \<Longrightarrow> settled g visiting visited \<Longrightarrow>
     length g \<le> fuel + length visiting \<Longrightarrow>
     found_right g ds visiting visited (visit_all fuel g ds visiting visited)"
proof (induction fuel g a visiting visited and fuel g ds visiting visited rule: visit_visit_all.induct)
  case (1 fuel g a visiting visited)
  consider "a \<in> set visiting" | "a \<notin> set visiting" "a \<in> set visited"
    | "a \<notin> set visiting" "a \<notin> set visited" by blast
  then show ?case
  proof cases
    case 1
    with closed_walk_found [OF "1.prems"(4)] show ?thesis by (simp add: visit.simps found_right_def)
  next
    case 2
    with "1.prems"(5) show ?thesis by (simp add: visit.simps found_right_def)
  next
    case 3
    have path: "distinct (visiting @ [a])" "set (visiting @ [a]) \<subseteq> {k. has_key k g}"
      using 3 "1.prems" by auto
    from card_path [OF this] "1.prems"(6) obtain n where n: "fuel = Suc n" by (cases fuel) auto
    have "settled g (visiting @ [a]) visited" using "1.prems"(5) 3 by (auto simp: settled_def)
    moreover have "walk g ((visiting @ [a]) @ [d])" if "d \<in> set (dependencies g a)" "has_key d g" for d
      using walk_append [OF "1.prems"(4), of "[d]"] that "1.prems"(1) by (simp add: edges_def)
    ultimately have rec: "found_right g (dependencies g a) (visiting @ [a]) visited
        (visit_all n g (dependencies g a) (visiting @ [a]) visited)"
      using "1.prems"(6) n path by (intro "1.IH" [OF 3 n]) auto
    show ?thesis
    proof (cases "visit_all n g (dependencies g a) (visiting @ [a]) visited")
      case None
      with rec show ?thesis by (simp add: found_right_def)
    next
      case (Some r)
      with rec 3 n settled_insert [of g visiting a] show ?thesis
        by (cases r) (auto simp: visit.simps found_right_def)
    qed
  qed
next
  case (2 fuel g visiting visited)
  then show ?case by (simp add: found_right_def)
next
  case (3 fuel g d ds visiting visited)
  show ?case
  proof (cases "has_key d g")
    case False
    with 3 have "found_right g ds visiting visited (visit_all fuel g ds visiting visited)" by simp
    with False show ?thesis by (simp add: found_right_def split: option.splits sum.splits)
  next
    case True
    with 3 have one: "found_right g [d] visiting visited (visit fuel g d visiting visited)" by simp
    then obtain r where r: "visit fuel g d visiting visited = Some r"
      by (auto simp: found_right_def split: option.splits)
    show ?thesis
    proof (cases r)
      case (Inl p)
      with one r True show ?thesis by (simp add: found_right_def)
    next
      case (Inr V)
      with one r True have V: "settled g visiting V" "set visited \<subseteq> set V" "d \<in> set V"
        by (simp_all add: found_right_def)
      have rest: "found_right g ds visiting V (visit_all fuel g ds visiting V)"
        using "3.IH"(2) [OF True r Inr] "3.prems" V by simp
      with V True r Inr show ?thesis
        by (auto simp: found_right_def split: option.splits sum.splits)
    qed
  qed
qed

lemma find_cycle_right:
  "(\<exists>r. find_cycle g = Some r) \<and> (find_cycle g = Some None \<longleftrightarrow> acyclic (edges g)) \<and>
   (case find_cycle g of Some (Some p) \<Rightarrow> closed_walk g p | _ \<Rightarrow> True)"
proof -
  let ?r = "visit_all (length g) g (map fst g) [] []"
  have right: "found_right g (map fst g) [] [] ?r"
    by (rule visit_right(2)) (simp_all add: settled_def)
  then obtain r where r: "?r = Some r" by (auto simp: found_right_def split: option.splits)
  show ?thesis
  proof (cases r)
    case (Inl p)
    with right r have p: "closed_walk g p" by (simp add: found_right_def)
    with closed_walk_trancl have "\<not> acyclic (edges g)" by (auto simp: acyclic_def)
    with p r Inl show ?thesis by (simp add: find_cycle_def)
  next
    case (Inr V)
    with right r have V: "settled g [] V" "\<forall>t\<in>fst ` set g. has_key t g \<longrightarrow> t \<in> set V"
      by (simp_all add: found_right_def)
    have key: "t \<in> fst ` set g" if "has_key t g" for t
      using that by (simp add: has_key_def map_of_eq_None_iff)
    have "acyclic (edges g)"
    proof (rule acyclicI, rule allI)
      fix x
      show "(x, x) \<notin> (edges g)\<^sup>+"
      proof
        assume c: "(x, x) \<in> (edges g)\<^sup>+"
        then have "has_key x g" by (auto simp: edges_def dest: tranclD)
        with key V have "x \<in> set V" by blast
        with V c show False by (auto simp: settled_def)
      qed
    qed
    with r Inr show ?thesis by (simp add: find_cycle_def)
  qed
qed

text \<open>
  C19: The search for a dependency cycle.  It ends, also on a graph with cycles and with
  dependencies on unknown plans; it reports nothing exactly if the dependencies between the
  plans are acyclic; and what it reports is a cycle: a walk along dependencies from a plan back
  to itself.
\<close>

theorem find_cycle_correct:
  "(\<exists>r. find_cycle g = Some r) \<and> (find_cycle g = Some None \<longleftrightarrow> acyclic (edges g)) \<and>
   (case find_cycle g of Some (Some p) \<Rightarrow> closed_walk g p | _ \<Rightarrow> True)"
  by (rule find_cycle_right)

end
