(* ===== verification/Plan_Language.thy ===== *)
theory Plan_Language
  imports Py_Text "HOL-Library.List_Lexorder"
begin

text \<open>
  \<open>_validate_plan_language\<close> of \<open>scripts/check-plan-registry.py\<close>: the top-level plans must
  declare a status, must not repeat stale claims, and their headings and explanatory blocks must
  contain Chinese.  A file is the text that \<open>read_text\<close> returns, or what it raises.
\<close>

section \<open>The patterns\<close>

definition is_han :: "string \<Rightarrow> bool" where
  "is_han ch \<longleftrightarrow> 0x3400 \<le> code_point ch \<and> code_point ch \<le> 0x9FFF"

definition has_han :: "string \<Rightarrow> bool" where
  "has_han s \<longleftrightarrow> list_ex is_han (decode_chars s)"

definition ascii_letter :: "char \<Rightarrow> bool" where
  "ascii_letter c \<longleftrightarrow> (65 \<le> ord c \<and> ord c \<le> 90) \<or> (97 \<le> ord c \<and> ord c \<le> 122)"

fun has_ascii_prose :: "string \<Rightarrow> bool" where
  "has_ascii_prose (a # b # c # cs) \<longleftrightarrow>
     (ascii_letter a \<and> ascii_letter b \<and> ascii_letter c) \<or> has_ascii_prose (b # c # cs)"
| "has_ascii_prose _ \<longleftrightarrow> False"

text \<open>\<open>INLINE_CODE.sub('', text)\<close> and \<open>LINK_TARGET.sub(']', text)\<close>\<close>

function drop_inline_code :: "string \<Rightarrow> string" where
  "drop_inline_code [] = []"
| "drop_inline_code (c # cs) =
     (if c = CHR 96 \<and> CHR 96 \<in> set cs
      then drop_inline_code (tl (dropWhile (\<lambda>x. x \<noteq> CHR 96) cs))
      else c # drop_inline_code cs)"
  by pat_completeness auto
termination
  by (relation "measure length") (auto simp: less_Suc_eq_le intro: le_trans [OF diff_le_self length_dropWhile_le])

function drop_link_targets :: "string \<Rightarrow> string" where
  "drop_link_targets [] = []"
| "drop_link_targets (c # cs) =
     (let target = takeWhile (\<lambda>x. x \<noteq> CHR '')'') (tl cs);
          after = dropWhile (\<lambda>x. x \<noteq> CHR '')'') (tl cs)
      in if c = CHR '']'' \<and> cs \<noteq> [] \<and> hd cs = CHR ''('' \<and> target \<noteq> [] \<and> after \<noteq> []
         then c # drop_link_targets (tl after) else c # drop_link_targets cs)"
  by pat_completeness auto
termination
proof (relation "measure length")
  fix c cs after
  assume "after = dropWhile (\<lambda>x. x \<noteq> CHR '')'') (tl cs)"
  then have "length after \<le> length (tl cs)" by (simp only: length_dropWhile_le)
  then show "(tl after, c # cs) \<in> measure length" by simp
qed simp_all

definition is_decimal :: "string \<Rightarrow> bool" where
  "is_decimal ch \<longleftrightarrow>
     (let u = code_point ch in (48 \<le> u \<and> u \<le> 57) \<or> list_ex (\<lambda>z. z \<le> u \<and> u \<le> z + 9) decimal_zeros)"

text \<open>The beginning of a list item or a table row.\<close>

definition starts_item :: "string \<Rightarrow> bool" where
  "starts_item line =
     (case decode_chars line of
        [] \<Rightarrow> False
      | ch # chs \<Rightarrow>
          (ch \<in> {''-'', ''*'', ''+''} \<and> chs \<noteq> [] \<and> is_space (hd chs)) \<or> ch = ''|'' \<or>
          (is_decimal ch \<and>
             (case dropWhile is_decimal chs of
                dot # sp # _ \<Rightarrow> dot = ''.'' \<and> is_space sp
              | _ \<Rightarrow> False)))"

section \<open>The scan of a file\<close>

datatype language_error =
    No_status string
  | Stale_claim string string
  | No_chinese_block string nat string
  | No_chinese_heading string nat string

record scan_state =
  in_code :: bool
  block :: "string list"
  block_line :: nat

definition check_block :: "string \<Rightarrow> scan_state \<Rightarrow> scan_state \<times> language_error list" where
  "check_block name s =
     (let joined = join '' '' (block s);
          visible = drop_link_targets (drop_inline_code joined)
      in (s\<lparr>block := []\<rparr>,
          if block s \<noteq> [] \<and> has_ascii_prose visible \<and> \<not> has_han visible
          then [No_chinese_block name (block_line s) joined] else []))"

text \<open>The lines that are neither empty, anchors, headings nor fences extend the current block.\<close>

definition extend_block :: "nat \<Rightarrow> string \<Rightarrow> scan_state \<Rightarrow> scan_state" where
  "extend_block number stripped s =
     (if block s = [] then s\<lparr>block_line := number, block := [stripped]\<rparr>
      else s\<lparr>block := block s @ [stripped]\<rparr>)"

definition scan_line :: "string \<Rightarrow> nat \<Rightarrow> string \<Rightarrow> scan_state \<Rightarrow> scan_state \<times> language_error list" where
  "scan_line name number line s =
     (let stripped = text_strip line
      in if startswith ''```'' stripped
         then (let (s', es) = check_block name s in (s'\<lparr>in_code := \<not> in_code s\<rparr>, es))
         else if in_code s then (s, [])
         else if stripped = [] \<or> startswith ''<a id='' stripped then check_block name s
         else if startswith ''#'' stripped
         then (let (s', es) = check_block name s
               in (s', es @ (if \<not> has_han stripped then [No_chinese_heading name number stripped] else [])))
         else if starts_item stripped
         then (let (s', es) = check_block name s in (extend_block number stripped s', es))
         else (extend_block number stripped s, []))"

fun scan_lines :: "string \<Rightarrow> nat \<Rightarrow> string list \<Rightarrow> scan_state \<Rightarrow> language_error list" where
  "scan_lines name number [] s = snd (check_block name s)"
| "scan_lines name number (line # lines) s =
     (let (s', es) = scan_line name number line s in es @ scan_lines name (Suc number) lines s')"

definition scan_text :: "string \<Rightarrow> string \<Rightarrow> language_error list" where
  "scan_text name text =
     scan_lines name 1 (text_lines text) \<lparr>in_code = False, block = [], block_line = 0\<rparr>"

section \<open>The declarations of a file\<close>

definition STATUS_MARKERS :: "string list" where
  "STATUS_MARKERS =
     [''## '' @ [CHR 0xE7, CHR 0x8A, CHR 0xB6, CHR 0xE6, CHR 0x80, CHR 0x81],
      ''## '' @ [CHR 0xE7, CHR 0x8A, CHR 0xB6, CHR 0xE6, CHR 0x80, CHR 0x81,
                CHR 0xE4, CHR 0xB8, CHR 0x8E],
      ''**'' @ [CHR 0xE7, CHR 0x8A, CHR 0xB6, CHR 0xE6, CHR 0x80, CHR 0x81,
               CHR 0xEF, CHR 0xBC, CHR 0x9A] @ ''**'']"

definition stale_claims :: "string list" where
  "stale_claims =
     [''#active-window-now-a4'', ''#active-window-now-a3-next-a4'',
      ''Q3-Q4 '' @ [CHR 0xE4, CHR 0xBB, CHR 0x8D, CHR 0xE6, CHR 0x98, CHR 0xAF] @ '' A3 gate'']"

definition declaration_errors :: "string \<Rightarrow> string \<Rightarrow> language_error list" where
  "declaration_errors name text =
     (let head = join [CHR 10] (take 20 (text_lines text))
      in (if list_ex (\<lambda>m. occurs m head) STATUS_MARKERS then [] else [No_status name])
         @ map (Stale_claim name) (filter (\<lambda>needle. occurs needle text) stale_claims))"

text \<open>The loop over the files, in the order of their names; the first unreadable file ends it.\<close>

fun check_files ::
    "(string \<Rightarrow> string \<Rightarrow> language_error list) \<Rightarrow> (string \<times> string res) list \<Rightarrow> language_error list res" where
  "check_files check [] = Inr []"
| "check_files check ((name, text) # files) =
     rbind text (\<lambda>t. rbind (check_files check files) (\<lambda>es. Inr (check name t @ es)))"

definition markdown_files :: "(string \<times> string res) list \<Rightarrow> (string \<times> string res) list" where
  "markdown_files entries = sort_key fst (filter (\<lambda>e. suffix ''.md'' (fst e)) entries)"

definition validate_plan_language :: "(string \<times> string res) list \<Rightarrow> language_error list res" where
  "validate_plan_language entries =
     (let files = markdown_files entries
      in rbind (check_files declaration_errors (filter (\<lambda>e. fst e \<noteq> ''README.md'') files)) (\<lambda>es.
         rbind (check_files scan_text files) (\<lambda>es'. Inr (es @ es'))))"

end
