(* ===== verification/Plan_Registry.thy ===== *)
theory Plan_Registry
  imports Plan_Cycle Plan_Language Py_Json
begin

text \<open>
  \<open>scripts/check-plan-registry.py\<close>: the checker of the plan registry.  It collects the errors
  of the document \<open>registry.toml\<close> and of its mirror in \<open>README.md\<close> in a list; the errors are a
  datatype here, their messages are not modelled.  Where the code raises instead of appending to
  the list, the result is the exception.
\<close>

section \<open>Constants\<close>

definition SCHEMA :: string where
  "SCHEMA = ''hispark-rs/plan-registry/v1''"

definition STATUS_LABELS :: "(string, string) dict" where
  "STATUS_LABELS =
     [(''active'', [CHR 0xE6, CHR 0x89, CHR 0xA7, CHR 0xE8, CHR 0xA1, CHR 0x8C, CHR 0xE4, CHR 0xB8, CHR 0xAD]),
      (''decision-pending'', [CHR 0xE5, CHR 0x86, CHR 0xB3, CHR 0xE7, CHR 0xAD, CHR 0x96,
                              CHR 0xE5, CHR 0xBE, CHR 0x85, CHR 0xE5, CHR 0xAE, CHR 0x9A]),
      (''supporting'', [CHR 0xE9, CHR 0x85, CHR 0x8D, CHR 0xE5, CHR 0xA5, CHR 0x97,
                        CHR 0xE5, CHR 0xB7, CHR 0xA5, CHR 0xE4, CHR 0xBD, CHR 0x9C]),
      (''triggered'', [CHR 0xE6, CHR 0x9D, CHR 0xA1, CHR 0xE4, CHR 0xBB, CHR 0xB6,
                       CHR 0xE8, CHR 0xA7, CHR 0xA6, CHR 0xE5, CHR 0x8F, CHR 0x91]),
      (''deferred'', [CHR 0xE5, CHR 0xBB, CHR 0xB6, CHR 0xE6, CHR 0x9C, CHR 0x9F]),
      (''completed'', [CHR 0xE5, CHR 0xB7, CHR 0xB2, CHR 0xE5, CHR 0xAE, CHR 0x8C, CHR 0xE6, CHR 0x88, CHR 0x90])]"

definition PRIORITIES :: "string list" where
  "PRIORITIES = [''P0'', ''P1'', ''P2'', ''P3'', ''Done'']"

text \<open>\<open>ID.fullmatch\<close> and \<open>ROW.match\<close>\<close>

definition id_char :: "char \<Rightarrow> bool" where
  "id_char c \<longleftrightarrow> (97 \<le> ord c \<and> ord c \<le> 122) \<or> (48 \<le> ord c \<and> ord c \<le> 57)"

fun is_id :: "string \<Rightarrow> bool" where
  "is_id [] \<longleftrightarrow> False"
| "is_id (c # cs) \<longleftrightarrow> id_char c \<and> (\<forall>d\<in>set cs. id_char d \<or> d = CHR ''-'')"

definition strip_prefix :: "string \<Rightarrow> string \<Rightarrow> string option" where
  "strip_prefix p s = (if prefix p s then Some (drop (length p) s) else None)"

text \<open>The first of some words that starts the text, with the rest\<close>

definition one_of :: "string list \<Rightarrow> string \<Rightarrow> (string \<times> string) option" where
  "one_of ws s = map_option (\<lambda>w. (w, drop (length w) s)) (find (\<lambda>w. prefix w s) ws)"

definition row_match :: "string \<Rightarrow> (string \<times> string \<times> string) option" where
  "row_match line =
     Option.bind (strip_prefix ''| ['' line) (\<lambda>s.
       let title = takeWhile (\<lambda>c. c \<noteq> CHR '']'') s
       in if title = [] then None
          else Option.bind (strip_prefix ''](''  (drop (length title) s)) (\<lambda>s.
            let path = takeWhile (\<lambda>c. c \<noteq> CHR '')'') s
            in if \<not> (suffix ''.md'' path \<and> 3 < length path) then None
               else Option.bind (strip_prefix '') | '' (drop (length path) s)) (\<lambda>s.
                 Option.bind (one_of (map snd STATUS_LABELS) s) (\<lambda>(status, s).
                 Option.bind (strip_prefix '' | '' s) (\<lambda>s.
                 Option.bind (one_of PRIORITIES s) (\<lambda>(priority, s).
                 Option.bind (strip_prefix '' |'' s) (\<lambda>_. Some (path, status, priority))))))))"

section \<open>Errors and the repository\<close>

datatype registry_error =
    Unsupported_schema json
  | Bad_maximum
  | Evidence_not_array
  | Evidence_not_object nat
  | Bad_evidence_id nat json
  | Duplicate_evidence string
  | Evidence_without_path string
  | Evidence_file_missing string string
  | Plan_not_array
  | Plan_not_object nat
  | Bad_plan_id nat json
  | Duplicate_plan string
  | Bad_path string json
  | Duplicate_path string
  | Bad_status string json
  | Bad_priority string json
  | No_owner string
  | No_trigger string
  | Not_strings string string
  | Depends_on_itself string
  | Completed_not_done string
  | Completed_without_evidence string
  | Done_not_completed string
  | Unregistered_plan string
  | Registered_plan_missing string
  | Unknown_dependency string json
  | Unknown_evidence string json
  | Dependency_cycle "string list"
  | Too_many_active int "string list"
  | Active_not_P0 string
  | Pending_not_P0 string
  | Mirror_duplicate nat string
  | Mirror_missing string
  | Mirror_unregistered string
  | Mirror_drift string "string \<times> string" "(string \<times> string) option"
  | Language language_error

text \<open>
  What the checker sees of the file system: \<open>(root / value).resolve()\<close> and \<open>root.resolve()\<close> as
  the lists of their parts, which paths are files, and the names in \<open>plan_dir\<close> with what
  \<open>read_text\<close> gives for them.  \<open>readme\<close> is \<open>None\<close> for the argument \<open>markdown=None\<close>.
  \<open>shown\<close> is \<open>str(value)\<close> for a value that is not a string.
\<close>

record repo =
  resolved :: "string \<Rightarrow> string list res"
  root_parts :: "string list"
  is_file :: "string list \<Rightarrow> bool"
  plan_dir :: "(string \<times> string res) list"
  readme :: "string res option"
  shown :: "json \<Rightarrow> string"

definition safe_repo_path :: "repo \<Rightarrow> string \<Rightarrow> string list option res" where
  "safe_repo_path r v =
     rbind (resolved r v) (\<lambda>candidate.
       Inr (if prefix (root_parts r) candidate then Some candidate else None))"

text \<open>\<open>for index, entry in enumerate(entries)\<close> with a state and a list of errors\<close>

fun scan_entries ::
    "(nat \<Rightarrow> 'a \<Rightarrow> 's \<Rightarrow> ('s \<times> 'e list) res) \<Rightarrow> nat \<Rightarrow> 'a list \<Rightarrow> 's \<Rightarrow> ('s \<times> 'e list) res" where
  "scan_entries step index [] s = Inr (s, [])"
| "scan_entries step index (x # xs) s =
     rbind (step index x s) (\<lambda>(s', es).
     rbind (scan_entries step (Suc index) xs s') (\<lambda>(s'', es'). Inr (s'', es @ es')))"

section \<open>Evidence\<close>

definition evidence_entry ::
    "repo \<Rightarrow> nat \<Rightarrow> json \<Rightarrow> (string, string) dict \<Rightarrow> ((string, string) dict \<times> registry_error list) res" where
  "evidence_entry r index entry known =
     (case json_dict entry of
        None \<Rightarrow> Inr (known, [Evidence_not_object index])
      | Some d \<Rightarrow>
          (case json_str (json_get ''id'' d) of
             None \<Rightarrow> Inr (known, [Bad_evidence_id index (json_get ''id'' d)])
           | Some evidence_id \<Rightarrow>
               if \<not> is_id evidence_id then Inr (known, [Bad_evidence_id index (json_get ''id'' d)])
               else if has_key evidence_id known then Inr (known, [Duplicate_evidence evidence_id])
               else (case json_str (json_get ''path'' d) of
                       None \<Rightarrow> Inr (known, [Evidence_without_path evidence_id])
                     | Some path \<Rightarrow>
                         if path = [] then Inr (known, [Evidence_without_path evidence_id])
                         else rbind (safe_repo_path r path) (\<lambda>found.
                           Inr (dset evidence_id path known,
                                if (case found of None \<Rightarrow> False | Some p \<Rightarrow> is_file r p) then []
                                else [Evidence_file_missing evidence_id path])))))"

section \<open>Plans\<close>

type_synonym plan_dict = "(string, json_object) dict"

definition top_level_markdown :: "string \<Rightarrow> bool" where
  "top_level_markdown p \<longleftrightarrow> path_name p = p \<and> suffix ''.md'' p"

definition is_text :: "json \<Rightarrow> bool" where
  "is_text v = (case json_str v of None \<Rightarrow> False | Some s \<Rightarrow> s \<noteq> [])"

text \<open>\<open>_strings\<close>: the strings of an array, \<open>None\<close> for what is reported as an error\<close>

definition strings_of :: "json \<Rightarrow> string list option" where
  "strings_of v = Option.bind (json_items v) (\<lambda>items. those (map json_str items))"

definition path_step ::
    "string \<Rightarrow> json \<Rightarrow> string list \<Rightarrow> string list \<times> registry_error list" where
  "path_step plan_id v paths =
     (case json_str v of
        None \<Rightarrow> (paths, [Bad_path plan_id v])
      | Some p \<Rightarrow>
          if \<not> top_level_markdown p then (paths, [Bad_path plan_id v])
          else if p \<in> set paths then (paths, [Duplicate_path p])
          else (paths @ [p], []))"

definition closure_errors :: "string \<Rightarrow> json_object \<Rightarrow> string list \<Rightarrow> string list \<Rightarrow> registry_error list" where
  "closure_errors plan_id d deps evidence =
     (if plan_id \<in> set deps then [Depends_on_itself plan_id] else [])
     @ (if json_get ''status'' d = JStr ''completed''
        then (if json_get ''priority'' d \<noteq> JStr ''Done'' then [Completed_not_done plan_id] else [])
             @ (if evidence = [] then [Completed_without_evidence plan_id] else [])
        else if json_get ''priority'' d = JStr ''Done'' then [Done_not_completed plan_id] else [])"

text \<open>The errors of one plan beyond its path.  \<open>strings_of\<close> leaves an empty list for a bad array.\<close>

definition field_errors :: "string \<Rightarrow> json_object \<Rightarrow> registry_error list" where
  "field_errors plan_id d =
     (let deps = strings_of (json_get ''depends_on'' d);
          evidence = strings_of (json_get ''evidence'' d)
      in (if one_of_names (json_get ''status'' d) (map fst STATUS_LABELS) then []
          else [Bad_status plan_id (json_get ''status'' d)])
         @ (if one_of_names (json_get ''priority'' d) PRIORITIES then []
            else [Bad_priority plan_id (json_get ''priority'' d)])
         @ (if is_text (json_get ''owner'' d) then [] else [No_owner plan_id])
         @ (if is_text (json_get ''trigger'' d) then [] else [No_trigger plan_id])
         @ (if deps = None then [Not_strings plan_id ''depends_on''] else [])
         @ (if evidence = None then [Not_strings plan_id ''evidence''] else [])
         @ closure_errors plan_id d (case deps of None \<Rightarrow> [] | Some ds \<Rightarrow> ds)
             (case evidence of None \<Rightarrow> [] | Some es \<Rightarrow> es))"

text \<open>
  A status or priority that is an array or a table cannot be looked up: \<open>in\<close> raises a
  \<open>TypeError\<close>.
\<close>

definition plan_entry ::
    "nat \<Rightarrow> json \<Rightarrow> plan_dict \<times> string list \<Rightarrow> ((plan_dict \<times> string list) \<times> registry_error list) res" where
  "plan_entry index entry = (\<lambda>(plans, paths).
     (case json_dict entry of
        None \<Rightarrow> Inr ((plans, paths), [Plan_not_object index])
      | Some d \<Rightarrow>
          (case json_str (json_get ''id'' d) of
             None \<Rightarrow> Inr ((plans, paths), [Bad_plan_id index (json_get ''id'' d)])
           | Some plan_id \<Rightarrow>
               if \<not> is_id plan_id
               then Inr ((plans, paths), [Bad_plan_id index (json_get ''id'' d)])
               else if has_key plan_id plans then Inr ((plans, paths), [Duplicate_plan plan_id])
               else if \<not> hashable (json_get ''status'' d) \<or> \<not> hashable (json_get ''priority'' d)
               then Inl (TypeError ''unhashable'')
               else (let (paths', es) = path_step plan_id (json_get ''path'' d) paths
                     in Inr ((dset plan_id d plans, paths'), es @ field_errors plan_id d)))))"

section \<open>References between plans\<close>

text \<open>\<open>for item in value\<close>; a string gives its characters, a table its keys\<close>

definition py_iter :: "json \<Rightarrow> json list res" where
  "py_iter v =
     (case v of
        JArr items \<Rightarrow> Inr items
      | JStr s \<Rightarrow> Inr (map JStr (decode_chars s))
      | JObj d \<Rightarrow> Inr (map (JStr \<circ> fst) d)
      | _ \<Rightarrow> Inl (TypeError ''not iterable''))"

text \<open>The items that are not keys; an unhashable item raises.\<close>

fun unknown_items :: "json list \<Rightarrow> string list \<Rightarrow> json list res" where
  "unknown_items [] names = Inr []"
| "unknown_items (v # vs) names =
     (if \<not> hashable v then Inl (TypeError ''unhashable'')
      else rbind (unknown_items vs names) (\<lambda>us. Inr (if one_of_names v names then us else v # us)))"

definition unknown_in :: "string \<Rightarrow> json_object \<Rightarrow> string list \<Rightarrow> json list res" where
  "unknown_in field d names = rbind (py_iter (dget_or field (JArr []) d)) (\<lambda>vs. unknown_items vs names)"

fun link_errors :: "string list \<Rightarrow> string list \<Rightarrow> plan_dict \<Rightarrow> registry_error list res" where
  "link_errors plan_ids evidence_ids [] = Inr []"
| "link_errors plan_ids evidence_ids ((plan_id, d) # rest) =
     rbind (unknown_in ''depends_on'' d plan_ids) (\<lambda>ds.
     rbind (unknown_in ''evidence'' d evidence_ids) (\<lambda>vs.
     rbind (link_errors plan_ids evidence_ids rest) (\<lambda>es.
       Inr (map (Unknown_dependency plan_id) ds @ map (Unknown_evidence plan_id) vs @ es))))"

text \<open>The graph that \<open>_cycle\<close> searches: only the strings among the dependencies can be plans.\<close>

definition graph_of :: "plan_dict \<Rightarrow> plan_graph" where
  "graph_of plans =
     map (\<lambda>(plan_id, d).
       (plan_id, case py_iter (dget_or ''depends_on'' (JArr []) d) of
                   Inl _ \<Rightarrow> [] | Inr vs \<Rightarrow> List.map_filter json_str vs)) plans"

definition cycle_errors :: "plan_dict \<Rightarrow> registry_error list" where
  "cycle_errors plans =
     (case find_cycle (graph_of plans) of Some (Some found) \<Rightarrow> [Dependency_cycle found] | _ \<Rightarrow> [])"

section \<open>Work in progress\<close>

definition with_status :: "string \<Rightarrow> plan_dict \<Rightarrow> plan_dict" where
  "with_status status plans = filter (\<lambda>(_, d). json_get ''status'' d = JStr status) plans"

definition not_P0 :: "plan_dict \<Rightarrow> string list" where
  "not_P0 plans = map fst (filter (\<lambda>(_, d). json_get ''priority'' d \<noteq> JStr ''P0'') plans)"

definition wip_errors :: "int \<Rightarrow> plan_dict \<Rightarrow> registry_error list" where
  "wip_errors maximum plans =
     (let active = with_status ''active'' plans
      in (if int (length active) > maximum then [Too_many_active maximum (map fst active)] else [])
         @ map Active_not_P0 (not_P0 active)
         @ map Pending_not_P0 (not_P0 (with_status ''decision-pending'' plans)))"

section \<open>The mirror in README.md\<close>

fun mirror_rows ::
    "nat \<Rightarrow> string list \<Rightarrow> (string, string \<times> string) dict
       \<Rightarrow> (string, string \<times> string) dict \<times> registry_error list" where
  "mirror_rows number [] rows = (rows, [])"
| "mirror_rows number (line # lines) rows =
     (case row_match line of
        None \<Rightarrow> mirror_rows (Suc number) lines rows
      | Some (path, status, priority) \<Rightarrow>
          if has_key path rows
          then (let (rows', es) = mirror_rows (Suc number) lines rows
                in (rows', Mirror_duplicate number path # es))
          else mirror_rows (Suc number) lines (dset path (status, priority) rows))"

text \<open>\<open>str(plan[field])\<close>\<close>

definition field_text :: "repo \<Rightarrow> string \<Rightarrow> json_object \<Rightarrow> string res" where
  "field_text r field d =
     (case dget field d of
        None \<Rightarrow> Inl (KeyError field)
      | Some v \<Rightarrow> Inr (case json_str v of Some s \<Rightarrow> s | None \<Rightarrow> shown r v))"

definition expected_row :: "repo \<Rightarrow> json_object \<Rightarrow> (string \<times> string \<times> string) res" where
  "expected_row r d =
     rbind (field_text r ''path'' d) (\<lambda>path.
     rbind (field_text r ''status'' d) (\<lambda>status.
       case dget status STATUS_LABELS of
         None \<Rightarrow> Inl (KeyError status)
       | Some label \<Rightarrow>
           rbind (field_text r ''priority'' d) (\<lambda>priority. Inr (path, label, priority))))"

definition drift :: "(string, string \<times> string) dict \<Rightarrow> string \<times> string \<times> string \<Rightarrow> registry_error list" where
  "drift rows = (\<lambda>(path, expected).
     if dget path rows \<noteq> Some expected then [Mirror_drift path expected (dget path rows)] else [])"

text \<open>\<open>sorted(a - b)\<close>\<close>

definition sorted_difference :: "string list \<Rightarrow> string list \<Rightarrow> string list" where
  "sorted_difference a b = sort (remdups (filter (\<lambda>x. x \<notin> set b) a))"

definition validate_markdown_mirror :: "repo \<Rightarrow> plan_dict \<Rightarrow> string \<Rightarrow> registry_error list res" where
  "validate_markdown_mirror r plans text =
     (let (rows, repeated) = mirror_rows 1 (text_lines text) []
      in rbind (rmap (\<lambda>(_, d). field_text r ''path'' d) plans) (\<lambda>expected_paths.
         rbind (rmap (\<lambda>(_, d). expected_row r d) plans) (\<lambda>expected.
           Inr (repeated
             @ map Mirror_missing (sorted_difference expected_paths (map fst rows))
             @ map Mirror_unregistered (sorted_difference (map fst rows) expected_paths)
             @ concat (map (drift rows) expected)))))"

section \<open>The checker\<close>

definition check_header :: "json_object \<Rightarrow> int \<times> registry_error list" where
  "check_header data =
     (let schema = json_get ''schema'' data;
          es = (if schema \<noteq> JStr SCHEMA then [Unsupported_schema schema] else [])
      in case json_int (json_get ''max_active_implementations'' data) of
           None \<Rightarrow> (0, es @ [Bad_maximum])
         | Some maximum \<Rightarrow> if maximum < 0 then (0, es @ [Bad_maximum]) else (maximum, es))"

definition entries_of :: "json \<Rightarrow> registry_error \<Rightarrow> json list \<times> registry_error list" where
  "entries_of v e = (case json_items v of None \<Rightarrow> ([], [e]) | Some items \<Rightarrow> (items, []))"

definition directory_errors :: "repo \<Rightarrow> string list \<Rightarrow> registry_error list" where
  "directory_errors r paths =
     (let markdown_plans =
            filter (\<lambda>name. name \<noteq> ''README.md'') (map fst (markdown_files (plan_dir r)))
      in map Unregistered_plan (sorted_difference markdown_plans paths)
         @ map Registered_plan_missing (sorted_difference paths markdown_plans))"

definition mirror_errors :: "repo \<Rightarrow> plan_dict \<Rightarrow> registry_error list res" where
  "mirror_errors r plans =
     (case readme r of
        None \<Rightarrow> Inr []
      | Some text \<Rightarrow> rbind text (\<lambda>t. validate_markdown_mirror r plans t))"

definition validate_registry :: "repo \<Rightarrow> bool \<Rightarrow> json_object \<Rightarrow> registry_error list res" where
  "validate_registry r check_language data =
     (let (maximum, header) = check_header data;
          (evidence_entries, no_evidence) = entries_of (json_get ''evidence'' data) Evidence_not_array;
          (plan_entries, no_plans) = entries_of (json_get ''plan'' data) Plan_not_array
      in rbind (scan_entries (evidence_entry r) 0 evidence_entries []) (\<lambda>(evidence, in_evidence).
         rbind (scan_entries plan_entry 0 plan_entries ([], [])) (\<lambda>((plans, paths), in_plans).
         rbind (link_errors (map fst plans) (map fst evidence) plans) (\<lambda>in_links.
         rbind (mirror_errors r plans) (\<lambda>in_mirror.
         rbind (if check_language then validate_plan_language (plan_dir r) else Inr []) (\<lambda>in_language.
           Inr (header @ no_evidence @ in_evidence @ no_plans @ in_plans @ directory_errors r paths
             @ in_links @ cycle_errors plans @ wip_errors maximum plans @ in_mirror
             @ map Language in_language)))))))"

text \<open>
  \<open>main\<close>: exit status 1 with the errors, or 0 with the active plans and the pending decisions.
\<close>

datatype registry_report = Rejected_with "registry_error list" | Passed_with "json list" "json list"

definition listed :: "string \<Rightarrow> json list \<Rightarrow> json list res" where
  "listed status entries =
     rbind (rmap (\<lambda>entry.
       (case json_dict entry of
          None \<Rightarrow> Inl (TypeError ''indices'')
        | Some d \<Rightarrow>
            (case dget ''status'' d of
               None \<Rightarrow> Inl (KeyError ''status'')
             | Some v \<Rightarrow>
                 if v \<noteq> JStr status then Inr None
                 else (case dget ''id'' d of None \<Rightarrow> Inl (KeyError ''id'') | Some i \<Rightarrow> Inr (Some i)))))
       entries) (\<lambda>ids. Inr (List.map_filter id ids))"

definition registry_main :: "repo \<Rightarrow> json_object \<Rightarrow> registry_report res" where
  "registry_main r data =
     rbind (validate_registry r True data) (\<lambda>errors.
       if errors \<noteq> [] then Inr (Rejected_with errors)
       else (case dget ''plan'' data of
          None \<Rightarrow> Inl (KeyError ''plan'')
        | Some v \<Rightarrow>
            (case json_items v of
               None \<Rightarrow> Inl (TypeError ''plan'')
             | Some entries \<Rightarrow>
                 rbind (listed ''active'' entries) (\<lambda>active.
                 rbind (listed ''decision-pending'' entries) (\<lambda>pending.
                   Inr (Passed_with active pending))))))"

end
