(* ===== verification/Plan_Accepted.thy ===== *)
theory Plan_Accepted
  imports Plan_Registry
begin

text \<open>
  What the checker of the plan registry accepts, stated on typed plans instead of TOML values,
  and the errors that it cannot report.
\<close>

section \<open>Typed plans\<close>

record plan =
  p_id :: string
  p_path :: string
  p_status :: string
  p_priority :: string
  p_owner :: string
  p_trigger :: string
  p_depends :: "string list"
  p_evidence :: "string list"

text \<open>The table of the document shows the plan.\<close>

definition shows_plan :: "json_object \<Rightarrow> plan \<Rightarrow> bool" where
  "shows_plan d p \<longleftrightarrow>
     json_get ''id'' d = JStr (p_id p) \<and> json_get ''path'' d = JStr (p_path p) \<and>
     json_get ''status'' d = JStr (p_status p) \<and> json_get ''priority'' d = JStr (p_priority p) \<and>
     json_get ''owner'' d = JStr (p_owner p) \<and> json_get ''trigger'' d = JStr (p_trigger p) \<and>
     json_get ''depends_on'' d = JArr (map JStr (p_depends p)) \<and>
     json_get ''evidence'' d = JArr (map JStr (p_evidence p))"

definition good_plan :: "plan \<Rightarrow> bool" where
  "good_plan p \<longleftrightarrow>
     is_id (p_id p) \<and> top_level_markdown (p_path p) \<and> p_status p \<in> fst ` set STATUS_LABELS \<and>
     p_priority p \<in> set PRIORITIES \<and> p_owner p \<noteq> [] \<and> p_trigger p \<noteq> [] \<and>
     p_id p \<notin> set (p_depends p) \<and>
     (p_status p = ''completed'' \<longleftrightarrow> p_priority p = ''Done'') \<and>
     (p_status p = ''completed'' \<longrightarrow> p_evidence p \<noteq> [])"

definition shows_evidence :: "json_object \<Rightarrow> string \<times> string \<Rightarrow> bool" where
  "shows_evidence d e \<longleftrightarrow> json_get ''id'' d = JStr (fst e) \<and> json_get ''path'' d = JStr (snd e)"

definition good_evidence :: "repo \<Rightarrow> string \<times> string \<Rightarrow> bool" where
  "good_evidence r e \<longleftrightarrow>
     is_id (fst e) \<and> snd e \<noteq> [] \<and>
     (\<exists>c. resolved r (snd e) = Inr c \<and> prefix (root_parts r) c \<and> is_file r c)"

text \<open>The document declares a limit, the evidence files and the plans.\<close>

definition declares :: "json_object \<Rightarrow> int \<Rightarrow> (string \<times> string) list \<Rightarrow> plan list \<Rightarrow> bool" where
  "declares data maximum evs ps \<longleftrightarrow>
     json_get ''schema'' data = JStr SCHEMA \<and>
     json_int (json_get ''max_active_implementations'' data) = Some maximum \<and>
     (\<exists>es. json_get ''evidence'' data = JArr es \<and> list_all2 (\<lambda>x e. \<exists>d. x = JObj d \<and> shows_evidence d e) es evs) \<and>
     (\<exists>dps. json_get ''plan'' data = JArr (map (JObj \<circ> fst) dps) \<and> (\<forall>(d, p)\<in>set dps. shows_plan d p) \<and> ps = map snd dps)"

text \<open>The names and references are right, and the dependencies can be ordered.\<close>

definition consistent :: "repo \<Rightarrow> (string \<times> string) list \<Rightarrow> plan list \<Rightarrow> bool" where
  "consistent r evs ps \<longleftrightarrow>
     (\<forall>e\<in>set evs. good_evidence r e) \<and> distinct (map fst evs) \<and>
     (\<forall>p\<in>set ps. good_plan p) \<and> distinct (map p_id ps) \<and> distinct (map p_path ps) \<and>
     (\<forall>p\<in>set ps. set (p_depends p) \<subseteq> p_id ` set ps \<and> set (p_evidence p) \<subseteq> fst ` set evs) \<and>
     acyclic {(p_id p, d) |p d. p \<in> set ps \<and> d \<in> set (p_depends p)}"

definition work_limited :: "int \<Rightarrow> plan list \<Rightarrow> bool" where
  "work_limited maximum ps \<longleftrightarrow>
     0 \<le> maximum \<and> int (length (filter (\<lambda>p. p_status p = ''active'') ps)) \<le> maximum \<and>
     (\<forall>p\<in>set ps. p_status p \<in> {''active'', ''decision-pending''} \<longrightarrow> p_priority p = ''P0'')"

definition mirrored_row :: "plan \<Rightarrow> string \<times> string \<times> string" where
  "mirrored_row p = (p_path p, the (dget (p_status p) STATUS_LABELS), p_priority p)"

text \<open>The directory and the table of \<open>README.md\<close> show the registered plans and no other.\<close>

definition documented :: "repo \<Rightarrow> plan list \<Rightarrow> bool" where
  "documented r ps \<longleftrightarrow>
     p_path ` set ps = {name. name \<in> fst ` set (plan_dir r) \<and> suffix ''.md'' name \<and> name \<noteq> ''README.md''} \<and>
     (case readme r of
        None \<Rightarrow> True
      | Some text \<Rightarrow>
          (\<exists>t. text = Inr t \<and>
             (let rows = List.map_filter row_match (text_lines t)
              in distinct (map fst rows) \<and> set rows = mirrored_row ` set ps)))"

section \<open>Helpers\<close>

lemma those_json_str: "those (map json_str vs) = Some xs \<longleftrightarrow> vs = map JStr xs"
  by (induction vs arbitrary: xs) (auto split: option.splits)

lemma strings_of_Some: "strings_of v = Some xs \<longleftrightarrow> v = JArr (map JStr xs)"
  by (auto simp: strings_of_def those_json_str bind_eq_Some_conv)

lemma strings_of_array [simp]: "strings_of (JArr (map JStr xs)) = Some xs"
  by (simp add: strings_of_Some)

lemma is_text_iff: "is_text v \<longleftrightarrow> (\<exists>s. s \<noteq> [] \<and> v = JStr s)"
  by (cases v) (auto simp: is_text_def)

lemma sorted_difference_Nil: "sorted_difference a b = [] \<longleftrightarrow> set a \<subseteq> set b"
proof -
  have "sorted_difference a b = [] \<longleftrightarrow> set (sorted_difference a b) = {}" by simp
  also have "\<dots> \<longleftrightarrow> set a \<subseteq> set b" unfolding sorted_difference_def set_sort set_remdups by auto
  finally show ?thesis .
qed

section \<open>The scans\<close>

lemma scan_entries_Nil:
  "scan_entries step k (x # xs) s = Inr (s', []) \<longleftrightarrow>
     (\<exists>s1. step k x s = Inr (s1, []) \<and> scan_entries step (Suc k) xs s1 = Inr (s', []))"
  by (auto simp: res_simps)

text \<open>
  A scan without an error adds one typed entry for each entry of the document; \<open>ok\<close> is the test
  of an entry against the state before it.
\<close>

fun all_added :: "('s \<Rightarrow> 'b \<Rightarrow> bool) \<Rightarrow> ('s \<Rightarrow> 'b \<Rightarrow> 's) \<Rightarrow> 's \<Rightarrow> 'b list \<Rightarrow> bool" where
  "all_added ok add s [] \<longleftrightarrow> True"
| "all_added ok add s (y # ys) \<longleftrightarrow> ok s y \<and> all_added ok add (add s y) ys"

lemma scan_entries_good:
  assumes step: "\<And>k x s s'. step k x s = Inr (s', []) \<longleftrightarrow> (\<exists>y. T x y \<and> ok s y \<and> s' = add s y)"
  shows "scan_entries step k xs s = Inr (s', []) \<longleftrightarrow>
     (\<exists>ys. list_all2 T xs ys \<and> all_added ok add s ys \<and> s' = foldl add s ys)"
proof (induction xs arbitrary: k s)
  case Nil
  then show ?case by auto
next
  case (Cons x xs)
  show ?case unfolding scan_entries_Nil step Cons.IH list_all2_Cons1 by force
qed

lemma evidence_entry_good:
  "evidence_entry r k x known = Inr (known', []) \<longleftrightarrow>
     (\<exists>e. (\<exists>d. x = JObj d \<and> shows_evidence d e) \<and> (good_evidence r e \<and> fst e \<notin> fst ` set known) \<and>
        known' = known @ [e])"
  (is "?l \<longleftrightarrow> ?r")
proof
  assume ?l
  then obtain d i p c where "x = JObj d" "json_get ''id'' d = JStr i" "json_get ''path'' d = JStr p"
    "is_id i" "\<not> has_key i known" "p \<noteq> []" "resolved r p = Inr c" "prefix (root_parts r) c" "is_file r c"
    "known' = dset i p known"
    by (auto simp: evidence_entry_def safe_repo_path_def res_simps split: option.splits if_splits)
  then show ?r
    by (intro exI [of _ "(i, p)"]) (simp add: shows_evidence_def good_evidence_def dset_fresh has_key_iff)
next
  assume ?r
  then show ?l
    by (auto simp: evidence_entry_def shows_evidence_def good_evidence_def safe_repo_path_def
        dset_fresh has_key_iff)
qed

lemma all_added_evidence:
  "all_added (\<lambda>known e. good_evidence r e \<and> fst e \<notin> fst ` set known) (\<lambda>known e. known @ [e]) known evs \<longleftrightarrow>
     (\<forall>e\<in>set evs. good_evidence r e) \<and> distinct (map fst evs) \<and> fst ` set evs \<inter> fst ` set known = {}"
  by (induction evs arbitrary: known) auto

lemma foldl_snoc: "foldl (\<lambda>s y. s @ [y]) s ys = s @ ys"
  by (induction ys arbitrary: s) auto

lemma scan_evidence:
  "scan_entries (evidence_entry r) k xs [] = Inr (evs, []) \<longleftrightarrow>
     list_all2 (\<lambda>x e. \<exists>d. x = JObj d \<and> shows_evidence d e) xs evs \<and>
     (\<forall>e\<in>set evs. good_evidence r e) \<and> distinct (map fst evs)"
  unfolding scan_entries_good [OF evidence_entry_good] foldl_snoc all_added_evidence by auto

text \<open>Plans: the state is the table of the plans and the list of their paths.\<close>

lemma field_errors_shown:
  assumes "json_get ''id'' d = JStr i" and "shows_plan d p" "good_plan p"
  shows "json_get ''path'' d = JStr (p_path p) \<and> top_level_markdown (p_path p) \<and> is_id i \<and>
    field_errors i d = []"
proof -
  have i: "p_id p = i" using assms(1,2) by (simp add: shows_plan_def)
  show ?thesis
    using assms(2,3) unfolding shows_plan_def good_plan_def i [symmetric]
    by (simp add: field_errors_def closure_errors_def Let_def one_of_names_iff is_text_iff)
qed

lemma field_errors_Nil:
  assumes "json_get ''id'' d = JStr i"
  shows "(\<exists>s. json_get ''path'' d = JStr s \<and> top_level_markdown s \<and> s \<notin> set paths) \<and> is_id i \<and>
      field_errors i d = [] \<longleftrightarrow>
    (\<exists>p. shows_plan d p \<and> good_plan p \<and> p_path p \<notin> set paths)"
  (is "?l \<longleftrightarrow> ?r")
proof
  assume l: ?l
  then obtain s st pr ow tr ds es where v: "json_get ''path'' d = JStr s" "json_get ''status'' d = JStr st"
    "json_get ''priority'' d = JStr pr" "json_get ''owner'' d = JStr ow" "json_get ''trigger'' d = JStr tr"
    "json_get ''depends_on'' d = JArr (map JStr ds)" "json_get ''evidence'' d = JArr (map JStr es)"
    by (auto simp: field_errors_def Let_def one_of_names_iff is_text_iff strings_of_Some split: if_splits)
  let ?p = "\<lparr>p_id = i, p_path = s, p_status = st, p_priority = pr, p_owner = ow, p_trigger = tr,
    p_depends = ds, p_evidence = es\<rparr>"
  from v assms l have "shows_plan d ?p" "good_plan ?p" "s \<notin> set paths"
    by (auto simp: shows_plan_def good_plan_def field_errors_def closure_errors_def one_of_names_iff
        is_text_iff split: if_splits)
  then show ?r by force
next
  assume ?r
  then obtain p where p: "shows_plan d p" "good_plan p" "p_path p \<notin> set paths" by blast
  with field_errors_shown [OF assms p(1,2)] show ?l by blast
qed

lemma plan_entry_good:
  "plan_entry k x s = Inr (s', []) \<longleftrightarrow>
     (\<exists>y. (x = JObj (fst y) \<and> shows_plan (fst y) (snd y)) \<and>
        (good_plan (snd y) \<and> p_id (snd y) \<notin> fst ` set (fst s) \<and> p_path (snd y) \<notin> set (snd s)) \<and>
        s' = (fst s @ [(p_id (snd y), fst y)], snd s @ [p_path (snd y)]))"
  (is "?l \<longleftrightarrow> ?r")
proof
  assume l: ?l
  obtain plans paths where s: "s = (plans, paths)" by (cases s)
  from l s obtain d i where x: "x = JObj d" "json_get ''id'' d = JStr i" "is_id i" "\<not> has_key i plans"
    and rest: "(case path_step i (json_get ''path'' d) paths of
        (paths', es) \<Rightarrow> Inr ((dset i d plans, paths'), es @ field_errors i d))
      = (Inr (s', []) :: (_ \<times> registry_error list) res)"
    by (auto simp: plan_entry_def split: option.splits if_splits)
  from rest have "snd (path_step i (json_get ''path'' d) paths) = []" "field_errors i d = []"
    "s' = (dset i d plans, fst (path_step i (json_get ''path'' d) paths))"
    by (auto split: prod.splits)
  then have "\<exists>s. json_get ''path'' d = JStr s \<and> top_level_markdown s \<and> s \<notin> set paths"
    "field_errors i d = []" "s' = (dset i d plans, fst (path_step i (json_get ''path'' d) paths))"
    by (auto simp: path_step_def split: option.splits if_splits)
  moreover from this field_errors_Nil [OF x(2), of paths] x(3) obtain p where
    p: "shows_plan d p" "good_plan p" "p_path p \<notin> set paths" by blast
  ultimately show ?r
    using x by (intro exI [of _ "(d, p)"])
      (auto simp: s shows_plan_def path_step_def dset_fresh has_key_iff)
next
  assume ?r
  then obtain d p where x: "x = JObj d" "shows_plan d p" and ok: "good_plan p" "p_id p \<notin> fst ` set (fst s)"
    "p_path p \<notin> set (snd s)" and s': "s' = (fst s @ [(p_id p, d)], snd s @ [p_path p])" by auto
  have id: "json_get ''id'' d = JStr (p_id p)" using x(2) by (simp add: shows_plan_def)
  from field_errors_Nil [OF id, of "snd s"] x(2) ok have "field_errors (p_id p) d = []" by blast
  then show ?l
    using x ok s' by (cases s) (auto simp: plan_entry_def path_step_def shows_plan_def good_plan_def
        dset_fresh has_key_iff)
qed

lemma all_added_plans:
  "all_added (\<lambda>s y. good_plan (snd y) \<and> p_id (snd y) \<notin> fst ` set (fst s) \<and> p_path (snd y) \<notin> set (snd s))
     (\<lambda>s y. (fst s @ [(p_id (snd y), fst y)], snd s @ [p_path (snd y)])) s ys \<longleftrightarrow>
   (\<forall>p\<in>set (map snd ys). good_plan p) \<and> distinct (map p_id (map snd ys)) \<and>
   distinct (map p_path (map snd ys)) \<and> p_id ` set (map snd ys) \<inter> fst ` set (fst s) = {} \<and>
   p_path ` set (map snd ys) \<inter> set (snd s) = {}"
  by (induction ys arbitrary: s) auto

lemma foldl_plans:
  "foldl (\<lambda>s y. (fst s @ [(p_id (snd y), fst y)], snd s @ [p_path (snd y)])) s ys =
     (fst s @ map (\<lambda>y. (p_id (snd y), fst y)) ys, snd s @ map (p_path \<circ> snd) ys)"
  by (induction ys arbitrary: s) auto

lemma scan_plans:
  "scan_entries plan_entry k xs ([], []) = Inr (s', []) \<longleftrightarrow>
     (\<exists>dps. xs = map (JObj \<circ> fst) dps \<and> (\<forall>(d, p)\<in>set dps. shows_plan d p) \<and>
        (\<forall>p\<in>set (map snd dps). good_plan p) \<and> distinct (map p_id (map snd dps)) \<and>
        distinct (map p_path (map snd dps)) \<and>
        s' = (map (\<lambda>(d, p). (p_id p, d)) dps, map (p_path \<circ> snd) dps))"
proof -
  have "list_all2 (\<lambda>x y. x = JObj (fst y) \<and> shows_plan (fst y) (snd y)) xs dps \<longleftrightarrow>
      xs = map (JObj \<circ> fst) dps \<and> (\<forall>(d, p)\<in>set dps. shows_plan d p)" for dps
    by (induction xs arbitrary: dps) (auto simp: list_all2_Cons1 Cons_eq_map_conv)
  then show ?thesis
    unfolding scan_entries_good [OF plan_entry_good] all_added_plans foldl_plans
    by (simp add: case_prod_unfold)
qed

section \<open>References\<close>

lemma unknown_items_strings:
  "unknown_items (map JStr xs) names = Inr (map JStr (filter (\<lambda>x. x \<notin> set names) xs))"
  by (induction xs) (auto simp: one_of_names_def)

lemma unknown_in_strings:
  "json_get field d = JArr (map JStr xs) \<Longrightarrow>
     unknown_in field d names = Inr (map JStr (filter (\<lambda>x. x \<notin> set names) xs))"
  by (simp add: unknown_in_def dget_or_of_get py_iter_def unknown_items_strings)

lemma link_errors_typed:
  "\<forall>(d, p)\<in>set dps. shows_plan d p \<Longrightarrow>
     \<exists>es. link_errors ids evs (map (\<lambda>(d, p). (p_id p, d)) dps) = Inr es \<and>
       (es = [] \<longleftrightarrow> (\<forall>p\<in>set (map snd dps). set (p_depends p) \<subseteq> set ids \<and> set (p_evidence p) \<subseteq> set evs))"
proof (induction dps)
  case (Cons x dps)
  obtain d p where x: "x = (d, p)" by (cases x)
  from Cons obtain es where es: "link_errors ids evs (map (\<lambda>(d, p). (p_id p, d)) dps) = Inr es"
    "es = [] \<longleftrightarrow> (\<forall>p\<in>set (map snd dps). set (p_depends p) \<subseteq> set ids \<and> set (p_evidence p) \<subseteq> set evs)"
    by auto
  from Cons.prems x have d: "json_get ''depends_on'' d = JArr (map JStr (p_depends p))"
    "json_get ''evidence'' d = JArr (map JStr (p_evidence p))" by (simp_all add: shows_plan_def)
  let ?new = "map (Unknown_dependency (p_id p)) (map JStr (filter (\<lambda>x. x \<notin> set ids) (p_depends p)))
    @ map (Unknown_evidence (p_id p)) (map JStr (filter (\<lambda>x. x \<notin> set evs) (p_evidence p)))"
  have "link_errors ids evs (map (\<lambda>(d, p). (p_id p, d)) (x # dps)) = Inr (?new @ es)"
    by (simp add: x es(1) unknown_in_strings [OF d(1)] unknown_in_strings [OF d(2)])
  moreover have "?new = [] \<longleftrightarrow> set (p_depends p) \<subseteq> set ids \<and> set (p_evidence p) \<subseteq> set evs"
    by (auto simp: filter_empty_conv)
  ultimately show ?case using es(2) by (auto simp: x)
qed simp

lemma graph_of_typed:
  assumes "\<forall>(d, p)\<in>set dps. shows_plan d p"
  shows "graph_of (map (\<lambda>(d, p). (p_id p, d)) dps) = map (\<lambda>p. (p_id p, p_depends p)) (map snd dps)"
proof -
  have m: "List.map_filter json_str (map JStr xs) = xs" for xs
    by (induction xs) (simp_all add: List.map_filter_simps)
  have "py_iter (dget_or ''depends_on'' (JArr []) d) = Inr (map JStr (p_depends p))"
    if "shows_plan d p" for d p
    using that by (auto simp: shows_plan_def py_iter_def dget_or_of_get)
  with assms m show ?thesis by (auto simp: graph_of_def)
qed

lemma edges_typed:
  assumes "distinct (map p_id ps)" and "\<forall>p\<in>set ps. set (p_depends p) \<subseteq> p_id ` set ps"
  shows "edges (map (\<lambda>p. (p_id p, p_depends p)) ps) = {(p_id p, d) |p d. p \<in> set ps \<and> d \<in> set (p_depends p)}"
proof -
  let ?g = "map (\<lambda>p. (p_id p, p_depends p)) ps"
  have get: "dget (p_id p) ?g = Some (p_depends p)" if "p \<in> set ps" for p
    using that assms(1) by (intro map_of_is_SomeI) (auto simp: comp_def)
  have keys: "has_key a ?g \<longleftrightarrow> a \<in> p_id ` set ps" for a by (auto simp: has_key_iff image_image)
  show ?thesis
    using assms(2) get by (auto simp: edges_def keys dependencies_def dget_or_def; fastforce)
qed

lemma link_errors_Nil:
  assumes "\<forall>(d, p)\<in>set dps. shows_plan d p"
  shows "link_errors ids evs (map (\<lambda>(d, p). (p_id p, d)) dps) = Inr [] \<longleftrightarrow>
    (\<forall>p\<in>set (map snd dps). set (p_depends p) \<subseteq> set ids \<and> set (p_evidence p) \<subseteq> set evs)"
  using link_errors_typed [OF assms, of ids evs] by fastforce

lemma cycle_errors_Nil: "cycle_errors plans = [] \<longleftrightarrow> acyclic (edges (graph_of plans))"
  using find_cycle_right [of "graph_of plans"] by (auto simp: cycle_errors_def split: option.splits)

section \<open>Work, directory and mirror\<close>

lemma filter_typed:
  "\<forall>(d, p)\<in>set dps. shows_plan d p \<Longrightarrow>
     with_status st (map (\<lambda>(d, p). (p_id p, d)) dps)
       = map (\<lambda>(d, p). (p_id p, d)) (filter (\<lambda>(d, p). p_status p = st) dps)"
  by (induction dps) (auto simp: with_status_def shows_plan_def)

lemma not_P0_typed:
  "\<forall>(d, p)\<in>set dps. shows_plan d p \<Longrightarrow>
     not_P0 (map (\<lambda>(d, p). (p_id p, d)) dps) = map p_id (filter (\<lambda>p. p_priority p \<noteq> ''P0'') (map snd dps))"
  by (induction dps) (auto simp: not_P0_def shows_plan_def)

lemma wip_errors_Nil:
  assumes "\<forall>(d, p)\<in>set dps. shows_plan d p" and "0 \<le> maximum"
  shows "wip_errors maximum (map (\<lambda>(d, p). (p_id p, d)) dps) = [] \<longleftrightarrow> work_limited maximum (map snd dps)"
proof -
  have some: "\<forall>(d, p)\<in>set (filter (\<lambda>(d, p). p_status p = st) dps). shows_plan d p" for st
    using assms(1) by auto
  show ?thesis
    unfolding wip_errors_def Let_def filter_typed [OF assms(1)] not_P0_typed [OF some]
    using assms(2) by (auto simp: work_limited_def filter_map comp_def case_prod_unfold filter_empty_conv)
qed

lemma markdown_names: "set (map fst (markdown_files es)) = {name. name \<in> fst ` set es \<and> suffix ''.md'' name}"
  by (auto simp: markdown_files_def image_iff)

lemma directory_errors_Nil:
  "directory_errors r paths = [] \<longleftrightarrow>
     set paths = {name. name \<in> fst ` set (plan_dir r) \<and> suffix ''.md'' name \<and> name \<noteq> ''README.md''}"
  using markdown_names [of "plan_dir r"]
  by (auto simp: directory_errors_def Let_def sorted_difference_Nil simp del: set_map)

lemma mirror_rows_eq:
  "mirror_rows k lines rows = (rows', []) \<longleftrightarrow>
     rows' = rows @ List.map_filter row_match lines \<and> distinct (map fst (List.map_filter row_match lines)) \<and>
     fst ` set (List.map_filter row_match lines) \<inter> fst ` set rows = {}"
proof (induction k lines rows rule: mirror_rows.induct)
  case (1 number rows)
  then show ?case by (auto simp: List.map_filter_def)
next
  case (2 number line lines rows)
  show ?case
  proof (cases "row_match line")
    case None
    with 2 show ?thesis by (simp add: List.map_filter_simps)
  next
    case (Some m)
    obtain path status priority where m: "m = (path, status, priority)" by (cases m)
    show ?thesis
    proof (cases "has_key path rows")
      case True
      with Some m show ?thesis
        by (auto simp: List.map_filter_simps has_key_iff split: prod.splits)
    next
      case False
      with 2 Some m show ?thesis
        by (auto simp: List.map_filter_simps dset_fresh has_key_iff)
    qed
  qed
qed

lemma rmap_total: "\<forall>x\<in>set xs. f x = Inr (g x) \<Longrightarrow> rmap f xs = Inr (map g xs)"
  by (induction xs) auto

lemma expected_row_typed:
  "shows_plan d p \<Longrightarrow> good_plan p \<Longrightarrow>
     field_text r ''path'' d = Inr (p_path p) \<and> expected_row r d = Inr (mirrored_row p)"
  by (auto simp: shows_plan_def good_plan_def expected_row_def field_text_def mirrored_row_def
      dget_of_get map_of_eq_None_iff split: option.splits)

lemma rows_agree:
  assumes "distinct (map fst rows)" and "fst ` set rows = fst ` E"
  shows "(\<forall>e\<in>E. dget (fst e) rows = Some (snd e)) \<longleftrightarrow> set rows = E"
proof
  assume l: "\<forall>e\<in>E. dget (fst e) rows = Some (snd e)"
  then have "E \<subseteq> set rows" by (force dest: map_of_SomeD)
  moreover have "e \<in> E" if e: "e \<in> set rows" for e
  proof -
    from e assms(2) obtain e' where e': "e' \<in> E" "fst e' = fst e" by (metis imageE image_eqI)
    with l e assms(1) have "snd e' = snd e" by (metis map_of_is_SomeI option.inject prod.collapse)
    with e' show "e \<in> E" by (metis prod.collapse)
  qed
  ultimately show "set rows = E" by blast
next
  assume "set rows = E"
  with assms(1) show "\<forall>e\<in>E. dget (fst e) rows = Some (snd e)" by (auto intro: map_of_is_SomeI)
qed

lemma no_errors:
  "(Inr (a @ map f x @ map g y @ concat z) = (Inr [] :: 'e list res)) \<longleftrightarrow>
     a = [] \<and> x = [] \<and> y = [] \<and> (\<forall>e\<in>set z. e = [])"
  by auto

lemma validate_markdown_mirror_Nil:
  assumes "\<forall>(d, p)\<in>set dps. shows_plan d p" and "\<forall>p\<in>set (map snd dps). good_plan p"
  shows "validate_markdown_mirror r (map (\<lambda>(d, p). (p_id p, d)) dps) text = Inr [] \<longleftrightarrow>
    (let rows = List.map_filter row_match (text_lines text)
     in distinct (map fst rows) \<and> set rows = mirrored_row ` set (map snd dps))"
proof -
  let ?plans = "map (\<lambda>(d, p). (p_id p, d)) dps" and ?ps = "map snd dps"
  let ?rows = "List.map_filter row_match (text_lines text)"
  obtain rows repeated where m: "mirror_rows 1 (text_lines text) [] = (rows, repeated)"
    by (cases "mirror_rows 1 (text_lines text) []")
  have paths: "rmap (\<lambda>(_, d). field_text r ''path'' d) ?plans = Inr (map p_path ?ps)"
    using assms expected_row_typed
    by (subst rmap_total [where g = "\<lambda>(i, d). case field_text r ''path'' d of Inr t \<Rightarrow> t"])
      (fastforce simp: comp_def case_prod_unfold)+
  have expected: "rmap (\<lambda>(_, d). expected_row r d) ?plans = Inr (map mirrored_row ?ps)"
    using assms expected_row_typed
    by (subst rmap_total [where g = "\<lambda>(i, d). case expected_row r d of Inr t \<Rightarrow> t"])
      (fastforce simp: comp_def case_prod_unfold)+
  have fst_row: "fst ` mirrored_row ` set ?ps = p_path ` set ?ps"
    by (auto simp: mirrored_row_def image_image)
  have "validate_markdown_mirror r ?plans text = Inr (repeated
      @ map Mirror_missing (sorted_difference (map p_path ?ps) (map fst rows))
      @ map Mirror_unregistered (sorted_difference (map fst rows) (map p_path ?ps))
      @ concat (map (drift rows) (map mirrored_row ?ps)))"
    by (simp only: validate_markdown_mirror_def m paths expected Let_def prod.case rbind_simps)
  then have "validate_markdown_mirror r ?plans text = Inr [] \<longleftrightarrow>
      repeated = [] \<and> sorted_difference (map p_path ?ps) (map fst rows) = [] \<and>
      sorted_difference (map fst rows) (map p_path ?ps) = [] \<and>
      (\<forall>p\<in>set ?ps. drift rows (mirrored_row p) = [])"
    by (simp only: no_errors) simp
  then have "validate_markdown_mirror r ?plans text = Inr [] \<longleftrightarrow>
      repeated = [] \<and> p_path ` set ?ps = fst ` set rows \<and>
      (\<forall>p\<in>set ?ps. drift rows (mirrored_row p) = [])"
    unfolding sorted_difference_Nil set_map by blast
  then have "validate_markdown_mirror r ?plans text = Inr [] \<longleftrightarrow>
      repeated = [] \<and> p_path ` set ?ps = fst ` set rows \<and>
      (\<forall>e\<in>mirrored_row ` set ?ps. dget (fst e) rows = Some (snd e))"
    by (simp add: drift_def case_prod_unfold)
  also have "\<dots> \<longleftrightarrow> repeated = [] \<and> distinct (map fst ?rows) \<and> set ?rows = mirrored_row ` set ?ps"
  proof (cases "repeated = []")
    case True
    with m mirror_rows_eq [of 1 "text_lines text" "[]" rows] have
      r: "rows = ?rows" "distinct (map fst ?rows)" by auto
    show ?thesis unfolding r(1) using True r(2) rows_agree [OF r(2), of "mirrored_row ` set ?ps"] fst_row
      by metis
  qed simp
  also have "\<dots> \<longleftrightarrow> distinct (map fst ?rows) \<and> set ?rows = mirrored_row ` set ?ps"
    using m mirror_rows_eq [of 1 "text_lines text" "[]" ?rows] by auto
  finally show ?thesis by (simp add: Let_def)
qed

lemma mirror_errors_Nil:
  assumes "\<forall>(d, p)\<in>set dps. shows_plan d p" and "\<forall>p\<in>set (map snd dps). good_plan p"
  shows "mirror_errors r (map (\<lambda>(d, p). (p_id p, d)) dps) = Inr [] \<and>
      directory_errors r (map (p_path \<circ> snd) dps) = [] \<longleftrightarrow> documented r (map snd dps)"
  unfolding mirror_errors_def documented_def directory_errors_Nil
  by (auto simp: validate_markdown_mirror_Nil [OF assms] image_image res_simps Let_def split: option.splits)

section \<open>What is accepted\<close>

definition accepts :: "repo \<Rightarrow> bool \<Rightarrow> json_object \<Rightarrow> plan list \<Rightarrow> bool" where
  "accepts r check_language data ps \<longleftrightarrow>
     (\<exists>maximum evs. declares data maximum evs ps \<and> consistent r evs ps \<and> work_limited maximum ps) \<and>
     documented r ps \<and> (check_language \<longrightarrow> validate_plan_language (plan_dir r) = Inr [])"

lemma check_header_Nil:
  "check_header data = (m, []) \<longleftrightarrow>
     json_get ''schema'' data = JStr SCHEMA \<and>
     json_int (json_get ''max_active_implementations'' data) = Some m \<and> 0 \<le> m"
  by (auto simp: check_header_def Let_def split: option.splits)

lemma entries_of_Nil: "entries_of v e = (xs, []) \<longleftrightarrow> v = JArr xs"
  by (auto simp: entries_of_def split: option.splits)

text \<open>The whole function, all lists of errors being empty\<close>

lemma validate_registry_Nil:
  "validate_registry r check_language data = Inr [] \<longleftrightarrow>
     (\<exists>maximum es xs evidence plans paths.
        check_header data = (maximum, []) \<and>
        entries_of (json_get ''evidence'' data) Evidence_not_array = (es, []) \<and>
        entries_of (json_get ''plan'' data) Plan_not_array = (xs, []) \<and>
        scan_entries (evidence_entry r) 0 es [] = Inr (evidence, []) \<and>
        scan_entries plan_entry 0 xs ([], []) = Inr ((plans, paths), []) \<and>
        directory_errors r paths = [] \<and>
        link_errors (map fst plans) (map fst evidence) plans = Inr [] \<and>
        cycle_errors plans = [] \<and> wip_errors maximum plans = [] \<and>
        mirror_errors r plans = Inr [] \<and>
        (check_language \<longrightarrow> validate_plan_language (plan_dir r) = Inr []))"
  by (cases "check_header data"; cases "entries_of (json_get ''evidence'' data) Evidence_not_array";
      cases "entries_of (json_get ''plan'' data) Plan_not_array")
    (auto simp: validate_registry_def res_simps)

lemma references_checked:
  assumes "\<forall>(d, p)\<in>set dps. shows_plan d p" and "distinct (map p_id (map snd dps))"
  shows "link_errors (map fst (map (\<lambda>(d, p). (p_id p, d)) dps)) evs (map (\<lambda>(d, p). (p_id p, d)) dps) = Inr [] \<and>
      cycle_errors (map (\<lambda>(d, p). (p_id p, d)) dps) = [] \<longleftrightarrow>
    (\<forall>p\<in>set (map snd dps). set (p_depends p) \<subseteq> p_id ` set (map snd dps) \<and> set (p_evidence p) \<subseteq> set evs) \<and>
    acyclic {(p_id p, d) |p d. p \<in> set (map snd dps) \<and> d \<in> set (p_depends p)}"
proof -
  let ?ps = "map snd dps"
  have ids: "map fst (map (\<lambda>(d, p). (p_id p, d)) dps) = map p_id ?ps" by (simp add: case_prod_unfold comp_def)
  have "acyclic (edges (graph_of (map (\<lambda>(d, p). (p_id p, d)) dps))) \<longleftrightarrow>
      acyclic {(p_id p, d) |p d. p \<in> set ?ps \<and> d \<in> set (p_depends p)}"
    if "\<forall>p\<in>set ?ps. set (p_depends p) \<subseteq> p_id ` set ?ps"
    unfolding graph_of_typed [OF assms(1)] edges_typed [OF assms(2) that] by (rule refl)
  then show ?thesis
    unfolding ids link_errors_Nil [OF assms(1)] cycle_errors_Nil set_map [of p_id ?ps] by blast
qed

lemma validate_registry_accepts:
  "validate_registry r check_language data = Inr [] \<longleftrightarrow> (\<exists>ps. accepts r check_language data ps)"
  (is "?l \<longleftrightarrow> ?r")
proof
  assume ?l
  then obtain maximum es xs evidence plans paths where h:
    "check_header data = (maximum, [])" "json_get ''evidence'' data = JArr es"
    "json_get ''plan'' data = JArr xs" "scan_entries (evidence_entry r) 0 es [] = Inr (evidence, [])"
    "scan_entries plan_entry 0 xs ([], []) = Inr ((plans, paths), [])"
    and rest: "directory_errors r paths = []" "link_errors (map fst plans) (map fst evidence) plans = Inr []"
    "cycle_errors plans = []" "wip_errors maximum plans = []" "mirror_errors r plans = Inr []"
    "check_language \<longrightarrow> validate_plan_language (plan_dir r) = Inr []"
    unfolding validate_registry_Nil entries_of_Nil by blast
  from h(5) obtain dps where xs: "xs = map (JObj \<circ> fst) dps" and typed: "\<forall>(d, p)\<in>set dps. shows_plan d p"
    and good: "\<forall>p\<in>set (map snd dps). good_plan p"
    and dist: "distinct (map p_id (map snd dps))" "distinct (map p_path (map snd dps))"
    and tab: "plans = map (\<lambda>(d, p). (p_id p, d)) dps" "paths = map (p_path \<circ> snd) dps"
    unfolding scan_plans by blast
  let ?ps = "map snd dps"
  from h(4) have ev: "list_all2 (\<lambda>x e. \<exists>d. x = JObj d \<and> shows_evidence d e) es evidence"
    "\<forall>e\<in>set evidence. good_evidence r e" "distinct (map fst evidence)"
    unfolding scan_evidence by blast+
  have c: "consistent r evidence ?ps"
    using references_checked [OF typed dist(1), of "map fst evidence"] rest(2,3) ev good dist
    unfolding tab(1) consistent_def by simp
  have d: "declares data maximum evidence ?ps"
    using h(1-3) xs typed ev(1) unfolding declares_def check_header_Nil by auto
  have "work_limited maximum ?ps"
    using rest(4) wip_errors_Nil [OF typed, of maximum] h(1) tab(1) by (simp add: check_header_Nil)
  moreover have "documented r ?ps" using mirror_errors_Nil [OF typed good, of r] rest(1,5) tab by simp
  ultimately show ?r using c d rest(6) unfolding accepts_def by blast
next
  assume ?r
  then obtain ps maximum evs where a: "declares data maximum evs ps" "consistent r evs ps"
    "work_limited maximum ps" "documented r ps" "check_language \<longrightarrow> validate_plan_language (plan_dir r) = Inr []"
    unfolding accepts_def by blast
  from a(1) obtain es dps where d: "json_get ''schema'' data = JStr SCHEMA"
    "json_int (json_get ''max_active_implementations'' data) = Some maximum"
    "json_get ''evidence'' data = JArr es" "list_all2 (\<lambda>x e. \<exists>d. x = JObj d \<and> shows_evidence d e) es evs"
    "json_get ''plan'' data = JArr (map (JObj \<circ> fst) dps)" and typed: "\<forall>(d, p)\<in>set dps. shows_plan d p"
    and ps: "ps = map snd dps" unfolding declares_def by blast
  let ?plans = "map (\<lambda>(d, p). (p_id p, d)) dps" and ?paths = "map (p_path \<circ> snd) dps"
  from a(2) have good: "\<forall>p\<in>set (map snd dps). good_plan p"
    and dist: "distinct (map p_id (map snd dps))" "distinct (map p_path (map snd dps))"
    unfolding consistent_def ps by blast+
  have "scan_entries plan_entry 0 (map (JObj \<circ> fst) dps) ([], []) = Inr ((?plans, ?paths), [])"
    unfolding scan_plans using typed good dist by blast
  moreover have "scan_entries (evidence_entry r) 0 es [] = Inr (evs, [])"
    using d(4) a(2) unfolding scan_evidence consistent_def by blast
  moreover have "check_header data = (maximum, [])"
    using d(1,2) a(3) unfolding check_header_Nil work_limited_def by blast
  moreover have "link_errors (map fst ?plans) (map fst evs) ?plans = Inr [] \<and> cycle_errors ?plans = []"
    using a(2) unfolding references_checked [OF typed dist(1)] consistent_def ps by simp
  moreover have "wip_errors maximum ?plans = []"
    using a(3) wip_errors_Nil [OF typed, of maximum] unfolding ps by (simp add: work_limited_def)
  moreover have "mirror_errors r ?plans = Inr [] \<and> directory_errors r ?paths = []"
    using a(4) unfolding mirror_errors_Nil [OF typed good] ps .
  ultimately show ?l unfolding validate_registry_Nil entries_of_Nil using d(3,5) a(5) by blast
qed

section \<open>The command\<close>

lemma listed_typed:
  "\<forall>(d, p)\<in>set dps. shows_plan d p \<Longrightarrow>
     listed st (map (JObj \<circ> fst) dps) = Inr (map (JStr \<circ> p_id) (filter (\<lambda>p. p_status p = st) (map snd dps)))"
proof (induction dps)
  case Nil
  then show ?case by (simp add: listed_def List.map_filter_simps)
next
  case (Cons x dps)
  obtain d p where x: "x = (d, p)" by (cases x)
  with Cons.prems have "dget ''status'' d = Some (JStr (p_status p))" "dget ''id'' d = Some (JStr (p_id p))"
    by (simp_all add: shows_plan_def dget_of_get)
  with Cons x show ?case by (auto simp: listed_def res_simps List.map_filter_simps)
qed

lemma accepts_listed:
  assumes "accepts r True data ps"
  obtains xs where "dget ''plan'' data = Some (JArr xs)"
    "\<And>st. listed st xs = Inr (map (JStr \<circ> p_id) (filter (\<lambda>p. p_status p = st) ps))"
proof -
  from assms obtain dps where "json_get ''plan'' data = JArr (map (JObj \<circ> fst) dps)"
    "\<forall>(d, p)\<in>set dps. shows_plan d p" "ps = map snd dps" unfolding accepts_def declares_def by blast
  then have "dget ''plan'' data = Some (JArr (map (JObj \<circ> fst) dps))"
    "listed st (map (JObj \<circ> fst) dps) = Inr (map (JStr \<circ> p_id) (filter (\<lambda>p. p_status p = st) ps))" for st
    using listed_typed by (simp_all add: dget_of_get)
  then show thesis by (rule that)
qed

text \<open>
  C20: What the plan registry check passes, and what it then prints.  \<open>main\<close> exits with status 0
  exactly if the document declares, with every field of the right type, a limit, evidence files
  that exist inside the repository, and plans with distinct identifiers and paths, whose
  references are known, whose dependencies are acyclic, which are complete exactly if they have
  the priority \<open>Done\<close>, and of which no more are active than the limit says, all of them with
  priority \<open>P0\<close>; the directory and the table of \<open>README.md\<close> show these plans and no other, each
  once.  It lists the active plans and the pending decisions.
\<close>

theorem registry_main_passes:
  "registry_main r data = Inr (Passed_with active pending) \<longleftrightarrow>
     (\<exists>ps. accepts r True data ps \<and>
        active = map (JStr \<circ> p_id) (filter (\<lambda>p. p_status p = ''active'') ps) \<and>
        pending = map (JStr \<circ> p_id) (filter (\<lambda>p. p_status p = ''decision-pending'') ps))"
  (is "?l \<longleftrightarrow> ?r")
proof
  assume l: ?l
  then have "validate_registry r True data = Inr []"
    by (auto simp: registry_main_def res_simps split: if_splits)
  then obtain ps where ps: "accepts r True data ps" unfolding validate_registry_accepts by blast
  then obtain xs where "dget ''plan'' data = Some (JArr xs)"
    "\<And>st. listed st xs = Inr (map (JStr \<circ> p_id) (filter (\<lambda>p. p_status p = st) ps))" by (metis accepts_listed)
  with l \<open>validate_registry r True data = Inr []\<close> ps show ?r
    by (auto simp: registry_main_def)
next
  assume ?r
  then obtain ps where ps: "accepts r True data ps"
    "active = map (JStr \<circ> p_id) (filter (\<lambda>p. p_status p = ''active'') ps)"
    "pending = map (JStr \<circ> p_id) (filter (\<lambda>p. p_status p = ''decision-pending'') ps)" by blast
  then have "validate_registry r True data = Inr []" unfolding validate_registry_accepts by blast
  moreover from ps(1) obtain xs where "dget ''plan'' data = Some (JArr xs)"
    "\<And>st. listed st xs = Inr (map (JStr \<circ> p_id) (filter (\<lambda>p. p_status p = st) ps))" by (metis accepts_listed)
  ultimately show ?l using ps(2,3) by (simp add: registry_main_def)
qed

section \<open>An error that is never reported\<close>

lemma plan_entry_keeps:
  "plan_entry k x s = Inr (s', es) \<Longrightarrow> dget i (fst s) = Some d \<Longrightarrow> dget i (fst s') = Some d"
  by (cases s) (auto simp: plan_entry_def has_key_def split: option.splits if_splits prod.splits)

lemma scan_plans_keeps:
  "scan_entries plan_entry k xs s = Inr (s', es) \<Longrightarrow> dget i (fst s) = Some d \<Longrightarrow> dget i (fst s') = Some d"
  by (induction xs arbitrary: k s es) (auto simp: res_simps dest: plan_entry_keeps)

lemma bad_status_in_fields:
  "Bad_status i v \<in> set (field_errors j d) \<longleftrightarrow>
     i = j \<and> v = json_get ''status'' d \<and> \<not> one_of_names v (map fst STATUS_LABELS)"
  by (auto simp: field_errors_def closure_errors_def Let_def)

lemma bad_status_in_path: "Bad_status i v \<notin> set (snd (path_step j w paths))"
  by (auto simp: path_step_def split: option.splits)

lemma plan_entry_bad_status:
  assumes e: "plan_entry k x s = Inr (s', es)" and bad: "Bad_status i v \<in> set es"
  shows "\<exists>d. dget i (fst s') = Some d \<and> json_get ''status'' d = v \<and> \<not> one_of_names v (map fst STATUS_LABELS)"
proof -
  obtain plans paths where s: "s = (plans, paths)" by (cases s)
  obtain d j p' e' where d: "path_step j (json_get ''path'' d) paths = (p', e')" "es = e' @ field_errors j d"
    "fst s' = dset j d plans"
    using e bad unfolding s plan_entry_def
    by (auto split: option.splits if_splits prod.splits)
  with bad bad_status_in_path [of i v j "json_get ''path'' d" paths] have
    "Bad_status i v \<in> set (field_errors j d)" by simp
  then have "i = j" "v = json_get ''status'' d" "\<not> one_of_names v (map fst STATUS_LABELS)"
    unfolding bad_status_in_fields by blast+
  with d(3) show ?thesis by auto
qed

lemma scan_plans_bad_status:
  "scan_entries plan_entry k xs s = Inr (s', es) \<Longrightarrow> Bad_status i v \<in> set es \<Longrightarrow>
     \<exists>d. dget i (fst s') = Some d \<and> json_get ''status'' d = v \<and> \<not> one_of_names v (map fst STATUS_LABELS)"
proof (induction xs arbitrary: k s es)
  case (Cons x xs)
  then obtain s1 es1 es2 where one: "plan_entry k x s = Inr (s1, es1)"
    and more: "scan_entries plan_entry (Suc k) xs s1 = Inr (s', es2)" and es: "es = es1 @ es2"
    by (auto simp: res_simps)
  show ?case
  proof (cases "Bad_status i v \<in> set es1")
    case True
    from plan_entry_bad_status [OF one this] scan_plans_keeps [OF more] show ?thesis by blast
  next
    case False
    with Cons.prems es more Cons.IH show ?thesis by auto
  qed
qed simp

lemma evidence_entry_bad_status:
  "evidence_entry r k x s = Inr (s', es) \<Longrightarrow> Bad_status i v \<notin> set es"
  by (auto simp: evidence_entry_def res_simps split: option.splits if_splits)

lemma scan_evidence_bad_status:
  "scan_entries (evidence_entry r) k xs s = Inr (s', es) \<Longrightarrow> Bad_status i v \<notin> set es"
  by (induction xs arbitrary: k s es) (auto simp: res_simps dest: evidence_entry_bad_status)

lemma link_errors_bad_status: "link_errors ids evs plans = Inr es \<Longrightarrow> Bad_status i v \<notin> set es"
  by (induction ids evs plans arbitrary: es rule: link_errors.induct) (auto simp: res_simps)

lemma mirror_rows_bad_status: "Bad_status i v \<notin> set (snd (mirror_rows k lines rows))"
  by (induction lines arbitrary: k rows) (simp_all add: case_prod_unfold Let_def split: option.split)

lemma drift_bad_status: "Bad_status i v \<notin> set (drift rows e)"
  by (auto simp: drift_def split: prod.splits)

lemma mirror_bad_status: "validate_markdown_mirror r plans text = Inr es \<Longrightarrow> Bad_status i v \<notin> set es"
  using mirror_rows_bad_status [of i v 1 "text_lines text" "[]"]
  by (auto simp: validate_markdown_mirror_def res_simps drift_bad_status split: prod.splits)

text \<open>The mirror looks up the label of the status of every plan.\<close>

lemma mirror_knows_status:
  assumes "validate_markdown_mirror r plans text = Inr es" and "dget i plans = Some d"
    and "json_get ''status'' d = JStr s"
  shows "s \<in> fst ` set STATUS_LABELS"
proof -
  from assms(1) obtain ys where "rmap (\<lambda>(_, d). expected_row r d) plans = Inr ys"
    by (auto simp: validate_markdown_mirror_def res_simps split: prod.splits)
  from rmap_of [OF this map_of_SomeD [OF assms(2)]] obtain y where "expected_row r d = Inr y" by auto
  with assms(3) have "dget s STATUS_LABELS \<noteq> None"
    by (auto simp: expected_row_def field_text_def dget_of_get res_simps split: option.splits)
  then show ?thesis by (simp add: map_of_eq_None_iff)
qed

text \<open>
  An unknown status is never reported.  When the mirror is checked, as \<open>main\<close> does, a result
  of the checker contains no error that a status is not one of the known ones: for such a status
  the mirror raises a \<open>KeyError\<close>, and the errors that were collected are lost.
\<close>

theorem registry_never_reports_status:
  assumes "validate_registry r check_language data = Inr errors" and "readme r = Some text"
  shows "Bad_status plan_id (JStr s) \<notin> set errors"
proof
  assume bad: "Bad_status plan_id (JStr s) \<in> set errors"
  obtain m h e1 n1 e2 n2 where c: "check_header data = (m, h)"
    "entries_of (json_get ''evidence'' data) Evidence_not_array = (e1, n1)"
    "entries_of (json_get ''plan'' data) Plan_not_array = (e2, n2)" by (metis surj_pair)
  from assms(1) obtain evidence x1 plans paths x2 x3 x4 x5 where
    e: "scan_entries (evidence_entry r) 0 e1 [] = Inr (evidence, x1)"
    and p: "scan_entries plan_entry 0 e2 ([], []) = Inr ((plans, paths), x2)"
    and l: "link_errors (map fst plans) (map fst evidence) plans = Inr x3"
    and mi: "mirror_errors r plans = Inr x4"
    and errors: "errors = h @ n1 @ x1 @ n2 @ x2 @ directory_errors r paths @ x3 @ cycle_errors plans
      @ wip_errors m plans @ x4 @ map Language x5"
    by (auto simp: validate_registry_def c res_simps)
  from mi assms(2) obtain t where t: "validate_markdown_mirror r plans t = Inr x4"
    by (auto simp: mirror_errors_def res_simps)
  have "Bad_status plan_id (JStr s) \<notin> set h \<union> set n1 \<union> set n2"
    using c by (auto simp: check_header_def entries_of_def Let_def split: option.splits if_splits)
  moreover have "Bad_status plan_id (JStr s) \<notin> set (directory_errors r paths)"
    "Bad_status plan_id (JStr s) \<notin> set (wip_errors m plans)"
    "Bad_status plan_id (JStr s) \<notin> set (cycle_errors plans)"
    by (auto simp: directory_errors_def wip_errors_def Let_def cycle_errors_def split: option.splits)
  ultimately have "Bad_status plan_id (JStr s) \<in> set x2"
    using bad scan_evidence_bad_status [OF e] link_errors_bad_status [OF l] mirror_bad_status [OF t]
    by (auto simp: errors)
  from scan_plans_bad_status [OF p this] obtain d where "dget plan_id plans = Some d"
    "json_get ''status'' d = JStr s" "\<not> one_of_names (JStr s) (map fst STATUS_LABELS)" by auto
  with mirror_knows_status [OF t this(1,2)] show False by (auto simp: one_of_names_def)
qed

section \<open>A registry\<close>

definition demo_entry :: "string \<Rightarrow> string \<Rightarrow> string \<Rightarrow> string list \<Rightarrow> json" where
  "demo_entry name status priority deps =
     JObj [(''id'', JStr name), (''path'', JStr (name @ ''.md'')), (''status'', JStr status),
           (''priority'', JStr priority), (''owner'', JStr ''o''), (''trigger'', JStr ''t''),
           (''depends_on'', JArr (map JStr deps)), (''evidence'', JArr [])]"

definition demo_registry :: "string \<Rightarrow> json_object" where
  "demo_registry status =
     [(''schema'', JStr SCHEMA), (''max_active_implementations'', JInt 1), (''evidence'', JArr []),
      (''plan'', JArr [demo_entry ''a'' ''active'' ''P0'' [''b''], demo_entry ''b'' status ''P1'' []])]"

definition demo_readme :: string where
  "demo_readme =
     ''| [A](a.md) | '' @ the (dget ''active'' STATUS_LABELS) @ '' | P0 | x |'' @ [CHR 10] @
     ''| [B](b.md) | '' @ the (dget ''deferred'' STATUS_LABELS) @ '' | P1 | x |'' @ [CHR 10]"

definition demo_repo :: repo where
  "demo_repo = \<lparr>resolved = (\<lambda>p. Inr [p]), root_parts = [], is_file = (\<lambda>_. True),
     plan_dir = [(''b.md'', Inr []), (''README.md'', Inr demo_readme), (''a.md'', Inr [])],
     readme = Some (Inr demo_readme), shown = (\<lambda>_. [])\<rparr>"

definition demo_rows :: "string list" where
  "demo_rows =
     [''| [A](a.md) | '' @ the (dget ''active'' STATUS_LABELS) @ '' | P0 | x |'',
      ''| [B](b.md) | '' @ the (dget ''deferred'' STATUS_LABELS) @ '' | P1 | x |'']"

lemma demo_lines: "text_lines demo_readme = demo_rows"
  by (simp add: text_lines_def demo_readme_def demo_rows_def STATUS_LABELS_def utf8_head_def lead_length_def
      second_ok_def is_cont_def is_line_break_def)

lemmas demo_unfold = validate_registry_def mirror_errors_def validate_markdown_mirror_def demo_repo_def
  repo.simps option.case rbind_simps demo_lines

lemma demo_passes: "validate_registry demo_repo False (demo_registry ''deferred'') = Inr []"
  by (simp only: demo_unfold) code_simp

lemma demo_drifts:
  "validate_registry demo_repo False (demo_registry ''triggered'') = Inr
     [Mirror_drift ''b.md'' (the (dget ''triggered'' STATUS_LABELS), ''P1'')
        (Some (the (dget ''deferred'' STATUS_LABELS), ''P1''))]"
  by (simp only: demo_unfold) code_simp

text \<open>A misspelt status\<close>

lemma demo_raises: "validate_registry demo_repo False (demo_registry ''acitve'') = Inl (KeyError ''acitve'')"
  by (simp only: demo_unfold) code_simp

theorem registry_never_reports_status_witness:
  "Bad_status ''b'' (JStr ''acitve'') \<notin>
     set [Mirror_drift ''b.md'' (the (dget ''triggered'' STATUS_LABELS), ''P1'')
            (Some (the (dget ''deferred'' STATUS_LABELS), ''P1''))]"
  using registry_never_reports_status [OF demo_drifts, of "Inr demo_readme" "''b''" "''acitve''"]
  by (simp add: demo_repo_def)

end
