(* ===== verification/Release.thy ===== *)
theory Release
  imports Flash_Plan
begin

text \<open>
  \<open>scripts/release-bundle.py\<close>: the checksum manifest of a directory of release assets, the
  verification of a downloaded firmware release and the preparation of a candidate.  A directory
  is a dictionary from names to files and subdirectories that changes only by the writes of the
  program.  The JSON text of the standard library and the processes that are run (git, cargo,
  rustc, hisi-fwpkg) are inputs.
\<close>

section \<open>A directory of assets\<close>

datatype dir_entry = File_entry bytes | Subdirectory

type_synonym directory = "(string, dir_entry) dict"

definition INPUTS :: "string list" where
  "INPUTS = [''blinky.elf'', ''blinky.img'', ''blinky.plan.json'', ''Cargo.lock'', ''rust-toolchain.toml'']"

definition ASSETS :: "string list" where
  "ASSETS = INPUTS @ [''release-manifest.json'', ''SHA256SUMS'']"

text \<open>\<open>(directory / name).read_bytes()\<close>, and the names of the regular files\<close>

definition read_file :: "directory \<Rightarrow> string \<Rightarrow> bytes res" where
  "read_file dir name =
     (if CHR 0x00 \<in> set name then Inl (ValueError ''embedded null byte'')
      else (case dget name dir of
              None \<Rightarrow> Inl (OSError ''FileNotFoundError'')
            | Some Subdirectory \<Rightarrow> Inl (OSError ''IsADirectoryError'')
            | Some (File_entry data) \<Rightarrow> Inr data))"

definition regular_files :: "directory \<Rightarrow> string list" where
  "regular_files dir = map fst (filter (\<lambda>(n, e). e \<noteq> Subdirectory) dir)"

definition sha :: "directory \<Rightarrow> string \<Rightarrow> string res" where
  "sha dir name = rbind (read_file dir name) (\<lambda>data. Inr (sha256_hex data))"

section \<open>The checksum manifest\<close>

definition bad_asset_name :: "(string, string) dict \<Rightarrow> string \<Rightarrow> bool" where
  "bad_asset_name hashes name \<longleftrightarrow>
     name = [] \<or> has_key name hashes \<or> path_name name \<noteq> name \<or> CHR 92 \<in> set name
     \<or> name \<in> set [''.'', ''..'', ''SHA256SUMS'']"

text \<open>A digest of another length is a mismatch before the file is read.\<close>

definition add_checksum :: "directory \<Rightarrow> (string, string) dict \<Rightarrow> string \<Rightarrow> (string, string) dict res" where
  "add_checksum dir hashes line =
     (case split_max1 line of
        [checksum, raw] \<Rightarrow>
          (let name = remove_prefix ''*'' raw
           in if bad_asset_name hashes name
              then Inl (ValueError ''unsafe or duplicate checksum filename'')
              else if length (decode_chars checksum) \<noteq> 64
              then Inl (ValueError (''checksum mismatch: '' @ name))
              else rbind (sha dir name) (\<lambda>actual.
                   if actual \<noteq> checksum then Inl (ValueError (''checksum mismatch: '' @ name))
                   else Inr (dset name checksum hashes)))
      | _ \<Rightarrow> Inl (ValueError ''not enough values to unpack''))"

fun add_checksums :: "directory \<Rightarrow> (string, string) dict \<Rightarrow> string list \<Rightarrow> (string, string) dict res" where
  "add_checksums dir hashes [] = Inr hashes"
| "add_checksums dir hashes (line # ls) =
     rbind (add_checksum dir hashes line) (\<lambda>hashes'. add_checksums dir hashes' ls)"

definition verify_checksums :: "directory \<Rightarrow> string list option \<Rightarrow> (string, string) dict res" where
  "verify_checksums dir expected =
     rbind (read_file dir ''SHA256SUMS'') (\<lambda>data.
     rbind (strict_text data) (\<lambda>content.
     rbind (add_checksums dir [] (text_lines content)) (\<lambda>hashes.
       let actual = set (regular_files dir) - {''SHA256SUMS''}
       in if hashes = [] \<or> fst ` set hashes \<noteq> actual
             \<or> (case expected of None \<Rightarrow> False | Some names \<Rightarrow> actual \<noteq> set names)
          then Inl (ValueError ''checksum manifest does not cover the exact asset set'')
          else Inr hashes)))"

section \<open>Verifying a release\<close>

text \<open>
  What the program asks of the outside: \<open>json.loads\<close> of a file, the version that hisi-fwpkg
  prints, what it makes of an ELF file and, for the flash plan check, of an image.
\<close>

record release_tools =
  loads :: "bytes \<Rightarrow> json res"
  fwpkg_version :: "string res"
  elf_tool :: "bytes \<Rightarrow> fwpkg_run"
  image_tool :: fwpkg

text \<open>\<open>plan(elf, output)\<close>: the document, and the output file if there is one\<close>

definition release_plan :: "release_tools \<Rightarrow> bytes \<Rightarrow> (json \<times> bytes option) res" where
  "release_plan tools elf =
     (case elf_tool tools elf of
        Not_started m \<Rightarrow> Inl (OSError m)
      | Exit_status n \<Rightarrow> Inl (CalledProcessError n)
      | Completed None img \<Rightarrow> Inl (ValueError ''JSON'')
      | Completed (Some doc) img \<Rightarrow> Inr (doc, img))"

definition artifact_digests :: "(string, string) dict \<Rightarrow> json res" where
  "artifact_digests hashes =
     rbind (rmap (\<lambda>name. case dget name hashes of
                    None \<Rightarrow> Inl (KeyError name) | Some h \<Rightarrow> Inr (name, JStr h)) INPUTS)
       (\<lambda>items. Inr (JObj items))"

fun check_tool_names :: "json_object \<Rightarrow> string list \<Rightarrow> unit res" where
  "check_tool_names manifest [] = Inr ()"
| "check_tool_names manifest (name # names) =
     rbind (attr_get (dget_or ''tools'' (JObj []) manifest) name JNull) (\<lambda>v.
       if \<not> truthy v then Inl (ValueError (''missing tool identity: '' @ name))
       else check_tool_names manifest names)"

definition check_manifest ::
    "release_tools \<Rightarrow> (string, string) dict \<Rightarrow> json \<Rightarrow> string \<Rightarrow> string \<Rightarrow> unit res" where
  "check_manifest tools hashes doc expected_source expected_version =
     (case json_dict doc of
        None \<Rightarrow> Inl (AttributeError ''get'')
      | Some manifest \<Rightarrow>
          if \<not> equals_int (json_get ''schema'' manifest) 1
             \<or> json_get ''source_commit'' manifest \<noteq> JStr expected_source
             \<or> json_get ''version'' manifest \<noteq> JStr expected_version
          then Inl (ValueError ''release source/version mismatch'')
          else rbind (artifact_digests hashes) (\<lambda>digests.
            if \<not> py_eq (json_get ''artifacts'' manifest) digests
            then Inl (ValueError ''release manifest artifacts mismatch'')
            else if \<not> truthy (json_get ''submodules'' manifest) \<or> \<not> truthy (json_get ''source_ci'' manifest)
            then Inl (ValueError ''missing release train/source CI identity'')
            else rbind (check_tool_names manifest [''rustc'', ''cargo'', ''hisi-fwpkg'']) (\<lambda>_.
                 rbind (fwpkg_version tools) (\<lambda>version.
                 rbind (subscript (json_get ''tools'' manifest) ''hisi-fwpkg'') (\<lambda>recorded.
                   if recorded \<noteq> JStr version
                   then Inl (ValueError ''install the exact hisi-fwpkg version from release-manifest.json'')
                   else Inr ())))))"

definition check_reproduced :: "release_tools \<Rightarrow> directory \<Rightarrow> json \<Rightarrow> bytes \<Rightarrow> unit res" where
  "check_reproduced tools dir declared img =
     rbind (read_file dir ''blinky.elf'') (\<lambda>elf.
     rbind (release_plan tools elf) (\<lambda>(actual, rebuilt).
       let bad = Inl (ValueError ''release image/plan cannot be reproduced from the released ELF'')
       in if \<not> py_eq actual declared then bad
          else (case rebuilt of
                  None \<Rightarrow> Inl (OSError ''FileNotFoundError'')
                | Some data \<Rightarrow> if data \<noteq> img then bad else Inr ())))"

definition verify_release :: "release_tools \<Rightarrow> directory \<Rightarrow> string \<Rightarrow> string \<Rightarrow> json res" where
  "verify_release tools dir expected_source expected_version =
     rbind (verify_checksums dir (Some (filter (\<lambda>n. n \<noteq> ''SHA256SUMS'') ASSETS))) (\<lambda>hashes.
     rbind (rbind (read_file dir ''release-manifest.json'') (loads tools)) (\<lambda>manifest.
     rbind (check_manifest tools hashes manifest expected_source expected_version) (\<lambda>_.
     rbind (rbind (read_file dir ''blinky.plan.json'') (loads tools)) (\<lambda>declared.
     rbind (read_file dir ''blinky.img'') (\<lambda>img.
     rbind (flash_checks (image_tool tools) declared img None) (\<lambda>_.
     rbind (check_reproduced tools dir declared img) (\<lambda>_.
       Inr (JObj [(''schema'', JInt 1), (''status'', JStr ''pass''),
                  (''source_commit'', JStr expected_source), (''version'', JStr expected_version),
                  (''downloaded_asset_sha256'', JObj (map (\<lambda>(n, h). (n, JStr h)) hashes)),
                  (''scope'', JStr ''byte integrity, train identity, ELF-to-image equivalence; no new HIL claim'')]))))))))"

section \<open>Preparing a candidate\<close>

text \<open>
  The repository and the processes: \<open>git rev-parse HEAD\<close>, \<open>git diff --exit-code HEAD\<close>,
  \<open>git submodule status --recursive\<close> (each output stripped), \<open>cargo -vV\<close> and \<open>rustc -vV\<close>,
  the files of the tree and \<open>json.dumps\<close> with sorted keys.
\<close>

record release_source =
  git_head :: "string res"
  git_diff :: "unit res"
  submodule_status :: "string res"
  rust_version :: "string \<Rightarrow> string res"
  tree_file :: "string \<Rightarrow> bytes res"
  dumps :: "json \<Rightarrow> string"

definition write_json :: "release_source \<Rightarrow> string \<Rightarrow> json \<Rightarrow> directory \<Rightarrow> directory" where
  "write_json src name v dir = dset name (File_entry (dumps src v @ [CHR 10])) dir"

definition submodule_entry :: "string \<Rightarrow> json res" where
  "submodule_entry line =
     (case line of
        [] \<Rightarrow> Inl (IndexError ''string index out of range'')
      | c # _ \<Rightarrow>
          if c \<in> set ''-+U''
          then Inl (ValueError ''release submodules must be initialized at their pinned commits'')
          else (case split_chars [] (decode_chars line) of
                  commit # path # _ \<Rightarrow> Inr (JObj [(''path'', JStr path), (''commit'', JStr commit)])
                | _ \<Rightarrow> Inl (ValueError ''not enough values to unpack'')))"

text \<open>The steps of \<open>prepare\<close>, each of which changes the directory or raises\<close>

definition copy_step :: "string \<Rightarrow> bytes res \<Rightarrow> directory \<Rightarrow> directory res" where
  "copy_step name data dir = rbind data (\<lambda>d. Inr (dset name (File_entry d) dir))"

definition plan_step :: "release_source \<Rightarrow> release_tools \<Rightarrow> bytes res \<Rightarrow> directory \<Rightarrow> directory res" where
  "plan_step src tools elf dir =
     rbind elf (\<lambda>data. rbind (release_plan tools data) (\<lambda>(doc, img).
       Inr (write_json src ''blinky.plan.json'' doc
         (case img of None \<Rightarrow> dir | Some out \<Rightarrow> dset ''blinky.img'' (File_entry out) dir))))"

definition tool_version :: "release_source \<Rightarrow> release_tools \<Rightarrow> string \<Rightarrow> string res" where
  "tool_version src tools name =
     (if name = ''hisi-fwpkg'' then fwpkg_version tools else rust_version src name)"

definition named_values :: "(string \<Rightarrow> string res) \<Rightarrow> string list \<Rightarrow> json res" where
  "named_values f names =
     rbind (rmap (\<lambda>name. rbind (f name) (\<lambda>v. Inr (name, JStr v))) names) (\<lambda>items. Inr (JObj items))"

definition manifest_step ::
    "release_source \<Rightarrow> release_tools \<Rightarrow> string \<Rightarrow> string \<Rightarrow> string \<Rightarrow> directory \<Rightarrow> directory res" where
  "manifest_step src tools source_commit version source_ci dir =
     rbind (submodule_status src) (\<lambda>status.
     rbind (rmap submodule_entry (text_lines status)) (\<lambda>submodules.
     rbind (named_values (tool_version src tools) [''cargo'', ''rustc'', ''hisi-fwpkg'']) (\<lambda>versions.
     rbind (named_values (sha dir) INPUTS) (\<lambda>digests.
       Inr (write_json src ''release-manifest.json''
         (JObj [(''schema'', JInt 1), (''version'', JStr version), (''source_commit'', JStr source_commit),
                (''source_ci'', JStr source_ci), (''submodules'', JArr submodules),
                (''build_command'', JStr ''cargo build --locked -Zbuild-std=core,alloc --release -p blinky''),
                (''tools'', versions), (''artifacts'', digests)]) dir)))))"

definition sum_line :: "directory \<Rightarrow> string \<Rightarrow> string res" where
  "sum_line dir name = rbind (sha dir name) (\<lambda>h. Inr (h @ ''  '' @ name @ [CHR 10]))"

definition sums_step :: "directory \<Rightarrow> directory res" where
  "sums_step dir =
     rbind (rmap (sum_line dir) (filter (\<lambda>n. n \<noteq> ''SHA256SUMS'') ASSETS)) (\<lambda>ls.
       Inr (dset ''SHA256SUMS'' (File_entry (concat ls)) dir))"

text \<open>The first step that raises ends the run; the writes before it stay.\<close>

fun run_steps :: "(directory \<Rightarrow> directory res) list \<Rightarrow> directory \<Rightarrow> unit res \<times> directory" where
  "run_steps [] dir = (Inr (), dir)"
| "run_steps (step # steps) dir =
     (case step dir of Inl e \<Rightarrow> (Inl e, dir) | Inr dir' \<Rightarrow> run_steps steps dir')"

definition prepare_release ::
    "release_source \<Rightarrow> release_tools \<Rightarrow> string \<Rightarrow> string \<Rightarrow> bytes res \<Rightarrow> directory \<Rightarrow> unit res \<times> directory" where
  "prepare_release src tools version source_ci elf dir =
     (case git_head src of
        Inl e \<Rightarrow> (Inl e, dir)
      | Inr source_commit \<Rightarrow>
          run_steps
            [\<lambda>d. rbind (git_diff src) (\<lambda>_. Inr d),
             \<lambda>d. rbind (raise_if (d \<noteq> []) (ValueError ''release candidate directory must be empty''))
                   (\<lambda>_. Inr d),
             copy_step ''blinky.elf'' elf,
             copy_step ''Cargo.lock'' (tree_file src ''Cargo.lock''),
             copy_step ''rust-toolchain.toml'' (tree_file src ''rust-toolchain.toml''),
             plan_step src tools elf,
             manifest_step src tools source_commit version source_ci,
             sums_step,
             \<lambda>d. rbind (verify_release tools d source_commit version) (\<lambda>_. Inr d)] dir)"

text \<open>
  The command: the report of \<open>verify\<close> is also what \<open>--report\<close> writes; arguments that are missing
  end the program with status 2.
\<close>

datatype release_command =
    Prepare_command "bytes res option" "string option"
  | Verify_command "string option"

definition release_main ::
    "release_source \<Rightarrow> release_tools \<Rightarrow> release_command \<Rightarrow> string \<Rightarrow> directory \<Rightarrow> json option res \<times> directory" where
  "release_main src tools command version dir =
     (case command of
        Prepare_command (Some elf) (Some source_ci) \<Rightarrow>
          if source_ci = [] then (Inl (SystemExit ''2''), dir)
          else (case prepare_release src tools version source_ci elf dir of
                  (outcome, final) \<Rightarrow> (rbind outcome (\<lambda>_. Inr None), final))
      | Verify_command (Some expected_source) \<Rightarrow>
          if expected_source = [] then (Inl (SystemExit ''2''), dir)
          else (rbind (verify_release tools dir expected_source version) (\<lambda>report. Inr (Some report)), dir)
      | _ \<Rightarrow> (Inl (SystemExit ''2''), dir))"

section \<open>What the checksum manifest proves\<close>

lemma read_file_Inr:
  "read_file dir name = Inr data \<longleftrightarrow> CHR 0x00 \<notin> set name \<and> dget name dir = Some (File_entry data)"
  by (auto simp: read_file_def split: option.splits dir_entry.splits)

lemma sha_Inr [res_simps]:
  "sha dir name = Inr h \<longleftrightarrow> (\<exists>data. read_file dir name = Inr data \<and> h = sha256_hex data)"
  by (auto simp: sha_def res_simps)

lemma add_checksum_Inr:
  "add_checksum dir hashes line = Inr hashes' \<longleftrightarrow>
     (\<exists>checksum raw. split_max1 line = [checksum, raw] \<and> \<not> bad_asset_name hashes (remove_prefix ''*'' raw) \<and>
        length (decode_chars checksum) = 64 \<and> sha dir (remove_prefix ''*'' raw) = Inr checksum \<and>
        hashes' = hashes @ [(remove_prefix ''*'' raw, checksum)])"
  by (auto simp: add_checksum_def Let_def res_simps bad_asset_name_def has_key_iff dset_fresh
      split: list.splits if_splits)

lemma add_checksums_sound:
  assumes "add_checksums dir hashes ls = Inr result" and "distinct (map fst hashes)"
    and "\<forall>(n, h)\<in>set hashes. sha dir n = Inr h"
  shows "distinct (map fst result) \<and> (\<forall>(n, h)\<in>set result. sha dir n = Inr h)"
  using assms
proof (induction ls arbitrary: hashes)
  case (Cons line ls)
  from Cons.prems(1) obtain mid where mid: "add_checksum dir hashes line = Inr mid"
    "add_checksums dir mid ls = Inr result" by (auto simp: res_simps)
  from mid(1) [unfolded add_checksum_Inr] obtain n h where
    "\<not> bad_asset_name hashes n" "sha dir n = Inr h" "mid = hashes @ [(n, h)]" by blast
  with Cons.prems(2,3) show ?case
    by (intro Cons.IH [OF mid(2)]) (auto simp: bad_asset_name_def has_key_iff)
qed simp

lemma add_checksums_same:
  "add_checksums a hashes ls = Inr x \<Longrightarrow> add_checksums b hashes ls = Inr y \<Longrightarrow> x = y"
  by (induction ls arbitrary: hashes) (auto simp: res_simps add_checksum_Inr)

lemma regular_files_iff:
  "distinct (map fst dir) \<Longrightarrow> n \<in> set (regular_files dir) \<longleftrightarrow> (\<exists>data. dget n dir = Some (File_entry data))"
proof -
  assume d: "distinct (map fst dir)"
  have "n \<in> set (regular_files dir) \<longleftrightarrow> (\<exists>e. dget n dir = Some e \<and> e \<noteq> Subdirectory)"
    using d by (force simp: regular_files_def)
  then show ?thesis by (metis dir_entry.distinct(1) dir_entry.exhaust)
qed

text \<open>
  C22: A directory that passes the checksums.  The result gives every regular file other than
  the manifest itself, and nothing else, the SHA-256 digest of its content; there is at least one
  file, and if the caller names the assets the files are exactly those.
\<close>

theorem verify_checksums_exact:
  assumes "verify_checksums dir expected = Inr hashes" and "distinct (map fst dir)"
  shows "hashes \<noteq> [] \<and>
    (\<forall>name. dget name hashes =
       (if name = ''SHA256SUMS'' then None
        else case dget name dir of Some (File_entry data) \<Rightarrow> Some (sha256_hex data) | _ \<Rightarrow> None)) \<and>
    (\<forall>names. expected = Some names \<longrightarrow> fst ` set hashes = set names)"
proof -
  from assms(1) obtain data content where ok: "add_checksums dir [] (text_lines content) = Inr hashes"
    "hashes \<noteq> []" "fst ` set hashes = set (regular_files dir) - {''SHA256SUMS''}"
    "\<forall>names. expected = Some names \<longrightarrow> set (regular_files dir) - {''SHA256SUMS''} = set names"
    by (auto simp: verify_checksums_def Let_def res_simps split: if_splits option.splits)
  from add_checksums_sound [OF ok(1)] have sound: "distinct (map fst hashes)"
    "\<forall>(n, h)\<in>set hashes. sha dir n = Inr h" by simp_all
  have "dget name hashes =
       (if name = ''SHA256SUMS'' then None
        else case dget name dir of Some (File_entry data) \<Rightarrow> Some (sha256_hex data) | _ \<Rightarrow> None)" for name
  proof (cases "dget name hashes")
    case None
    then have "name \<notin> fst ` set hashes" by (simp add: map_of_eq_None_iff)
    with ok(3) None show ?thesis
      by (auto simp: regular_files_iff [OF assms(2)] split: option.splits dir_entry.splits)
  next
    case (Some h)
    then have m: "(name, h) \<in> set hashes" by (rule map_of_SomeD)
    with sound(2) have "sha dir name = Inr h" by blast
    moreover from m ok(3) have "name \<noteq> ''SHA256SUMS''" by force
    ultimately show ?thesis using Some by (auto simp: res_simps read_file_Inr)
  qed
  with ok show ?thesis by simp
qed

text \<open>Two directories with the same checksum manifest have the same files with the same digests.\<close>

theorem same_sums_same_digests:
  assumes "verify_checksums a ea = Inr x" "verify_checksums b eb = Inr y"
    and "read_file a ''SHA256SUMS'' = read_file b ''SHA256SUMS''"
  shows "x = y \<and> set (regular_files a) - {''SHA256SUMS''} = set (regular_files b) - {''SHA256SUMS''}"
proof -
  from assms obtain content where
    "add_checksums a [] (text_lines content) = Inr x" "add_checksums b [] (text_lines content) = Inr y"
    "fst ` set x = set (regular_files a) - {''SHA256SUMS''}" "fst ` set y = set (regular_files b) - {''SHA256SUMS''}"
    by (auto simp: verify_checksums_def Let_def res_simps split: if_splits)
  with add_checksums_same show ?thesis by metis
qed

section \<open>The checksum manifest that is written\<close>

definition plain_asset_name :: "string \<Rightarrow> bool" where
  "plain_asset_name n \<longleftrightarrow>
     plain_word n \<and> CHR ''/'' \<notin> set n \<and> CHR 92 \<notin> set n \<and> \<not> prefix ''*'' n
     \<and> n \<notin> set [''.'', ''..'', ''SHA256SUMS'']"

lemma split_all_single: "sep \<notin> set s \<Longrightarrow> split_all sep cur s = [rev cur @ s]"
  by (induction s arbitrary: cur) auto

lemma plain_asset_name_ok:
  assumes "plain_asset_name n" and "n \<notin> fst ` set hashes"
  shows "\<not> bad_asset_name hashes n" "remove_prefix ''*'' n = n" "CHR 0x00 \<notin> set n"
proof -
  have "path_name n = n"
    using assms(1) by (auto simp: path_name_def plain_asset_name_def plain_word_def split_all_single)
  with assms show "\<not> bad_asset_name hashes n"
    by (auto simp: bad_asset_name_def plain_asset_name_def plain_word_def has_key_iff)
  show "remove_prefix ''*'' n = n" using assms(1) by (simp add: remove_prefix_def plain_asset_name_def)
  show "CHR 0x00 \<notin> set n" using assms(1) by (fastforce simp: plain_asset_name_def plain_word_def)
qed

lemma hex_char_printable:
  assumes "0 \<le> i" "i < 16"
  shows "33 \<le> ord (hex_char i) \<and> ord (hex_char i) < 127"
proof -
  have "33 \<le> (of_char (hex_char i) :: int) \<and> of_char (hex_char i) < (127 :: int)"
    using assms by (auto simp: hex_char_def of_char_of take_bit_eq_mod)
  then have "33 \<le> int (ord (hex_char i)) \<and> int (ord (hex_char i)) < 127"
    by (simp only: of_nat_of_char)
  then show ?thesis by linarith
qed

lemma sha256_hex_plain: "plain_word (sha256_hex data)"
  using sha256_hex_digits [of data] length_sha256_hex [of data] hex_char_printable
  by (fastforce simp: plain_word_def)

definition sums_of :: "directory \<Rightarrow> string list \<Rightarrow> (string, string) dict" where
  "sums_of dir names =
     map (\<lambda>n. (n, case dget n dir of Some (File_entry data) \<Rightarrow> sha256_hex data | _ \<Rightarrow> [])) names"

lemma add_checksums_complete:
  assumes "\<forall>n\<in>set names. plain_asset_name n \<and> (\<exists>data. dget n dir = Some (File_entry data))"
    and "distinct (map fst hashes @ names)"
  shows "add_checksums dir hashes (map (\<lambda>(n, h). h @ ''  '' @ n) (sums_of dir names))
      = Inr (hashes @ sums_of dir names)"
  using assms
proof (induction names arbitrary: hashes)
  case (Cons n names)
  then obtain data where d: "plain_asset_name n" "dget n dir = Some (File_entry data)" by auto
  from Cons.prems(2) have fresh: "n \<notin> fst ` set hashes" by auto
  note ok = plain_asset_name_ok [OF d(1) fresh]
  have "plain_word n" using d(1) by (simp add: plain_asset_name_def)
  then have "split_max1 (sha256_hex data @ ''  '' @ n) = [sha256_hex data, n]"
    using sha256_hex_plain by (rule split_max1_plain [rotated])
  moreover have "length (decode_chars (sha256_hex data)) = 64"
    using sha256_hex_plain [THEN plain_word_ascii] by (simp add: decode_chars_ascii length_sha256_hex)
  ultimately have "add_checksum dir hashes (sha256_hex data @ ''  '' @ n) = Inr (hashes @ [(n, sha256_hex data)])"
    unfolding add_checksum_Inr using ok d(2) by (auto simp: sha_Inr read_file_Inr)
  moreover have "add_checksums dir (hashes @ [(n, sha256_hex data)])
      (map (\<lambda>(n, h). h @ ''  '' @ n) (sums_of dir names))
      = Inr ((hashes @ [(n, sha256_hex data)]) @ sums_of dir names)"
    using Cons.prems by (intro Cons.IH) auto
  ultimately show ?case by (simp add: sums_of_def d(2))
qed (simp add: sums_of_def)

lemma sum_lines_complete:
  assumes "\<forall>n\<in>set names. plain_asset_name n \<and> (\<exists>data. dget n dir = Some (File_entry data))"
  shows "rmap (sum_line dir) names
      = Inr (map (\<lambda>l. l @ [CHR 10]) (map (\<lambda>(n, h). h @ ''  '' @ n) (sums_of dir names)))"
  using assms
proof (induction names)
  case (Cons n names)
  then obtain data where "plain_asset_name n" "dget n dir = Some (File_entry data)" by auto
  with Cons show ?case
    using plain_asset_name_ok(3) [of n "[]"]
    by (simp add: sum_line_def sha_def read_file_def sums_of_def)
qed (simp add: sums_of_def)

lemma sums_step_verified:
  assumes "distinct (map fst dir)"
    and "set (regular_files dir) - {''SHA256SUMS''} = set ASSETS - {''SHA256SUMS''}"
  shows "\<exists>dir'. sums_step dir = Inr dir' \<and>
    verify_checksums dir' (Some (filter (\<lambda>n. n \<noteq> ''SHA256SUMS'') ASSETS))
      = Inr (sums_of dir (filter (\<lambda>n. n \<noteq> ''SHA256SUMS'') ASSETS)) \<and>
    (\<forall>n. n \<noteq> ''SHA256SUMS'' \<longrightarrow> dget n dir' = dget n dir)"
proof -
  let ?names = "filter (\<lambda>n. n \<noteq> ''SHA256SUMS'') ASSETS"
  have plain: "\<forall>n\<in>set ?names. plain_asset_name n"
    by (simp add: ASSETS_def INPUTS_def plain_asset_name_def plain_word_def)
  moreover have "\<exists>data. dget n dir = Some (File_entry data)" if "n \<in> set ?names" for n
    using that assms(2) regular_files_iff [OF assms(1), of n] by auto
  ultimately have files: "\<forall>n\<in>set ?names. plain_asset_name n \<and> (\<exists>data. dget n dir = Some (File_entry data))"
    by blast
  let ?ls = "map (\<lambda>(n, h). h @ ''  '' @ n) (sums_of dir ?names)"
  let ?text = "concat (map (\<lambda>l. l @ [CHR 10]) ?ls)"
  let ?dir = "dset ''SHA256SUMS'' (File_entry ?text) dir"
  have step: "sums_step dir = Inr ?dir"
    by (simp add: sums_step_def sum_lines_complete [OF files] del: map_map)
  have chars: "\<forall>l\<in>set ?ls. \<forall>c\<in>set l. 32 \<le> ord c \<and> ord c < 127"
    using files sha256_hex_plain
    by (fastforce simp: sums_of_def plain_asset_name_def plain_word_def split: option.splits dir_entry.splits)
  then have "ascii ?text" by (fastforce simp: ascii_def)
  then have dec: "strict_text ?text = Inr ?text" by (rule strict_text_ascii)
  have same: "dget n ?dir = dget n dir" if "n \<noteq> ''SHA256SUMS''" for n using that by simp
  have sums: "sums_of ?dir ?names = sums_of dir ?names"
    by (simp add: sums_of_def)
  have "add_checksums ?dir [] (map (\<lambda>(n, h). h @ ''  '' @ n) (sums_of ?dir ?names))
      = Inr ([] @ sums_of ?dir ?names)"
    by (rule add_checksums_complete) (use files same in \<open>auto simp: ASSETS_def INPUTS_def\<close>)
  then have added: "add_checksums ?dir [] ?ls = Inr (sums_of dir ?names)" unfolding sums by simp
  have names: "fst ` set (sums_of dir ?names) = set ?names" "sums_of dir ?names \<noteq> []"
    by (force simp: sums_of_def, simp add: sums_of_def ASSETS_def INPUTS_def)
  have "distinct (map fst ?dir)" using assms(1) by (rule distinct_update)
  from regular_files_iff [OF this] regular_files_iff [OF assms(1)] same
  have "set (regular_files ?dir) - {''SHA256SUMS''} = set (regular_files dir) - {''SHA256SUMS''}" by auto
  with assms(2) have actual: "set (regular_files ?dir) - {''SHA256SUMS''} = set ?names" by auto
  have "read_file ?dir ''SHA256SUMS'' = Inr ?text" by (simp add: read_file_Inr)
  then have "verify_checksums ?dir (Some ?names) = Inr (sums_of dir ?names)"
    unfolding verify_checksums_def by (simp only: rbind_simps dec text_lines_plain [OF chars] added
        actual names Let_def) simp
  with step same show ?thesis by blast
qed

text \<open>
  C23: The checksum manifest comes back.  When the directory holds exactly the release assets,
  the manifest that \<open>prepare\<close> writes passes \<open>verify_checksums\<close> for these assets, whatever the
  files contain, and the result is the table of their digests.
\<close>

theorem sums_step_verifies:
  assumes "distinct (map fst dir)"
    and "set (regular_files dir) - {''SHA256SUMS''} = set ASSETS - {''SHA256SUMS''}"
  shows "\<exists>dir'. sums_step dir = Inr dir' \<and>
    verify_checksums dir' (Some (filter (\<lambda>n. n \<noteq> ''SHA256SUMS'') ASSETS))
      = Inr (sums_of dir (filter (\<lambda>n. n \<noteq> ''SHA256SUMS'') ASSETS)) \<and>
    (\<forall>n. n \<noteq> ''SHA256SUMS'' \<longrightarrow> dget n dir' = dget n dir)"
  using assms by (rule sums_step_verified)

section \<open>What a verified release is\<close>

lemma release_plan_Inr [res_simps]:
  "release_plan tools elf = Inr (doc, out) \<longleftrightarrow> elf_tool tools elf = Completed (Some doc) out"
  by (auto simp: release_plan_def split: fwpkg_run.splits option.splits)

lemma check_reproduced_Inr:
  "check_reproduced tools dir declared img = Inr () \<longleftrightarrow>
     (\<exists>elf doc. read_file dir ''blinky.elf'' = Inr elf \<and> elf_tool tools elf = Completed (Some doc) (Some img) \<and>
        py_eq doc declared)"
  by (auto simp: check_reproduced_def Let_def res_simps split: option.splits if_splits)

lemma check_manifest_Inr:
  assumes "check_manifest tools hashes doc source version = Inr ()"
  obtains manifest where "doc = JObj manifest" "json_get ''source_commit'' manifest = JStr source"
    "json_get ''version'' manifest = JStr version"
    "\<exists>digests. artifact_digests hashes = Inr digests \<and> py_eq (json_get ''artifacts'' manifest) digests"
    "truthy (json_get ''submodules'' manifest)" "truthy (json_get ''source_ci'' manifest)"
    "\<exists>v. fwpkg_version tools = Inr v \<and> subscript (json_get ''tools'' manifest) ''hisi-fwpkg'' = Inr (JStr v)"
  using assms by (auto simp: check_manifest_def res_simps split: option.splits if_splits)

lemma verify_release_Inr:
  "verify_release tools dir source version = Inr report \<longleftrightarrow>
     (\<exists>hashes manifest declared img.
        verify_checksums dir (Some (filter (\<lambda>n. n \<noteq> ''SHA256SUMS'') ASSETS)) = Inr hashes \<and>
        rbind (read_file dir ''release-manifest.json'') (loads tools) = Inr manifest \<and>
        check_manifest tools hashes manifest source version = Inr () \<and>
        rbind (read_file dir ''blinky.plan.json'') (loads tools) = Inr declared \<and>
        read_file dir ''blinky.img'' = Inr img \<and> flash_checks (image_tool tools) declared img None = Inr () \<and>
        check_reproduced tools dir declared img = Inr () \<and>
        report = JObj [(''schema'', JInt 1), (''status'', JStr ''pass''),
                  (''source_commit'', JStr source), (''version'', JStr version),
                  (''downloaded_asset_sha256'', JObj (map (\<lambda>(n, h). (n, JStr h)) hashes)),
                  (''scope'', JStr ''byte integrity, train identity, ELF-to-image equivalence; no new HIL claim'')])"
  unfolding verify_release_def rbind_Inr by fastforce

text \<open>
  C24: What a verified release is.  Its manifest names the expected source commit and version,
  hisi-fwpkg makes the released image and the released plan from the released ELF file, and a
  flash that is erased and written as the released plan says holds the released image at the base
  address of the plan and is unchanged outside the erase range.
\<close>

theorem verified_release_programs_image:
  assumes "verify_release tools dir source version = Inr report"
  shows "\<exists>elf img doc plan manifest. read_file dir ''blinky.elf'' = Inr elf \<and> read_file dir ''blinky.img'' = Inr img \<and>
    rbind (read_file dir ''blinky.plan.json'') (loads tools) = Inr (JObj plan) \<and>
    rbind (read_file dir ''release-manifest.json'') (loads tools) = Inr (JObj manifest) \<and>
    json_get ''source_commit'' manifest = JStr source \<and> json_get ''version'' manifest = JStr version \<and>
    elf_tool tools elf = Completed (Some doc) (Some img) \<and> py_eq doc (JObj plan) \<and>
    (\<exists>base erase cs. json_int (json_get ''base_addr'' plan) = Some base \<and>
       require_range (json_get ''erase_range'' plan) ''erase_range'' = Inr erase \<and>
       planned_chunks plan = Some cs \<and>
       (\<forall>mem. (\<forall>i < length img. program_flash img erase cs mem (base + int i) = image_byte img i) \<and>
          (\<forall>a. a < fst erase \<or> fst erase + snd erase \<le> a \<longrightarrow> program_flash img erase cs mem a = mem a)))"
proof -
  from assms [unfolded verify_release_Inr] obtain hashes m declared img where
    ok: "check_manifest tools hashes m source version = Inr ()"
      "rbind (read_file dir ''release-manifest.json'') (loads tools) = Inr m"
      "rbind (read_file dir ''blinky.plan.json'') (loads tools) = Inr declared"
      "read_file dir ''blinky.img'' = Inr img" "flash_checks (image_tool tools) declared img None = Inr ()"
      "check_reproduced tools dir declared img = Inr ()" by blast
  from ok(1) obtain manifest where m: "m = JObj manifest" "json_get ''source_commit'' manifest = JStr source"
    "json_get ''version'' manifest = JStr version" by (rule check_manifest_Inr)
  from ok(5) [unfolded flash_checks_Inr] obtain plan where
    p: "declared = JObj plan" "validate_flash_plan plan img None = Inr ()" by blast
  from ok(6) [unfolded check_reproduced_Inr] obtain elf doc where
    e: "read_file dir ''blinky.elf'' = Inr elf" "elf_tool tools elf = Completed (Some doc) (Some img)"
      "py_eq doc declared" by blast
  show ?thesis
    using e ok(2-4) accepted_plan_programs [OF p(2)] m(2,3) unfolding m(1) p(1)
    by (intro exI [of _ elf] exI [of _ img] exI [of _ doc] exI [of _ plan] exI [of _ manifest] conjI)
qed

lemma run_steps_Inr:
  "run_steps (step # steps) dir = (Inr (), final) \<longleftrightarrow>
     (\<exists>mid. step dir = Inr mid \<and> run_steps steps mid = (Inr (), final))"
  by (auto split: sum.split)

lemma dset_names: "fst ` set (dset k v d) = insert k (fst ` set d)"
  by (simp add: dom_update)

lemma read_set: "CHR 0x00 \<notin> set n \<Longrightarrow>
  read_file (dset k e d) n = (if n = k then (case e of File_entry data \<Rightarrow> Inr data | Subdirectory \<Rightarrow> Inl (OSError ''IsADirectoryError'')) else read_file d n)"
  by (simp add: read_file_def)

text \<open>
  C25: What \<open>prepare\<close> does.  A directory that is not empty is refused and left as it is.  When
  \<open>prepare\<close> succeeds the repository was clean, the directory was empty and holds exactly the release
  assets: the ELF file, the image that hisi-fwpkg made of it and the lock file of the tree; and it
  passes \<open>verify\<close> for the current commit.
\<close>

theorem prepare_release_outcome:
  assumes "prepare_release src tools version source_ci elf dir = (outcome, final)"
  shows "(dir \<noteq> [] \<longrightarrow> final = dir \<and> outcome \<noteq> Inr ()) \<and>
    (outcome = Inr () \<longrightarrow> (\<exists>source e doc img report.
       git_head src = Inr source \<and> git_diff src = Inr () \<and> elf = Inr e \<and>
       elf_tool tools e = Completed (Some doc) (Some img) \<and>
       read_file final ''blinky.elf'' = Inr e \<and> read_file final ''blinky.img'' = Inr img \<and>
       read_file final ''Cargo.lock'' = tree_file src ''Cargo.lock'' \<and>
       fst ` set final = set ASSETS \<and> verify_release tools final source version = Inr report))"
proof (intro conjI impI)
  assume "dir \<noteq> []"
  with assms show "final = dir"
    by (cases "git_head src"; cases "git_diff src") (auto simp: prepare_release_def raise_if_def)
next
  assume "dir \<noteq> []"
  with assms show "outcome \<noteq> Inr ()"
    by (cases "git_head src"; cases "git_diff src") (auto simp: prepare_release_def raise_if_def)
next
  assume "outcome = Inr ()"
  with assms obtain source where run: "git_head src = Inr source"
    and steps: "run_steps
            [\<lambda>d. rbind (git_diff src) (\<lambda>_. Inr d),
             \<lambda>d. rbind (raise_if (d \<noteq> []) (ValueError ''release candidate directory must be empty''))
                   (\<lambda>_. Inr d),
             copy_step ''blinky.elf'' elf,
             copy_step ''Cargo.lock'' (tree_file src ''Cargo.lock''),
             copy_step ''rust-toolchain.toml'' (tree_file src ''rust-toolchain.toml''),
             plan_step src tools elf,
             manifest_step src tools source version source_ci,
             sums_step,
             \<lambda>d. rbind (verify_release tools d source version) (\<lambda>_. Inr d)] dir = (Inr (), final)"
    by (auto simp: prepare_release_def split: sum.splits)
  from steps [unfolded run_steps_Inr] obtain e lock chain d3 d4 d5 report where
    s: "git_diff src = Inr ()" "dir = []" "elf = Inr e" "tree_file src ''Cargo.lock'' = Inr lock"
    and d3: "d3 = [(''blinky.elf'', File_entry e), (''Cargo.lock'', File_entry lock),
        (''rust-toolchain.toml'', File_entry chain)]"
    and pl: "plan_step src tools elf d3 = Inr d4"
    and ma: "manifest_step src tools source version source_ci d4 = Inr d5"
    and su: "sums_step d5 = Inr final" and ve: "verify_release tools final source version = Inr report"
    by (auto simp: res_simps copy_step_def)
  from pl s(3) obtain doc out where t: "elf_tool tools e = Completed (Some doc) out"
    and d4: "d4 = write_json src ''blinky.plan.json'' doc
         (case out of None \<Rightarrow> d3 | Some data \<Rightarrow> dset ''blinky.img'' (File_entry data) d3)"
    by (auto simp: plan_step_def res_simps)
  from ma obtain v digests where d5: "d5 = write_json src ''release-manifest.json'' v d4"
    and img: "named_values (sha d4) INPUTS = Inr digests"
    by (auto simp: manifest_step_def res_simps)
  from su obtain content where fin: "final = dset ''SHA256SUMS'' (File_entry content) d5"
    by (auto simp: sums_step_def res_simps)
  from img have "\<exists>h. sha d4 ''blinky.img'' = Inr h"
    by (auto simp: named_values_def INPUTS_def res_simps)
  then obtain data where o: "out = Some data"
    by (cases out) (auto simp: sha_Inr read_file_Inr d4 d3 write_json_def)
  have at: "dget n final = (if n = ''SHA256SUMS'' then Some (File_entry content)
      else if n = ''release-manifest.json'' then Some (File_entry (dumps src v @ [CHR 10]))
      else if n = ''blinky.plan.json'' then Some (File_entry (dumps src doc @ [CHR 10]))
      else if n = ''blinky.img'' then Some (File_entry data) else dget n d3)" for n
    by (simp add: fin d5 d4 o write_json_def)
  have order: "insert s7 (insert s6 (insert s3 (insert s2 {s1, s4, s5}))) = {s1, s2, s3, s4, s5, s6, s7}"
    for s1 s2 s3 s4 s5 s6 s7 :: string by blast
  have names: "fst ` set final = set ASSETS"
    by (simp only: fin d5 d4 o write_json_def option.case dset_names d3 ASSETS_def INPUTS_def append.simps
        list.set image_insert image_empty fst_conv order)
  have "read_file final ''blinky.elf'' = Inr e" "read_file final ''blinky.img'' = Inr data"
    "read_file final ''Cargo.lock'' = tree_file src ''Cargo.lock''"
    by (simp_all add: read_file_def at d3 s(4))
  with run s(1,3) t o ve names show "\<exists>source e doc img report.
       git_head src = Inr source \<and> git_diff src = Inr () \<and> elf = Inr e \<and>
       elf_tool tools e = Completed (Some doc) (Some img) \<and>
       read_file final ''blinky.elf'' = Inr e \<and> read_file final ''blinky.img'' = Inr img \<and>
       read_file final ''Cargo.lock'' = tree_file src ''Cargo.lock'' \<and>
       fst ` set final = set ASSETS \<and> verify_release tools final source version = Inr report" by blast
qed

section \<open>A candidate and its verification\<close>

text \<open>Tools that know three documents: the plan, the manifest and an answer of the registry.\<close>

definition demo_release_tools :: "json \<Rightarrow> release_tools" where
  "demo_release_tools manifest =
     \<lparr>loads = (\<lambda>data. if data = ''P'' @ [CHR 10] then Inr (JObj demo_plan)
                     else if data = ''M'' @ [CHR 10] then Inr manifest
                     else Inr (JObj [(''version'', JObj [(''num'', JStr ''0.2''), (''yanked'', JBool False),
                       (''checksum'', JStr (sha256_hex ''tgz''))])])),
      fwpkg_version = Inr ''0.4'',
      elf_tool = (\<lambda>elf. Completed (Some (JObj demo_plan)) (Some ''AB'')),
      image_tool = (\<lambda>img chip addr. Completed (Some (JObj demo_plan)) (Some img))\<rparr>"

definition demo_source :: release_source where
  "demo_source =
     \<lparr>git_head = Inr ''c0ffee'', git_diff = Inr (), submodule_status = Inr ''1a2b crates/hal (v1)'',
      rust_version = (\<lambda>name. Inr ''1.80''), tree_file = Inr,
      dumps = (\<lambda>v. if v = JObj demo_plan then ''P'' else ''M'')\<rparr>"

definition demo_manifest :: json where
  "demo_manifest =
     JObj [(''schema'', JInt 1), (''version'', JStr ''v1''), (''source_commit'', JStr ''c0ffee''),
       (''source_ci'', JStr ''ci/7''),
       (''submodules'', JArr [JObj [(''path'', JStr ''crates/hal''), (''commit'', JStr ''1a2b'')]]),
       (''build_command'', JStr ''cargo build --locked -Zbuild-std=core,alloc --release -p blinky''),
       (''tools'', JObj [(''cargo'', JStr ''1.80''), (''rustc'', JStr ''1.80''), (''hisi-fwpkg'', JStr ''0.4'')]),
       (''artifacts'', JObj [(''blinky.elf'', JStr (sha256_hex ''E'')), (''blinky.img'', JStr (sha256_hex ''AB'')),
          (''blinky.plan.json'', JStr (sha256_hex (''P'' @ [CHR 10]))),
          (''Cargo.lock'', JStr (sha256_hex ''Cargo.lock'')),
          (''rust-toolchain.toml'', JStr (sha256_hex ''rust-toolchain.toml''))])]"

definition demo_assets :: directory where
  "demo_assets =
     [(''blinky.elf'', File_entry ''E''), (''Cargo.lock'', File_entry ''Cargo.lock''),
      (''rust-toolchain.toml'', File_entry ''rust-toolchain.toml''),
      (''blinky.img'', File_entry ''AB''), (''blinky.plan.json'', File_entry (''P'' @ [CHR 10])),
      (''release-manifest.json'', File_entry (''M'' @ [CHR 10]))]"

lemma validate_any_base:
  "validate_flash_plan plan img (Some b) = Inr () \<Longrightarrow> validate_flash_plan plan img None = Inr ()"
  by (auto simp: validate_flash_plan_def check_base_def Let_def res_simps split: option.splits if_splits)

lemma py_eq_ints: "py_eq (JArr (map JInt ns)) (JArr (map JInt ns))"
proof -
  have "py_eq (JInt n) (JInt n)" for n by (simp add: py_eq.simps json_number_def)
  then have "list_all (\<lambda>(x, y). py_eq x y) (zip (map JInt ns) (map JInt ns))" by (induction ns) simp_all
  then show ?thesis by (simp add: py_eq.simps [of "JArr (map JInt ns)"])
qed

lemma demo_plan_eq: "py_eq (JObj demo_plan) (JObj demo_plan)"
proof -
  have s: "py_eq (JStr a) (JStr a)" "py_eq (JInt n) (JInt n)" "py_eq (JFloat q) (JFloat q)"
    "py_eq (JBool b) (JBool b)" for a n q b
    by (simp_all add: py_eq.simps json_number_def)
  have c: "py_eq (chunk_json a b c) (chunk_json a b c)" for a b c
    by (simp add: chunk_json_def py_eq.simps [of "JObj d" for d] s)
  have "py_eq (JArr [chunk_json 0x230001 1 1, chunk_json 0x230000 0 1])
      (JArr [chunk_json 0x230001 1 1, chunk_json 0x230000 0 1])"
    by (simp add: py_eq.simps [of "JArr d" for d] c)
  then show ?thesis
    by (simp add: demo_plan_def py_eq.simps [of "JObj d" for d] s py_eq_ints)
qed

lemma py_eq_objects:
  "py_eq (JObj d) (JObj e) \<longleftrightarrow> length d = length e \<and>
     (\<forall>(k, v)\<in>set d. \<exists>w. dget k e = Some w \<and> py_eq v w)"
  by (subst py_eq.simps) (auto simp: list_all_iff split: option.splits)

lemma py_eq_item: "py_eq (JObj d) (JObj d) \<Longrightarrow> dget k d = Some v \<Longrightarrow> py_eq v v"
  unfolding py_eq_objects using map_of_SomeD by fastforce

lemma demo_flash_checks: "flash_checks (image_tool (demo_release_tools m)) (JObj demo_plan) ''AB'' None = Inr ()"
proof -
  have "\<forall>k\<in>set CANONICAL_KEYS. \<exists>v. dget k demo_plan = Some v"
    by (simp add: CANONICAL_KEYS_def demo_plan_def)
  then have "states demo_plan demo_plan"
    unfolding states_def using py_eq_item [OF demo_plan_eq] by (fastforce simp: json_get_def dget_or_def)
  then have "validate_image_semantics (image_tool (demo_release_tools m)) demo_plan ''AB'' = Inr ()"
    unfolding validate_image_semantics_Inr
    by (intro exI [of _ "''ws63''"] exI [of _ "0x230000"] exI [of _ demo_plan])
      (simp add: demo_release_tools_def json_get_def dget_or_def demo_plan_def)
  with validate_any_base [OF demo_plan_valid] show ?thesis by (simp add: flash_checks_def)
qed

abbreviation signed_names :: "string list" where
  "signed_names \<equiv> filter (\<lambda>n. n \<noteq> ''SHA256SUMS'') ASSETS"

lemma demo_sums:
  "sums_of demo_assets signed_names =
     [(''blinky.elf'', sha256_hex ''E''), (''blinky.img'', sha256_hex ''AB''),
      (''blinky.plan.json'', sha256_hex (''P'' @ [CHR 10])), (''Cargo.lock'', sha256_hex ''Cargo.lock''),
      (''rust-toolchain.toml'', sha256_hex ''rust-toolchain.toml''),
      (''release-manifest.json'', sha256_hex (''M'' @ [CHR 10]))]"
  by (simp add: sums_of_def demo_assets_def ASSETS_def INPUTS_def)

lemma demo_manifest_checks:
  "check_manifest (demo_release_tools m) (sums_of demo_assets signed_names) demo_manifest ''c0ffee'' ''v1'' = Inr ()"
proof -
  have s: "py_eq (JStr a) (JStr a)" for a by (simp add: py_eq.simps)
  show ?thesis
    unfolding demo_sums
    by (simp add: check_manifest_def demo_manifest_def json_get_def dget_or_def equals_int_def json_number_def
        artifact_digests_def INPUTS_def py_eq.simps [of "JObj d" for d] s attr_get_def subscript_def
        json_item_def demo_release_tools_def)
qed

lemma demo_verified:
  assumes "verify_checksums dir (Some signed_names) = Inr (sums_of demo_assets signed_names)"
    and "\<forall>n. n \<noteq> ''SHA256SUMS'' \<longrightarrow> dget n dir = dget n demo_assets"
  shows "\<exists>report. verify_release (demo_release_tools demo_manifest) dir ''c0ffee'' ''v1'' = Inr report"
proof -
  have files: "read_file dir ''release-manifest.json'' = Inr (''M'' @ [CHR 10])"
    "read_file dir ''blinky.plan.json'' = Inr (''P'' @ [CHR 10])"
    "read_file dir ''blinky.img'' = Inr ''AB''" "read_file dir ''blinky.elf'' = Inr ''E''"
    using assms(2) by (simp_all add: read_file_def demo_assets_def)
  have "check_reproduced (demo_release_tools demo_manifest) dir (JObj demo_plan) ''AB'' = Inr ()"
    unfolding check_reproduced_Inr using files(4) demo_plan_eq by (auto simp: demo_release_tools_def)
  then show ?thesis
    unfolding verify_release_def assms(1) files
    using demo_manifest_checks demo_flash_checks by (simp add: demo_release_tools_def)
qed

lemma demo_d3:
  "plan_step demo_source (demo_release_tools m) (Inr ''E'')
     [(''blinky.elf'', File_entry ''E''), (''Cargo.lock'', File_entry ''Cargo.lock''),
      (''rust-toolchain.toml'', File_entry ''rust-toolchain.toml'')]
   = Inr [(''blinky.elf'', File_entry ''E''), (''Cargo.lock'', File_entry ''Cargo.lock''),
      (''rust-toolchain.toml'', File_entry ''rust-toolchain.toml''),
      (''blinky.img'', File_entry ''AB''), (''blinky.plan.json'', File_entry [CHR ''P'', CHR 10])]"
  by (simp add: plan_step_def release_plan_def demo_release_tools_def demo_source_def write_json_def)

lemma demo_submodule: "rmap submodule_entry (text_lines ''1a2b crates/hal (v1)'')
    = Inr [JObj [(''path'', JStr ''crates/hal''), (''commit'', JStr ''1a2b'')]]"
proof -
  have "decode_chars ''1a2b crates/hal (v1)'' = map (\<lambda>c. [c]) ''1a2b crates/hal (v1)''"
    by (rule decode_chars_ascii) (simp add: ascii_def)
  then show ?thesis
    by (simp add: text_lines_def is_line_break_def submodule_entry_def is_space_def)
qed

lemma demo_d5:
  "manifest_step demo_source (demo_release_tools m) ''c0ffee'' ''v1'' ''ci/7''
     [(''blinky.elf'', File_entry ''E''), (''Cargo.lock'', File_entry ''Cargo.lock''),
      (''rust-toolchain.toml'', File_entry ''rust-toolchain.toml''),
      (''blinky.img'', File_entry ''AB''), (''blinky.plan.json'', File_entry [CHR ''P'', CHR 10])]
   = Inr demo_assets"
  by (simp add: manifest_step_def demo_source_def demo_submodule named_values_def tool_version_def
      demo_release_tools_def INPUTS_def sha_def read_file_def write_json_def demo_assets_def demo_plan_def)

lemma demo_signed:
  "\<exists>final. sums_step demo_assets = Inr final \<and> distinct (map fst final) \<and>
     verify_checksums final (Some signed_names) = Inr (sums_of demo_assets signed_names) \<and>
     (\<exists>report. verify_release (demo_release_tools demo_manifest) final ''c0ffee'' ''v1'' = Inr report)"
proof -
  have d: "distinct (map fst demo_assets)" "set (regular_files demo_assets) - {''SHA256SUMS''} = set ASSETS - {''SHA256SUMS''}"
    by (simp_all add: demo_assets_def regular_files_def ASSETS_def INPUTS_def insert_commute insert_Diff_if)
  from sums_step_verified [OF d] obtain final where f: "sums_step demo_assets = Inr final"
    "verify_checksums final (Some signed_names) = Inr (sums_of demo_assets signed_names)"
    "\<forall>n. n \<noteq> ''SHA256SUMS'' \<longrightarrow> dget n final = dget n demo_assets" by blast
  from f(1) obtain content where "final = dset ''SHA256SUMS'' (File_entry content) demo_assets"
    by (auto simp: sums_step_def res_simps)
  with d(1) have "distinct (map fst final)" by (simp only: distinct_update)
  with f demo_verified [OF f(2,3)] show ?thesis by blast
qed

lemma demo_prepared:
  "\<exists>d. prepare_release demo_source (demo_release_tools demo_manifest) ''v1'' ''ci/7'' (Inr ''E'') [] = (Inr (), d)"
proof -
  from demo_signed obtain final report where f: "sums_step demo_assets = Inr final"
    and v: "verify_release (demo_release_tools demo_manifest) final ''c0ffee'' ''v1'' = Inr report" by blast
  have "git_head demo_source = Inr ''c0ffee''" "git_diff demo_source = Inr ()" "tree_file demo_source = Inr"
    by (simp_all add: demo_source_def)
  then show ?thesis
    by (simp add: prepare_release_def copy_step_def raise_if_def demo_d3 demo_d5 f v)
qed

theorem verify_checksums_exact_witness:
  "\<exists>dir hashes. verify_checksums dir (Some signed_names) = Inr hashes \<and>
     dget ''blinky.img'' dir = Some (File_entry ''AB'') \<and> dget ''blinky.img'' hashes = Some (sha256_hex ''AB'')"
proof -
  from demo_signed obtain final where f: "sums_step demo_assets = Inr final" "distinct (map fst final)"
    and v: "verify_checksums final (Some signed_names) = Inr (sums_of demo_assets signed_names)" by blast
  from f(1) have "dget ''blinky.img'' final = Some (File_entry ''AB'')"
    by (auto simp: sums_step_def res_simps demo_assets_def)
  with verify_checksums_exact [OF v f(2)] v show ?thesis
    by (intro exI [of _ final] exI [of _ "sums_of demo_assets signed_names"]) simp
qed

theorem sums_step_verifies_witness:
  "\<exists>final. sums_step demo_assets = Inr final \<and>
     verify_checksums final (Some signed_names) = Inr (sums_of demo_assets signed_names)"
proof -
  have "distinct (map fst demo_assets)" "set (regular_files demo_assets) - {''SHA256SUMS''} = set ASSETS - {''SHA256SUMS''}"
    by (simp_all add: demo_assets_def regular_files_def ASSETS_def INPUTS_def insert_commute insert_Diff_if)
  from sums_step_verifies [OF this] show ?thesis by blast
qed

theorem verified_release_programs_image_witness:
  "\<exists>dir img. read_file dir ''blinky.img'' = Inr img \<and>
     (\<exists>elf doc. elf_tool (demo_release_tools demo_manifest) elf = Completed (Some doc) (Some img))"
proof -
  from demo_signed obtain final report where
    "verify_release (demo_release_tools demo_manifest) final ''c0ffee'' ''v1'' = Inr report" by blast
  from verified_release_programs_image [OF this] show ?thesis by blast
qed

theorem prepare_release_outcome_witness:
  "\<exists>final. prepare_release demo_source (demo_release_tools demo_manifest) ''v1'' ''ci/7'' (Inr ''E'') [] = (Inr (), final)
     \<and> fst ` set final = set ASSETS"
proof -
  from demo_prepared obtain final where
    p: "prepare_release demo_source (demo_release_tools demo_manifest) ''v1'' ''ci/7'' (Inr ''E'') [] = (Inr (), final)"
    by blast
  from prepare_release_outcome [OF p] p show ?thesis by blast
qed

lemma verify_checksums_any:
  "verify_checksums dir (Some names) = Inr hashes \<Longrightarrow> verify_checksums dir None = Inr hashes"
  by (auto simp: verify_checksums_def Let_def res_simps split: if_splits)

end
