(* ===== verification/Release_Acceptance.thy ===== *)
theory Release_Acceptance
  imports Release
begin

text \<open>
  \<open>scripts/verify-release.py\<close>: the acceptance of a published release, from what GitHub says of
  its workflow run and its assets, from the downloaded assets (checked by the functions of
  \<open>Release\<close>, which the script loads) and from the registry.  The answers of GitHub and of the
  registry, the download and the archive of a crate are inputs.
\<close>

section \<open>The inputs\<close>

datatype release_kind = Kind_github | Kind_crates_io | Kind_both

record acceptance_args =
  tag :: string
  kind :: release_kind
  workflow :: string
  required_jobs :: "string list"
  required_assets :: "string list"
  packages :: "string list"
  firmware_bundle :: bool

text \<open>
  \<open>commit_sha\<close> is the field \<open>sha\<close> of the commit of the tag, a string; \<open>member_json\<close> is the JSON
  document that a file of a gzipped tar archive holds.
\<close>

record release_world =
  commit_sha :: "string res"
  run_answer :: "json res"
  jobs_answer :: "json res"
  release_answer :: "json res"
  downloaded :: "directory res"
  fetch :: "string \<Rightarrow> bytes res"
  member_json :: "bytes \<Rightarrow> string \<Rightarrow> json res"
  bundle_tools :: release_tools

section \<open>The workflow run\<close>

text \<open>\<open>{job['name'] for job in jobs}\<close>, with the jobs as dictionaries\<close>

definition named_job :: "json \<Rightarrow> (json \<times> json_object) res" where
  "named_job job =
     (case json_dict job of
        None \<Rightarrow> Inl (TypeError ''indices'')
      | Some d \<Rightarrow> rbind (json_item ''name'' d) (\<lambda>name.
          if hashable name then Inr (name, d) else Inl (TypeError ''unhashable'')))"

definition run_mismatch :: "json_object \<Rightarrow> string \<Rightarrow> string \<Rightarrow> bool res" where
  "run_mismatch run source_commit workflow_name =
     (if json_get ''head_sha'' run \<noteq> JStr source_commit \<or> json_get ''conclusion'' run \<noteq> JStr ''success''
         \<or> json_get ''status'' run \<noteq> JStr ''completed''
      then Inr True
      else (case json_str (dget_or ''path'' (JStr []) run) of
              None \<Rightarrow> Inl (AttributeError ''split'')
            | Some path \<Rightarrow>
                Inr (takeWhile (\<lambda>c. c \<noteq> CHR 0x40) path \<noteq> ''.github/workflows/'' @ workflow_name)))"

definition job_failed :: "json_object \<Rightarrow> bool" where
  "job_failed job \<longleftrightarrow>
     json_get ''conclusion'' job \<noteq> JStr ''success'' \<or> json_get ''status'' job \<noteq> JStr ''completed''"

definition validate_run :: "json \<Rightarrow> json list \<Rightarrow> string \<Rightarrow> string \<Rightarrow> string list \<Rightarrow> unit res" where
  "validate_run run jobs source_commit workflow_name required =
     (case json_dict run of
        None \<Rightarrow> Inl (AttributeError ''get'')
      | Some r \<Rightarrow>
          rbind (run_mismatch r source_commit workflow_name) (\<lambda>bad.
          rbind (raise_if bad (ValueError ''release run SHA/workflow/completion does not match'')) (\<lambda>_.
          rbind (raise_if (jobs = []) (ValueError ''release run has no jobs'')) (\<lambda>_.
          rbind (rmap named_job jobs) (\<lambda>named.
          rbind (raise_if (\<not> (\<forall>name\<in>set required. JStr name \<in> fst ` set named))
                  (ValueError ''required release jobs are missing'')) (\<lambda>_.
          raise_if
            (\<exists>(name, job)\<in>set named. (required = [] \<or> name \<in> JStr ` set required) \<and> job_failed job)
            (ValueError ''required release job was skipped, failed or incomplete'')))))))"

section \<open>The published release\<close>

text \<open>\<open>len(names) == len(set(names))\<close>\<close>

fun unique_values :: "json list \<Rightarrow> bool" where
  "unique_values [] = True"
| "unique_values (v # vs) = (\<not> list_ex (\<lambda>w. v = w \<or> py_eq v w) vs \<and> unique_values vs)"

definition validate_release :: "json \<Rightarrow> string \<Rightarrow> string list \<Rightarrow> unit res" where
  "validate_release release tag_name asset_names =
     (case json_dict release of
        None \<Rightarrow> Inl (AttributeError ''get'')
      | Some r \<Rightarrow>
          if json_get ''tag_name'' r \<noteq> JStr tag_name \<or> json_get ''draft'' r \<noteq> JBool False
          then Inl (ValueError ''expected a published release for the exact tag'')
          else rbind (json_iter (dget_or ''assets'' (JArr []) r)) (\<lambda>entries.
               rbind (rmap (\<lambda>asset. subscript asset ''name'') entries) (\<lambda>names.
               rbind (raise_if (\<not> list_all hashable names) (TypeError ''unhashable'')) (\<lambda>_.
               rbind (raise_if (\<not> unique_values names \<or> \<not> JStr ` set asset_names \<subseteq> set names)
                       (ValueError ''required named release assets missing or duplicated'')) (\<lambda>_.
               raise_if (JStr ''SHA256SUMS'' \<notin> set names) (ValueError ''release lacks SHA256SUMS''))))))"

section \<open>The registry\<close>

definition name_char :: "char \<Rightarrow> bool" where
  "name_char c \<longleftrightarrow> c \<in> set ''abcdefghijklmnopqrstuvwxyz0123456789_-''"

definition version_char :: "char \<Rightarrow> bool" where
  "version_char c \<longleftrightarrow>
     c \<in> set ''0123456789ABCDEFGHIJKLMNOPQRSTUVWXYZabcdefghijklmnopqrstuvwxyz.+-''"

definition crate_url :: "string \<Rightarrow> string \<Rightarrow> string" where
  "crate_url name version = ''https://crates.io/api/v1/crates/'' @ name @ ''/'' @ version"

definition check_vcs :: "json \<Rightarrow> string \<Rightarrow> unit res" where
  "check_vcs vcs source_commit =
     rbind (subscript vcs ''git'') (\<lambda>git.
     rbind (subscript git ''sha1'') (\<lambda>sha1.
     rbind (if sha1 \<noteq> JStr source_commit then Inr True
            else rbind (attr_get git ''dirty'' (JBool False)) (\<lambda>v. Inr (truthy v))) (\<lambda>bad.
       raise_if bad (ValueError ''published crate was not packaged from the exact clean tag commit''))))"

definition verify_registry :: "release_world \<Rightarrow> string \<Rightarrow> string \<Rightarrow> json res" where
  "verify_registry world package source_commit =
     (case split_once (CHR ''='') package of
        None \<Rightarrow> Inl (ValueError ''not enough values to unpack'')
      | Some (name, version) \<Rightarrow>
          rbind (raise_if (name = [] \<or> \<not> list_all name_char name \<or> version = [] \<or> \<not> list_all version_char version)
                  (ValueError ''package must be name=exact-version'')) (\<lambda>_.
          rbind (rbind (fetch world (crate_url name version)) (loads (bundle_tools world))) (\<lambda>answer.
          rbind (subscript answer ''version'') (\<lambda>metadata.
          rbind (subscript metadata ''num'') (\<lambda>num.
          rbind (if num \<noteq> JStr version then Inr True
                 else rbind (subscript metadata ''yanked'') (\<lambda>y. Inr (truthy y))) (\<lambda>missing.
          rbind (raise_if missing (ValueError ''registry version missing or yanked'')) (\<lambda>_.
          rbind (fetch world (crate_url name version @ ''/download'')) (\<lambda>data.
          rbind (subscript metadata ''checksum'') (\<lambda>checksum.
          rbind (raise_if (checksum \<noteq> JStr (sha256_hex data)) (ValueError ''registry package checksum mismatch'')) (\<lambda>_.
          rbind (member_json world data (name @ ''-'' @ version @ ''/.cargo_vcs_info.json'')) (\<lambda>vcs.
          rbind (check_vcs vcs source_commit) (\<lambda>_.
            Inr (JObj [(''package'', JStr name), (''version'', JStr version),
              (''sha256'', JStr (sha256_hex data)), (''source_commit'', JStr source_commit)])))))))))))))"

section \<open>The command\<close>

definition page_jobs :: "json \<Rightarrow> json list res" where
  "page_jobs pages =
     rbind (json_iter pages) (\<lambda>ps.
     rbind (rmap (\<lambda>page. rbind (subscript page ''jobs'') json_iter) ps) (\<lambda>jss. Inr (concat jss)))"

definition reported_job :: "json \<Rightarrow> json res" where
  "reported_job job =
     rbind (subscript job ''name'') (\<lambda>name.
     rbind (subscript job ''conclusion'') (\<lambda>conclusion.
       Inr (JObj [(''name'', name), (''conclusion'', conclusion)])))"

definition kind_name :: "release_kind \<Rightarrow> string" where
  "kind_name k =
     (case k of Kind_github \<Rightarrow> ''github'' | Kind_crates_io \<Rightarrow> ''crates-io'' | Kind_both \<Rightarrow> ''both'')"

definition github_part :: "acceptance_args \<Rightarrow> release_world \<Rightarrow> string \<Rightarrow> json_object res" where
  "github_part args world source_commit =
     (if kind args = Kind_crates_io then Inr []
      else rbind (release_answer world) (\<lambda>release.
           rbind (validate_release release (tag args) (required_assets args)) (\<lambda>_.
           rbind (downloaded world) (\<lambda>assets_dir.
           rbind (verify_checksums assets_dir None) (\<lambda>hashes.
           rbind (if firmware_bundle args
                  then rbind (verify_release (bundle_tools world) assets_dir source_commit (tag args))
                         (\<lambda>report. Inr [(''firmware'', report)])
                  else Inr []) (\<lambda>firmware.
             Inr ((''github_assets'', JObj (map (\<lambda>(n, h). (n, JStr h)) hashes)) # firmware)))))))"

definition registry_part :: "acceptance_args \<Rightarrow> release_world \<Rightarrow> string \<Rightarrow> json_object res" where
  "registry_part args world source_commit =
     (if kind args = Kind_github then Inr []
      else rbind (rmap (\<lambda>package. verify_registry world package source_commit) (packages args))
             (\<lambda>reports. Inr [(''registry'', JArr reports)]))"

definition accept_release :: "acceptance_args \<Rightarrow> release_world \<Rightarrow> json_object res" where
  "accept_release args world =
     (if kind args \<noteq> Kind_crates_io \<and> required_assets args = [] \<or> kind args \<noteq> Kind_github \<and> packages args = []
      then Inl (SystemExit ''2'')
      else rbind (commit_sha world) (\<lambda>source_commit.
           rbind (run_answer world) (\<lambda>run.
           rbind (rbind (jobs_answer world) page_jobs) (\<lambda>jobs.
           rbind (validate_run run jobs source_commit (workflow args) (required_jobs args)) (\<lambda>_.
           rbind (subscript run ''html_url'') (\<lambda>url.
           rbind (subscript run ''run_attempt'') (\<lambda>attempt.
           rbind (rmap reported_job jobs) (\<lambda>reported.
           rbind (github_part args world source_commit) (\<lambda>github.
           rbind (registry_part args world source_commit) (\<lambda>registry.
             Inr ([(''schema'', JInt 1), (''kind'', JStr (kind_name (kind args))),
                   (''source_commit'', JStr source_commit), (''run_url'', url), (''run_attempt'', attempt),
                   (''jobs'', JArr reported)] @ github @ registry @ [(''status'', JStr ''pass'')])))))))))))"

section \<open>What is accepted\<close>

lemma named_job_Inr [res_simps]:
  "named_job job = Inr (name, d) \<longleftrightarrow> job = JObj d \<and> dget ''name'' d = Some name \<and> hashable name"
  by (auto simp: named_job_def res_simps json_item_def split: option.splits if_splits)

lemma run_mismatch_Inr:
  "run_mismatch run s w = Inr False \<longleftrightarrow>
     json_get ''head_sha'' run = JStr s \<and> json_get ''conclusion'' run = JStr ''success'' \<and>
     json_get ''status'' run = JStr ''completed'' \<and>
     (\<exists>path. dget_or ''path'' (JStr []) run = JStr path \<and>
        takeWhile (\<lambda>c. c \<noteq> CHR 0x40) path = ''.github/workflows/'' @ w)"
  by (auto simp: run_mismatch_def split: option.splits)

definition job_named :: "string \<Rightarrow> json_object \<Rightarrow> bool" where
  "job_named n d \<longleftrightarrow> dget ''name'' d = Some (JStr n)"

lemma validate_run_Inr:
  assumes "validate_run run jobs s w required = Inr ()"
  shows "\<exists>r. run = JObj r \<and> run_mismatch r s w = Inr False \<and> jobs \<noteq> [] \<and>
    (\<forall>job\<in>set jobs. \<exists>d. job = JObj d \<and>
       (required = [] \<or> (\<exists>n\<in>set required. job_named n d) \<longrightarrow> \<not> job_failed d)) \<and>
    (\<forall>n\<in>set required. \<exists>d. JObj d \<in> set jobs \<and> job_named n d)"
proof -
  from assms obtain r named where r: "run = JObj r" "run_mismatch r s w = Inr False" "jobs \<noteq> []"
    and named: "rmap named_job jobs = Inr named"
    and req: "\<forall>n\<in>set required. JStr n \<in> fst ` set named"
    and good: "\<not> (\<exists>(name, job)\<in>set named. (required = [] \<or> name \<in> JStr ` set required) \<and> job_failed job)"
    by (auto simp: validate_run_def res_simps split: option.splits)
  have as_named: "\<exists>d. job = JObj d \<and> (\<exists>name. (name, d) \<in> set named \<and> dget ''name'' d = Some name)"
    if "job \<in> set jobs" for job
    using rmap_of [OF named that] by (auto simp: named_job_Inr)
  have of_named: "JObj d \<in> set jobs \<and> dget ''name'' d = Some name" if "(name, d) \<in> set named" for name d
    using rmap_from [OF named that] by (auto simp: named_job_Inr)
  have "\<forall>job\<in>set jobs. \<exists>d. job = JObj d \<and>
       (required = [] \<or> (\<exists>n\<in>set required. job_named n d) \<longrightarrow> \<not> job_failed d)"
    using as_named good by (fastforce simp: job_named_def)
  moreover have "\<forall>n\<in>set required. \<exists>d. JObj d \<in> set jobs \<and> job_named n d"
    using req of_named by (fastforce simp: job_named_def)
  ultimately show ?thesis using r by blast
qed

lemma check_vcs_Inr:
  "check_vcs vcs s = Inr () \<Longrightarrow> \<exists>git. subscript vcs ''git'' = Inr git \<and> subscript git ''sha1'' = Inr (JStr s) \<and>
     (\<exists>v. attr_get git ''dirty'' (JBool False) = Inr v \<and> \<not> truthy v)"
  by (auto simp: check_vcs_def res_simps split: if_splits)

definition registry_agrees :: "release_world \<Rightarrow> string \<Rightarrow> string \<Rightarrow> bool" where
  "registry_agrees world package s \<longleftrightarrow>
     (\<exists>name version data metadata vcs git. package = name @ ''='' @ version \<and>
        rbind (rbind (fetch world (crate_url name version)) (loads (bundle_tools world)))
          (\<lambda>answer. subscript answer ''version'') = Inr metadata \<and>
        subscript metadata ''num'' = Inr (JStr version) \<and>
        fetch world (crate_url name version @ ''/download'') = Inr data \<and>
        subscript metadata ''checksum'' = Inr (JStr (sha256_hex data)) \<and>
        member_json world data (name @ ''-'' @ version @ ''/.cargo_vcs_info.json'') = Inr vcs \<and>
        subscript vcs ''git'' = Inr git \<and> subscript git ''sha1'' = Inr (JStr s))"

lemma verify_registry_Inr:
  assumes "verify_registry world package s = Inr report"
  shows "registry_agrees world package s"
proof -
  from assms obtain name version where p: "split_once (CHR ''='') package = Some (name, version)"
    by (auto simp: verify_registry_def split: option.splits)
  from assms [unfolded verify_registry_def p option.case prod.case rbind_Inr raise_if_Inr]
  obtain answer metadata data vcs where
    "rbind (fetch world (crate_url name version)) (loads (bundle_tools world)) = Inr answer"
    "subscript answer ''version'' = Inr metadata"
    "subscript metadata ''num'' = Inr (JStr version)"
    "fetch world (crate_url name version @ ''/download'') = Inr data"
    "subscript metadata ''checksum'' = Inr (JStr (sha256_hex data))"
    "member_json world data (name @ ''-'' @ version @ ''/.cargo_vcs_info.json'') = Inr vcs"
    "check_vcs vcs s = Inr ()"
    by (auto split: if_splits)
  with check_vcs_Inr [of vcs s] split_once_join [OF p] show ?thesis
    unfolding registry_agrees_def by (fastforce simp: rbind_Inr)
qed

text \<open>
  C26: What an accepted release is.  The workflow run is that of the commit of the tag and ended
  with success, every required job is among its jobs, and all jobs of these names (all jobs, if none
  is required) succeeded.  For a GitHub release the downloaded directory passes its checksums, which
  the report records, and a firmware bundle passes the verification of the release for that commit
  and tag.  For a registry release every package has the digest that the registry states for its
  version and was packaged from that commit.
\<close>

theorem accepted_release:
  assumes "accept_release args world = Inr report"
  shows "\<exists>s run jobs. commit_sha world = Inr s \<and> run_answer world = Inr (JObj run) \<and>
    (\<exists>pages. jobs_answer world = Inr pages \<and> page_jobs pages = Inr jobs) \<and> run_mismatch run s (workflow args) = Inr False \<and>
    jobs \<noteq> [] \<and>
    (\<forall>job\<in>set jobs. \<exists>d. job = JObj d \<and>
       (required_jobs args = [] \<or> (\<exists>n\<in>set (required_jobs args). job_named n d) \<longrightarrow> \<not> job_failed d)) \<and>
    (\<forall>n\<in>set (required_jobs args). \<exists>d. JObj d \<in> set jobs \<and> job_named n d) \<and>
    (kind args \<noteq> Kind_crates_io \<longrightarrow> required_assets args \<noteq> [] \<and>
       (\<exists>assets_dir hashes. downloaded world = Inr assets_dir \<and> verify_checksums assets_dir None = Inr hashes \<and>
          dget ''github_assets'' report = Some (JObj (map (\<lambda>(n, h). (n, JStr h)) hashes)) \<and>
          (firmware_bundle args \<longrightarrow>
             (\<exists>firmware. verify_release (bundle_tools world) assets_dir s (tag args) = Inr firmware)))) \<and>
    (kind args \<noteq> Kind_github \<longrightarrow> packages args \<noteq> [] \<and>
       (\<forall>package\<in>set (packages args). registry_agrees world package s))"
proof -
  have guard: "\<not> (kind args \<noteq> Kind_crates_io \<and> required_assets args = [] \<or>
      kind args \<noteq> Kind_github \<and> packages args = [])"
    using assms by (auto simp: accept_release_def)
  from assms [unfolded accept_release_def if_not_P [OF guard] rbind_Inr] obtain
      s run jobs u github registry url attempt reported where
    a: "commit_sha world = Inr s" "run_answer world = Inr run"
      "\<exists>pages. jobs_answer world = Inr pages \<and> page_jobs pages = Inr jobs"
      "validate_run run jobs s (workflow args) (required_jobs args) = Inr u"
    and g: "github_part args world s = Inr github" and c: "registry_part args world s = Inr registry"
    and rep: "[(''schema'', JInt 1), (''kind'', JStr (kind_name (kind args))),
                   (''source_commit'', JStr s), (''run_url'', url), (''run_attempt'', attempt),
                   (''jobs'', JArr reported)] @ github @ registry @ [(''status'', JStr ''pass'')] = report"
    by (simp only: sum.inject) blast
  have gh: "\<exists>assets_dir hashes. downloaded world = Inr assets_dir \<and> verify_checksums assets_dir None = Inr hashes \<and>
          dget ''github_assets'' report = Some (JObj (map (\<lambda>(n, h). (n, JStr h)) hashes)) \<and>
          (firmware_bundle args \<longrightarrow>
             (\<exists>firmware. verify_release (bundle_tools world) assets_dir s (tag args) = Inr firmware))"
    if "kind args \<noteq> Kind_crates_io"
    using g that by (auto simp: github_part_def rep [symmetric] res_simps split: if_splits)
  have agrees: "registry_agrees world package s" if "kind args \<noteq> Kind_github" "package \<in> set (packages args)" for package
  proof -
    from c that(1) obtain reports where "rmap (\<lambda>p. verify_registry world p s) (packages args) = Inr reports"
      by (auto simp: registry_part_def res_simps)
    from rmap_of [OF this that(2)] verify_registry_Inr show ?thesis by blast
  qed
  from a(4) have "validate_run run jobs s (workflow args) (required_jobs args) = Inr ()" by simp
  from validate_run_Inr [OF this] agrees guard a(1-3) gh show ?thesis by blast
qed

definition demo_acceptance :: acceptance_args where
  "demo_acceptance =
     \<lparr>tag = ''v1'', kind = Kind_both, workflow = ''release.yml'', required_jobs = [''build''],
      required_assets = [''blinky.img''], packages = [''hal=0.2''], firmware_bundle = True\<rparr>"

definition demo_world :: "directory \<Rightarrow> release_world" where
  "demo_world assets_dir =
     \<lparr>commit_sha = Inr ''c0ffee'',
      run_answer = Inr (JObj [(''head_sha'', JStr ''c0ffee''), (''conclusion'', JStr ''success''),
        (''status'', JStr ''completed''), (''path'', JStr ''.github/workflows/release.yml@v1''),
        (''html_url'', JStr ''url''), (''run_attempt'', JInt 1)]),
      jobs_answer = Inr (JArr [JObj [(''jobs'', JArr
        [JObj [(''name'', JStr ''build''), (''conclusion'', JStr ''success''), (''status'', JStr ''completed'')],
         JObj [(''name'', JStr ''notify''), (''conclusion'', JStr ''skipped''), (''status'', JStr ''completed'')]])]]),
      release_answer = Inr (JObj [(''tag_name'', JStr ''v1''), (''draft'', JBool False),
        (''assets'', JArr [JObj [(''name'', JStr ''blinky.img'')], JObj [(''name'', JStr ''SHA256SUMS'')]])]),
      downloaded = Inr assets_dir,
      fetch = (\<lambda>url. Inr (if url = crate_url ''hal'' ''0.2'' then ''V'' else ''tgz'')),
      member_json = (\<lambda>data name. Inr (JObj [(''git'', JObj [(''sha1'', JStr ''c0ffee'')])])),
      bundle_tools = demo_release_tools demo_manifest\<rparr>"

theorem accepted_release_witness:
  "\<exists>assets_dir report s. accept_release demo_acceptance (demo_world assets_dir) = Inr report \<and>
     registry_agrees (demo_world assets_dir) ''hal=0.2'' s \<and> s = ''c0ffee''"
proof -
  from demo_signed obtain final report where
    v: "verify_checksums final (Some signed_names) = Inr (sums_of demo_assets signed_names)"
      "verify_release (demo_release_tools demo_manifest) final ''c0ffee'' ''v1'' = Inr report" by blast
  have run: "validate_run (JObj [(''head_sha'', JStr ''c0ffee''), (''conclusion'', JStr ''success''),
        (''status'', JStr ''completed''), (''path'', JStr ''.github/workflows/release.yml@v1''),
        (''html_url'', JStr ''url''), (''run_attempt'', JInt 1)])
      [JObj [(''name'', JStr ''build''), (''conclusion'', JStr ''success''), (''status'', JStr ''completed'')],
         JObj [(''name'', JStr ''notify''), (''conclusion'', JStr ''skipped''), (''status'', JStr ''completed'')]]
      ''c0ffee'' ''release.yml'' [''build''] = Inr ()"
    by (simp add: validate_run_def run_mismatch_def json_get_def dget_or_def named_job_def json_item_def
        raise_if_def job_failed_def)
  have rel: "validate_release (JObj [(''tag_name'', JStr ''v1''), (''draft'', JBool False),
        (''assets'', JArr [JObj [(''name'', JStr ''blinky.img'')], JObj [(''name'', JStr ''SHA256SUMS'')]])])
      ''v1'' [''blinky.img''] = Inr ()"
    by (simp add: validate_release_def json_get_def dget_or_def subscript_def json_item_def raise_if_def
        py_eq_str)
  have reg: "\<exists>r. verify_registry (demo_world final) ''hal=0.2'' ''c0ffee'' = Inr r"
    by (simp add: verify_registry_def demo_world_def raise_if_def name_char_def version_char_def
        demo_release_tools_def subscript_def json_item_def check_vcs_def attr_get_def dget_or_def
        crate_url_def)
  then have "\<exists>report. accept_release demo_acceptance (demo_world final) = Inr report"
    by (auto simp: accept_release_def demo_acceptance_def demo_world_def page_jobs_def subscript_def
        json_item_def run reported_job_def github_part_def registry_part_def rel
        verify_checksums_any [OF v(1)] v(2))
  then obtain report' where a: "accept_release demo_acceptance (demo_world final) = Inr report'" by blast
  from accepted_release [OF a] obtain s where s: "commit_sha (demo_world final) = Inr s"
    "kind demo_acceptance \<noteq> Kind_github \<longrightarrow>
       (\<forall>package\<in>set (packages demo_acceptance). registry_agrees (demo_world final) package s)" by blast
  have "kind demo_acceptance \<noteq> Kind_github" "''hal=0.2'' \<in> set (packages demo_acceptance)"
    by (simp_all add: demo_acceptance_def)
  with s(2) have "registry_agrees (demo_world final) ''hal=0.2'' s" by blast
  moreover from s(1) have "s = ''c0ffee''" by (simp add: demo_world_def)
  ultimately show ?thesis using a by blast
qed

end
