(* ===== verification/Rom_Patch_Elf.thy ===== *)
theory Rom_Patch_Elf
  imports Elf_Bytes
begin

text \<open>
  \<open>scripts/check-ws63-plain-rf-elf.py\<close>: the gate on the radio firmware, whose ROM patch table
  must have survived the link.  The ELF parser is a package outside the repository, so a parsed
  file is a value of the record \<open>rf_elf\<close>; the two profiles are files of a submodule and are
  values too, with the patterns of a profile as predicates on symbol names.
\<close>

unbundle bit_operations_syntax

section \<open>The parsed file and the profiles\<close>

record typed_section = elf_section +
  sh_type :: string

record rf_symbol =
  sym_name :: string
  sym_defined :: bool          \<comment> \<open>\<open>symbol['st_shndx'] != 'SHN_UNDEF'\<close>\<close>
  sym_value :: int

text \<open>
  \<open>sections_named\<close> is \<open>get_section_by_name\<close>; the symbols are those of all symbol tables, in order,
  and the relocations those of all relocation sections.
\<close>

record rf_elf =
  elf_class :: int
  is_little_endian :: bool
  machine :: string
  sections_named :: "string \<Rightarrow> typed_section option"
  symbols :: "rf_symbol list"
  relocations :: "(string \<times> int) list"

record rf_profiles =
  namespace_patterns :: "(string \<Rightarrow> bool) list"
  profile_symbols :: "(string \<times> string) list"       \<comment> \<open>name and classification\<close>
  legacy_provider_symbols :: "string list"

section \<open>The checks\<close>

definition VENDOR_RELOCATIONS :: "int set" where
  "VENDOR_RELOCATIONS = {58, 59, 61}"

definition PATCH_VMA :: int where
  "PATCH_VMA = 0x0014C000"

definition PATCH_SIZE :: nat where
  "PATCH_SIZE = 0x928"

definition PATCH_COMPARE_OFFSET :: nat where
  "PATCH_COMPARE_OFFSET = 0x610"

definition PATCH_COUNT :: nat where
  "PATCH_COUNT = 37"

text \<open>\<open>ValidationError\<close> is a \<open>RuntimeError\<close>.\<close>

definition expect :: "bool \<Rightarrow> string \<Rightarrow> unit res" where
  "expect condition message = raise_if (\<not> condition) (RuntimeError message)"

text \<open>The first definition of a name counts.\<close>

fun defined_symbols :: "(string, int) dict \<Rightarrow> rf_symbol list \<Rightarrow> (string, int) dict" where
  "defined_symbols found [] = found"
| "defined_symbols found (s # ss) =
     defined_symbols
       (if sym_name s \<noteq> [] \<and> sym_defined s \<and> \<not> has_key (sym_name s) found
        then found @ [(sym_name s, sym_value s)] else found) ss"

definition classified :: "rf_profiles \<Rightarrow> string \<Rightarrow> string set" where
  "classified p c = fst ` set (filter (\<lambda>(n, k). k = c) (profile_symbols p))"

definition check_runtime_compatibility :: "rf_profiles \<Rightarrow> string set \<Rightarrow> unit res" where
  "check_runtime_compatibility p names =
     expect ({n \<in> names. list_ex (\<lambda>pattern. pattern n) (namespace_patterns p)} = classified p ''provided'')
       ''runtime compatibility drift''"

definition check_upstream_supplicant :: "rf_profiles \<Rightarrow> string set \<Rightarrow> unit res" where
  "check_upstream_supplicant p names =
     rbind (expect (set [''eloop_init'', ''hisi_wpa_create'', ''hisi_wpa_driver_install'', ''hisi_wpa_poll'',
                         ''wpa_supplicant_init''] \<subseteq> names) ''upstream supplicant closure is missing'') (\<lambda>_.
     expect (names \<inter> set (legacy_provider_symbols p) = {})
       ''legacy supplicant provider symbols are reachable'')"

definition expected_sections :: "(string \<times> int \<times> int) list" where
  "expected_sections =
     [(''.boot_header'', 0x00230000, 0x300), (''.wifi_pkt_ram'', 0x00A00000, 0xC000),
      (''.patch'', PATCH_VMA, int PATCH_SIZE)]"

fun check_sections :: "rf_elf \<Rightarrow> (string \<times> int \<times> int) list \<Rightarrow> unit res" where
  "check_sections elf [] = Inr ()"
| "check_sections elf ((name, address, extent) # rest) =
     (case sections_named elf name of
        None \<Rightarrow> Inl (RuntimeError (''missing required section '' @ name))
      | Some section \<Rightarrow>
          rbind (expect (sh_addr section = address) (name @ '' address drift'')) (\<lambda>_.
          rbind (expect (sh_size section = extent) (name @ '' size drift'')) (\<lambda>_.
            check_sections elf rest)))"

definition compare_words :: "bytes \<Rightarrow> (32 word) list" where
  "compare_words data = map (\<lambda>i. word_at data (PATCH_COMPARE_OFFSET + 12 + 4 * i)) [0..<PATCH_COUNT]"

fun check_trampolines :: "bytes \<Rightarrow> nat list \<Rightarrow> unit res" where
  "check_trampolines data [] = Inr ()"
| "check_trampolines data (i # is) =
     rbind (expect (word_at data (16 + i * 8) AND 0x7F = 0x17)
              (''ROM patch '' @ digits_of i @ '' is not AUIPC'')) (\<lambda>_.
     rbind (expect (word_at data (16 + i * 8 + 4) AND 0x7F = 0x67)
              (''ROM patch '' @ digits_of i @ '' is not JALR'')) (\<lambda>_.
       check_trampolines data is))"

definition check_patch :: "bytes \<Rightarrow> unit res" where
  "check_patch data =
     rbind (expect (length data = PATCH_SIZE) ''.patch payload is truncated'') (\<lambda>_.
     rbind (expect (word_at data (PATCH_COMPARE_OFFSET + 4) = word_of_int PATCH_VMA)
              ''ROM patch compare header VMA drift'') (\<lambda>_.
     rbind (expect (word_at data (PATCH_COMPARE_OFFSET + 8) = word_of_nat PATCH_COUNT)
              ''ROM patch count drift'') (\<lambda>_.
     rbind (expect (list_all (\<lambda>w. w AND 1 \<noteq> 0) (compare_words data))
              ''ROM patch compare address lost Thumb/vendor tag'') (\<lambda>_.
     rbind (expect (card (set (compare_words data)) = PATCH_COUNT)
              ''duplicate ROM patch compare address'') (\<lambda>_.
     check_trampolines data [0..<PATCH_COUNT])))))"

definition expected_symbols :: "(string \<times> int) list" where
  "expected_symbols =
     [(''__hisi_ws63_rom_patch_table'', PATCH_VMA), (''__rom_patch_begin__'', PATCH_VMA),
      (''__rom_patch_cmp_begin__'', PATCH_VMA + int PATCH_COMPARE_OFFSET),
      (''__rom_patch_end__'', PATCH_VMA + int PATCH_SIZE)]"

fun check_symbols :: "(string, int) dict \<Rightarrow> (string \<times> int) list \<Rightarrow> unit res" where
  "check_symbols found [] = Inr ()"
| "check_symbols found ((name, value) # rest) =
     rbind (expect (dget name found = Some value) (name @ '' address drift'')) (\<lambda>_.
       check_symbols found rest)"

fun check_relocations :: "(string \<times> int) list \<Rightarrow> unit res" where
  "check_relocations [] = Inr ()"
| "check_relocations ((section, k) # rest) =
     rbind (expect (k \<notin> VENDOR_RELOCATIONS) (''vendor relocation remains in '' @ section)) (\<lambda>_.
       check_relocations rest)"

definition check_elf :: "rf_profiles \<Rightarrow> rf_elf \<Rightarrow> bool \<Rightarrow> unit res" where
  "check_elf p elf require_upstream_supplicant =
     rbind (expect (elf_class elf = 32) ''firmware is not ELF32'') (\<lambda>_.
     rbind (expect (is_little_endian elf) ''firmware is not little-endian'') (\<lambda>_.
     rbind (expect (machine elf = ''EM_RISCV'') ''firmware is not RISC-V'') (\<lambda>_.
     rbind (check_sections elf expected_sections) (\<lambda>_.
     case (sections_named elf ''.wifi_pkt_ram'', sections_named elf ''.patch'') of
       (Some packet_ram, Some patch) \<Rightarrow>
         rbind (expect (sh_type packet_ram = ''SHT_NOBITS'') ''.wifi_pkt_ram must be NOLOAD'') (\<lambda>_.
         rbind (check_patch (sec_data patch)) (\<lambda>_.
         rbind (check_relocations (relocations elf)) (\<lambda>_.
         let found = defined_symbols [] (symbols elf); names = fst ` set found
         in rbind (check_symbols found expected_symbols) (\<lambda>_.
            rbind (check_runtime_compatibility p names) (\<lambda>_.
              if require_upstream_supplicant then check_upstream_supplicant p names else Inr ())))))
     | _ \<Rightarrow> Inl (TypeError ''NoneType'')))))"

text \<open>The command: a missing file is a validation error, and a validation error ends the program.\<close>

definition elf_main :: "rf_profiles \<Rightarrow> rf_elf res option \<Rightarrow> bool \<Rightarrow> unit res" where
  "elf_main p file require_upstream_supplicant =
     (case rbind (case file of None \<Rightarrow> Inl (RuntimeError ''ELF does not exist'') | Some parsed \<Rightarrow> parsed)
             (\<lambda>elf. check_elf p elf require_upstream_supplicant) of
        Inl (RuntimeError m) \<Rightarrow> Inl (SystemExit (''WS63 plain Cargo RF ELF invalid: '' @ m))
      | outcome \<Rightarrow> outcome)"

section \<open>What is accepted\<close>

text \<open>
  The table of ROM patches, in terms of the numbers in the file: the header names the address of
  the section and 37 patches; the compared addresses carry the tag in their lowest bit and differ;
  every trampoline is an AUIPC (opcode 0x17) followed by a JALR (opcode 0x67).
\<close>

definition patch_table :: "bytes \<Rightarrow> bool" where
  "patch_table data \<longleftrightarrow>
     length data = 2344 \<and> unat (word_at data 1556) = 0x14C000 \<and> unat (word_at data 1560) = 37 \<and>
     (\<forall>i < 37. odd (unat (word_at data (1564 + 4 * i)))) \<and>
     inj_on (\<lambda>i. unat (word_at data (1564 + 4 * i))) {..<37} \<and>
     (\<forall>i < 37. unat (word_at data (16 + i * 8)) mod 128 = 0x17 \<and>
               unat (word_at data (16 + i * 8 + 4)) mod 128 = 0x67)"

lemma expect_Inr [res_simps]: "expect b m = Inr u \<longleftrightarrow> b"
  by (simp add: expect_def raise_if_def)

lemma check_sections_Inr:
  "check_sections elf wanted = Inr () \<longleftrightarrow>
     (\<forall>(n, a, x)\<in>set wanted. \<exists>sec. sections_named elf n = Some sec \<and> sh_addr sec = a \<and> sh_size sec = x)"
  by (induction elf wanted rule: check_sections.induct) (auto simp: rbind_Inr expect_Inr split: option.splits)

lemma check_relocations_Inr:
  "check_relocations rs = Inr () \<longleftrightarrow> (\<forall>(s, k)\<in>set rs. k \<notin> VENDOR_RELOCATIONS)"
  by (induction rs rule: check_relocations.induct) (auto simp: rbind_Inr expect_Inr)

lemma check_symbols_Inr:
  "check_symbols found wanted = Inr () \<longleftrightarrow> (\<forall>(n, v)\<in>set wanted. dget n found = Some v)"
  by (induction found wanted rule: check_symbols.induct) (auto simp: rbind_Inr expect_Inr)

text \<open>The masks of the source read the lowest seven bits and the lowest bit.\<close>

lemma low_opcode:
  fixes w :: "32 word"
  shows "w AND 0x7F = 0x17 \<longleftrightarrow> unat w mod 128 = 0x17" "w AND 0x7F = 0x67 \<longleftrightarrow> unat w mod 128 = 0x67"
proof -
  have "w AND 0x7F = take_bit 7 w" by (simp add: take_bit_eq_mask mask_eq_exp_minus_1)
  then have "w AND 0x7F = w mod 128" by (simp add: take_bit_eq_mod)
  then have "unat (w AND 0x7F) = unat w mod 128" by (simp add: unat_mod)
  then show "w AND 0x7F = 0x17 \<longleftrightarrow> unat w mod 128 = 0x17" "w AND 0x7F = 0x67 \<longleftrightarrow> unat w mod 128 = 0x67"
    by (simp_all add: word_unat_eq_iff)
qed

lemma low_tag: "w AND 1 \<noteq> 0 \<longleftrightarrow> odd (unat w)" for w :: "32 word"
  by (simp add: and_one_eq odd_iff_mod_2_eq_one even_iff_mod_2_eq_zero word_unat_eq_iff unat_mod)

lemma check_trampolines_Inr:
  "check_trampolines data is = Inr () \<longleftrightarrow>
     (\<forall>i\<in>set is. word_at data (16 + i * 8) AND 0x7F = 0x17 \<and> word_at data (16 + i * 8 + 4) AND 0x7F = 0x67)"
  by (induction "is") (auto simp: rbind_Inr expect_Inr)

lemma distinct_words:
  "card (set (map f [0..<n])) = n \<longleftrightarrow> inj_on f {..<n}"
  by (simp add: atLeast0LessThan inj_on_iff_eq_card)

lemma check_patch_Inr: "check_patch data = Inr () \<longleftrightarrow> patch_table data"
proof -
  have vma: "w = word_of_int PATCH_VMA \<longleftrightarrow> unat w = 0x14C000" "w = word_of_nat PATCH_COUNT \<longleftrightarrow> unat w = 37"
    for w :: "32 word" by (auto simp: PATCH_VMA_def PATCH_COUNT_def word_unat_eq_iff)
  have inj: "inj_on (\<lambda>i. word_at data (1564 + 4 * i)) A \<longleftrightarrow> inj_on (\<lambda>i. unat (word_at data (1564 + 4 * i))) A" for A
    by (simp add: inj_on_def word_unat_eq_iff)
  show ?thesis
    unfolding check_patch_def rbind_Inr expect_Inr check_trampolines_Inr vma compare_words_def distinct_words
      list_all_iff low_opcode low_tag patch_table_def
    by (simp add: PATCH_SIZE_def PATCH_COMPARE_OFFSET_def PATCH_COUNT_def inj atLeast0LessThan Ball_image_comp) auto
qed

lemma first_definition:
  "n \<noteq> [] \<Longrightarrow> dget n (defined_symbols found ss) =
     (case dget n found of Some v \<Rightarrow> Some v
      | None \<Rightarrow> map_option sym_value (find (\<lambda>s. sym_name s = n \<and> sym_defined s) ss))"
  by (induction ss arbitrary: found) (auto simp: has_key_def map_add_def split: option.splits)

lemma check_upstream_supplicant_Inr:
  "check_upstream_supplicant p names = Inr () \<longleftrightarrow>
     {''eloop_init'', ''hisi_wpa_create'', ''hisi_wpa_driver_install'', ''hisi_wpa_poll'', ''wpa_supplicant_init''} \<subseteq> names
     \<and> names \<inter> set (legacy_provider_symbols p) = {}"
  by (simp add: check_upstream_supplicant_def rbind_Inr expect_Inr)

definition defines_names :: "rf_elf \<Rightarrow> string set" where
  "defines_names elf = set (map sym_name (filter (\<lambda>s. sym_name s \<noteq> [] \<and> sym_defined s) (symbols elf)))"

lemma defined_names: "fst ` set (defined_symbols found ss) =
    fst ` set found \<union> sym_name ` {s \<in> set ss. sym_name s \<noteq> [] \<and> sym_defined s}"
proof (induction ss arbitrary: found)
  case (Cons s ss)
  show ?case by (simp add: Cons.IH) (auto simp: has_key_iff)
qed simp

text \<open>
  C27: What the gate accepts.  Exactly the 32-bit little-endian RISC-V files whose boot header,
  packet RAM and patch section lie at their addresses with their sizes, the packet RAM without
  content; whose patch section is a table of 37 patches; without a vendor relocation; whose first
  definitions of the four patch symbols have their values; which define, of the names the profile's
  patterns select, exactly the provided ones; and, on request, the upstream supplicant and no
  legacy provider.
\<close>

theorem plain_elf_accepted:
  "check_elf p elf upstream = Inr () \<longleftrightarrow>
     elf_class elf = 32 \<and> is_little_endian elf \<and> machine elf = ''EM_RISCV'' \<and>
     (\<forall>(n, a, x)\<in>set expected_sections.
        \<exists>sec. sections_named elf n = Some sec \<and> sh_addr sec = a \<and> sh_size sec = x) \<and>
     map_option sh_type (sections_named elf ''.wifi_pkt_ram'') = Some ''SHT_NOBITS'' \<and>
     (\<exists>patch. sections_named elf ''.patch'' = Some patch \<and> patch_table (sec_data patch)) \<and>
     (\<forall>(s, k)\<in>set (relocations elf). k \<notin> VENDOR_RELOCATIONS) \<and>
     (\<forall>(n, v)\<in>set expected_symbols.
        map_option sym_value (find (\<lambda>s. sym_name s = n \<and> sym_defined s) (symbols elf)) = Some v) \<and>
     {n \<in> defines_names elf. \<exists>pattern\<in>set (namespace_patterns p). pattern n} = classified p ''provided'' \<and>
     (upstream \<longrightarrow> {''eloop_init'', ''hisi_wpa_create'', ''hisi_wpa_driver_install'', ''hisi_wpa_poll'',
         ''wpa_supplicant_init''} \<subseteq> defines_names elf \<and>
        defines_names elf \<inter> set (legacy_provider_symbols p) = {})"
proof -
  have names: "fst ` set (defined_symbols [] (symbols elf)) = defines_names elf"
    by (simp add: defined_names defines_names_def)
  have syms: "(\<forall>(n, v)\<in>set expected_symbols. dget n (defined_symbols [] (symbols elf)) = Some v) \<longleftrightarrow>
      (\<forall>(n, v)\<in>set expected_symbols.
        map_option sym_value (find (\<lambda>s. sym_name s = n \<and> sym_defined s) (symbols elf)) = Some v)"
    by (simp add: expected_symbols_def first_definition)
  have secs: "\<exists>x y. sections_named elf ''.wifi_pkt_ram'' = Some x \<and> sections_named elf ''.patch'' = Some y"
    if "check_sections elf expected_sections = Inr ()"
    using that unfolding check_sections_Inr by (auto simp: expected_sections_def)
  show ?thesis
  proof (cases "check_sections elf expected_sections = Inr ()")
    case True
    from secs [OF True] obtain x y where xy: "sections_named elf ''.wifi_pkt_ram'' = Some x"
      "sections_named elf ''.patch'' = Some y" by blast
    show ?thesis
      using True xy unfolding check_sections_Inr
      by (simp add: check_elf_def rbind_Inr expect_Inr check_patch_Inr check_relocations_Inr Let_def names
          check_symbols_Inr syms check_runtime_compatibility_def list_ex_iff check_upstream_supplicant_Inr
          check_sections_Inr)
  next
    case False
    then show ?thesis unfolding check_sections_Inr
      by (auto simp: check_elf_def rbind_Inr check_sections_Inr)
  qed
qed

section \<open>A firmware\<close>

definition demo_word :: "nat \<Rightarrow> nat" where
  "demo_word k =
     (if 4 \<le> k \<and> k < 78 then (if even k then 0x17 else 0x67)
      else if k = 389 then 0x14C000 else if k = 390 then 37
      else if 391 \<le> k \<and> k < 428 then 2 * (k - 391) + 1 else 0)"

definition demo_patch :: bytes where
  "demo_patch = concat (map le_bytes (map demo_word [0..<586]))"

lemma demo_patch_word: "k < 586 \<Longrightarrow> unat (word_at demo_patch (4 * k)) = demo_word k"
  unfolding demo_patch_def by (subst word_at_words) (auto simp: demo_word_def)

lemma demo_patch_table: "patch_table demo_patch"
proof -
  have len: "length demo_patch = 2344"
    by (simp add: demo_patch_def length_concat comp_def sum_list_triv)
  have "unat (word_at demo_patch (1564 + 4 * i)) = 2 * i + 1" if "i < 37" for i
    using demo_patch_word [of "391 + i"] that by (simp add: demo_word_def)
  moreover have "unat (word_at demo_patch (16 + i * 8)) = 0x17" if "i < 37" for i
    using demo_patch_word [of "4 + 2 * i"] that by (simp add: demo_word_def mult.commute)
  moreover have "unat (word_at demo_patch (16 + i * 8 + 4)) = 0x67" if "i < 37" for i
    using demo_patch_word [of "5 + 2 * i"] that by (simp add: demo_word_def algebra_simps)
  ultimately show ?thesis
    using len demo_patch_word [of 389] demo_patch_word [of 390]
    by (simp add: patch_table_def demo_word_def inj_on_def)
qed

definition demo_rf_elf :: rf_elf where
  "demo_rf_elf =
     \<lparr>elf_class = 32, is_little_endian = True, machine = ''EM_RISCV'',
      sections_named = (\<lambda>n. map_option (\<lambda>(a, x). \<lparr>sh_addr = a, sh_size = x,
          sec_data = if n = ''.patch'' then demo_patch else [],
          sh_type = if n = ''.wifi_pkt_ram'' then ''SHT_NOBITS'' else ''SHT_PROGBITS''\<rparr>)
        (map_of expected_sections n)),
      symbols = map (\<lambda>(n, v). \<lparr>sym_name = n, sym_defined = True, sym_value = v\<rparr>)
        (expected_symbols @ [(''osal_kmalloc'', 4)]),
      relocations = [(''.rela.text'', 18)]\<rparr>"

definition demo_rf_profiles :: rf_profiles where
  "demo_rf_profiles =
     \<lparr>namespace_patterns = [prefix ''osal_''], profile_symbols = [(''osal_kmalloc'', ''provided''), (''osal_udelay'', ''off-path'')],
      legacy_provider_symbols = []\<rparr>"

theorem plain_elf_accepted_witness:
  "check_elf demo_rf_profiles demo_rf_elf False = Inr ()"
proof -
  have "\<exists>patch. sections_named demo_rf_elf ''.patch'' = Some patch \<and> patch_table (sec_data patch)"
    using demo_patch_table by (simp add: demo_rf_elf_def expected_sections_def)
  moreover have "{n \<in> defines_names demo_rf_elf. \<exists>pattern\<in>set (namespace_patterns demo_rf_profiles). pattern n}
      = classified demo_rf_profiles ''provided''"
    by (auto simp: defines_names_def demo_rf_elf_def demo_rf_profiles_def classified_def expected_symbols_def)
  ultimately show ?thesis
    unfolding plain_elf_accepted
    by (simp add: demo_rf_elf_def expected_sections_def expected_symbols_def VENDOR_RELOCATIONS_def)
qed

end
