(* ===== verification/Docs_Book.thy ===== *)
theory Docs_Book
  imports Py_Json
begin

text \<open>
  \<open>scripts/mdbook-hisi-docs.py\<close>: the preprocessor of the user documentation.  It reads the tutorial
  snippets from a shell script, expands the directives of the chapters for the chips and adds the
  manifest of chips and versions.  Text is processed as the list of its characters.  The JSON
  printer and \<open>str\<close> of a value that is not a string are inputs, and so are the parsed files.
\<close>

section \<open>Characters\<close>

text \<open>A literal at the front of a text; the text before and after the first occurrence of a literal\<close>

fun strip_lit :: "string \<Rightarrow> string list \<Rightarrow> string list option" where
  "strip_lit [] chs = Some chs"
| "strip_lit (c # cs) [] = None"
| "strip_lit (c # cs) (x # xs) = (if x = [c] then strip_lit cs xs else None)"

fun find_lit :: "string \<Rightarrow> string list \<Rightarrow> (string list \<times> string list) option" where
  "find_lit lit [] = (if lit = [] then Some ([], []) else None)"
| "find_lit lit (x # xs) =
     (case strip_lit lit (x # xs) of
        Some rest \<Rightarrow> Some ([], rest)
      | None \<Rightarrow> map_option (\<lambda>(a, b). (x # a, b)) (find_lit lit xs))"

text \<open>\<open>pattern.finditer(text)\<close>: the groups of the matches, from left to right\<close>

function find_all :: "(string list \<Rightarrow> ('a \<times> string list) option) \<Rightarrow> string list \<Rightarrow> 'a list" where
  "find_all m [] = []"
| "find_all m (x # xs) =
     (case m (x # xs) of
        Some (g, rest) \<Rightarrow> if length rest < length (x # xs) then g # find_all m rest else find_all m xs
      | None \<Rightarrow> find_all m xs)"
  by pat_completeness auto
termination
  by (relation "measure (length \<circ> snd)") auto

text \<open>\<open>html.escape(text)\<close>\<close>

definition escape_char :: "char \<Rightarrow> string" where
  "escape_char c =
     (if c = CHR ''&'' then ''&amp;'' else if c = CHR ''<'' then ''&lt;''
      else if c = CHR ''>'' then ''&gt;'' else if c = CHR 0x22 then ''&quot;''
      else if c = CHR 0x27 then ''&#x27;'' else [c])"

definition html_escape :: "string \<Rightarrow> string" where
  "html_escape s = concat (map escape_char s)"

text \<open>
  \<open>pattern.sub(replace, content)\<close>: from left to right, at each position the match that starts
  there, if any; \<open>replace\<close> may raise.  A match consumes characters.
\<close>

function sub_with ::
    "(string list \<Rightarrow> ('a \<times> string list) option) \<Rightarrow> ('a \<Rightarrow> string res) \<Rightarrow> string list \<Rightarrow> string res" where
  "sub_with m f [] = Inr []"
| "sub_with m f (x # xs) =
     (case m (x # xs) of
        Some (g, rest) \<Rightarrow>
          if length rest < length (x # xs)
          then rbind (f g) (\<lambda>s. rbind (sub_with m f rest) (\<lambda>t. Inr (s @ t)))
          else rbind (sub_with m f xs) (\<lambda>t. Inr (x @ t))
      | None \<Rightarrow> rbind (sub_with m f xs) (\<lambda>t. Inr (x @ t)))"
  by pat_completeness auto
termination
  by (relation "measure (\<lambda>(m, f, xs). length xs)") auto

section \<open>The tutorial snippets\<close>

record snippet_state =
  snippets :: "(string, string) dict"
  current :: "string option"
  body_lines :: "string list"

text \<open>\<open>line.split(None, 2)[2].strip()\<close> of a line that starts with \<open># docs:start \<close>\<close>

definition snippet_id :: "string \<Rightarrow> string res" where
  "snippet_id line =
     (let name = text_strip (drop (length ''# docs:start '') line)
      in if name = [] then Inl (IndexError ''list index out of range'') else Inr name)"

definition strip_newlines :: "string \<Rightarrow> string" where
  "strip_newlines s = rev (dropWhile (\<lambda>c. c = CHR 10) (rev (dropWhile (\<lambda>c. c = CHR 10) s)))"

definition snippet_line :: "snippet_state \<Rightarrow> string \<Rightarrow> snippet_state res" where
  "snippet_line st line =
     (if prefix ''# docs:start '' line
      then (case current st of
              Some cur \<Rightarrow> Inl (SystemExit (''nested docs:start before docs:end for '' @ cur))
            | None \<Rightarrow> rbind (snippet_id line) (\<lambda>name. Inr (st\<lparr>current := Some name, body_lines := []\<rparr>)))
      else if line = ''# docs:end''
      then (case current st of
              None \<Rightarrow> Inl (SystemExit ''docs:end without docs:start'')
            | Some cur \<Rightarrow>
                if has_key cur (snippets st) then Inl (SystemExit (''duplicate tutorial snippet id: '' @ cur))
                else Inr \<lparr>snippets = dset cur (strip_newlines (join [CHR 10] (body_lines st))) (snippets st),
                       current = None, body_lines = []\<rparr>)
      else Inr (if current st \<noteq> None then st\<lparr>body_lines := body_lines st @ [line]\<rparr> else st))"

fun snippet_lines :: "snippet_state \<Rightarrow> string list \<Rightarrow> snippet_state res" where
  "snippet_lines st [] = Inr st"
| "snippet_lines st (line # ls) = rbind (snippet_line st line) (\<lambda>st'. snippet_lines st' ls)"

definition load_snippets :: "bytes \<Rightarrow> (string, string) dict res" where
  "load_snippets contracts =
     rbind (strict_text contracts) (\<lambda>content.
     rbind (snippet_lines \<lparr>snippets = [], current = None, body_lines = []\<rparr> (text_lines content)) (\<lambda>st.
       case current st of
         None \<Rightarrow> Inr (snippets st)
       | Some cur \<Rightarrow> Inl (SystemExit (''unterminated tutorial snippet: '' @ cur))))"

section \<open>Chips and versions\<close>

record book_env =
  print_json :: "json \<Rightarrow> string"      \<comment> \<open>\<open>json.dumps(value, ensure_ascii=False)\<close>\<close>
  str_of :: "json \<Rightarrow> string"          \<comment> \<open>\<open>str(value)\<close> of a value that is not a string\<close>

definition text_of :: "book_env \<Rightarrow> json \<Rightarrow> string" where
  "text_of env v = (case json_str v of Some s \<Rightarrow> s | None \<Rightarrow> str_of env v)"

record chips_config =
  default_chip :: string
  selectable :: json
  chip_table :: json_object

text \<open>\<open>tomllib.loads\<close> has given the document.  \<open>default in chips\<close> needs a hashable default.\<close>

definition load_chips :: "book_env \<Rightarrow> json_object \<Rightarrow> chips_config res" where
  "load_chips env data =
     (case json_dict (json_get ''chips'' data) of
        None \<Rightarrow> Inl (SystemExit ''docs/chips.toml is missing [chips.*] entries'')
      | Some chips \<Rightarrow>
          (let v = json_get ''default'' data
           in rbind (raise_if (\<not> hashable v) (TypeError ''unhashable'')) (\<lambda>_.
                case json_str v of
                  Some d \<Rightarrow>
                    if has_key d chips
                    then Inr \<lparr>default_chip = d, selectable = dget_or ''selectable'' (JArr []) data, chip_table = chips\<rparr>
                    else Inl (SystemExit (''default chip is not defined: '' @ d))
                | None \<Rightarrow> Inl (SystemExit (''default chip is not defined: '' @ str_of env v)))))"

definition chips_json :: "chips_config \<Rightarrow> json" where
  "chips_json c =
     JObj [(''default'', JStr (default_chip c)), (''selectable'', selectable c),
           (''chips'', JObj (chip_table c))]"

definition version_entry :: "string \<Rightarrow> json" where
  "version_entry v =
     JObj [(''id'', JStr v), (''label'', JStr v),
           (''kind'', JStr (if prefix ''v'' v then ''release'' else ''branch'')),
           (''book_base'', JStr (''/hisi-riscv-rs/'' @ v @ ''/'')),
           (''api_base'', JStr (''/hisi-riscv-rs/api/'' @ v @ ''/''))]"

definition set_target :: "string \<Rightarrow> json \<Rightarrow> json res" where
  "set_target latest entry =
     rbind (attr_get entry ''id'' JNull) (\<lambda>v.
       case (v = JStr ''latest'', entry) of
         (True, JObj d) \<Rightarrow> Inr (JObj (dset ''target'' (JStr latest) d))
       | _ \<Rightarrow> Inr entry)"

text \<open>The environment variables \<open>DOC_VERSION\<close> and \<open>LATEST_VERSION\<close>; an empty one counts as absent.\<close>

definition load_versions :: "json_object \<Rightarrow> string option \<Rightarrow> string option \<Rightarrow> json_object res" where
  "load_versions doc current_version latest =
     rbind (case current_version of
              None \<Rightarrow> Inr doc
            | Some v \<Rightarrow>
                if v = [] then Inr doc
                else rbind (json_iter (dget_or ''versions'' (JArr []) doc)) (\<lambda>entries.
                     rbind (rmap (\<lambda>e. attr_get e ''id'' JNull) entries) (\<lambda>ids.
                     rbind (raise_if (\<not> list_all hashable ids) (TypeError ''unhashable'')) (\<lambda>_.
                       if JStr v \<in> set ids then Inr doc
                       else (case dget_or ''versions'' (JArr []) doc of
                               JArr xs \<Rightarrow> Inr (dset ''versions'' (JArr (xs @ [version_entry v])) doc)
                             | _ \<Rightarrow> Inl (AttributeError ''append''))))))
     (\<lambda>data. case latest of
        None \<Rightarrow> Inr data
      | Some t \<Rightarrow>
          if t = [] then Inr data
          else (case dget_or ''versions'' (JArr []) data of
                  JArr xs \<Rightarrow> rbind (rmap (set_target t) xs) (\<lambda>ys.
                    Inr (let latest_set = dset ''latest'' (JStr t) data
                         in if has_key ''versions'' data then dset ''versions'' (JArr ys) latest_set else latest_set))
                | v \<Rightarrow> rbind (json_iter v) (\<lambda>es. if es = [] then Inr (dset ''latest'' (JStr t) data)
                                            else Inl (AttributeError ''get''))))"

section \<open>Rendering\<close>

definition quoted :: "string \<Rightarrow> string" where
  "quoted s = CHR 0x22 # s @ [CHR 0x22]"

definition manifest_payload :: "book_env \<Rightarrow> chips_config \<Rightarrow> json_object \<Rightarrow> string" where
  "manifest_payload env chips versions =
     replace_all ''</'' [CHR 0x3C, CHR 92, CHR 0x2F] (print_json env (JObj [(''chips'', chips_json chips), (''versions'', JObj versions)]))"

definition manifest_script :: "book_env \<Rightarrow> chips_config \<Rightarrow> json_object \<Rightarrow> string" where
  "manifest_script env chips versions =
     ''<script type='' @ quoted ''application/json'' @ '' data-hisi-docs-manifest>''
     @ manifest_payload env chips versions @ ''</script>'' @ [CHR 10, CHR 10]"

definition html_code_block :: "string \<Rightarrow> string" where
  "html_code_block body =
     ''<pre><code class='' @ quoted ''language-bash'' @ ''>'' @ html_escape body @ ''</code></pre>''"

text \<open>The characters of an identifier, and a directive with an identifier\<close>

fun snippet_id_char :: "string \<Rightarrow> bool" where
  "snippet_id_char [c] =
     (65 \<le> ord c \<and> ord c \<le> 90 \<or> 97 \<le> ord c \<and> ord c \<le> 122 \<or> 48 \<le> ord c \<and> ord c \<le> 57
      \<or> c = CHR ''_'' \<or> c = CHR ''.'' \<or> c = CHR ''-'')"
| "snippet_id_char _ = False"

definition match_directive :: "string \<Rightarrow> string list \<Rightarrow> (string \<times> string list) option" where
  "match_directive name chs =
     Option.bind (strip_lit (''{{#'' @ name) chs) (\<lambda>r.
       (let arg = dropWhile is_space r;
            ident = takeWhile snippet_id_char arg;
            after = dropWhile is_space (dropWhile snippet_id_char arg)
        in if arg = r \<or> ident = [] then None
           else map_option (\<lambda>rest. (concat ident, rest)) (strip_lit ''}}'' after)))"

definition match_snippet :: "string list \<Rightarrow> (string \<times> string list) option" where
  "match_snippet = match_directive ''tutorial-snippet''"

definition match_chip_field :: "string list \<Rightarrow> (string \<times> string list) option" where
  "match_chip_field = match_directive ''chip-field''"

text \<open>
  \<open>CHIP_IF_RE\<close>: the bodies extend to the first end; the first \<open>chip-else\<close> before it separates them.
\<close>

definition match_chip_if :: "string list \<Rightarrow> ((string \<times> string \<times> string option) \<times> string list) option" where
  "match_chip_if chs =
     Option.bind (match_directive ''chip-if'' chs) (\<lambda>(chip, r).
     Option.bind (find_lit ''{{#chip-end}}'' r) (\<lambda>(inside, rest).
       (case find_lit ''{{#chip-else}}'' inside of
          None \<Rightarrow> Some ((chip, concat inside, None), rest)
        | Some (then_part, else_part) \<Rightarrow> Some ((chip, concat then_part, Some (concat else_part)), rest))))"

text \<open>
  \<open>API_LINK_RE\<close>: white space before the path belongs to it only if nothing else does, and is
  stripped.
\<close>

definition match_api_link :: "string list \<Rightarrow> ((string \<times> string) \<times> string list) option" where
  "match_api_link chs =
     Option.bind (strip_lit ''{{#api-link'' chs) (\<lambda>r.
       (let arg = dropWhile is_space r;
            path = takeWhile (\<lambda>ch. ch \<noteq> ''|'' \<and> ch \<noteq> ''}'') arg
        in if arg = r \<or> path = [] \<and> length r < length arg + 2 then None
           else Option.bind (strip_lit ''|'' (dropWhile (\<lambda>ch. ch \<noteq> ''|'' \<and> ch \<noteq> ''}'') arg)) (\<lambda>after.
             (let label = takeWhile (\<lambda>ch. ch \<noteq> ''}'') after
              in if label = [] then None
                 else map_option (\<lambda>rest. ((concat path, concat label), rest))
                        (strip_lit ''}}'' (dropWhile (\<lambda>ch. ch \<noteq> ''}'') after))))))"

text \<open>\<open>html.escape(value)\<close> of a value of any type\<close>

definition escaped :: "json \<Rightarrow> string res" where
  "escaped v =
     (case json_str v of None \<Rightarrow> Inl (AttributeError ''replace'') | Some s \<Rightarrow> Inr (html_escape s))"

definition chip_block :: "string \<Rightarrow> string \<Rightarrow> string \<Rightarrow> string" where
  "chip_block cls chip content =
     ''<div class='' @ quoted cls @ '' data-hisi-chip='' @ quoted chip @ ''>'' @ content @ ''</div>''"

text \<open>The variants are the keys of a dictionary: a chip that is listed twice gets one block.\<close>

definition variant_chips :: "json list \<Rightarrow> json list" where
  "variant_chips cs = map fst (foldl (\<lambda>d c. dset c () d) [] cs)"

definition snippet_block ::
    "book_env \<Rightarrow> (string, string) dict \<Rightarrow> chips_config \<Rightarrow> string \<Rightarrow> string res" where
  "snippet_block env known chips name =
     rbind (json_iter (selectable chips)) (\<lambda>cs.
       (let key = \<lambda>c. name @ ''.'' @ text_of env c;
            found = filter (\<lambda>c. has_key (key c) known) cs
        in rbind (raise_if (\<not> list_all hashable found) (TypeError ''unhashable'')) (\<lambda>_.
             if found \<noteq> []
             then rbind (rmap (\<lambda>c. rbind (escaped c) (\<lambda>chip.
                      Inr (chip_block ''hisi-chip-block'' chip (html_code_block (dget_or (key c) [] known)))))
                    (variant_chips found)) (\<lambda>blocks. Inr (join [CHR 10] blocks))
             else (case dget name known of
                     None \<Rightarrow> Inl (SystemExit (''unknown tutorial snippet id: '' @ name))
                   | Some body \<Rightarrow> Inr (''```bash'' @ [CHR 10] @ body @ [CHR 10] @ ''```'')))))"

definition render_snippets ::
    "book_env \<Rightarrow> (string, string) dict \<Rightarrow> chips_config \<Rightarrow> string \<Rightarrow> string res" where
  "render_snippets env known chips content =
     sub_with match_snippet (snippet_block env known chips) (decode_chars content)"

definition chip_field :: "book_env \<Rightarrow> json \<Rightarrow> string \<Rightarrow> string res" where
  "chip_field env data field =
     rbind (attr_get data field JNull) (\<lambda>v.
       if v = JNull then Inl (SystemExit (''unknown chip field: '' @ field))
       else Inr (''<span data-hisi-chip-field='' @ quoted (html_escape field) @ ''>''
                 @ html_escape (text_of env v) @ ''</span>''))"

definition render_chip_fields :: "book_env \<Rightarrow> chips_config \<Rightarrow> string \<Rightarrow> string res" where
  "render_chip_fields env chips content =
     rbind (json_item (default_chip chips) (chip_table chips)) (\<lambda>data.
       sub_with match_chip_field (chip_field env data) (decode_chars content))"

text \<open>
  A \<open>chip-if\<close> without an else part for another chip than the default one is hidden: the class is
  replaced wherever the block has it.
\<close>

definition chip_if :: "chips_config \<Rightarrow> string \<times> string \<times> string option \<Rightarrow> string res" where
  "chip_if chips = (\<lambda>(chip, then_part, else_part).
     if \<not> has_key chip (chip_table chips) then Inl (SystemExit (''unknown chip in chip-if: '' @ chip))
     else (let then_body = text_strip then_part;
               else_body = text_strip (case else_part of None \<Rightarrow> [] | Some e \<Rightarrow> e);
               block = chip_block ''hisi-chip-block'' (html_escape chip) then_body
           in if else_body \<noteq> []
              then rbind (json_iter (selectable chips)) (\<lambda>cs.
                   rbind (rmap (\<lambda>other. rbind (escaped other) (\<lambda>c.
                       Inr (chip_block ''hisi-chip-block'' c else_body)))
                     (filter (\<lambda>c. c \<noteq> JStr chip) cs)) (\<lambda>blocks.
                     Inr (join [CHR 10] (block # blocks))))
              else if chip \<noteq> default_chip chips
              then Inr (replace_all (''class='' @ quoted ''hisi-chip-block'')
                     (''class='' @ quoted ''hisi-chip-block hidden'') block)
              else Inr block))"

definition render_chip_ifs :: "chips_config \<Rightarrow> string \<Rightarrow> string res" where
  "render_chip_ifs chips content = sub_with match_chip_if (chip_if chips) (decode_chars content)"

fun first_api_base :: "json \<Rightarrow> json list \<Rightarrow> json option res" where
  "first_api_base wanted [] = Inr None"
| "first_api_base wanted (v # vs) =
     rbind (attr_get v ''id'' JNull) (\<lambda>i.
       if py_eq i wanted \<or> i = wanted then rbind (subscript v ''api_base'') (\<lambda>b. Inr (Some b))
       else first_api_base wanted vs)"

definition strip_slashes_left :: "string \<Rightarrow> string" where
  "strip_slashes_left = dropWhile (\<lambda>c. c = CHR ''/'')"

definition strip_slashes_right :: "string \<Rightarrow> string" where
  "strip_slashes_right s = rev (strip_slashes_left (rev s))"

definition api_link :: "json \<Rightarrow> string \<Rightarrow> string \<times> string \<Rightarrow> string res" where
  "api_link api_base chip = (\<lambda>(raw_path, raw_label).
     (case json_str api_base of
        None \<Rightarrow> Inl (AttributeError ''rstrip'')
      | Some base \<Rightarrow>
          (let path = text_strip raw_path; label = text_strip raw_label;
               href = strip_slashes_right base @ ''/'' @ chip @ ''/'' @ strip_slashes_left path
           in Inr (''<a data-hisi-api-link='' @ quoted (html_escape path) @ '' href='' @ quoted (html_escape href)
                   @ ''>'' @ html_escape label @ ''</a>''))))"

definition render_api_links :: "chips_config \<Rightarrow> json_object \<Rightarrow> string \<Rightarrow> string res" where
  "render_api_links chips versions content =
     rbind (json_iter (dget_or ''versions'' (JArr []) versions)) (\<lambda>entries.
     rbind (first_api_base (json_get ''default'' versions) entries) (\<lambda>found.
       sub_with match_api_link
         (api_link (case found of None \<Rightarrow> JStr ''/hisi-riscv-rs/api/latest/'' | Some b \<Rightarrow> b) (default_chip chips))
         (decode_chars content)))"

definition render ::
    "book_env \<Rightarrow> (string, string) dict \<Rightarrow> chips_config \<Rightarrow> json_object \<Rightarrow> string \<Rightarrow> string res" where
  "render env known chips versions content =
     rbind (render_chip_ifs chips content) (\<lambda>a.
     rbind (render_snippets env known chips a) (\<lambda>b.
     rbind (render_chip_fields env chips b) (\<lambda>c.
     rbind (render_api_links chips versions c) (\<lambda>d.
       Inr (manifest_script env chips versions @ d)))))"

text \<open>
  \<open>walk\<close> renders every \<open>content\<close> string of the book in place and counts them; the strings it has
  written are leaves.
\<close>

lemma rmap_cong [fundef_cong]:
  "xs = ys \<Longrightarrow> (\<And>x. x \<in> set ys \<Longrightarrow> f x = g x) \<Longrightarrow> rmap f xs = rmap g ys"
proof -
  assume "xs = ys" and "\<And>x. x \<in> set ys \<Longrightarrow> f x = g x"
  then have "rmap f ys = rmap g ys" by (induction ys arbitrary: xs) simp_all
  with \<open>xs = ys\<close> show ?thesis by simp
qed

function walk_book :: "(string \<Rightarrow> string res) \<Rightarrow> json \<Rightarrow> (json \<times> nat) res" where
  "walk_book f (JObj d) =
     (case dget ''content'' d of
        Some (JStr s) \<Rightarrow>
          rbind (f s) (\<lambda>t.
          rbind (rmap (\<lambda>(k, v). if k = ''content'' then Inr ((k, JStr t), 0)
                    else rbind (walk_book f v) (\<lambda>(w, n). Inr ((k, w), n))) d) (\<lambda>items.
            Inr (JObj (map fst items), Suc (sum_list (map snd items)))))
      | _ \<Rightarrow>
          rbind (rmap (\<lambda>(k, v). rbind (walk_book f v) (\<lambda>(w, n). Inr ((k, w), n))) d) (\<lambda>items.
            Inr (JObj (map fst items), sum_list (map snd items))))"
| "walk_book f (JArr xs) =
     rbind (rmap (walk_book f) xs) (\<lambda>items. Inr (JArr (map fst items), sum_list (map snd items)))"
| "walk_book f JNull = Inr (JNull, 0)"
| "walk_book f (JBool b) = Inr (JBool b, 0)"
| "walk_book f (JInt i) = Inr (JInt i, 0)"
| "walk_book f (JFloat q) = Inr (JFloat q, 0)"
| "walk_book f JNan = Inr (JNan, 0)"
| "walk_book f (JInf b) = Inr (JInf b, 0)"
| "walk_book f (JStr s) = Inr (JStr s, 0)"
  by pat_completeness auto
termination
  by (relation "measure (size \<circ> snd)") (auto simp: size_in_array size_in_object)


section \<open>The command\<close>

definition book_main ::
    "book_env \<Rightarrow> string list \<Rightarrow> json \<Rightarrow> bytes \<Rightarrow> json_object \<Rightarrow> json_object \<Rightarrow> string option \<Rightarrow> string option
     \<Rightarrow> json option res" where
  "book_main env args input contracts chips_toml versions_json doc_version latest_version =
     (if (case args of a # _ \<Rightarrow> a = ''supports'' | [] \<Rightarrow> False) then Inr None
      else (case json_items input of
              Some [ctx, book] \<Rightarrow>
                rbind (load_snippets contracts) (\<lambda>known.
                rbind (load_chips env chips_toml) (\<lambda>chips.
                rbind (load_versions versions_json doc_version latest_version) (\<lambda>versions.
                rbind (walk_book (render env known chips versions) book) (\<lambda>(rendered, n).
                  Inr (Some rendered)))))
            | _ \<Rightarrow> Inl (SystemExit ''expected mdBook preprocessor input [context, book]'')))"

end
