(* ===== verification/Docs_Pages.thy ===== *)
theory Docs_Pages
  imports Docs_Book
begin

text \<open>
  What the documentation preprocessor of \<open>Docs_Book\<close> guarantees: the snippets of the tutorial script
  come back, the manifest cannot break out of its element, a directive is expanded where it stands
  and text without directives is kept, and the walk changes chapter contents only.
\<close>

section \<open>Round trip of the snippets\<close>

definition printable :: "string \<Rightarrow> bool" where
  "printable s \<longleftrightarrow> (\<forall>c\<in>set s. 32 \<le> ord c \<and> ord c < 127)"

definition plain_line :: "string \<Rightarrow> bool" where
  "plain_line l \<longleftrightarrow> printable l \<and> \<not> prefix ''# docs:start '' l \<and> l \<noteq> ''# docs:end''"

text \<open>A block of the script: lines outside a snippet, and a snippet\<close>

type_synonym script_block = "string list \<times> string \<times> string list"

definition block_lines :: "script_block \<Rightarrow> string list" where
  "block_lines = (\<lambda>(outside, name, body).
     outside @ (''# docs:start '' @ name) # body @ [''# docs:end''])"

definition script_text :: "script_block list \<Rightarrow> string list \<Rightarrow> bytes" where
  "script_text blocks rest = concat (map (\<lambda>l. l @ [CHR 10]) (concat (map block_lines blocks) @ rest))"

definition plain_block :: "script_block \<Rightarrow> bool" where
  "plain_block = (\<lambda>(outside, name, body).
     list_all plain_line outside \<and> plain_word name \<and> list_all plain_line body)"

lemma snippet_lines_append:
  "snippet_lines st (xs @ ys) = rbind (snippet_lines st xs) (\<lambda>st'. snippet_lines st' ys)"
  by (induction xs arbitrary: st) (simp_all add: rbind_def split: sum.split)

lemma snippet_lines_outside:
  "list_all plain_line ls \<Longrightarrow> current st = None \<Longrightarrow> snippet_lines st ls = Inr st"
  by (induction ls) (simp_all add: snippet_line_def plain_line_def)

lemma snippet_lines_body:
  "list_all plain_line ls \<Longrightarrow> current st = Some n \<Longrightarrow>
     snippet_lines st ls = Inr (st\<lparr>body_lines := body_lines st @ ls\<rparr>)"
  by (induction ls arbitrary: st) (simp_all add: snippet_line_def plain_line_def)

lemma snippet_id_plain: "plain_word n \<Longrightarrow> snippet_id (''# docs:start '' @ n) = Inr n"
  by (simp add: snippet_id_def text_strip_plain_word) (simp add: plain_word_def)

lemma snippet_block_lines:
  assumes "plain_block (outside, n, body)" and "n \<notin> fst ` set d"
  shows "snippet_lines \<lparr>snippets = d, current = None, body_lines = []\<rparr> (block_lines (outside, n, body))
    = Inr \<lparr>snippets = d @ [(n, strip_newlines (join [CHR 10] body))], current = None, body_lines = []\<rparr>"
  using assms snippet_id_plain [of n]
  by (simp add: plain_block_def block_lines_def snippet_lines_append snippet_lines_outside
      snippet_lines_body snippet_line_def has_key_iff dset_fresh)

lemma snippet_script_lines:
  assumes "list_all plain_block blocks" and "distinct (map (fst \<circ> snd) blocks)"
    and "\<And>b. b \<in> set blocks \<Longrightarrow> fst (snd b) \<notin> fst ` set d"
  shows "snippet_lines \<lparr>snippets = d, current = None, body_lines = []\<rparr> (concat (map block_lines blocks))
    = Inr \<lparr>snippets = d @ map (\<lambda>(_, n, body). (n, strip_newlines (join [CHR 10] body))) blocks,
           current = None, body_lines = []\<rparr>"
  using assms
proof (induction blocks arbitrary: d)
  case (Cons b bs)
  obtain outside n body where b: "b = (outside, n, body)" by (cases b) auto
  have n: "plain_block (outside, n, body)" "n \<notin> fst ` set d" using Cons.prems(1) Cons.prems(3) [of b] by (auto simp: b)
  have "snippet_lines \<lparr>snippets = d @ [(n, strip_newlines (join [CHR 10] body))], current = None, body_lines = []\<rparr>
      (concat (map block_lines bs))
    = Inr \<lparr>snippets = (d @ [(n, strip_newlines (join [CHR 10] body))])
             @ map (\<lambda>(_, n, body). (n, strip_newlines (join [CHR 10] body))) bs,
           current = None, body_lines = []\<rparr>"
  proof (rule Cons.IH)
    fix b' assume "b' \<in> set bs"
    with Cons.prems(2) Cons.prems(3) [of b'] show "fst (snd b') \<notin> fst ` set (d @ [(n, strip_newlines (join [CHR 10] body))])"
      by (force simp: b)
  qed (use Cons.prems in simp_all)
  with snippet_block_lines [OF n] show ?case by (simp add: b snippet_lines_append)
qed simp

lemma printable_append: "printable (a @ b) \<longleftrightarrow> printable a \<and> printable b"
  by (auto simp: printable_def)

lemma block_lines_printable:
  "plain_block b \<Longrightarrow> l \<in> set (block_lines b) \<Longrightarrow> printable l"
proof -
  have "printable ''# docs:start ''" "printable ''# docs:end''" by (simp_all add: printable_def)
  moreover have "plain_word n \<Longrightarrow> printable n" for n by (fastforce simp: printable_def plain_word_def)
  ultimately show "plain_block b \<Longrightarrow> l \<in> set (block_lines b) \<Longrightarrow> printable l"
    using printable_append [of "''# docs:start ''"]
    by (cases b) (auto simp: plain_block_def block_lines_def plain_line_def list_all_iff)
qed

text \<open>
  \<open>load_snippets\<close> gives back the snippets that a script holds: from a script in which blocks
  between the markers \<open># docs:start\<close> and \<open># docs:end\<close> alternate with other lines it returns
  every name with its lines joined (without the line feeds at both ends), in the order of the
  script, and nothing of the other lines.
\<close>

theorem load_snippets_roundtrip:
  assumes "list_all plain_block blocks" and "distinct (map (fst \<circ> snd) blocks)" and "list_all plain_line rest"
  shows "load_snippets (script_text blocks rest)
    = Inr (map (\<lambda>(_, n, body). (n, strip_newlines (join [CHR 10] body))) blocks)"
proof -
  let ?lines = "concat (map block_lines blocks) @ rest"
  have p: "\<forall>l\<in>set ?lines. \<forall>c\<in>set l. 32 \<le> ord c \<and> ord c < 127"
    using assms block_lines_printable by (fastforce simp: printable_def plain_line_def list_all_iff)
  then have "ascii (script_text blocks rest)" by (fastforce simp: ascii_def script_text_def)
  moreover have "text_lines (script_text blocks rest) = ?lines"
    unfolding script_text_def by (rule text_lines_plain [OF p])
  ultimately show ?thesis
    using snippet_script_lines [OF assms(1,2), of "[]"]
    by (simp add: load_snippets_def strict_text_ascii snippet_lines_append snippet_lines_outside [OF assms(3)])
qed

lemma load_snippets_roundtrip_witness:
  "load_snippets (script_text [([''set -e''], ''build.ws63'', [''cargo build'', ''ls'']), ([], ''run'', [''probe-rs run''])] [''exit 0''])
     = Inr [(''build.ws63'', ''cargo build'' @ [CHR 10] @ ''ls''), (''run'', ''probe-rs run'')]"
  by (subst load_snippets_roundtrip)
    (simp_all add: plain_block_def plain_line_def printable_def plain_word_def strip_newlines_def)

section \<open>The manifest\<close>

text \<open>
  The characters of a JSON document, with the escape \<open>\/\<close> of a slash read as the slash it means:
  two documents with the same reading denote the same value.
\<close>

fun json_reading :: "string \<Rightarrow> (bool \<times> char) list" where
  "json_reading [] = []"
| "json_reading [c] = [(False, c)]"
| "json_reading (c # d # cs) =
     (if c = CHR 92 then (d \<noteq> CHR ''/'', d) # json_reading cs else (False, c) # json_reading (d # cs))"

abbreviation escape_close :: "string \<Rightarrow> string" where
  "escape_close \<equiv> replace_all ''</'' [CHR 0x3C, CHR 92, CHR 0x2F]"

lemma escape_close_Cons:
  "escape_close (c # cs) =
     (if c = CHR ''<'' \<and> prefix ''/'' cs then [CHR 0x3C, CHR 92, CHR 0x2F] @ escape_close (drop 1 cs) else c # escape_close cs)"
  by (cases cs) (auto simp del: replace_all.simps(2) simp: replace_all.simps(2) [of _ _ c])

lemma escape_close_first: "prefix ''/'' (escape_close s) \<longleftrightarrow> prefix ''/'' s"
  by (cases s) (auto simp: escape_close_Cons)

lemma escape_close_safe: "\<not> occurs ''</'' (escape_close s)"
proof (induction s rule: length_induct)
  case (1 s)
  show ?case
  proof (cases s)
    case Nil
    then show ?thesis by simp
  next
    case (Cons c cs)
    have "\<not> occurs ''</'' (escape_close (drop 1 cs))" "\<not> occurs ''</'' (escape_close cs)"
      using 1 Cons by simp_all
    then show ?thesis
      using Cons escape_close_first [of cs] by (auto simp: escape_close_Cons sublist_Cons_right)
  qed
qed

lemma json_reading_plain: "c \<noteq> CHR 92 \<Longrightarrow> json_reading (c # cs) = (False, c) # json_reading cs"
  by (cases cs) auto

lemma escape_close_reading: "json_reading (escape_close s) = json_reading s"
proof (induction s rule: length_induct)
  case (1 s)
  then have IH: "length t < length s \<Longrightarrow> json_reading (escape_close t) = json_reading t" for t by blast
  show ?case
  proof (cases s rule: json_reading.cases)
    case 1
    then show ?thesis by simp
  next
    case (2 c)
    then show ?thesis by (simp add: escape_close_Cons)
  next
    case (3 c d cs)
    show ?thesis
    proof (cases "c = CHR 92")
      case True
      show ?thesis
      proof (cases "d = CHR ''<'' \<and> prefix ''/'' cs")
        case slash: True
        then obtain r where r: "cs = CHR ''/'' # r" by (cases cs) auto
        have "json_reading (escape_close r) = json_reading r" by (rule IH) (simp add: 3 r)
        then show ?thesis using slash by (simp add: 3 True r escape_close_Cons json_reading_plain)
      next
        case False
        have "json_reading (escape_close cs) = json_reading cs" by (rule IH) (simp add: 3)
        moreover have "escape_close s = c # d # escape_close cs"
          unfolding 3(1) using False by (auto simp: True escape_close_Cons)
        ultimately show ?thesis by (simp add: 3 True)
      qed
    next
      case False
      show ?thesis
      proof (cases "c = CHR ''<'' \<and> prefix ''/'' (d # cs)")
        case slash: True
        have "json_reading (escape_close cs) = json_reading cs" by (rule IH) (simp add: 3)
        then show ?thesis using slash by (auto simp: 3 escape_close_Cons json_reading_plain)
      next
        case no_slash: False
        have "json_reading (escape_close (d # cs)) = json_reading (d # cs)" by (rule IH) (simp add: 3)
        moreover have "escape_close s = c # escape_close (d # cs)"
          unfolding 3(1) using no_slash by (subst escape_close_Cons) (simp only: if_False)
        ultimately show ?thesis using False by (simp add: 3 json_reading_plain)
      qed
    qed
  qed
qed

text \<open>
  The manifest that \<open>manifest_script\<close> puts in front of a chapter cannot end its \<open>script\<close>
  element early: no \<open></\<close> occurs before the closing tag, and the payload, with the escape of a
  slash read as the slash, is the JSON document of the chips and versions.
\<close>

theorem manifest_script_closed:
  "\<exists>payload. manifest_script env chips versions
       = ''<script type='' @ quoted ''application/json'' @ '' data-hisi-docs-manifest>'' @ payload
         @ ''</script>'' @ [CHR 10, CHR 10]
     \<and> \<not> occurs ''</'' payload
     \<and> json_reading payload = json_reading (print_json env (JObj [(''chips'', chips_json chips), (''versions'', JObj versions)]))"
  unfolding manifest_script_def manifest_payload_def
  using escape_close_safe escape_close_reading by blast

section \<open>Directives in a chapter\<close>

abbreviation chars :: "string \<Rightarrow> string list" where
  "chars s \<equiv> map (\<lambda>c. [c]) s"

lemma strip_lit_chars: "strip_lit lit (chars (lit @ s)) = Some (chars s)"
  by (induction lit) simp_all

lemma strip_lit_fails: "\<not> prefix lit s \<Longrightarrow> strip_lit lit (chars s) = None"
  by (induction lit "chars s" arbitrary: s rule: strip_lit.induct) auto

lemma concat_chars [simp]: "concat (chars s) = s"
  by (simp add: concat_map_singleton)

text \<open>A directive cannot start inside a text without \<open>{{#\<close>, nor run out of it into the next one.\<close>

lemma no_directive_prefix:
  assumes "\<not> occurs ''{{#'' a" and "a \<noteq> []"
  shows "\<not> prefix ''{{#'' (a @ ''{{#'' @ r)"
proof
  assume p: "prefix ''{{#'' (a @ ''{{#'' @ r)"
  consider (one) c where "a = [c]" | (two) c d where "a = [c, d]" | (more) c d e x where "a = c # d # e # x"
    using assms(2) by (metis neq_Nil_conv)
  then show False
  proof cases
    case more
    with p assms(1) show False by (auto simp: sublist_Cons_right)
  qed (use p in auto)
qed

lemma no_directive_Cons: "\<not> occurs s (c # a) \<Longrightarrow> \<not> occurs s a"
  by (simp add: sublist_Cons_right)

lemma directive_prefix: "prefix (''{{#'' @ l) s \<Longrightarrow> prefix ''{{#'' s"
  by (rule append_prefixD)

definition prepend :: "string list \<Rightarrow> (string list \<times> string list) option \<Rightarrow> (string list \<times> string list) option" where
  "prepend p = map_option (\<lambda>(x, y). (p @ x, y))"

lemma prepend_simps [simp]:
  "prepend p (Some (x, y)) = Some (p @ x, y)" "prepend p None = None" "prepend p (prepend q z) = prepend (p @ q) z"
  by (auto simp: prepend_def option.map_comp comp_def split_def)

lemma find_lit_step: "strip_lit lit (x # xs) = None \<Longrightarrow> find_lit lit (x # xs) = prepend [x] (find_lit lit xs)"
  by (simp add: prepend_def)

lemma find_lit_skip:
  "\<not> occurs ''{{#'' a \<Longrightarrow>
     find_lit (''{{#'' @ l) (chars (a @ ''{{#'' @ r)) = prepend (chars a) (find_lit (''{{#'' @ l) (chars (''{{#'' @ r)))"
proof (induction a)
  case Nil
  show ?case by (simp add: prepend_def option.map_ident case_prod_unfold del: find_lit.simps)
next
  case (Cons c a)
  have "\<not> prefix (''{{#'' @ l) ((c # a) @ ''{{#'' @ r)"
    using no_directive_prefix [OF Cons.prems] directive_prefix by blast
  then have "strip_lit (''{{#'' @ l) (chars ((c # a) @ ''{{#'' @ r)) = None" by (rule strip_lit_fails)
  with Cons.IH [OF no_directive_Cons [OF Cons.prems]] show ?case
    by (simp only: append_Cons append_Nil list.map find_lit_step prepend_simps)
qed

lemma find_lit_here: "lit \<noteq> [] \<Longrightarrow> find_lit lit (chars (lit @ r)) = Some ([], chars r)"
  using strip_lit_chars [of lit r] by (cases lit) simp_all

lemma find_lit_absent: "\<not> occurs ''{{#'' a \<Longrightarrow> find_lit (''{{#'' @ l) (chars a) = None"
proof (induction a)
  case (Cons c a)
  have "\<not> prefix (''{{#'' @ l) (c # a)"
    using Cons.prems by (meson append_prefixD prefix_imp_sublist)
  then have "strip_lit (''{{#'' @ l) (chars (c # a)) = None" by (rule strip_lit_fails)
  with Cons.IH [OF no_directive_Cons [OF Cons.prems]] show ?case by simp
qed simp

text \<open>The matchers of the directives fail where no directive starts.\<close>

definition needs_directive :: "(string list \<Rightarrow> ('a \<times> string list) option) \<Rightarrow> bool" where
  "needs_directive m \<longleftrightarrow> (\<forall>s. \<not> prefix ''{{#'' s \<longrightarrow> m (chars s) = None)"

lemma match_directive_needs: "needs_directive (match_directive name)"
  unfolding needs_directive_def match_directive_def
  using strip_lit_fails [of "''{{#'' @ name"] append_prefixD by fastforce

lemma match_chip_if_needs: "needs_directive match_chip_if"
  using match_directive_needs by (simp add: match_chip_if_def needs_directive_def)

lemma match_api_link_needs: "needs_directive match_api_link"
  unfolding needs_directive_def match_api_link_def
  using strip_lit_fails [of "''{{#api-link''"] append_prefixD [of "''{{#''" "''api-link''"] by fastforce

lemma sub_with_plain:
  assumes "needs_directive m" and "\<not> occurs ''{{#'' a"
  shows "sub_with m f (chars a) = Inr a"
  using assms(2)
proof (induction a)
  case (Cons c a)
  have "\<not> prefix ''{{#'' (c # a)" using Cons.prems prefix_imp_sublist by blast
  with assms(1) have "m (chars (c # a)) = None" unfolding needs_directive_def by blast
  with Cons.IH [OF no_directive_Cons [OF Cons.prems]] show ?case by simp
qed simp

lemma sub_with_skip:
  assumes "needs_directive m" and "\<not> occurs ''{{#'' a"
  shows "sub_with m f (chars (a @ ''{{#'' @ r)) = rbind (sub_with m f (chars (''{{#'' @ r))) (\<lambda>t. Inr (a @ t))"
  using assms(2)
proof (induction a)
  case Nil
  then show ?case by (simp add: rbind_def del: sub_with.simps split: sum.split)
next
  case (Cons c a)
  have "\<not> prefix ''{{#'' ((c # a) @ ''{{#'' @ r)" by (rule no_directive_prefix [OF Cons.prems]) simp
  with assms(1) have "m (chars ((c # a) @ ''{{#'' @ r)) = None" unfolding needs_directive_def by blast
  then have "sub_with m f (chars ((c # a) @ ''{{#'' @ r))
      = rbind (sub_with m f (chars (a @ ''{{#'' @ r))) (\<lambda>t. Inr ([c] @ t))"
    by (simp only: append_Cons list.map sub_with.simps option.case)
  with Cons.IH [OF no_directive_Cons [OF Cons.prems]] show ?case
    by (simp add: rbind_def del: sub_with.simps split: sum.splits)
qed

lemma sub_with_match:
  "m (chars s) = Some (g, chars r) \<Longrightarrow> length r < length s \<Longrightarrow>
     sub_with m f (chars s) = rbind (f g) (\<lambda>a. rbind (sub_with m f (chars r)) (\<lambda>b. Inr (a @ b)))"
  by (cases s) simp_all

definition is_ident :: "string \<Rightarrow> bool" where
  "is_ident n \<longleftrightarrow> n \<noteq> [] \<and> (\<forall>c\<in>set n. snippet_id_char [c])"

lemma id_char_no_space: "snippet_id_char [c] \<Longrightarrow> \<not> is_space [c]"
  by (auto simp: is_space_def)

lemma takeWhile_id:
  "\<forall>c\<in>set n. snippet_id_char [c] \<Longrightarrow> takeWhile snippet_id_char (chars n @ [CHR ''}''] # r) = chars n"
  "\<forall>c\<in>set n. snippet_id_char [c] \<Longrightarrow> dropWhile snippet_id_char (chars n @ [CHR ''}''] # r) = [CHR ''}''] # r"
  by (induction n) simp_all

lemma match_directive_at:
  assumes "is_ident n"
  shows "match_directive name (chars (''{{#'' @ name @ '' '' @ n @ ''}}'' @ r)) = Some (n, chars r)"
proof -
  have start: "strip_lit (''{{#'' @ name) (chars (''{{#'' @ name @ '' '' @ n @ ''}}'' @ r))
      = Some ([CHR 32] # chars n @ [CHR ''}''] # chars (CHR ''}'' # r))"
    using strip_lit_chars [of "''{{#'' @ name" "'' '' @ n @ ''}}'' @ r"] by simp
  have n: "n \<noteq> []" "\<forall>c\<in>set n. snippet_id_char [c]" using assms by (simp_all add: is_ident_def)
  then have "\<not> is_space [hd n]" by (cases n) (auto simp del: snippet_id_char.simps dest: id_char_no_space)
  with n(1) have "dropWhile is_space (chars n @ s) = chars n @ s" for s by (cases n) simp_all
  moreover have "\<not> is_space [CHR ''}'']" by (simp add: is_space_def)
  ultimately show ?thesis
    unfolding match_directive_def start using n(1)
    by (simp add: takeWhile_id [OF n(2)] is_space_single)
qed

lemma match_chip_if_at:
  assumes "is_ident n" and "\<not> occurs ''{{#'' a" and "\<not> occurs ''{{#'' b"
  shows "match_chip_if (chars (''{{#chip-if '' @ n @ ''}}'' @ a @ ''{{#chip-else}}'' @ b @ ''{{#chip-end}}'' @ r))
    = Some ((n, a, Some b), chars r)"
proof -
  have bend: "find_lit ''{{#chip-end}}'' (chars (b @ ''{{#chip-end}}'' @ r)) = Some (chars b, chars r)"
    using find_lit_skip [OF assms(3), of "''chip-end}}''" "''chip-end}}'' @ r"] find_lit_here [of "''{{#chip-end}}''" r] by simp
  have "find_lit ''{{#chip-end}}'' (chars (''{{#chip-else}}'' @ s)) = prepend (chars ''{{#chip-else}}'') (find_lit ''{{#chip-end}}'' (chars s))" for s
    by (simp add: find_lit_step del: find_lit.simps)
  with find_lit_skip [OF assms(2), of "''chip-end}}''" "''chip-else}}'' @ b @ ''{{#chip-end}}'' @ r"] bend
  have inside: "find_lit ''{{#chip-end}}'' (chars (a @ ''{{#chip-else}}'' @ b @ ''{{#chip-end}}'' @ r))
      = Some (chars (a @ ''{{#chip-else}}'' @ b), chars r)" by simp
  have "find_lit ''{{#chip-else}}'' (chars (a @ ''{{#chip-else}}'' @ b)) = Some (chars a, chars b)"
    using find_lit_skip [OF assms(2), of "''chip-else}}''" "''chip-else}}'' @ b"] find_lit_here [of "''{{#chip-else}}''" b] by simp
  with inside match_directive_at [OF assms(1), of "''chip-if''" "a @ ''{{#chip-else}}'' @ b @ ''{{#chip-end}}'' @ r"]
  show ?thesis by (simp add: match_chip_if_def del: map_append)
qed

lemma ascii_append: "ascii (a @ b) \<longleftrightarrow> ascii a \<and> ascii b"
  by (auto simp: ascii_def)

lemma is_ident_ascii: "is_ident n \<Longrightarrow> ascii n"
  by (fastforce simp: is_ident_def ascii_def)

lemma rmap_escaped:
  "rmap (\<lambda>other. rbind (escaped other) (\<lambda>c. Inr (f c))) (map JStr names) = Inr (map (\<lambda>n. f (html_escape n)) names)"
  by (induction names) (simp_all add: escaped_def)



text \<open>A chapter without directives gets the manifest and is otherwise kept.\<close>

lemma plain_chapter_kept:
  assumes "ascii content" and "\<not> occurs ''{{#'' content" and "has_key (default_chip chips) (chip_table chips)"
    and "dget_or ''versions'' (JArr []) versions = JArr vs"
    and "first_api_base (json_get ''default'' versions) vs = Inr found"
  shows "render env known chips versions content = Inr (manifest_script env chips versions @ content)"
proof -
  note kept = sub_with_plain [OF _ assms(2)]
  have "needs_directive match_snippet" "needs_directive match_chip_field"
    by (simp_all add: match_snippet_def match_chip_field_def match_directive_needs)
  with assms show ?thesis
    by (auto simp: render_def render_chip_ifs_def render_snippets_def render_chip_fields_def render_api_links_def
        json_item_def has_key_def decode_chars_ascii kept match_chip_if_needs match_api_link_needs)
qed

section \<open>What the walk changes\<close>

text \<open>The objects of a parsed document have distinct keys.\<close>

fun distinct_keys :: "json \<Rightarrow> bool" where
  "distinct_keys (JObj d) \<longleftrightarrow> distinct (map fst d) \<and> list_all (\<lambda>(k, v). distinct_keys v) d"
| "distinct_keys (JArr xs) \<longleftrightarrow> list_all distinct_keys xs"
| "distinct_keys _ \<longleftrightarrow> True"

text \<open>The \<open>content\<close> strings of a document, and the document without them\<close>

fun chapter_texts :: "json \<Rightarrow> string list" where
  "chapter_texts (JObj d) =
     (case dget ''content'' d of Some (JStr s) \<Rightarrow> [s] | _ \<Rightarrow> [])
     @ concat (map (\<lambda>(k, v). chapter_texts v) d)"
| "chapter_texts (JArr xs) = concat (map chapter_texts xs)"
| "chapter_texts _ = []"

fun is_content :: "json \<Rightarrow> bool" where
  "is_content (JStr s) = True"
| "is_content _ = False"

fun without_texts :: "json \<Rightarrow> json" where
  "without_texts (JObj d) =
     JObj (map (\<lambda>(k, v). (k, if k = ''content'' \<and> is_content v then JNull else without_texts v)) d)"
| "without_texts (JArr xs) = JArr (map without_texts xs)"
| "without_texts v = v"

definition walked :: "(string \<Rightarrow> string res) \<Rightarrow> json \<Rightarrow> json \<Rightarrow> nat \<Rightarrow> bool" where
  "walked f v w n \<longleftrightarrow>
     without_texts w = without_texts v \<and> n = length (chapter_texts v)
     \<and> list_all2 (\<lambda>s t. f s = Inr t) (chapter_texts v) (chapter_texts w)"

text \<open>One entry of an object and what the walk makes of it\<close>

definition walked_item :: "(string \<Rightarrow> string res) \<Rightarrow> string \<times> json \<Rightarrow> (string \<times> json) \<times> nat \<Rightarrow> bool" where
  "walked_item f = (\<lambda>(k, v) ((k', w), n). k' = k \<and>
     (if k = ''content'' \<and> is_content v
      then n = 0 \<and> (\<exists>s t. v = JStr s \<and> w = JStr t \<and> f s = Inr t)
      else walked f v w n \<and> is_content w = is_content v))"

lemma is_content_iff: "is_content v \<longleftrightarrow> (\<exists>s. v = JStr s)"
  by (cases v) simp_all

lemma walk_is_content: "walk_book f v = Inr (w, n) \<Longrightarrow> is_content w = is_content v"
  by (cases v) (auto simp: res_simps split: option.splits json.splits)

lemma walked_items_keys:
  "list_all2 (walked_item f) d items \<Longrightarrow> map fst (map fst items) = map fst d"
  by (induction d items rule: list_all2_induct) (auto simp: walked_item_def)

lemma walked_items_rest:
  "list_all2 (walked_item f) d items \<Longrightarrow> without_texts (JObj (map fst items)) = without_texts (JObj d)"
  by (induction d items rule: list_all2_induct)
    (auto simp: walked_item_def walked_def split: if_splits)

lemma walked_items_count:
  "list_all2 (walked_item f) d items \<Longrightarrow>
     sum_list (map snd items) = length (concat (map (\<lambda>(k, v). chapter_texts v) d))"
  by (induction d items rule: list_all2_induct)
    (auto simp: walked_item_def walked_def split: if_splits)

lemma walked_items_texts:
  "list_all2 (walked_item f) d items \<Longrightarrow>
     list_all2 (\<lambda>s t. f s = Inr t) (concat (map (\<lambda>(k, v). chapter_texts v) d))
       (concat (map (\<lambda>(k, v). chapter_texts v) (map fst items)))"
  by (induction d items rule: list_all2_induct)
    (auto simp: walked_item_def walked_def split: if_splits intro!: list_all2_appendI)

lemma walked_items_content:
  "list_all2 (walked_item f) d items \<Longrightarrow> dget k d = Some v \<Longrightarrow>
     \<exists>n w. dget k (map fst items) = Some w \<and> walked_item f (k, v) ((k, w), n)"
  by (induction d items rule: list_all2_induct) (fastforce simp: walked_item_def)+

lemma walked_items_absent:
  "list_all2 (walked_item f) d items \<Longrightarrow> dget k d = None \<Longrightarrow> dget k (map fst items) = None"
  by (induction d items rule: list_all2_induct) (auto simp: walked_item_def split: if_splits)

lemma walked_object:
  assumes "list_all2 (walked_item f) d items"
  shows "walked f (JObj d) (JObj (map fst items))
           (length (case dget ''content'' d of Some (JStr s) \<Rightarrow> [s] | _ \<Rightarrow> []) + sum_list (map snd items))"
proof -
  have "list_all2 (\<lambda>s t. f s = Inr t) (case dget ''content'' d of Some (JStr s) \<Rightarrow> [s] | _ \<Rightarrow> [])
          (case dget ''content'' (map fst items) of Some (JStr s) \<Rightarrow> [s] | _ \<Rightarrow> [])"
  proof (cases "dget ''content'' d")
    case None
    with walked_items_absent [OF assms] show ?thesis by simp
  next
    case (Some v)
    from walked_items_content [OF assms this] obtain n w
      where w: "dget ''content'' (map fst items) = Some w" and i: "walked_item f (''content'', v) ((''content'', w), n)"
      by blast
    show ?thesis
    proof (cases "is_content v")
      case True
      with i w Some show ?thesis by (auto simp: walked_item_def)
    next
      case False
      with i have "\<not> is_content w" by (simp add: walked_item_def)
      with False w Some show ?thesis by (simp add: is_content_iff split: json.split)
    qed
  qed
  then show ?thesis
    using walked_items_rest [OF assms] walked_items_count [OF assms] walked_items_texts [OF assms]
    unfolding walked_def by (simp add: list_all2_appendI)
qed

lemma walked_array:
  "list_all2 (\<lambda>v (w, n). walked f v w n) xs items \<Longrightarrow>
     walked f (JArr xs) (JArr (map fst items)) (sum_list (map snd items))"
  by (induction xs items rule: list_all2_induct)
    (auto simp: walked_def intro!: list_all2_appendI)

lemma walked_leaf: "chapter_texts v = [] \<Longrightarrow> walked f v v 0"
  by (simp add: walked_def)

text \<open>
  C38: The walk over the book changes \<open>content\<close> strings only: apart from them the book is as it
  was, each of them is what \<open>render\<close> made of the string that was there, and the number that the
  walk returns counts them.
\<close>

theorem walk_renders_contents:
  "distinct_keys v \<Longrightarrow> walk_book f v = Inr (w, n) \<Longrightarrow>
     without_texts w = without_texts v \<and> n = length (chapter_texts v)
     \<and> list_all2 (\<lambda>s t. f s = Inr t) (chapter_texts v) (chapter_texts w)"
  unfolding walked_def [symmetric]
proof (induction v arbitrary: w n rule: measure_induct_rule [of size])
  case (less v)
  show ?case
  proof (cases v)
    case (JObj d)
    have IH: "walked f u w n" if "(k, u) \<in> set d" "walk_book f u = Inr (w, n)" for k u w n
      by (rule less.IH)
        (use less.prems(1) size_in_object [OF that(1)] that in \<open>auto simp: JObj list_all_iff\<close>)
    have dist: "distinct (map fst d)" using less.prems(1) by (simp add: JObj)
    have step: "walked_item f (k, u) it"
      if "(k, u) \<in> set d" "rbind (walk_book f u) (\<lambda>(w, n). Inr ((k, w), n)) = Inr it"
        "\<not> (k = ''content'' \<and> is_content u)" for k u it
      using that IH [OF that(1)] walk_is_content by (auto simp: res_simps walked_item_def)
    show ?thesis
    proof (cases "\<exists>s. dget ''content'' d = Some (JStr s)")
      case True
      then obtain s where s: "dget ''content'' d = Some (JStr s)" by blast
      with less.prems(2) obtain t items where t: "f s = Inr t"
        and w: "w = JObj (map fst items)" "n = Suc (sum_list (map snd items))"
        and items: "rmap (\<lambda>(k, v). if k = ''content'' then Inr ((k, JStr t), 0)
                      else rbind (walk_book f v) (\<lambda>(w, n). Inr ((k, w), n))) d = Inr items"
        by (auto simp: JObj res_simps)
      have page: "u = JStr s" if "(''content'', u) \<in> set d" for u
        using s map_of_is_SomeI [OF dist that] by simp
      have "walked_item f (k, u) it"
        if "(k, u) \<in> set d" "(if k = ''content'' then Inr ((k, JStr t), 0)
             else rbind (walk_book f u) (\<lambda>(w, n). Inr ((k, w), n))) = Inr it" for k u it
      proof (cases "k = ''content''")
        case True
        with page that(1) have "u = JStr s" by simp
        with True that(2) t show ?thesis by (auto simp: walked_item_def)
      next
        case False
        with that step [OF that(1)] show ?thesis by simp
      qed
      with items have "list_all2 (walked_item f) d items"
        unfolding rmap_Inr by (auto elim!: list.rel_mono_strong)
      from walked_object [OF this] show ?thesis by (simp add: s w JObj)
    next
      case False
      with less.prems(2) obtain items where w: "w = JObj (map fst items)" "n = sum_list (map snd items)"
        and items: "rmap (\<lambda>(k, v). rbind (walk_book f v) (\<lambda>(w, n). Inr ((k, w), n))) d = Inr items"
        by (auto simp: JObj res_simps split: option.splits json.splits)
      have "\<not> (k = ''content'' \<and> is_content u)" if "(k, u) \<in> set d" for k u
        using False map_of_is_SomeI [OF dist that] by (auto simp: is_content_iff)
      with items step have "list_all2 (walked_item f) d items"
        unfolding rmap_Inr by (auto elim!: list.rel_mono_strong)
      moreover have "(case dget ''content'' d of Some (JStr s) \<Rightarrow> [s] | _ \<Rightarrow> []) = []"
        using False by (auto split: option.split json.split)
      ultimately show ?thesis using walked_object [of f d items] by (simp add: w JObj)
    qed
  next
    case (JArr xs)
    with less.prems(2) obtain items where w: "w = JArr (map fst items)" "n = sum_list (map snd items)"
      and items: "rmap (walk_book f) xs = Inr items" by (auto simp: res_simps)
    have "walked f u w n" if "u \<in> set xs" "walk_book f u = Inr (w, n)" for u w n
      by (rule less.IH) (use less.prems(1) size_in_array [OF that(1)] that in \<open>auto simp: JArr list_all_iff\<close>)
    with items have "list_all2 (\<lambda>v (w, n). walked f v w n) xs items"
      unfolding rmap_Inr by (auto elim!: list.rel_mono_strong)
    from walked_array [OF this] show ?thesis by (simp add: w JArr)
  qed (use less.prems(2) in \<open>auto intro!: walked_leaf\<close>)
qed

lemma walk_renders_contents_witness:
  "without_texts (JArr [JObj [(''name'', JStr ''a''), (''content'', JStr ''new'')], JStr ''part''])
     = without_texts (JArr [JObj [(''name'', JStr ''a''), (''content'', JStr ''old'')], JStr ''part''])
   \<and> (1::nat) = length (chapter_texts (JArr [JObj [(''name'', JStr ''a''), (''content'', JStr ''old'')], JStr ''part'']))"
  using walk_renders_contents [of "JArr [JObj [(''name'', JStr ''a''), (''content'', JStr ''old'')], JStr ''part'']"
      "\<lambda>s. Inr ''new''" "JArr [JObj [(''name'', JStr ''a''), (''content'', JStr ''new'')], JStr ''part'']" 1]
  by simp

end
