(* ===== verification/Tutorial_Check.thy ===== *)
theory Tutorial_Check
  imports Docs_Pages "HOL-Library.List_Lexorder"
begin

text \<open>
  \<open>scripts/check-tutorial-snippets.py\<close>: the check of the tutorials that runs before the documentation is
  built.  It reads the snippets of the contract script with a parser of its own and looks at each
  line of the tutorials for the directives that the preprocessor of \<open>Docs_Book\<close> will expand.
\<close>

section \<open>Errors\<close>

text \<open>The messages, with the place each names\<close>

datatype tutorial_error =
    Nested_start nat string
  | End_without_start nat
  | Duplicate_id nat string
  | Empty_snippet nat string
  | Unterminated string
  | Handwritten_block string nat
  | Unknown_snippet string nat string
  | Missing_field string nat string string
  | Unknown_chip string nat string
  | Empty_link string nat
  | Unused_snippets "string list"

section \<open>The snippets\<close>

record parse_state =
  parsed :: "(string, string list) dict"
  parse_errors :: "tutorial_error list"
  open_id :: "string option"
  open_lines :: "string list"

definition parse_line :: "nat \<Rightarrow> parse_state \<Rightarrow> string \<Rightarrow> parse_state res" where
  "parse_line lineno st line =
     (if prefix ''# docs:start '' line
      then (case open_id st of
              Some cur \<Rightarrow> Inr (st\<lparr>parse_errors := parse_errors st @ [Nested_start lineno cur]\<rparr>)
            | None \<Rightarrow> rbind (snippet_id line) (\<lambda>name. Inr (st\<lparr>open_id := Some name, open_lines := []\<rparr>)))
      else if line = ''# docs:end''
      then (case open_id st of
              None \<Rightarrow> Inr (st\<lparr>parse_errors := parse_errors st @ [End_without_start lineno]\<rparr>)
            | Some cur \<Rightarrow>
                (let closed = st\<lparr>open_id := None, open_lines := []\<rparr>
                 in Inr (if has_key cur (parsed st)
                         then closed\<lparr>parse_errors := parse_errors st @ [Duplicate_id lineno cur]\<rparr>
                         else if \<not> list_ex (\<lambda>part. text_strip part \<noteq> []) (open_lines st)
                         then closed\<lparr>parse_errors := parse_errors st @ [Empty_snippet lineno cur]\<rparr>
                         else closed\<lparr>parsed := dset cur (open_lines st) (parsed st)\<rparr>)))
      else Inr (if open_id st \<noteq> None then st\<lparr>open_lines := open_lines st @ [line]\<rparr> else st))"

fun parse_lines :: "nat \<Rightarrow> parse_state \<Rightarrow> string list \<Rightarrow> parse_state res" where
  "parse_lines lineno st [] = Inr st"
| "parse_lines lineno st (line # ls) = rbind (parse_line lineno st line) (\<lambda>st'. parse_lines (Suc lineno) st' ls)"

definition parse_snippets :: "bytes \<Rightarrow> ((string, string list) dict \<times> tutorial_error list) res" where
  "parse_snippets contracts =
     rbind (strict_text contracts) (\<lambda>content.
     rbind (parse_lines 1 \<lparr>parsed = [], parse_errors = [], open_id = None, open_lines = []\<rparr> (text_lines content)) (\<lambda>st.
       Inr (parsed st, parse_errors st @ (case open_id st of None \<Rightarrow> [] | Some cur \<Rightarrow> [Unterminated cur]))))"

section \<open>The lines of a tutorial\<close>

text \<open>\<open>key in value\<close> for a value of any type\<close>

fun json_contains :: "string \<Rightarrow> json \<Rightarrow> bool res" where
  "json_contains key (JObj d) = Inr (has_key key d)"
| "json_contains key (JArr xs) = Inr (JStr key \<in> set xs)"
| "json_contains key (JStr s) = Inr (occurs key s)"
| "json_contains key _ = Inl (TypeError ''not iterable'')"

definition missing_field :: "(string \<Rightarrow> bool) \<Rightarrow> string \<Rightarrow> nat \<Rightarrow> string \<Rightarrow> string \<times> json \<Rightarrow> tutorial_error list res" where
  "missing_field selectable_chip rel lineno field = (\<lambda>(chip, data).
     if \<not> selectable_chip chip then Inr []
     else rbind (json_contains field data) (\<lambda>known.
            Inr (if known then [] else [Missing_field rel lineno field chip])))"

definition field_issues :: "json \<Rightarrow> (string \<Rightarrow> bool) \<Rightarrow> string \<Rightarrow> nat \<Rightarrow> string \<Rightarrow> tutorial_error list res" where
  "field_issues chips selectable_chip rel lineno field =
     (case json_dict chips of
        None \<Rightarrow> Inl (AttributeError ''items'')
      | Some d \<Rightarrow> rbind (rmap (missing_field selectable_chip rel lineno field) d) (\<lambda>es. Inr (concat es)))"

definition known_snippet :: "(string, string list) dict \<Rightarrow> string \<Rightarrow> bool" where
  "known_snippet known name \<longleftrightarrow>
     has_key name known \<or> list_ex (\<lambda>(key, _). prefix (name @ ''.'') key) known"

definition fence_lines :: "string list" where
  "fence_lines = [''```bash'', ''```sh'', ''```shell'']"

definition tutorial_line ::
    "(string, string list) dict \<Rightarrow> json \<Rightarrow> (string \<Rightarrow> bool) \<Rightarrow> string \<Rightarrow> nat \<Rightarrow> string \<Rightarrow> tutorial_error list res" where
  "tutorial_line known chips selectable_chip rel lineno line =
     (let chs = decode_chars line
      in rbind (rmap (field_issues chips selectable_chip rel lineno) (find_all match_chip_field chs)) (\<lambda>fields.
         rbind (rmap (\<lambda>chip. rbind (json_contains chip chips) (\<lambda>ok.
                 Inr (if ok then [] else [Unknown_chip rel lineno chip]))) (find_all (match_directive ''chip-if'') chs)) (\<lambda>ifs.
           Inr ((if text_strip line \<in> set fence_lines then [Handwritten_block rel lineno] else [])
                @ concat (map (\<lambda>name. if known_snippet known name then [] else [Unknown_snippet rel lineno name])
                     (find_all match_snippet chs))
                @ concat fields @ concat ifs
                @ concat (map (\<lambda>(path, label). if text_strip path = [] then [Empty_link rel lineno] else [])
                     (find_all match_api_link chs))))))"

fun tutorial_lines ::
    "(string, string list) dict \<Rightarrow> json \<Rightarrow> (string \<Rightarrow> bool) \<Rightarrow> string \<Rightarrow> nat \<Rightarrow> string list \<Rightarrow> tutorial_error list res" where
  "tutorial_lines known chips selectable_chip rel lineno [] = Inr []"
| "tutorial_lines known chips selectable_chip rel lineno (line # ls) =
     rbind (tutorial_line known chips selectable_chip rel lineno line) (\<lambda>es.
     rbind (tutorial_lines known chips selectable_chip rel (Suc lineno) ls) (\<lambda>later. Inr (es @ later)))"

definition tutorial_issues ::
    "(string, string list) dict \<Rightarrow> json \<Rightarrow> (string \<Rightarrow> bool) \<Rightarrow> string \<times> bytes \<Rightarrow> tutorial_error list res" where
  "tutorial_issues known chips selectable_chip = (\<lambda>(rel, data).
     rbind (strict_text data) (\<lambda>content.
       tutorial_lines known chips selectable_chip rel 1 (text_lines content)))"

definition used_ids :: "string \<times> bytes \<Rightarrow> string list" where
  "used_ids = (\<lambda>(rel, data). concat (map (\<lambda>line. find_all match_snippet (decode_chars line)) (text_lines data)))"

section \<open>The command\<close>

text \<open>\<open>snippet_id.rsplit('.', 1)\<close>: what precedes the last dot, if there is one, and what follows it\<close>

definition id_stem :: "string \<Rightarrow> string" where
  "id_stem name =
     (if CHR ''.'' \<in> set name then rev (tl (dropWhile (\<lambda>c. c \<noteq> CHR ''.'') (rev name))) else name)"

definition id_variant :: "string \<Rightarrow> string" where
  "id_variant name = rev (takeWhile (\<lambda>c. c \<noteq> CHR ''.'') (rev name))"

definition unused_ids :: "(string, string list) dict \<Rightarrow> (string \<Rightarrow> bool) \<Rightarrow> string list \<Rightarrow> string list" where
  "unused_ids known selectable_chip used =
     sort (filter (\<lambda>name. (if selectable_chip (id_variant name) then id_stem name else name) \<notin> set used
                          \<and> name \<notin> set used) (map fst known))"

text \<open>The tutorials are given with their paths in sorted order, the chips as the parsed document.\<close>

definition tutorial_check :: "bytes \<Rightarrow> json_object \<Rightarrow> (string \<times> bytes) list \<Rightarrow> tutorial_error list res" where
  "tutorial_check contracts chips_doc tutorials =
     rbind (parse_snippets contracts) (\<lambda>(known, errors).
     rbind (json_iter (dget_or ''selectable'' (JArr []) chips_doc)) (\<lambda>selected.
     rbind (raise_if (\<not> list_all hashable selected) (TypeError ''unhashable'')) (\<lambda>_.
       let chips = dget_or ''chips'' (JObj []) chips_doc;
           selectable_chip = \<lambda>chip. JStr chip \<in> set selected
       in rbind (rmap (tutorial_issues known chips selectable_chip) tutorials) (\<lambda>issues.
            let unused = unused_ids known selectable_chip (concat (map used_ids tutorials))
            in Inr (errors @ concat issues @ (if unused = [] then [] else [Unused_snippets unused]))))))"

definition tutorial_status :: "tutorial_error list \<Rightarrow> nat" where
  "tutorial_status errors = (if errors \<noteq> [] then 1 else 0)"

section \<open>The two parsers of the snippets\<close>

text \<open>The text the preprocessor makes of the lines of a snippet\<close>

definition snippet_texts :: "(string, string list) dict \<Rightarrow> (string, string) dict" where
  "snippet_texts known = map (\<lambda>(name, ls). (name, strip_newlines (join [CHR 10] ls))) known"

definition same_reading :: "parse_state \<Rightarrow> snippet_state \<Rightarrow> bool" where
  "same_reading p s \<longleftrightarrow>
     snippets s = snippet_texts (parsed p) \<and> current s = open_id p \<and> (open_id p \<noteq> None \<longrightarrow> body_lines s = open_lines p)"

lemma has_key_texts [simp]: "has_key name (snippet_texts known) = has_key name known"
  by (simp add: has_key_iff snippet_texts_def image_image split_def)

lemma texts_dset: "\<not> has_key name known \<Longrightarrow>
  snippet_texts (dset name ls known) = dset name (strip_newlines (join [CHR 10] ls)) (snippet_texts known)"
  using has_key_texts [of name known] by (simp add: has_key_iff dset_fresh) (simp add: snippet_texts_def)

lemma parse_line_errors: "parse_line n p line = Inr p' \<Longrightarrow> \<exists>es. parse_errors p' = parse_errors p @ es"
  by (auto simp: parse_line_def res_simps Let_def split: if_splits option.splits)

lemma parse_lines_errors: "parse_lines n p ls = Inr p' \<Longrightarrow> \<exists>es. parse_errors p' = parse_errors p @ es"
proof (induction ls arbitrary: n p)
  case (Cons line ls)
  then obtain q where "parse_line n p line = Inr q" "parse_lines (Suc n) q ls = Inr p'" by (auto simp: res_simps)
  with Cons.IH [of "Suc n" q] parse_line_errors [of n p line q] show ?case by auto
qed simp

lemma parse_line_reading:
  assumes "parse_line n p line = Inr p'" and "parse_errors p' = []" and "same_reading p s"
  shows "\<exists>s'. snippet_line s line = Inr s' \<and> same_reading p' s'"
proof -
  have s: "snippets s = snippet_texts (parsed p)" "current s = open_id p"
    "open_id p \<noteq> None \<Longrightarrow> body_lines s = open_lines p"
    using assms(3) by (auto simp: same_reading_def)
  show ?thesis
    using assms(1,2) s
    by (auto simp: parse_line_def snippet_line_def same_reading_def res_simps Let_def texts_dset
        split: if_splits option.splits)
qed

lemma parse_lines_reading:
  "parse_lines n p ls = Inr p' \<Longrightarrow> parse_errors p' = [] \<Longrightarrow> same_reading p s \<Longrightarrow>
     \<exists>s'. snippet_lines s ls = Inr s' \<and> same_reading p' s'"
proof (induction ls arbitrary: n p s)
  case (Cons line ls)
  then obtain q where q: "parse_line n p line = Inr q" "parse_lines (Suc n) q ls = Inr p'" by (auto simp: res_simps)
  from parse_lines_errors [OF q(2)] Cons.prems(2) have "parse_errors q = []" by auto
  from parse_line_reading [OF q(1) this Cons.prems(3)] obtain t where "snippet_line s line = Inr t" "same_reading q t" by blast
  with Cons.IH [OF q(2) Cons.prems(2)] show ?case by (simp add: res_simps)
qed simp

lemma parsed_snippets_loaded:
  assumes "parse_snippets contracts = Inr (known, [])"
  shows "load_snippets contracts = Inr (snippet_texts known)"
proof -
  obtain content p where content: "strict_text contracts = Inr content" and known: "known = parsed p"
    and parse: "parse_lines 1 \<lparr>parsed = [], parse_errors = [], open_id = None, open_lines = []\<rparr> (text_lines content) = Inr p"
    and ok: "parse_errors p = []" "open_id p = None"
    using assms by (auto simp: parse_snippets_def res_simps split: option.splits)
  have "same_reading \<lparr>parsed = [], parse_errors = [], open_id = None, open_lines = []\<rparr>
      \<lparr>snippets = [], current = None, body_lines = []\<rparr>"
    by (simp add: same_reading_def snippet_texts_def)
  from parse_lines_reading [OF parse ok(1) this] show ?thesis
    using ok(2) by (auto simp: load_snippets_def content known same_reading_def)
qed

section \<open>A checked tutorial can be rendered\<close>

lemma sub_with_Inr: "(\<exists>t. sub_with m f chs = Inr t) \<longleftrightarrow> (\<forall>g\<in>set (find_all m chs). \<exists>s. f g = Inr s)"
proof (induction m chs rule: find_all.induct)
  case (2 m x xs)
  show ?case
  proof (cases "\<exists>g rest. m (x # xs) = Some (g, rest) \<and> length rest < length (x # xs)")
    case True
    then obtain g rest where m: "m (x # xs) = Some (g, rest)" and len: "length rest < length (x # xs)" by blast
    have "(\<exists>t. sub_with m f (x # xs) = Inr t) \<longleftrightarrow> (\<exists>s. f g = Inr s) \<and> (\<exists>t. sub_with m f rest = Inr t)"
      using len by (auto simp: m res_simps)
    with "2.IH"(2) [OF m refl len] len show ?thesis by (simp add: m)
  next
    case False
    then have "(\<exists>t. sub_with m f (x # xs) = Inr t) \<longleftrightarrow> (\<exists>t. sub_with m f xs = Inr t)"
      and "find_all m (x # xs) = find_all m xs"
      by (auto simp: res_simps split: option.split)
    moreover have "(\<exists>t. sub_with m f xs = Inr t) \<longleftrightarrow> (\<forall>g\<in>set (find_all m xs). \<exists>s. f g = Inr s)"
    proof (cases "m (x # xs)")
      case None
      then show ?thesis by (rule "2.IH"(1))
    next
      case (Some gr)
      obtain g rest where gr: "gr = (g, rest)" by (cases gr)
      with Some False have "\<not> length rest < length (x # xs)" by blast
      with Some gr show ?thesis by (intro "2.IH"(3)) simp_all
    qed
    ultimately show ?thesis by simp
  qed
qed simp

lemma rmap_Nil_errors: "rmap f xs = Inr yss \<Longrightarrow> concat yss = [] \<Longrightarrow> x \<in> set xs \<Longrightarrow> f x = Inr []"
  using rmap_of by fastforce

lemma tutorial_lines_ok:
  "tutorial_lines known chips sel rel n ls = Inr [] \<Longrightarrow> line \<in> set ls \<Longrightarrow> \<exists>k. tutorial_line known chips sel rel k line = Inr []"
  by (induction ls arbitrary: n) (auto simp: res_simps)

lemma tutorial_line_ok:
  "tutorial_line known chips sel rel n line = Inr [] \<Longrightarrow> name \<in> set (find_all match_snippet (decode_chars line)) \<Longrightarrow>
     known_snippet known name"
  by (auto simp: tutorial_line_def res_simps Let_def split: if_splits)

text \<open>A snippet id continued by a dot is a variant for a chip that can be selected.\<close>

definition variants_selectable :: "string list \<Rightarrow> (string, string list) dict \<Rightarrow> bool" where
  "variants_selectable names known \<longleftrightarrow>
     (\<forall>name key. has_key key known \<and> prefix (name @ ''.'') key \<longrightarrow>
        has_key name known \<or> (\<exists>chip\<in>set names. has_key (name @ ''.'' @ chip) known))"

lemma snippet_block_known:
  assumes "known_snippet known name" and "variants_selectable names known" and "selectable chips = JArr (map JStr names)"
  shows "\<exists>t. snippet_block env (snippet_texts known) chips name = Inr t"
proof -
  let ?key = "\<lambda>c. name @ ''.'' @ text_of env c"
  let ?found = "filter (\<lambda>c. has_key (?key c) known) (map JStr names)"
  have hash: "list_all hashable ?found" by (auto simp: list_all_iff)
  have keys: "set (variant_chips cs) \<subseteq> set cs" for cs
  proof -
    have "fst ` set (foldl (\<lambda>d c. dset c () d) d cs) \<subseteq> fst ` set d \<union> set cs" for d :: "(json, unit) dict"
    proof (induction cs arbitrary: d)
      case (Cons a cs)
      have "fst ` set (foldl (\<lambda>d c. dset c () d) (dset a () d) cs) \<subseteq> fst ` set (dset a () d) \<union> set cs" by (rule Cons.IH)
      then show ?case by (simp add: dom_update)
    qed simp
    from this [of "[]"] show ?thesis by (simp add: variant_chips_def)
  qed
  have blocks: "\<exists>bs. rmap (\<lambda>c. rbind (escaped c) (\<lambda>chip. Inr (g chip c))) (variant_chips ?found) = Inr bs" for g :: "string \<Rightarrow> json \<Rightarrow> string"
  proof -
    have "\<forall>c\<in>set cs. \<exists>n. c = JStr n \<Longrightarrow> \<exists>bs. rmap (\<lambda>c. rbind (escaped c) (\<lambda>chip. Inr (g chip c))) cs = Inr bs" for cs
      by (induction cs) (auto simp: escaped_def)
    moreover have "\<forall>c\<in>set (variant_chips ?found). \<exists>n. c = JStr n"
      using keys [of ?found] by (auto dest!: subsetD)
    ultimately show ?thesis by blast
  qed
  have plain: "dget name (snippet_texts known) \<noteq> None" if "?found = []"
  proof -
    have "\<not> (\<exists>chip\<in>set names. has_key (name @ ''.'' @ chip) known)"
      using that by (auto simp: filter_empty_conv text_of_def)
    moreover have "has_key name known \<or> (\<exists>key. has_key key known \<and> prefix (name @ ''.'') key)"
      using assms(1) by (force simp: known_snippet_def list_ex_iff has_key_iff)
    ultimately have "has_key name known" using assms(2) unfolding variants_selectable_def by blast
    then show ?thesis using has_key_texts [of name known] by (simp add: has_key_def)
  qed
  have "filter (\<lambda>c. has_key (?key c) (snippet_texts known)) (map JStr names) = ?found" by simp
  note def = snippet_block_def [of env "snippet_texts known" chips name, unfolded assms(3) json_iter.simps rbind_simps Let_def this]
  show ?thesis
  proof (cases "?found = []")
    case True
    with plain show ?thesis unfolding def by (auto simp: raise_if_def)
  next
    case False
    obtain bs where bs: "rmap (\<lambda>c. rbind (escaped c) (\<lambda>chip.
        Inr (chip_block ''hisi-chip-block'' chip (html_code_block (dget_or (?key c) [] (snippet_texts known))))))
      (variant_chips ?found) = Inr bs"
      using blocks [of "\<lambda>chip c. chip_block ''hisi-chip-block'' chip (html_code_block (dget_or (?key c) [] (snippet_texts known)))"]
      by blast
    have "raise_if (\<not> list_all hashable ?found) (TypeError ''unhashable'') = Inr ()" using hash by (simp only: raise_if_def not_True_eq_False if_False)
    with False show ?thesis unfolding def bs by (simp del: filter_map filter.simps)
  qed
qed


definition book_demo_env :: book_env where
  "book_demo_env = \<lparr>print_json = (\<lambda>_. []), str_of = (\<lambda>_. [])\<rparr>"

section \<open>Where the check and the preprocessor differ\<close>

definition odd_contracts :: bytes where
  "odd_contracts = concat (map (\<lambda>l. l @ [CHR 10])
     [''# docs:start run.old'', ''ls'', ''# docs:end''])"

definition odd_line :: string where
  "odd_line = ''{{#tutorial-snippet run}} {{#tutorial-snippet run.old}}''"

definition odd_tutorial :: bytes where
  "odd_tutorial = odd_line @ [CHR 10]"

lemma odd_parsed: "parse_snippets odd_contracts = Inr ([(''run.old'', [''ls''])], [])"
proof -
  have "strict_text odd_contracts = Inr odd_contracts" by (rule strict_text_ascii) (simp add: odd_contracts_def ascii_def)
  moreover have "text_lines odd_contracts = [''# docs:start run.old'', ''ls'', ''# docs:end'']"
    unfolding odd_contracts_def by (rule text_lines_plain) simp
  moreover have "text_strip ''run.old'' = ''run.old''" "text_strip ''ls'' = ''ls''"
    by (simp_all add: text_strip_plain_word plain_word_def)
  ultimately show ?thesis by (simp add: parse_snippets_def parse_line_def snippet_id_def has_key_def Let_def)
qed

lemma odd_text_lines: "text_lines odd_tutorial = [odd_line]" "strict_text odd_tutorial = Inr odd_tutorial"
proof -
  show "text_lines odd_tutorial = [odd_line]"
    using text_lines_plain [of "[odd_line]"] by (simp add: odd_tutorial_def) (simp add: odd_line_def)
  show "strict_text odd_tutorial = Inr odd_tutorial"
    by (rule strict_text_ascii) (simp add: odd_tutorial_def odd_line_def ascii_def)
qed

lemma odd_chars: "decode_chars odd_line = map (\<lambda>c. [c]) odd_line"
  by (rule decode_chars_ascii) (simp add: odd_line_def ascii_def)

lemma odd_tokens:
  "find_all match_snippet (decode_chars odd_line) = [''run'', ''run.old'']"
  "find_all match_chip_field (decode_chars odd_line) = []"
  "find_all (match_directive ''chip-if'') (decode_chars odd_line) = []"
  "find_all match_api_link (decode_chars odd_line) = []"
  unfolding odd_chars
  by (simp_all add: odd_line_def match_snippet_def match_chip_field_def match_directive_def match_api_link_def is_space_def)

lemma odd_line_no_fence: "text_strip odd_line \<notin> set fence_lines"
  unfolding text_strip_def odd_chars by (simp add: odd_line_def is_space_def fence_lines_def)

lemma odd_line_check: "tutorial_line [(''run.old'', [''ls''])] (JObj []) sel ''a.md'' k odd_line = Inr []"
  by (simp add: tutorial_line_def odd_tokens odd_line_no_fence known_snippet_def has_key_def Let_def)

lemma odd_check:
  "tutorial_check odd_contracts [(''selectable'', JArr [JStr chip])] [(''a.md'', odd_tutorial)] = Inr []"
proof -
  have "used_ids (''a.md'', odd_tutorial) = [''run'', ''run.old'']" by (simp add: used_ids_def odd_text_lines odd_tokens)
  then have "unused_ids [(''run.old'', [''ls''])] sel (concat (map used_ids [(''a.md'', odd_tutorial)])) = []" for sel
    by (simp add: unused_ids_def)
  moreover have "tutorial_issues [(''run.old'', [''ls''])] (JObj []) sel (''a.md'', odd_tutorial) = Inr []" for sel
    by (simp add: tutorial_issues_def odd_text_lines odd_line_check)
  ultimately show ?thesis
    by (simp add: tutorial_check_def odd_parsed raise_if_def dget_or_def Let_def)
qed

text \<open>
  A variant for a chip that cannot be selected satisfies the check, but not the preprocessor: it raises
  for the identifier without the variant.
\<close>

lemma odd_variant_passes_check:
  "tutorial_check odd_contracts [(''selectable'', JArr [JStr ''ws63''])] [(''a.md'', odd_tutorial)] = Inr []"
  by (rule odd_check)

lemma odd_variant_not_rendered:
  "snippet_block env (snippet_texts [(''run.old'', [''ls''])])
     \<lparr>default_chip = ''ws63'', selectable = JArr [JStr ''ws63''], chip_table = [(''ws63'', JObj [])]\<rparr> ''run''
   = Inl (SystemExit ''unknown tutorial snippet id: run'')"
  by (simp add: snippet_block_def snippet_texts_def has_key_def text_of_def raise_if_def)


end
