(* ===== verification/Doc_Versions.thy ===== *)
theory Doc_Versions
  imports Docs_Book "HOL-Library.Product_Lexorder" "HOL-Library.List_Lexorder" "HOL-Library.Multiset"
begin

text \<open>
  \<open>scripts/generate-doc-versions.py\<close>: the list of documentation versions from the tags of the
  repository.  What \<open>git tag --list\<close> prints is an input.  The documentation preprocessor of
  \<open>Docs_Book\<close> reads the list.
\<close>

section \<open>Version tags\<close>

text \<open>\<open>\d\<close>, and the value \<open>int\<close> gives to a run of such characters\<close>

definition tag_decimal :: "string \<Rightarrow> bool" where
  "tag_decimal ch \<longleftrightarrow> 48 \<le> ord (numeral_char ch) \<and> ord (numeral_char ch) \<le> 57"

definition decimal_value :: "string list \<Rightarrow> nat" where
  "decimal_value = foldl (\<lambda>n ch. 10 * n + (ord (numeral_char ch) - 48)) 0"

fun pre_char :: "string \<Rightarrow> bool" where
  "pre_char [c] =
     (65 \<le> ord c \<and> ord c \<le> 90 \<or> 97 \<le> ord c \<and> ord c \<le> 122 \<or> 48 \<le> ord c \<and> ord c \<le> 57 \<or> c = CHR ''.'' \<or> c = CHR ''-'')"
| "pre_char _ = False"

definition version_number :: "string list \<Rightarrow> (nat \<times> string list) option" where
  "version_number chs =
     (let ds = takeWhile tag_decimal chs
      in if ds = [] then None else Some (decimal_value ds, dropWhile tag_decimal chs))"

text \<open>\<open>$\<close> also matches in front of a last line feed.\<close>

definition text_ends :: "string list \<Rightarrow> bool" where
  "text_ends chs \<longleftrightarrow> chs = [] \<or> chs = [[CHR 10]]"

definition match_version :: "string \<Rightarrow> (nat \<times> nat \<times> nat \<times> string option) option" where
  "match_version version =
     Option.bind (strip_lit ''v'' (decode_chars version)) (\<lambda>a.
     Option.bind (version_number a) (\<lambda>(major, b).
     Option.bind (strip_lit ''.'' b) (\<lambda>c.
     Option.bind (version_number c) (\<lambda>(minor, d).
     Option.bind (strip_lit ''.'' d) (\<lambda>e.
     Option.bind (version_number e) (\<lambda>(patch, f).
       case strip_lit ''-'' f of
         None \<Rightarrow> if text_ends f then Some (major, minor, patch, None) else None
       | Some g \<Rightarrow>
           if takeWhile pre_char g \<noteq> [] \<and> text_ends (dropWhile pre_char g)
           then Some (major, minor, patch, Some (concat (takeWhile pre_char g))) else None))))))"

type_synonym version_key = "nat \<times> nat \<times> nat \<times> nat \<times> string"

definition semver_key :: "string \<Rightarrow> version_key res" where
  "semver_key version =
     (case match_version version of
        None \<Rightarrow> Inl (ValueError version)
      | Some (major, minor, patch, pre) \<Rightarrow>
          Inr (major, minor, patch, if pre = None then 1 else 0, case pre of None \<Rightarrow> [] | Some p \<Rightarrow> p))"

definition git_tags :: "string \<Rightarrow> string list" where
  "git_tags stdout =
     filter (\<lambda>tag. match_version tag \<noteq> None) (map text_strip (text_lines stdout))"

text \<open>\<open>sorted(tags, key=semver_key, reverse=True)\<close> keeps the order of equal keys.\<close>

definition key_of :: "string \<Rightarrow> version_key" where
  "key_of tag = (case semver_key tag of Inr k \<Rightarrow> k | Inl _ \<Rightarrow> (0, 0, 0, 0, []))"

definition sorted_tags :: "string list \<Rightarrow> string list" where
  "sorted_tags tags = rev (sort_key key_of (rev tags))"

definition is_stable :: "string \<Rightarrow> bool" where
  "is_stable tag \<longleftrightarrow> CHR ''-'' \<notin> set tag"

text \<open>Of the sorted tags\<close>

definition latest_of :: "string list \<Rightarrow> string" where
  "latest_of tags =
     (case filter is_stable tags of
        t # _ \<Rightarrow> t | [] \<Rightarrow> (case tags of t # _ \<Rightarrow> t | [] \<Rightarrow> ''main''))"

section \<open>The list of versions\<close>

definition release_entry :: "string \<Rightarrow> string \<Rightarrow> json" where
  "release_entry base version =
     JObj [(''id'', JStr version), (''label'', JStr version), (''kind'', JStr ''release''),
           (''book_base'', JStr (base @ ''/'' @ version @ ''/'')),
           (''api_base'', JStr (base @ ''/api/'' @ version @ ''/''))]"

definition latest_entry :: "string \<Rightarrow> string \<Rightarrow> json" where
  "latest_entry base latest =
     JObj [(''id'', JStr ''latest''), (''label'', JStr ''Latest''), (''kind'', JStr ''alias''), (''target'', JStr latest),
           (''book_base'', JStr (base @ ''/latest/'')), (''api_base'', JStr (base @ ''/api/latest/''))]"

definition main_entry :: "string \<Rightarrow> json" where
  "main_entry base =
     JObj [(''id'', JStr ''main''), (''label'', JStr ''main''), (''kind'', JStr ''branch''),
           (''book_base'', JStr (base @ ''/main/'')), (''api_base'', JStr (base @ ''/api/main/''))]"

definition doc_versions :: "string \<Rightarrow> bool \<Rightarrow> string \<Rightarrow> json_object" where
  "doc_versions project_base include_main stdout =
     (let base = strip_slashes_right project_base;
          tags = sorted_tags (git_tags stdout);
          latest = latest_of tags
      in [(''default'', JStr ''latest''), (''latest'', JStr latest),
          (''versions'', JArr (latest_entry base latest # (if include_main then [main_entry base] else [])
                               @ map (release_entry base) tags))])"

section \<open>The latest version\<close>

lemma set_sorted_tags: "mset (sorted_tags tags) = mset tags"
  by (simp add: sorted_tags_def)

lemma sorted_tags_decreasing: "sorted_wrt (\<lambda>a b. key_of b \<le> key_of a) (sorted_tags tags)"
proof -
  have "sorted_wrt (\<le>) (map key_of (sort_key key_of (rev tags)))" by (rule sorted_sort_key)
  then show ?thesis by (simp add: sorted_tags_def sorted_wrt_rev sorted_wrt_map)
qed

lemma latest_is_first:
  assumes "sorted_wrt (\<lambda>a b. key_of b \<le> key_of a) tags"
  shows "(\<exists>t\<in>set tags. is_stable t) \<Longrightarrow>
      latest_of tags \<in> set tags \<and> is_stable (latest_of tags) \<and> (\<forall>t\<in>set tags. is_stable t \<longrightarrow> key_of t \<le> key_of (latest_of tags))"
    and "\<not> (\<exists>t\<in>set tags. is_stable t) \<Longrightarrow> tags \<noteq> [] \<Longrightarrow>
      latest_of tags \<in> set tags \<and> (\<forall>t\<in>set tags. key_of t \<le> key_of (latest_of tags))"
proof -
  assume "\<exists>t\<in>set tags. is_stable t"
  then obtain s ss where f: "filter is_stable tags = s # ss" by (cases "filter is_stable tags") (auto simp: filter_empty_conv)
  have "sorted_wrt (\<lambda>a b. key_of b \<le> key_of a) (s # ss)" using sorted_wrt_filter [OF assms] f by metis
  then have m: "\<And>t. t \<in> set tags \<Longrightarrow> is_stable t \<Longrightarrow> key_of t \<le> key_of s" 
  proof -
    fix t assume "t \<in> set tags" "is_stable t"
    then have "t \<in> set (filter is_stable tags)" by simp
    then show "key_of t \<le> key_of s" using \<open>sorted_wrt _ (s # ss)\<close> by (auto simp: f)
  qed
  moreover have "s \<in> set tags \<and> is_stable s"
  proof -
    have "s \<in> set (filter is_stable tags)" by (simp only: f list.set_intros(1))
    then show ?thesis by simp
  qed
  ultimately show "latest_of tags \<in> set tags \<and> is_stable (latest_of tags) \<and> (\<forall>t\<in>set tags. is_stable t \<longrightarrow> key_of t \<le> key_of (latest_of tags))"
    by (simp add: latest_of_def f)
next
  assume none: "\<not> (\<exists>t\<in>set tags. is_stable t)" and "tags \<noteq> []"
  then obtain t ts where t: "tags = t # ts" by (cases tags) auto
  have "filter is_stable tags = []" using none by (simp add: filter_empty_conv)
  with assms t show "latest_of tags \<in> set tags \<and> (\<forall>t\<in>set tags. key_of t \<le> key_of (latest_of tags))"
    by (auto simp: latest_of_def)
qed

text \<open>
  The generated list names as latest the greatest stable release in the order of major, minor and
  patch number, or the greatest pre-release where there is no stable one, or the main branch; it
  lists every release tag once, in decreasing order, after the aliases; and the preprocessor finds
  in it the API reference of the default version.
\<close>

theorem doc_versions_latest:
  fixes stdout base include_main
  defines "tags \<equiv> git_tags stdout" and "doc \<equiv> doc_versions base include_main stdout"
  shows "\<exists>latest listed. json_get ''latest'' doc = JStr latest
    \<and> (if \<exists>t\<in>set tags. is_stable t
       then latest \<in> set tags \<and> is_stable latest \<and> (\<forall>t\<in>set tags. is_stable t \<longrightarrow> key_of t \<le> key_of latest)
       else if tags \<noteq> [] then latest \<in> set tags \<and> (\<forall>t\<in>set tags. key_of t \<le> key_of latest)
       else latest = ''main'')
    \<and> mset listed = mset tags \<and> sorted_wrt (\<lambda>a b. key_of b \<le> key_of a) listed
    \<and> json_get ''versions'' doc = JArr (latest_entry (strip_slashes_right base) latest
         # (if include_main then [main_entry (strip_slashes_right base)] else [])
         @ map (release_entry (strip_slashes_right base)) listed)
    \<and> rbind (json_iter (json_get ''versions'' doc)) (first_api_base (json_get ''default'' doc))
       = Inr (Some (JStr (strip_slashes_right base @ ''/api/latest/'')))"
proof -
  let ?s = "sorted_tags tags"
  have set_s: "set ?s = set tags" using set_sorted_tags by (metis set_mset_mset)
  then have ne: "tags = [] \<longleftrightarrow> ?s = []" by (metis set_empty)
  note latest = latest_is_first [OF sorted_tags_decreasing [of tags]]
  have "latest_of [] = ''main''" by (simp add: latest_of_def)
  then have a: "if \<exists>t\<in>set tags. is_stable t
       then latest_of ?s \<in> set tags \<and> is_stable (latest_of ?s) \<and> (\<forall>t\<in>set tags. is_stable t \<longrightarrow> key_of t \<le> key_of (latest_of ?s))
       else if tags \<noteq> [] then latest_of ?s \<in> set tags \<and> (\<forall>t\<in>set tags. key_of t \<le> key_of (latest_of ?s))
       else latest_of ?s = ''main''"
    using latest set_s ne by (metis (no_types, lifting))
  have doc: "json_get ''latest'' doc = JStr (latest_of ?s)" "json_get ''default'' doc = JStr ''latest''"
    "json_get ''versions'' doc = JArr (latest_entry (strip_slashes_right base) (latest_of ?s)
         # (if include_main then [main_entry (strip_slashes_right base)] else [])
         @ map (release_entry (strip_slashes_right base)) ?s)"
    by (simp_all add: doc_def doc_versions_def Let_def json_get_def dget_or_def tags_def)
  show ?thesis
    by (intro exI [of _ "latest_of ?s"] exI [of _ ?s] conjI)
      (use a doc set_sorted_tags sorted_tags_decreasing in
        \<open>simp_all add: latest_entry_def attr_get_def subscript_def json_item_def dget_or_def\<close>)
qed

lemma ascii_version_digit: "ord c < 128 \<Longrightarrow> tag_decimal [c] \<longleftrightarrow> 48 \<le> ord c \<and> ord c \<le> 57"
  by (simp add: tag_decimal_def numeral_char_def)

lemma demo_git_tags:
  "git_tags (''v0.6.0'' @ [CHR 10] @ ''v0.7.0-alpha.9'' @ [CHR 10] @ ''vendor'') = [''v0.6.0'', ''v0.7.0-alpha.9'']"
proof -
  have "text_lines (''v0.6.0'' @ [CHR 10] @ ''v0.7.0-alpha.9'' @ [CHR 10] @ ''vendor'') = [''v0.6.0'', ''v0.7.0-alpha.9'', ''vendor'']"
    by (simp add: text_lines_def utf8_head_def lead_length_def is_line_break_def)
  moreover have "text_strip ''v0.6.0'' = ''v0.6.0''" "text_strip ''v0.7.0-alpha.9'' = ''v0.7.0-alpha.9''" "text_strip ''vendor'' = ''vendor''"
    by (simp_all add: text_strip_def utf8_head_def lead_length_def is_space_def)
  moreover have "match_version ''v0.6.0'' \<noteq> None" "match_version ''v0.7.0-alpha.9'' \<noteq> None" "match_version ''vendor'' = None"
    by (simp_all add: match_version_def utf8_head_def lead_length_def version_number_def
      ascii_version_digit decimal_value_def numeral_char_def text_ends_def)
  ultimately show ?thesis by (simp add: git_tags_def)
qed

lemma doc_versions_latest_witness:
  "json_get ''latest'' (doc_versions ''/docs/'' True (''v0.6.0'' @ [CHR 10] @ ''v0.7.0-alpha.9'' @ [CHR 10] @ ''vendor''))
     = JStr ''v0.6.0''"
proof -
  have stable: "is_stable ''v0.6.0''" "\<not> is_stable ''v0.7.0-alpha.9''" by (simp_all add: is_stable_def)
  from doc_versions_latest [where stdout = "''v0.6.0'' @ [CHR 10] @ ''v0.7.0-alpha.9'' @ [CHR 10] @ ''vendor''"
      and base = "''/docs/''" and include_main = True]
  obtain latest where latest: "json_get ''latest'' (doc_versions ''/docs/'' True (''v0.6.0'' @ [CHR 10] @ ''v0.7.0-alpha.9'' @ [CHR 10] @ ''vendor'')) = JStr latest"
    and "if \<exists>t\<in>set [''v0.6.0'', ''v0.7.0-alpha.9'']. is_stable t
       then latest \<in> set [''v0.6.0'', ''v0.7.0-alpha.9''] \<and> is_stable latest \<and> (\<forall>t\<in>set [''v0.6.0'', ''v0.7.0-alpha.9'']. is_stable t \<longrightarrow> key_of t \<le> key_of latest)
       else if [''v0.6.0'', ''v0.7.0-alpha.9''] \<noteq> [] then latest \<in> set [''v0.6.0'', ''v0.7.0-alpha.9''] \<and> (\<forall>t\<in>set [''v0.6.0'', ''v0.7.0-alpha.9'']. key_of t \<le> key_of latest)
       else latest = ''main''"
    unfolding demo_git_tags by (elim exE conjE) (rule that)
  with stable show ?thesis by (auto split: if_splits)
qed

text \<open>
  The pre-release parts are compared as text, so that the tenth pre-release counts as older than the
  ninth.
\<close>

lemma tenth_prerelease_keys:
  "key_of ''v0.7.0-alpha.9'' = (0, 7, 0, 0, ''alpha.9'')" "key_of ''v0.7.0-alpha.10'' = (0, 7, 0, 0, ''alpha.10'')"
  by (simp_all add: key_of_def semver_key_def match_version_def utf8_head_def lead_length_def version_number_def
      ascii_version_digit decimal_value_def numeral_char_def text_ends_def)

lemma tenth_prerelease_not_latest:
  "latest_of (sorted_tags [''v0.7.0-alpha.9'', ''v0.7.0-alpha.10'']) = ''v0.7.0-alpha.9''"
proof -
  have "key_of ''v0.7.0-alpha.10'' < key_of ''v0.7.0-alpha.9''"
    unfolding tenth_prerelease_keys by (simp add: less_prod_def less_char_def)
  then show ?thesis by (simp add: sorted_tags_def latest_of_def is_stable_def)
qed

end
