(* ===== verification/Net0_Capture.thy ===== *)
theory Net0_Capture
  imports Pair_Matrix Py_Regex Py_Sha256
begin

text \<open>
  \<open>capture-tool.py\<close> of the evidence \<open>net0-rx-rebuild-2026-09-10\<close>: reset the board (and the access
  point before it, where asked for), collect the logs of both ports, and judge the log of the board
  by its markers and by the counters of its diagnostics.  The reading of the clock and the arrivals
  are given as ticks, as for the paired matrices.
\<close>

section \<open>Arguments and markers\<close>

datatype net0_role = Net0_ap | Net0_sta

record net0_args =
  net0_role :: net0_role
  net0_runs :: int
  net0_seconds :: secs
  net0_flash :: bool
  require_bound_closed :: bool
  require_host_delivery :: bool
  initial_session :: bool
  expect_cleanup_fault :: bool
  require_host_tx :: bool
  require_rx_stop :: bool
  require_rx_rebuild :: bool
  reset_peer :: "string option"
  reset_serial :: string

text \<open>The markers a run has to show, or the argument error\<close>

definition session_markers :: "bytes list" where
  "session_markers =
     [''RFDBG_NET0_INITIAL_SESSION_OPEN'', ''RFDBG_NET0_PAYLOAD_OK'', ''RFDBG_NET0_INITIAL_SESSION_CLOSED'']"

definition net0_required :: "net0_args \<Rightarrow> bytes list res" where
  "net0_required a =
     (let base = (if net0_role a = Net0_ap then [''RFDBG_SOFTAP_READY'']
                  else [''RFDBG_A5B_CONNECT_OK'', ''RFDBG_A5B_DISCONNECT_OK'', ''RFDBG_A5B_CONNECT_PROFILE_OK''])
      in rbind (raise_if (initial_session a \<and> (net0_role a \<noteq> Net0_sta \<or> require_host_delivery a))
                  (SystemExit ''Initial session is a separate STA payload contract, not closed-route evidence'')) (\<lambda>_.
         rbind (raise_if (require_bound_closed a \<and> net0_role a \<noteq> Net0_sta)
                  (SystemExit ''The bound/closed fixture is a station-only contract'')) (\<lambda>_.
         rbind (raise_if (expect_cleanup_fault a \<and> \<not> initial_session a)
                  (SystemExit ''Cleanup fault requires the initial-session fixture'')) (\<lambda>_.
           let ms = base @ (if initial_session a then session_markers else [])
                    @ (if require_bound_closed a then [''RFDBG_NET0_BOUND_CLOSED''] else [])
           in Inr (if expect_cleanup_fault a
                   then filter (\<lambda>m. m \<notin> set [''RFDBG_A5B_DISCONNECT_OK'', ''RFDBG_A5B_CONNECT_PROFILE_OK'',
                                          ''RFDBG_NET0_INITIAL_SESSION_CLOSED'']) ms
                        @ [''RFDBG_NET0_CLEANUP_FAULT_REJECTED'']
                   else ms)))))"

definition net0_failures :: "net0_args \<Rightarrow> bytes list" where
  "net0_failures a =
     [''panicked at'', ''PANIC'', ''RFDBG_A5B_CONNECT_ERR'', ''RFDBG_A5B_BOOTSTRAP_ERR'', ''RFDBG_NET0_PAYLOAD_ERR'',
      ''RFDBG_NET0_INITIAL_SESSION_REJECTED'']
     @ (if \<not> expect_cleanup_fault a then [''RFDBG_A5B_DISCONNECT_ERR''] else [])"

section \<open>Counter lines\<close>

text \<open>The lines that end with a line feed, without it\<close>

fun fed_lines :: "bytes \<Rightarrow> bytes \<Rightarrow> bytes list" where
  "fed_lines cur [] = []"
| "fed_lines cur (c # cs) = (if c = CHR 10 then cur # fed_lines [] cs else fed_lines (cur @ [c]) cs)"

text \<open>\<open>\r?\n\<close> follows\<close>

definition at_end :: "bytes \<Rightarrow> bool" where
  "at_end rest \<longleftrightarrow> rest = [] \<or> rest = [CHR 13]"

definition hex_row :: "bytes \<Rightarrow> nat \<Rightarrow> regex" where
  "hex_row tag n = RLit tag # concat (replicate n [RLit '' 0x'', RGroup is_hex 8])"

text \<open>\<open>re.findall(rb'(?m)^' + pattern + rb'\r?\n', data)\<close>: a match is a whole line.\<close>

definition row_matches :: "regex \<Rightarrow> bytes \<Rightarrow> bytes list list" where
  "row_matches r data =
     List.map_filter (\<lambda>line. case rmatch r line of
         Some (g, rest) \<Rightarrow> if at_end rest then Some g else None | None \<Rightarrow> None) (fed_lines [] data)"

definition hex_rows :: "bytes \<Rightarrow> nat \<Rightarrow> bytes \<Rightarrow> int list list" where
  "hex_rows tag n data = map (map hex_value) (row_matches (hex_row tag n) data)"

definition named_rows :: "bytes \<Rightarrow> string list \<Rightarrow> bytes \<Rightarrow> counters list" where
  "named_rows tag names data = map (zip names) (hex_rows tag (length names) data)"

section \<open>Calls of the host\<close>

record delivery_sample =
  calls :: counters
  phase :: string
  exhausted :: bool

definition delivery_fields :: "string list" where
  "delivery_fields =
     [''entered'', ''returned'', ''abandoned'', ''in_flight'', ''peak'', ''closed'', ''crossed_close'', ''nonzero'']"

definition delivery_phases :: "string list" where
  "delivery_phases = [''bootstrap'', ''connected'', ''disconnected'']"

definition delivery_row :: "string \<Rightarrow> regex" where
  "delivery_row p =
     RLit (''RFDBG_NET0_HOST_DELIVERY phase='' @ p)
     # concat (map (\<lambda>key. [RLit (CHR '' '' # key @ ''=0x''), RGroup is_hex 16]) delivery_fields)
     @ [RLit '' exhausted='', RGroup (\<lambda>c. c = CHR ''0'' \<or> c = CHR ''1'') 1]"

text \<open>The match at one position, and the first one in a line (no further one fits into the line)\<close>

definition delivery_at :: "bytes \<Rightarrow> delivery_sample option" where
  "delivery_at s =
     (case List.map_filter (\<lambda>p. case rmatch (delivery_row p) s of
             Some (g, rest) \<Rightarrow> if at_end rest then Some (p, g) else None | None \<Rightarrow> None) delivery_phases of
        [] \<Rightarrow> None
      | (p, g) # _ \<Rightarrow> Some \<lparr>calls = zip delivery_fields (map hex_value (butlast g)), phase = p,
                          exhausted = (last g = ''1'')\<rparr>)"

fun delivery_in :: "bytes \<Rightarrow> delivery_sample option" where
  "delivery_in [] = None"
| "delivery_in (c # cs) = (case delivery_at (c # cs) of Some x \<Rightarrow> Some x | None \<Rightarrow> delivery_in cs)"

fun delivery_errors :: "int \<Rightarrow> delivery_sample list \<Rightarrow> string list" where
  "delivery_errors previous [] = []"
| "delivery_errors previous (s # ss) =
     (let v = \<lambda>f. item f (calls s)
      in (if exhausted s \<or> v ''entered'' \<noteq> v ''returned'' + v ''abandoned'' + v ''in_flight''
          then [''call_conservation''] else [])
         @ (if v ''abandoned'' \<noteq> 0 \<or> v ''nonzero'' \<noteq> 0 \<or> v ''in_flight'' \<noteq> 0
            then [''call_not_cleanly_retired_at_sample''] else [])
         @ (if v ''closed'' \<noteq> v ''entered'' \<or> v ''entered'' < previous
            then [''closed_route_or_counter_regression''] else [])
         @ delivery_errors (v ''entered'') ss)"

record delivery_report =
  delivery_samples :: "delivery_sample list"
  delivery_issues :: "string list"

definition host_delivery :: "bytes \<Rightarrow> delivery_report" where
  "host_delivery data =
     (let samples = List.map_filter delivery_in (fed_lines [] data)
      in \<lparr>delivery_samples = samples,
          delivery_issues = delivery_errors 0 samples
            @ (if map phase samples \<noteq> delivery_phases then [''missing_duplicate_or_reordered_phase''] else [])
            @ (if samples = [] \<or> item ''entered'' (calls (last samples)) = 0 then [''native_hook_not_observed''] else [])\<rparr>)"

section \<open>Gates on the diagnostics\<close>

text \<open>\<open>--initial-session-experiment\<close>: the payload counters and the receipts of the cleanup\<close>

definition payload_fields :: "string list" where
  "payload_fields = [''sent'', ''received'', ''bitmap'', ''invalid'', ''duplicate'']"

definition payload_row :: regex where
  "payload_row =
     RLit ''RFDBG_NET0_PAYLOAD sent=0x'' # RGroup is_hex 8
     # concat (map (\<lambda>key. [RLit (CHR '' '' # key @ ''=0x''), RGroup is_hex 8]) (tl payload_fields))"

definition payload_of :: "bytes \<Rightarrow> counters option" where
  "payload_of target =
     (case re_findall payload_row target of
        [g] \<Rightarrow> Some (zip payload_fields (map hex_value g)) | _ \<Rightarrow> None)"

definition payload_ok :: "counters option \<Rightarrow> bool" where
  "payload_ok payload =
     (case payload of
        None \<Rightarrow> False
      | Some v \<Rightarrow> item ''sent'' v = 10 \<and> item ''received'' v = 10 \<and> item ''bitmap'' v = 1023 \<and> item ''invalid'' v = 0)"

definition cleanup_of :: "bytes \<Rightarrow> int list list" where
  "cleanup_of target = hex_rows ''RFDBG_NET0_USER_CLEANUP'' 10 target"

definition cleanup_ok :: "net0_args \<Rightarrow> int list list \<Rightarrow> bool" where
  "cleanup_ok a decoded =
     (let code = (if expect_cleanup_fault a then 100 else 0)
      in decoded = [replicate 10 0, [1, 1, 0, 1, 0, code, 0, 1, code, code]])"

text \<open>\<open>--require-host-tx\<close>\<close>

definition host_tx_fields :: "string list" where
  "host_tx_fields =
     [''accepted'', ''processed'', ''dropped'', ''pending'', ''peak'', ''rejected'', ''callback_errors'', ''closed'', ''fault'']"

definition host_tx_ok :: "counters list \<Rightarrow> bool" where
  "host_tx_ok decoded \<longleftrightarrow>
     length decoded = 2 \<and>
     list_all (\<lambda>v. item ''accepted'' v = item ''processed'' v + item ''dropped'' v + item ''pending'' v
       \<and> item ''fault'' v = 0 \<and> item ''callback_errors'' v = 0) decoded \<and>
     (decoded \<noteq> [] \<longrightarrow>
        (let v = last decoded in item ''accepted'' v > 0 \<and> item ''pending'' v = 0 \<and> item ''closed'' v = 1))"

text \<open>\<open>--require-rx-stop\<close>\<close>

definition rx_stop_fields :: "string list" where
  "rx_stop_fields =
     [''installed'', ''requested'', ''entered'', ''returned'', ''post_returned'', ''mac_before'', ''mac_after'',
      ''descriptors_empty'', ''native_status'', ''fault'', ''expected_task'', ''current_task'']"

definition rx_stop_ok :: "counters list \<Rightarrow> bool" where
  "rx_stop_ok decoded \<longleftrightarrow>
     length decoded = 2 \<and>
     (let v = last decoded
      in list_all (\<lambda>key. item key v = 1) (take 5 rx_stop_fields)
         \<and> item ''mac_after'' v = 0 \<and> item ''descriptors_empty'' v = 1
         \<and> item ''native_status'' v = 0 \<and> item ''fault'' v = 0
         \<and> item ''expected_task'' v \<notin> {0, 0xFFFFFFFF} \<and> item ''expected_task'' v = item ''current_task'' v)"

text \<open>\<open>--require-rx-rebuild\<close>\<close>

definition rx_rebuild_fields :: "string list" where
  "rx_rebuild_fields =
     [''attempted'', ''cleanup_attempted'', ''expected_normal'', ''expected_high'', ''expected_small'',
      ''actual_normal'', ''actual_high'', ''actual_small'', ''cleaned_normal'', ''cleaned_high'', ''cleaned_small'',
      ''mac_after_init'', ''mac_after_cleanup'', ''init_status'', ''cleanup_status'', ''fault'']"

definition pool_names :: "string list" where
  "pool_names = [''normal'', ''high'', ''small'']"

definition rx_rebuild_ok :: "counters list \<Rightarrow> bool" where
  "rx_rebuild_ok samples =
     (case samples of
        [before, after] \<Rightarrow>
          item ''attempted'' before = 0 \<and> item ''cleanup_attempted'' before = 0
          \<and> item ''attempted'' after = 1 \<and> item ''cleanup_attempted'' after = 1
          \<and> sum_list (map (\<lambda>name. item (''expected_'' @ name) after) pool_names) > 0
          \<and> list_all (\<lambda>name. item (''expected_'' @ name) after = item (''actual_'' @ name) after
                              \<and> item (''cleaned_'' @ name) after = 0) pool_names
          \<and> list_all (\<lambda>name. item name after = 0) (drop 11 rx_rebuild_fields)
      | _ \<Rightarrow> False)"

text \<open>\<open>--expect-cleanup-fault\<close>: one or more characters of \<open>[a-z0-9_.-]\<close>\<close>

definition code_char :: "char \<Rightarrow> bool" where
  "code_char c \<longleftrightarrow> is_digit c \<or> 97 \<le> (of_char c :: nat) \<and> (of_char c :: nat) \<le> 122
     \<or> c = CHR ''_'' \<or> c = CHR ''.'' \<or> c = CHR ''-''"

definition after_code :: "bytes \<Rightarrow> bytes \<Rightarrow> bytes option" where
  "after_code lit s =
     (if prefix lit s \<and> takeWhile code_char (drop (length lit) s) \<noteq> []
      then Some (dropWhile code_char (drop (length lit) s)) else None)"

definition fault_code :: "bytes \<Rightarrow> bytes option" where
  "fault_code line =
     Option.bind (after_code ''RFDBG_A5B_DISCONNECT_ERR code='' line) (\<lambda>s.
     Option.bind (after_code '' stage='' s) (\<lambda>t.
       case rmatch [RLit '' backend=0x'', RGroup is_hex 8] t of
         Some ([g], rest) \<Rightarrow> if at_end rest then Some g else None
       | _ \<Rightarrow> None))"

definition fault_errors :: "bytes \<Rightarrow> bytes list" where
  "fault_errors target = List.map_filter fault_code (fed_lines [] target)"

definition fault_status :: "bytes \<Rightarrow> bytes list" where
  "fault_status target =
     concat (row_matches [RLit ''RFDBG_A5B_DISCONNECT_ERR_TRACE kind=hostap_status value=0x'', RGroup is_hex 8] target)"

definition false_success :: "bytes \<Rightarrow> bytes list" where
  "false_success target =
     filter (\<lambda>m. occurs m target)
       [''RFDBG_A5B_DISCONNECT_OK'', ''RFDBG_A5B_CONNECT_PROFILE_OK'', ''RFDBG_NET0_INITIAL_SESSION_CLOSED'']"

definition fault_ok :: "bytes \<Rightarrow> bool" where
  "fault_ok target \<longleftrightarrow>
     fault_errors target = [''5732d064''] \<and> fault_status target = [''00000064''] \<and> false_success target = []"

section \<open>The record of a run\<close>

record net0_capture =
  capture_role :: string
  capture_bytes :: nat
  capture_sha256 :: string

record net0_record =
  run_index :: nat
  run_pass :: bool
  run_markers :: "(bytes \<times> bool) list"
  run_captures :: "net0_capture list"
  run_delivery :: "delivery_report option"
  run_payload :: "counters option"
  run_cleanup :: "int list list option"
  run_host_tx :: "counters list option"
  run_rx_stop :: "counters list option"
  run_expected_error :: "(int list \<times> bytes list \<times> int list) option"
  run_rx_rebuild :: "counters list option"

text \<open>What each option adds to the record is judged, and the run passes if all of it does.\<close>

definition gate :: "bool \<Rightarrow> bool \<Rightarrow> bool" where
  "gate asked holds \<longleftrightarrow> (if asked then holds else True)"

definition capture_entry :: "string \<Rightarrow> bytes \<Rightarrow> net0_capture" where
  "capture_entry who data = \<lparr>capture_role = who, capture_bytes = length data, capture_sha256 = sha256_hex data\<rparr>"

definition net0_judge :: "net0_args \<Rightarrow> bytes list \<Rightarrow> nat \<Rightarrow> bytes \<Rightarrow> bytes \<Rightarrow> net0_record" where
  "net0_judge a required index target peer =
     (let delivery = host_delivery target;
          payload = payload_of target;
          cleanup = cleanup_of target;
          host_tx = named_rows ''RFDBG_NET0_HOST_TX'' host_tx_fields target;
          rx_stop = named_rows ''RFDBG_NET0_RX_STOP'' rx_stop_fields target;
          rx_rebuild = named_rows ''RFDBG_NET0_RX_REBUILD'' rx_rebuild_fields target;
          failed = list_ex (\<lambda>m. occurs m target) (net0_failures a);
          shown = list_all (\<lambda>m. occurs m target) required
      in \<lparr>run_index = index,
          run_pass = (\<not> failed \<and> shown
            \<and> gate (require_host_delivery a) (delivery_issues delivery = [])
            \<and> gate (initial_session a) (payload_ok payload \<and> cleanup_ok a cleanup)
            \<and> gate (require_host_tx a) (host_tx_ok host_tx)
            \<and> gate (require_rx_stop a) (rx_stop_ok rx_stop)
            \<and> gate (expect_cleanup_fault a) (fault_ok target)
            \<and> gate (require_rx_rebuild a) (rx_rebuild_ok rx_rebuild)),
          run_markers = map (\<lambda>m. (m, occurs m target)) required,
          run_captures = [capture_entry ''target'' target, capture_entry ''peer'' peer],
          run_delivery = (if require_host_delivery a then Some delivery else None),
          run_payload = (if initial_session a then payload else None),
          run_cleanup = (if initial_session a then Some cleanup else None),
          run_host_tx = (if require_host_tx a then Some host_tx else None),
          run_rx_stop = (if require_rx_stop a then Some rx_stop else None),
          run_expected_error = (if expect_cleanup_fault a
             then Some (map hex_value (fault_errors target), false_success target, map hex_value (fault_status target)) else None),
          run_rx_rebuild = (if require_rx_rebuild a then Some rx_rebuild else None)\<rparr>)"

section \<open>The capture\<close>

text \<open>Why a run has no logs: an exception, or an access point that did not report ready (with its log)\<close>

datatype net0_stop = Net0_raised exn | Peer_not_ready bytes

definition read_target :: "pair_state \<Rightarrow> pair_state" where
  "read_target s = (let (d, p) = serial_read 4096 (port1 s) in s\<lparr>log1 := log1 s @ d, port1 := p\<rparr>)"

definition read_peer :: "pair_state \<Rightarrow> pair_state" where
  "read_peer s = (let (d, p) = serial_read 4096 (port2 s) in s\<lparr>log2 := log2 s @ d, port2 := p\<rparr>)"

definition peer_ready :: "pair_state \<Rightarrow> bool" where
  "peer_ready s \<longleftrightarrow> occurs ''RFDBG_SOFTAP_READY'' (log2 s)"

fun peer_wait :: "secs \<Rightarrow> tick list \<Rightarrow> pair_state \<Rightarrow> (net0_stop + pair_state) option" where
  "peer_wait began [] s = (if peer_ready s then Some (Inr s) else None)"
| "peer_wait began (t # ts) s =
     (if peer_ready s then Some (Inr s)
      else (let s = read_peer (tick_arrive t s)
            in if check_at t - began > 45 then Some (Inl (Peer_not_ready (log2 s)))
               else peer_wait began ts s))"

definition capture_bound :: nat where
  "capture_bound = 2 * 1024 * 1024"

fun net0_collect ::
    "bytes list \<Rightarrow> secs \<Rightarrow> secs \<Rightarrow> tick list \<Rightarrow> secs option \<Rightarrow> pair_state \<Rightarrow> (net0_stop + pair_state) option" where
  "net0_collect required began seconds [] observed s = None"
| "net0_collect required began seconds (t # ts) observed s =
     (if now t - began < seconds
      then (let s = read_target (tick_arrive t s)
            in if length (log1 s) > capture_bound
               then Some (Inl (Net0_raised (RuntimeError ''UART capture exceeded its fixed bound'')))
               else (let s = read_peer s
                     in if length (log2 s) > capture_bound
                        then Some (Inl (Net0_raised (RuntimeError ''UART capture exceeded its fixed bound'')))
                        else (let observed =
                                (if list_all (\<lambda>m. occurs m (log1 s)) required
                                 then (case observed of
                                         Some c \<Rightarrow> Some (if c = 0 then mark_at t else c) | None \<Rightarrow> Some (mark_at t))
                                 else observed)
                              in case observed of
                                   Some c \<Rightarrow> if check_at t - c > 1 then Some (Inr s)
                                             else net0_collect required began seconds ts observed s
                                 | None \<Rightarrow> net0_collect required began seconds ts observed s)))
      else Some (Inr (tick_arrive t s)))"

record net0_env =
  port_error :: "exn option"      \<comment> \<open>\<open>serial.Serial\<close> raises\<close>
  peer_pulse :: pulse_env
  peer_from :: secs               \<comment> \<open>the clock before the access point is reset\<close>
  peer_ticks :: "tick list"
  target_pulse :: pulse_env
  net0_from :: secs               \<comment> \<open>the clock after the board is reset\<close>
  net0_ticks :: "tick list"

definition reset_target_input :: "pair_state \<Rightarrow> pair_state" where
  "reset_target_input s = s\<lparr>port1 := reset_input_buffer (port1 s)\<rparr>"

definition start_peer :: "net0_args \<Rightarrow> net0_env \<Rightarrow> pair_state \<Rightarrow> (net0_stop + pair_state) option" where
  "start_peer a env s =
     (case reset_peer a of
        None \<Rightarrow> Some (Inr s)
      | Some serial \<Rightarrow>
          if serial = [] then Some (Inr s)
          else (case snd (pulse_nrst ''JLinkExe'' (Some serial) (peer_pulse env)) of
                  Inl e \<Rightarrow> Some (Inl (Net0_raised e))
                | Inr _ \<Rightarrow> peer_wait (peer_from env) (peer_ticks env) s))"

definition net0_capture_run ::
    "net0_args \<Rightarrow> bytes list \<Rightarrow> net0_env \<Rightarrow> port \<Rightarrow> port \<Rightarrow> (net0_stop + pair_state) option" where
  "net0_capture_run a required env p q =
     (case port_error env of
        Some e \<Rightarrow> Some (Inl (Net0_raised e))
      | None \<Rightarrow>
          (case start_peer a env (fresh_pair p q) of
             None \<Rightarrow> None
           | Some (Inl stop) \<Rightarrow> Some (Inl stop)
           | Some (Inr s) \<Rightarrow>
               (case snd (pulse_nrst ''JLinkExe'' (Some (reset_serial a)) (target_pulse env)) of
                  Inl e \<Rightarrow> Some (Inl (Net0_raised e))
                | Inr _ \<Rightarrow>
                    net0_collect required (net0_from env) (net0_seconds a) (net0_ticks env) None (reset_target_input s))))"

section \<open>The command\<close>

record net0_world =
  output_taken :: bool                            \<comment> \<open>\<open>mkdir(exist_ok=False)\<close> raises\<close>
  elf_data :: "bytes res"
  flash_result :: "int res"                       \<comment> \<open>the return code of \<open>flash.sh\<close>\<close>
  run_env :: "nat \<Rightarrow> net0_env"
  run_ports :: "nat \<Rightarrow> port \<times> port"             \<comment> \<open>the ports as they are opened for a run\<close>

record net0_result =
  net0_elf_sha256 :: string
  net0_peer_reset :: "string option"
  net0_markers :: "bytes list"
  net0_records :: "net0_record list"
  net0_files :: "(string \<times> bytes) list"
  net0_exit :: nat

datatype net0_outcome = Net0_finished net0_result | Net0_flash_failed int | Net0_stopped net0_stop

fun net0_run_loop ::
    "net0_args \<Rightarrow> bytes list \<Rightarrow> net0_world \<Rightarrow> nat \<Rightarrow> nat
     \<Rightarrow> (net0_stop + net0_record list \<times> (string \<times> bytes) list) option" where
  "net0_run_loop a required w 0 index = Some (Inr ([], []))"
| "net0_run_loop a required w (Suc left) index =
     (case net0_capture_run a required (run_env w index) (fst (run_ports w index)) (snd (run_ports w index)) of
        None \<Rightarrow> None
      | Some (Inl stop) \<Rightarrow> Some (Inl stop)
      | Some (Inr s) \<Rightarrow>
          (let rec = net0_judge a required index (log1 s) (log2 s);
               files = [(run_log_name index ''target'', log1 s), (run_log_name index ''peer'', log2 s)]
           in if \<not> run_pass rec then Some (Inr ([rec], files))
              else (case net0_run_loop a required w left (Suc index) of
                      Some (Inr (recs, later)) \<Rightarrow> Some (Inr (rec # recs, files @ later))
                    | stopped \<Rightarrow> stopped)))"

definition net0_setup :: "net0_args \<Rightarrow> net0_world \<Rightarrow> bytes res" where
  "net0_setup a w =
     rbind (raise_if (require_rx_rebuild a \<and> \<not> require_rx_stop a)
              (SystemExit ''--require-rx-rebuild requires --require-rx-stop'')) (\<lambda>_.
     rbind (raise_if (output_taken w) (OSError ''FileExistsError'')) (\<lambda>_.
     rbind (elf_data w) (\<lambda>elf.
     rbind (raise_if (reset_peer a \<notin> {None, Some []} \<and> net0_role a \<noteq> Net0_sta)
              (SystemExit ''--reset-peer requires STA role'')) (\<lambda>_.
       Inr elf))))"

definition net0_main :: "net0_args \<Rightarrow> net0_world \<Rightarrow> net0_outcome option" where
  "net0_main a w =
     (case net0_setup a w of
        Inl e \<Rightarrow> Some (Net0_stopped (Net0_raised e))
      | Inr elf \<Rightarrow>
          (case (if net0_flash a then flash_result w else Inr 0) of
             Inl e \<Rightarrow> Some (Net0_stopped (Net0_raised e))
           | Inr code \<Rightarrow>
               if code \<noteq> 0 then Some (Net0_flash_failed code)
               else (case net0_required a of
                       Inl e \<Rightarrow> Some (Net0_stopped (Net0_raised e))
                     | Inr required \<Rightarrow>
                         (case net0_run_loop a required w (nat (net0_runs a)) 1 of
                            None \<Rightarrow> None
                          | Some (Inl stop) \<Rightarrow> Some (Net0_stopped stop)
                          | Some (Inr (recs, files)) \<Rightarrow>
                              Some (Net0_finished
                                \<lparr>net0_elf_sha256 = sha256_hex elf, net0_peer_reset = reset_peer a,
                                 net0_markers = required, net0_records = recs, net0_files = files,
                                 net0_exit = (if int (length recs) = net0_runs a \<and> list_all run_pass recs
                                              then 0 else 1)\<rparr>)))))"

end
