(* ===== verification/Net0_Runs.thy ===== *)
theory Net0_Runs
  imports Net0_Capture
begin

text \<open>
  What a capture of \<open>Net0_Capture\<close> establishes: the counters are read back as they were printed,
  the judged log is of the boot that the run started, and what exit status 0 stands for.
\<close>

section \<open>Counters as they were printed\<close>

lemma fed_lines_feed: "CHR 10 \<notin> set l \<Longrightarrow> fed_lines cur (l @ CHR 10 # rest) = (cur @ l) # fed_lines [] rest"
  by (induction l arbitrary: cur) auto

lemma fed_lines_rest: "CHR 10 \<notin> set l \<Longrightarrow> fed_lines cur l = []"
  by (induction l arbitrary: cur) auto

lemma hex_value_snoc: "hex_value (ds @ [c]) = 16 * hex_value ds + hex_value [c]"
  by (simp add: hex_value_def)

lemma hex_value_digit: "d < 16 \<Longrightarrow> hex_value [digit_char d] = int d"
proof -
  assume d: "d < 16"
  have "(of_char (digit_char d) :: int) = int (ord (digit_char d))" by (simp add: of_char_def)
  with d show ?thesis by (simp add: hex_value_def ord_digit_char Let_def)
qed

lemma hex_value_fixed: "hex_value (hex_fixed k n) = int (n mod 16 ^ k)"
proof (induction k arbitrary: n)
  case 0
  then show ?case by (simp add: hex_value_def)
next
  case (Suc k)
  have "hex_value (hex_fixed (Suc k) n) = int (16 * (n div 16 mod 16 ^ k) + n mod 16)"
    using Suc.IH [of "n div 16"] hex_value_digit [of "n mod 16"] by (simp add: hex_value_snoc)
  also have "16 * (n div 16 mod 16 ^ k) + n mod 16 = n mod 16 ^ Suc k" by (simp add: mod_mult2_eq)
  finally show ?case .
qed

lemma is_hex_digit_char: "d < 16 \<Longrightarrow> is_hex (digit_char d)"
  using ord_digit_char [of d] by (auto simp: is_hex_def is_digit_def)

lemma hex_fixed_is_hex: "list_all is_hex (hex_fixed k n)"
  using hex_fixed_plain is_hex_digit_char by (fastforce simp: list_all_iff)

text \<open>A diagnostic line of the firmware: a tag and 32-bit values\<close>

definition counter_row :: "bytes \<Rightarrow> 32 word list \<Rightarrow> bytes" where
  "counter_row tag vals = tag @ concat (map (\<lambda>w. '' 0x'' @ hex_fixed 8 (unat w)) vals)"

lemma counter_row_matches:
  "rmatch (hex_row tag (length vals)) (counter_row tag vals @ rest) = Some (map (\<lambda>w. hex_fixed 8 (unat w)) vals, rest)"
proof -
  have "fits (hex_row tag (length vals)) (map (\<lambda>w. hex_fixed 8 (unat w)) vals)"
    unfolding hex_row_def by (induction vals) (auto simp: hex_fixed_is_hex)
  moreover have "fill (hex_row tag (length vals)) (map (\<lambda>w. hex_fixed 8 (unat w)) vals) = counter_row tag vals"
    unfolding hex_row_def counter_row_def by (induction vals) auto
  ultimately show ?thesis using rmatch_filled by metis
qed

text \<open>A log: other lines, and rows that end with LF or with CR LF\<close>

datatype log_line = Other bytes | Row "32 word list" bool

definition printed :: "bytes \<Rightarrow> log_line \<Rightarrow> bytes" where
  "printed tag e =
     (case e of Other l \<Rightarrow> l | Row vals cr \<Rightarrow> counter_row tag vals @ (if cr then [CHR 13] else [])) @ [CHR 10]"

fun well_printed :: "bytes \<Rightarrow> nat \<Rightarrow> log_line \<Rightarrow> bool" where
  "well_printed tag n (Other l) \<longleftrightarrow> CHR 10 \<notin> set l \<and> \<not> prefix tag l"
| "well_printed tag n (Row vals cr) \<longleftrightarrow> length vals = n"

fun row_values :: "log_line \<Rightarrow> int list option" where
  "row_values (Other l) = None"
| "row_values (Row vals cr) = Some (map uint vals)"

lemma ord_lf: "\<not> 33 \<le> ord (CHR 10)"
  by simp

lemma counter_row_one_line: "CHR 10 \<notin> set tag \<Longrightarrow> CHR 10 \<notin> set (counter_row tag vals)"
proof -
  have "CHR 10 \<notin> set (hex_fixed k n)" for k n
  proof
    assume "CHR 10 \<in> set (hex_fixed k n)"
    from hex_fixed_plain [OF this] obtain d where "d < 16" "CHR 10 = digit_char d" by blast
    with digit_char_plain [of d] show False by (metis ord_lf)
  qed
  then show "CHR 10 \<notin> set tag \<Longrightarrow> CHR 10 \<notin> set (counter_row tag vals)" by (auto simp: counter_row_def)
qed

lemma rmatch_other: "\<not> prefix tag l \<Longrightarrow> rmatch (hex_row tag n) l = None"
  by (simp add: hex_row_def)

text \<open>
  The counters of the diagnostics come back as the firmware printed them: from a log whose lines
  either do not start with the tag or are the tag followed by the fixed number of 32-bit values, with
  either line end, the search finds exactly the printed rows, in order, with every value.
\<close>

theorem hex_rows_roundtrip:
  assumes "CHR 10 \<notin> set tag" and "list_all (well_printed tag n) entries" and "CHR 10 \<notin> set rest"
  shows "hex_rows tag n (concat (map (printed tag) entries) @ rest) = List.map_filter row_values entries"
proof -
  have "row_matches (hex_row tag n) (concat (map (printed tag) entries) @ rest)
      = List.map_filter (\<lambda>e. case e of Other l \<Rightarrow> None | Row vals cr \<Rightarrow> Some (map (\<lambda>w. hex_fixed 8 (unat w)) vals)) entries"
    using assms(2)
  proof (induction entries)
    case Nil
    then show ?case by (simp add: row_matches_def fed_lines_rest [OF assms(3)] List.map_filter_simps)
  next
    case (Cons e es)
    note IH = Cons.IH [unfolded row_matches_def]
    show ?case
    proof (cases e)
      case (Other l)
      with Cons show ?thesis
        by (simp add: row_matches_def printed_def fed_lines_feed rmatch_other List.map_filter_simps)
    next
      case (Row vals cr)
      have "CHR 10 \<notin> set (counter_row tag vals @ (if cr then [CHR 13] else []))"
        using counter_row_one_line [OF assms(1)] by simp
      from fed_lines_feed [OF this, of "[]"] counter_row_matches [of tag vals "if cr then [CHR 13] else []"] Row Cons
      show ?thesis
        by (simp add: row_matches_def printed_def at_end_def List.map_filter_simps)
    qed
  qed
  moreover have "hex_value (hex_fixed 8 (unat w)) = uint w" for w :: "32 word"
    using unsigned_less [where 'a = nat, of w] by (simp add: hex_value_fixed)
  moreover have "map (map hex_value) (List.map_filter
        (\<lambda>e. case e of Other l \<Rightarrow> None | Row vals cr \<Rightarrow> Some (map (\<lambda>w. hex_fixed 8 (unat w)) vals)) es)
      = List.map_filter row_values es"
    if "\<And>w :: 32 word. hex_value (hex_fixed 8 (unat w)) = uint w" for es
    using that by (induction es) (auto simp: List.map_filter_simps split: log_line.split)
  ultimately show ?thesis by (simp add: hex_rows_def)
qed

lemma hex_rows_roundtrip_witness:
  "hex_rows ''TX'' 2 (concat (map (printed ''TX'') [Other ''boot'', Row [7, 0xFFFFFFFF] True, Row [0, 1] False]) @ ''TX 0'')
     = [[7, 0xFFFFFFFF], [0, 1]]"
  by (subst hex_rows_roundtrip) (simp_all add: List.map_filter_simps)

section \<open>What the logs hold\<close>

lemma serial_read_split: "fst (serial_read n p) @ rxbuf (snd (serial_read n p)) = rxbuf p"
  by (simp add: serial_read_def)

lemma read_target_line:
  "log1 (read_target s) @ rxbuf (port1 (read_target s)) = log1 s @ rxbuf (port1 s)"
  "log2 (read_target s) = log2 s" "port2 (read_target s) = port2 s"
  by (simp_all add: read_target_def serial_read_def Let_def)

lemma read_peer_line:
  "log2 (read_peer s) @ rxbuf (port2 (read_peer s)) = log2 s @ rxbuf (port2 s)"
  "log1 (read_peer s) = log1 s" "port1 (read_peer s) = port1 s"
  by (simp_all add: read_peer_def serial_read_def Let_def)

lemma tick_arrive_line:
  "log1 (tick_arrive t s) = log1 s" "log2 (tick_arrive t s) = log2 s"
  "rxbuf (port1 (tick_arrive t s)) = rxbuf (port1 s) @ rx1 t"
  "rxbuf (port2 (tick_arrive t s)) = rxbuf (port2 s) @ rx2 t"
  by (simp_all add: tick_arrive_def)

lemma stream_take_Suc: "stream1 (take (Suc k) (t # ts)) = rx1 t @ stream1 (take k ts)"
  "stream2 (take (Suc k) (t # ts)) = rx2 t @ stream2 (take k ts)"
  by (simp_all add: stream1_def stream2_def)

lemma peer_wait_line:
  "peer_wait began ts s = Some (Inr s') \<Longrightarrow>
     \<exists>k. log2 s' @ rxbuf (port2 s') = log2 s @ rxbuf (port2 s) @ stream2 (take k ts) \<and> log1 s' = log1 s \<and> peer_ready s'"
proof (induction ts arbitrary: s)
  case Nil
  then show ?case by (auto simp: stream2_def split: if_splits)
next
  case (Cons t ts)
  show ?case
  proof (cases "peer_ready s")
    case True
    with Cons.prems show ?thesis by (intro exI [of _ 0]) (auto simp: stream2_def)
  next
    case False
    with Cons.prems have "peer_wait began ts (read_peer (tick_arrive t s)) = Some (Inr s')"
      by (auto simp: Let_def split: if_splits)
    from Cons.IH [OF this] obtain k where "log2 s' @ rxbuf (port2 s')
        = log2 s @ rxbuf (port2 s) @ rx2 t @ stream2 (take k ts) \<and> log1 s' = log1 s \<and> peer_ready s'"
      by (metis append.assoc read_peer_line(1,2) tick_arrive_line(1,2,4))
    then show ?thesis by (intro exI [of _ "Suc k"]) (simp add: stream_take_Suc del: take_Suc_Cons)
  qed
qed

lemma net0_collect_step:
  assumes "net0_collect required began seconds (t # ts) observed s = Some (Inr s')" and "now t - began < seconds"
  defines "s1 \<equiv> read_peer (read_target (tick_arrive t s))"
  shows "length (log1 s1) \<le> capture_bound \<and> length (log2 s1) \<le> capture_bound \<and>
    (s' = s1 \<or> (\<exists>observed'. net0_collect required began seconds ts observed' s1 = Some (Inr s')))"
  using assms(1,2) unfolding s1_def
  by (auto simp: Let_def read_peer_line split: if_splits option.splits)

lemma net0_collect_line:
  "net0_collect required began seconds ts observed s = Some (Inr s') \<Longrightarrow>
     \<exists>k. log1 s' @ rxbuf (port1 s') = log1 s @ rxbuf (port1 s) @ stream1 (take k ts)
       \<and> log2 s' @ rxbuf (port2 s') = log2 s @ rxbuf (port2 s) @ stream2 (take k ts)
       \<and> (length (log1 s) \<le> capture_bound \<longrightarrow> length (log1 s') \<le> capture_bound)
       \<and> (length (log2 s) \<le> capture_bound \<longrightarrow> length (log2 s') \<le> capture_bound)"
proof (induction ts arbitrary: observed s)
  case Nil
  then show ?case by simp
next
  case (Cons t ts)
  let ?s = "read_peer (read_target (tick_arrive t s))"
  have line: "log1 ?s @ rxbuf (port1 ?s) = log1 s @ rxbuf (port1 s) @ rx1 t"
    "log2 ?s @ rxbuf (port2 ?s) = log2 s @ rxbuf (port2 s) @ rx2 t"
    using read_target_line [of "tick_arrive t s"] read_peer_line [of "read_target (tick_arrive t s)"]
    by (simp_all add: tick_arrive_line)
  show ?case
  proof (cases "now t - began < seconds")
    case True
    note step = net0_collect_step [OF Cons.prems True]
    from step consider "s' = ?s" | observed' where "net0_collect required began seconds ts observed' ?s = Some (Inr s')"
      by blast
    then show ?thesis
    proof cases
      case 1
      with line step show ?thesis by (intro exI [of _ 1]) (auto simp: stream1_def stream2_def)
    next
      case 2
      from Cons.IH [OF this] obtain k where
        "log1 s' @ rxbuf (port1 s') = log1 s @ rxbuf (port1 s) @ rx1 t @ stream1 (take k ts)"
        "log2 s' @ rxbuf (port2 s') = log2 s @ rxbuf (port2 s) @ rx2 t @ stream2 (take k ts)"
        "length (log1 s') \<le> capture_bound" "length (log2 s') \<le> capture_bound"
        using step line by (metis append.assoc)
      then show ?thesis by (intro exI [of _ "Suc k"]) (simp add: stream_take_Suc del: take_Suc_Cons)
    qed
  next
    case False
    with Cons.prems show ?thesis
      by (intro exI [of _ 1]) (auto simp: tick_arrive_line stream1_def stream2_def)
  qed
qed

text \<open>
  C32: The log that a run judges is of the boot that it started: it is a prefix of what arrived after
  the board's input had been discarded for the reset, and of at most two mebibytes.  The log of the
  other board is a prefix of what arrived since the run opened the ports.
\<close>

theorem net0_log_of_this_boot:
  assumes "net0_capture_run a required env p q = Some (Inr s)"
  shows "prefix (log1 s) (stream1 (net0_ticks env)) \<and> length (log1 s) \<le> 2 * 1024 * 1024 \<and>
    (\<exists>j. prefix (log2 s) (stream2 (take j (peer_ticks env) @ net0_ticks env)))"
proof -
  obtain s0 where start: "start_peer a env (fresh_pair p q) = Some (Inr s0)"
    and run: "net0_collect required (net0_from env) (net0_seconds a) (net0_ticks env) None (reset_target_input s0) = Some (Inr s)"
    using assms by (auto simp: net0_capture_run_def split: option.splits sum.splits)
  have "\<exists>j. log2 s0 @ rxbuf (port2 s0) = stream2 (take j (peer_ticks env)) \<and> log1 s0 = []"
  proof (cases "s0 = fresh_pair p q")
    case True
    then show ?thesis by (intro exI [of _ 0]) (simp add: fresh_pair_def stream2_def)
  next
    case False
    with start have "peer_wait (peer_from env) (peer_ticks env) (fresh_pair p q) = Some (Inr s0)"
      by (auto simp: start_peer_def split: option.splits sum.splits if_splits)
    from peer_wait_line [OF this] show ?thesis by (auto simp: fresh_pair_def)
  qed
  then obtain j where j: "log2 s0 @ rxbuf (port2 s0) = stream2 (take j (peer_ticks env))" "log1 s0 = []" by blast
  from net0_collect_line [OF run] obtain k where
    k: "log1 s @ rxbuf (port1 s) = stream1 (take k (net0_ticks env))"
    "log2 s @ rxbuf (port2 s) = stream2 (take j (peer_ticks env)) @ stream2 (take k (net0_ticks env))"
    "length (log1 s) \<le> capture_bound"
    using j by (auto simp: reset_target_input_def)
  have "stream1 (net0_ticks env) = stream1 (take k (net0_ticks env)) @ stream1 (drop k (net0_ticks env))"
    "stream2 (net0_ticks env) = stream2 (take k (net0_ticks env)) @ stream2 (drop k (net0_ticks env))"
    by (simp_all add: stream1_def stream2_def flip: concat_append map_append)
  with k have "stream1 (net0_ticks env) = log1 s @ rxbuf (port1 s) @ stream1 (drop k (net0_ticks env))"
    and "stream2 (take j (peer_ticks env) @ net0_ticks env) = log2 s @ rxbuf (port2 s) @ stream2 (drop k (net0_ticks env))"
    by (simp_all add: stream2_def)
  with k(3) show ?thesis unfolding capture_bound_def prefix_def by blast
qed

section \<open>The exit status\<close>

text \<open>A record is the judgement of the logs that are saved under its number.\<close>

definition judged_from :: "net0_args \<Rightarrow> bytes list \<Rightarrow> (string \<times> bytes) list \<Rightarrow> net0_record \<Rightarrow> bool" where
  "judged_from a required files r \<longleftrightarrow>
     (\<exists>target peer. r = net0_judge a required (run_index r) target peer
        \<and> (run_log_name (run_index r) ''target'', target) \<in> set files
        \<and> (run_log_name (run_index r) ''peer'', peer) \<in> set files)"

lemma judged_from_mono: "judged_from a required files r \<Longrightarrow> set files \<subseteq> set files' \<Longrightarrow> judged_from a required files' r"
  unfolding judged_from_def by blast

lemma judged_from_new:
  "judged_from a required ((run_log_name i ''target'', t) # (run_log_name i ''peer'', u) # files) (net0_judge a required i t u)"
  unfolding judged_from_def by (intro exI [of _ t] exI [of _ u]) (simp add: net0_judge_def Let_def)

lemma net0_run_loop_records:
  "net0_run_loop a required w n index = Some (Inr (recs, files)) \<Longrightarrow>
     (\<forall>r\<in>set recs. judged_from a required files r)
     \<and> map run_index recs = [index..<index + length recs] \<and> length recs \<le> n
     \<and> (list_all run_pass recs \<longrightarrow> length recs = n)"
proof (induction n arbitrary: index recs files)
  case 0
  then show ?case by simp
next
  case (Suc n)
  from Suc.prems obtain s where "net0_capture_run a required (run_env w index) (fst (run_ports w index)) (snd (run_ports w index)) = Some (Inr s)"
    by (auto split: option.splits sum.splits)
  note run = Suc.prems [unfolded net0_run_loop.simps this option.case sum.case Let_def]
  let ?r = "net0_judge a required index (log1 s) (log2 s)"
  have i: "run_index ?r = index" by (simp add: net0_judge_def Let_def)
  show ?case
  proof (cases "run_pass ?r")
    case True
    with run obtain recs' later where rest: "net0_run_loop a required w n (Suc index) = Some (Inr (recs', later))"
      and eq: "recs = ?r # recs'" "files = (run_log_name index ''target'', log1 s) # (run_log_name index ''peer'', log2 s) # later"
      by (auto split: option.splits sum.splits)
    note IH = Suc.IH [OF rest]
    have "judged_from a required files r" if "r \<in> set recs" for r
      using that IH judged_from_new [of a required index] judged_from_mono [of a required later r files]
      by (auto simp: eq)
    moreover have "map run_index recs = [index..<index + length recs]"
    proof -
      have "[index..<index + length recs] = index # [Suc index..<Suc index + length recs']"
        by (simp add: eq upt_rec [of index] del: upt_Suc)
      with IH show ?thesis by (simp add: eq i del: upt_Suc)
    qed
    ultimately show ?thesis using IH True by (simp add: eq)
  next
    case False
    with run have "recs = [?r]" "files = [(run_log_name index ''target'', log1 s), (run_log_name index ''peer'', log2 s)]"
      by simp_all
    with False i judged_from_new [of a required index] show ?thesis by simp
  qed
qed

text \<open>What a passing run has shown\<close>

definition shown_gates :: "net0_args \<Rightarrow> bytes list \<Rightarrow> bytes \<Rightarrow> bool" where
  "shown_gates a required target \<longleftrightarrow>
     (\<forall>m\<in>set required. occurs m target) \<and> (\<forall>m\<in>set (net0_failures a). \<not> occurs m target) \<and>
     (require_host_delivery a \<longrightarrow> map phase (delivery_samples (host_delivery target)) = delivery_phases \<and>
        (\<forall>s\<in>set (delivery_samples (host_delivery target)).
           \<not> exhausted s \<and> item ''entered'' (calls s) = item ''returned'' (calls s) \<and> item ''in_flight'' (calls s) = 0)) \<and>
     (require_host_tx a \<longrightarrow> (\<exists>u v. named_rows ''RFDBG_NET0_HOST_TX'' host_tx_fields target = [u, v] \<and>
        item ''accepted'' v > 0 \<and> item ''accepted'' v = item ''processed'' v + item ''dropped'' v \<and> item ''fault'' v = 0)) \<and>
     (require_rx_stop a \<longrightarrow> (\<exists>u v. named_rows ''RFDBG_NET0_RX_STOP'' rx_stop_fields target = [u, v] \<and>
        item ''returned'' v = 1 \<and> item ''mac_after'' v = 0 \<and> item ''descriptors_empty'' v = 1 \<and> item ''fault'' v = 0)) \<and>
     (require_rx_rebuild a \<longrightarrow> (\<exists>u v. named_rows ''RFDBG_NET0_RX_REBUILD'' rx_rebuild_fields target = [u, v] \<and>
        (\<forall>pool\<in>set pool_names. item (''actual_'' @ pool) v = item (''expected_'' @ pool) v \<and> item (''cleaned_'' @ pool) v = 0) \<and>
        item ''fault'' v = 0))"

lemma delivery_errors_Nil:
  "delivery_errors previous ss = [] \<Longrightarrow> s \<in> set ss \<Longrightarrow>
     \<not> exhausted s \<and> item ''entered'' (calls s) = item ''returned'' (calls s) \<and> item ''in_flight'' (calls s) = 0"
  by (induction ss arbitrary: previous) (auto simp: Let_def if_list_Nil)

lemma two_rows: "length xs = 2 \<longleftrightarrow> (\<exists>u v. xs = [u, v])"
  by (auto simp: length_Suc_conv numeral_2_eq_2)

lemma host_tx_ok_shows:
  "host_tx_ok rows \<Longrightarrow> \<exists>u v. rows = [u, v] \<and>
     item ''accepted'' v > 0 \<and> item ''accepted'' v = item ''processed'' v + item ''dropped'' v \<and> item ''fault'' v = 0"
  by (auto simp: host_tx_ok_def two_rows)

lemma rx_stop_ok_shows:
  "rx_stop_ok rows \<Longrightarrow> \<exists>u v. rows = [u, v] \<and>
     item ''returned'' v = 1 \<and> item ''mac_after'' v = 0 \<and> item ''descriptors_empty'' v = 1 \<and> item ''fault'' v = 0"
  unfolding rx_stop_ok_def two_rows by (auto simp: rx_stop_fields_def)

lemma rx_rebuild_ok_shows:
  "rx_rebuild_ok rows \<Longrightarrow> \<exists>u v. rows = [u, v] \<and>
     (\<forall>pool\<in>set pool_names. item (''actual_'' @ pool) v = item (''expected_'' @ pool) v \<and> item (''cleaned_'' @ pool) v = 0) \<and>
     item ''fault'' v = 0"
  by (auto simp: rx_rebuild_ok_def list_all_iff rx_rebuild_fields_def numeral_eq_Suc split: list.splits)

lemma host_delivery_shows:
  "delivery_issues (host_delivery target) = [] \<Longrightarrow>
     map phase (delivery_samples (host_delivery target)) = delivery_phases \<and>
     (\<forall>s\<in>set (delivery_samples (host_delivery target)).
        \<not> exhausted s \<and> item ''entered'' (calls s) = item ''returned'' (calls s) \<and> item ''in_flight'' (calls s) = 0)"
  using delivery_errors_Nil by (simp add: host_delivery_def Let_def if_list_Nil) blast

lemma run_pass_iff:
  "run_pass (net0_judge a required i target peer) \<longleftrightarrow>
     (\<forall>m\<in>set (net0_failures a). \<not> occurs m target) \<and> (\<forall>m\<in>set required. occurs m target)
     \<and> (require_host_delivery a \<longrightarrow> delivery_issues (host_delivery target) = [])
     \<and> (initial_session a \<longrightarrow> payload_ok (payload_of target) \<and> cleanup_ok a (cleanup_of target))
     \<and> (require_host_tx a \<longrightarrow> host_tx_ok (named_rows ''RFDBG_NET0_HOST_TX'' host_tx_fields target))
     \<and> (require_rx_stop a \<longrightarrow> rx_stop_ok (named_rows ''RFDBG_NET0_RX_STOP'' rx_stop_fields target))
     \<and> (expect_cleanup_fault a \<longrightarrow> fault_ok target)
     \<and> (require_rx_rebuild a \<longrightarrow> rx_rebuild_ok (named_rows ''RFDBG_NET0_RX_REBUILD'' rx_rebuild_fields target))"
  unfolding net0_judge_def gate_def Let_def by (simp add: list_all_iff list_ex_iff)

lemma run_pass_shows: "run_pass (net0_judge a required i target peer) \<Longrightarrow> shown_gates a required target"
  unfolding run_pass_iff shown_gates_def
  by (elim conjE, intro conjI impI)
    (assumption | (rule host_tx_ok_shows rx_stop_ok_shows rx_rebuild_ok_shows, blast)
     | (drule (1) mp, drule host_delivery_shows, blast))+


section \<open>A capture\<close>

definition net0_demo_args :: net0_args where
  "net0_demo_args =
     \<lparr>net0_role = Net0_ap, net0_runs = 1, net0_seconds = 60, net0_flash = False, require_bound_closed = False,
      require_host_delivery = False, initial_session = False, expect_cleanup_fault = False, require_host_tx = False,
      require_rx_stop = False, require_rx_rebuild = False, reset_peer = None, reset_serial = ''2''\<rparr>"

definition net0_demo_env :: net0_env where
  "net0_demo_env =
     \<lparr>port_error = None, peer_pulse = quiet_pulse, peer_from = 0, peer_ticks = [], target_pulse = quiet_pulse,
      net0_from = 0, net0_ticks = [\<lparr>now = 1, rx1 = ''RFDBG_SOFTAP_READY'', rx2 = [], mark_at = 1, check_at = 3\<rparr>]\<rparr>"

definition net0_demo_port :: port where
  "net0_demo_port = \<lparr>rxbuf = ''old'', written = []\<rparr>"

lemma net0_demo_run:
  "net0_capture_run net0_demo_args [''RFDBG_SOFTAP_READY''] net0_demo_env net0_demo_port net0_demo_port
     = Some (Inr \<lparr>log1 = ''RFDBG_SOFTAP_READY'', log2 = [], port1 = \<lparr>rxbuf = [], written = []\<rparr>, port2 = \<lparr>rxbuf = [], written = []\<rparr>\<rparr>)"
  by (simp add: net0_capture_run_def net0_demo_args_def net0_demo_env_def net0_demo_port_def start_peer_def
      fresh_pair_def quiet_pulse_ok ascii_decimal_def reset_target_input_def read_target_def read_peer_def serial_read_def tick_arrive_def capture_bound_def
      reset_input_buffer_def arrive_def)

lemma net0_log_of_this_boot_witness:
  "prefix ''RFDBG_SOFTAP_READY'' (stream1 (net0_ticks net0_demo_env)) \<and> length ''RFDBG_SOFTAP_READY'' \<le> 2 * 1024 * 1024"
  using net0_log_of_this_boot [OF net0_demo_run] by simp

definition net0_demo_world :: net0_world where
  "net0_demo_world =
     \<lparr>output_taken = False, elf_data = Inr ''elf'', flash_result = Inr 0, run_env = (\<lambda>_. net0_demo_env),
      run_ports = (\<lambda>_. (net0_demo_port, net0_demo_port))\<rparr>"

lemma net0_demo_pass: "run_pass (net0_judge net0_demo_args [''RFDBG_SOFTAP_READY''] i ''RFDBG_SOFTAP_READY'' peer)"
  unfolding run_pass_iff by (simp add: net0_demo_args_def net0_failures_def sublist_code)


end
