(* ===== verification/Buffer_Owner.thy ===== *)
theory Buffer_Owner
  imports Elf_Bytes Py_Sha256
begin

text \<open>
  \<open>decode-buffer-owner.py\<close> of the evidence \<open>net0-rx-origin-free-2026-09-10\<close>: the packet pool of the
  stopped firmware is decoded from memory dumps, after the dumps and the layout have been checked
  against the one ELF file they belong to.
\<close>

section \<open>The dumps\<close>

definition OWNER_ELF_SHA :: string where
  "OWNER_ELF_SHA = ''21aabd008af78cf3094f1498ab15f788ff7cc37b25dc8bae46935e3a46ed3ccf''"

record dump_entry =
  dump_name :: string
  dump_address :: int
  dump_bytes :: nat
  dump_sha256 :: string

text \<open>\<open>read(name, address, size)\<close>: the data, with the entry that is recorded\<close>

definition read_dump :: "(string \<Rightarrow> bytes res) \<Rightarrow> string \<Rightarrow> int \<Rightarrow> nat \<Rightarrow> (bytes \<times> dump_entry) res" where
  "read_dump raw name addr len =
     rbind (raw name) (\<lambda>data.
     rbind (raise_if (length data \<noteq> len) (ValueError (''wrong read length: '' @ name))) (\<lambda>_.
       Inr (data, \<lparr>dump_name = name, dump_address = addr, dump_bytes = len, dump_sha256 = sha256_hex data\<rparr>)))"

text \<open>\<open>address(name)\<close> over the symbol table, given as names and values\<close>

definition symbol_address :: "(string \<times> int) list \<Rightarrow> string \<Rightarrow> int res" where
  "symbol_address table name =
     (case filter (\<lambda>(n, v). n = name) table of
        [(n, v)] \<Rightarrow> Inr v
      | _ \<Rightarrow> Inl (ValueError (''missing/ambiguous symbol: '' @ name)))"

text \<open>\<open>address(a) != x or address(b) != y or \<dots>\<close>: the first difference ends the lookups.\<close>

fun moved_symbol :: "(string \<times> int) list \<Rightarrow> (string \<times> int) list \<Rightarrow> bool res" where
  "moved_symbol table [] = Inr False"
| "moved_symbol table ((name, addr) # rest) =
     rbind (symbol_address table name) (\<lambda>v. if v \<noteq> addr then Inr True else moved_symbol table rest)"

definition captured_symbols :: "(string \<times> int) list" where
  "captured_symbols = [(''g_netbuf_pool'', 0x18244c), (''g_netbuf_max_size'', 0xa32be4), (''g_netbuf_size'', 0xa32be8)]"

section \<open>The pool\<close>

definition u16_at :: "bytes \<Rightarrow> nat \<Rightarrow> int" where
  "u16_at data off = from_little_endian (take 2 (drop off data))"

definition u32_at :: "bytes \<Rightarrow> nat \<Rightarrow> int" where
  "u32_at data off = from_little_endian (take 4 (drop off data))"

record pool_header =
  max_block :: int
  controls :: int
  packet_start :: int
  packet_end :: int
  pool_count :: int
  subpool_address :: int
  control_address :: int

definition decode_header :: "bytes \<Rightarrow> pool_header" where
  "decode_header data =
     \<lparr>max_block = u16_at data 0, controls = u16_at data 2, packet_start = u32_at data 8, packet_end = u32_at data 12,
      pool_count = u32_at data 16, subpool_address = u32_at data 20, control_address = u32_at data 24\<rparr>"

definition bad_layout :: "pool_header \<Rightarrow> bool" where
  "bad_layout h \<longleftrightarrow>
     pool_count h \<noteq> 4 \<or> controls h \<noteq> 35 \<or> subpool_address h \<noteq> 0xa3479c \<or> control_address h \<noteq> 0xa34820
     \<or> packet_start h \<ge> packet_end h"

record subpool =
  pool_index :: nat
  pool_free :: int
  pool_total :: int
  min_free :: int
  pool_reserved :: int
  start_index :: int
  block_bytes :: int
  packet_address :: int
  free_head :: int
  peak_used :: int

definition decode_subpool :: "bytes \<Rightarrow> nat \<Rightarrow> subpool" where
  "decode_subpool raw index =
     (let off = index * 20
      in \<lparr>pool_index = index, pool_free = u16_at raw off, pool_total = u16_at raw (off + 2), min_free = u16_at raw (off + 4),
          pool_reserved = u16_at raw (off + 6), start_index = u16_at raw (off + 8), block_bytes = u16_at raw (off + 10),
          packet_address = u32_at raw (off + 12), free_head = u32_at raw (off + 16),
          peak_used = u16_at raw (off + 2) - u16_at raw (off + 4)\<rparr>)"

definition bad_subpool :: "pool_header \<Rightarrow> int \<Rightarrow> subpool \<Rightarrow> bool" where
  "bad_subpool h next_index p \<longleftrightarrow>
     (let control = control_address h; head = free_head p
      in \<not> (0 \<le> min_free p \<and> min_free p \<le> pool_free p \<and> pool_free p \<le> pool_total p)
         \<or> pool_reserved p > pool_total p
         \<or> start_index p \<noteq> next_index \<or> block_bytes p = 0 \<or> block_bytes p > max_block h
         \<or> packet_address p < packet_start h \<or> packet_address p + pool_total p * block_bytes p > packet_end h
         \<or> (head \<noteq> 0 \<and> \<not> (control \<le> head \<and> head \<le> control + controls h * 16 \<and> (head - control) mod 16 = 0))
         \<or> (pool_free p \<noteq> 0 \<and> \<not> (control + start_index p * 16 \<le> head
              \<and> head < control + (start_index p + pool_total p) * 16)))"

text \<open>The loop over the subpools: the records, and the next control index\<close>

fun decode_subpools :: "pool_header \<Rightarrow> bytes \<Rightarrow> int \<Rightarrow> nat list \<Rightarrow> (subpool list \<times> int) res" where
  "decode_subpools h raw next_index [] = Inr ([], next_index)"
| "decode_subpools h raw next_index (i # js) =
     (let p = decode_subpool raw i
      in if bad_subpool h next_index p then Inl (ValueError ''invalid bounded subpool record'')
         else rbind (decode_subpools h raw (next_index + pool_total p) js) (\<lambda>(ps, n). Inr (p # ps, n)))"

record owner_report =
  owner_captures :: "dump_entry list"
  owner_header :: pool_header
  owner_pool_address :: int
  owner_subpools :: "subpool list"
  configured_max_bytes :: int
  observed_live_bytes :: int

definition decode_dumps :: "(string \<times> int) list \<Rightarrow> (string \<Rightarrow> bytes res) \<Rightarrow> owner_report res" where
  "decode_dumps table raw =
     rbind (moved_symbol table captured_symbols) (\<lambda>moved.
     rbind (raise_if moved (ValueError ''captured addresses differ from ELF symbols'')) (\<lambda>_.
     rbind (read_dump raw ''terminal-ram-budget.bin'' 0xa32be4 8) (\<lambda>(ram, e1).
     rbind (read_dump raw ''terminal-pool-pointer.bin'' 0x18244c 4) (\<lambda>(ptr, e2).
     rbind (raise_if (u32_at ptr 0 \<noteq> 0xa34780) (ValueError ''pool pointer differs from captured header address'')) (\<lambda>_.
     rbind (read_dump raw ''terminal-pool-header.bin'' (u32_at ptr 0) 28) (\<lambda>(hdr, e3).
       let h = decode_header hdr
       in rbind (raise_if (bad_layout h) (ValueError ''unexpected pool layout; do not guess another ABI'')) (\<lambda>_.
          rbind (read_dump raw ''terminal-subpools.bin'' (subpool_address h) (nat (pool_count h) * 20)) (\<lambda>(pools, e4).
          rbind (decode_subpools h pools 0 [0..<nat (pool_count h)]) (\<lambda>(ps, n).
          rbind (raise_if (n \<noteq> controls h) (ValueError ''subpool counts do not conserve pool capacity'')) (\<lambda>_.
            Inr \<lparr>owner_captures = [e1, e2, e3, e4], owner_header = h, owner_pool_address = u32_at ptr 0,
                 owner_subpools = ps, configured_max_bytes = u32_at ram 0, observed_live_bytes = u32_at ram 4\<rparr>))))))))))"

definition decode_owner :: "bytes \<Rightarrow> (string \<times> int) list \<Rightarrow> (string \<Rightarrow> bytes res) \<Rightarrow> owner_report res" where
  "decode_owner elf table raw =
     rbind (raise_if (sha256_hex elf \<noteq> OWNER_ELF_SHA) (ValueError ''This receipt belongs only to its fixed HIL ELF'')) (\<lambda>_.
       decode_dumps table raw)"

section \<open>An accepted pool\<close>

definition good_subpool :: "pool_header \<Rightarrow> subpool \<Rightarrow> bool" where
  "good_subpool h p \<longleftrightarrow>
     0 \<le> min_free p \<and> min_free p \<le> pool_free p \<and> pool_free p \<le> pool_total p \<and> pool_reserved p \<le> pool_total p
     \<and> 0 < block_bytes p \<and> block_bytes p \<le> max_block h
     \<and> packet_start h \<le> packet_address p \<and> packet_address p + pool_total p * block_bytes p \<le> packet_end h
     \<and> (pool_free p \<noteq> 0 \<longrightarrow> (\<exists>c. start_index p \<le> c \<and> c < start_index p + pool_total p
            \<and> free_head p = control_address h + 16 * c))"

definition owns :: "subpool \<Rightarrow> int \<Rightarrow> bool" where
  "owns p c \<longleftrightarrow> start_index p \<le> c \<and> c < start_index p + pool_total p"

lemma free_head_control:
  "(control \<le> head \<and> (head - control) mod 16 = 0) \<Longrightarrow> control + s * 16 \<le> head \<Longrightarrow> head < control + (s + t) * 16 \<Longrightarrow>
     \<exists>c. s \<le> c \<and> c < s + t \<and> head = control + 16 * (c :: int)"
  by (intro exI [of _ "(head - control) div 16"]) auto

lemma decode_subpool_good:
  assumes "\<not> bad_subpool h n (decode_subpool raw i)" and "control_address h > 0" and "0 \<le> n"
  shows "good_subpool h (decode_subpool raw i) \<and> start_index (decode_subpool raw i) = n"
proof -
  let ?p = "decode_subpool raw i"
  have "0 \<le> block_bytes ?p" using from_little_endian_nonneg by (simp add: decode_subpool_def Let_def u16_at_def)
  moreover have "\<exists>c. start_index ?p \<le> c \<and> c < start_index ?p + pool_total ?p \<and> free_head ?p = control_address h + 16 * c"
    if free: "pool_free ?p \<noteq> 0"
  proof (rule free_head_control)
    from assms(1) free have b: "control_address h + start_index ?p * 16 \<le> free_head ?p"
      "free_head ?p < control_address h + (start_index ?p + pool_total ?p) * 16"
      unfolding bad_subpool_def Let_def by blast+
    then show "control_address h + start_index ?p * 16 \<le> free_head ?p"
      "free_head ?p < control_address h + (start_index ?p + pool_total ?p) * 16" .
    have "start_index ?p = n" using assms(1) unfolding bad_subpool_def Let_def by blast
    with b(1) assms(2,3) have "free_head ?p \<noteq> 0" by simp
    with assms(1) show "control_address h \<le> free_head ?p \<and> (free_head ?p - control_address h) mod 16 = 0"
      unfolding bad_subpool_def Let_def by blast
  qed
  ultimately show ?thesis using assms(1) unfolding bad_subpool_def good_subpool_def Let_def by fastforce
qed

lemma decode_subpools_Inr:
  "decode_subpools h raw n js = Inr (ps, m) \<Longrightarrow> control_address h > 0 \<Longrightarrow> 0 \<le> n \<Longrightarrow>
     (\<forall>p\<in>set ps. good_subpool h p) \<and> map pool_index ps = js \<and> m = n + sum_list (map pool_total ps) \<and> n \<le> m
     \<and> (\<forall>c. n \<le> c \<and> c < m \<longrightarrow> (\<exists>!p. p \<in> set ps \<and> owns p c)) \<and> (\<forall>p\<in>set ps. \<forall>c. owns p c \<longrightarrow> n \<le> c \<and> c < m)"
proof (induction js arbitrary: n ps)
  case Nil
  then show ?case by auto
next
  case (Cons i js)
  let ?p = "decode_subpool raw i"
  from Cons.prems obtain qs where ok: "\<not> bad_subpool h n ?p" and ps: "ps = ?p # qs"
    and rest: "decode_subpools h raw (n + pool_total ?p) js = Inr (qs, m)"
    by (auto simp: Let_def res_simps split: if_splits)
  from decode_subpool_good [OF ok Cons.prems(2,3)] have p: "good_subpool h ?p" "start_index ?p = n" by simp_all
  then have t: "0 \<le> pool_total ?p" by (auto simp: good_subpool_def)
  note IH = Cons.IH [OF rest Cons.prems(2)]
  have own: "owns ?p c \<longleftrightarrow> n \<le> c \<and> c < n + pool_total ?p" for c by (simp add: owns_def p)
  have "\<exists>!q. q \<in> set ps \<and> owns q c" if c: "n \<le> c \<and> c < m" for c
  proof (cases "c < n + pool_total ?p")
    case True
    then have "owns ?p c" "\<And>q. q \<in> set qs \<Longrightarrow> \<not> owns q c" using c own IH t Cons.prems(3) by (simp, fastforce)
    then show ?thesis unfolding ps by auto
  next
    case False
    then have "\<not> owns ?p c" by (simp add: own)
    moreover have "\<exists>!q. q \<in> set qs \<and> owns q c" using IH t c False Cons.prems(3) by simp
    ultimately show ?thesis unfolding ps by auto
  qed
  moreover have "pool_index ?p = i" by (simp add: decode_subpool_def Let_def)
  moreover have "n \<le> c \<and> c < m" if "q \<in> set ps" "owns q c" for q c
    using that own [of c] IH t Cons.prems(3) unfolding ps by fastforce
  ultimately show ?case using IH t p Cons.prems(3) by (simp add: ps)
qed

text \<open>
  C36: A decoded pool partitions its 35 controls: every control index belongs to exactly one of the
  four subpools, whose counters are consistent, whose packets lie in the packet area, and whose list
  of free blocks, if there is one, starts at one of its own controls.
\<close>

theorem decoded_pool_partition:
  assumes "decode_dumps table raw = Inr r"
  shows "map pool_index (owner_subpools r) = [0, 1, 2, 3]
    \<and> (\<forall>p\<in>set (owner_subpools r). good_subpool (owner_header r) p)
    \<and> sum_list (map pool_total (owner_subpools r)) = 35
    \<and> (\<forall>c. 0 \<le> c \<and> c < 35 \<longrightarrow> (\<exists>!p. p \<in> set (owner_subpools r) \<and> owns p c))"
proof -
  obtain pools where layout: "\<not> bad_layout (owner_header r)"
    and pools: "decode_subpools (owner_header r) pools 0 [0..<nat (pool_count (owner_header r))] = Inr (owner_subpools r, controls (owner_header r))"
    using assms by (auto simp: decode_dumps_def res_simps Let_def)
  from layout have h: "pool_count (owner_header r) = 4" "controls (owner_header r) = 35" "control_address (owner_header r) > 0"
    by (simp_all add: bad_layout_def)
  have "[0..<nat 4] = [0, 1, 2, 3::nat]" by (simp add: upt_rec)
  with decode_subpools_Inr [OF pools h(3)] show ?thesis by (simp add: h)
qed

lemma decode_owner_Inr:
  "decode_owner elf table raw = Inr r \<longleftrightarrow> sha256_hex elf = OWNER_ELF_SHA \<and> decode_dumps table raw = Inr r"
  by (simp add: decode_owner_def res_simps)

section \<open>A pool\<close>

definition demo_header_dump :: bytes where
  "demo_header_dump = concat (map le_bytes [35 * 65536 + 2048, 0, 0x100000, 0x200000, 4, 0xa3479c, 0xa34820])"

definition demo_pool_words :: "nat list" where
  "demo_pool_words =
     [10 * 65536 + 5, 2, 2048 * 65536 + 0, 0x100000, 0xa34820 + 16 * 3,
      10 * 65536 + 0, 0, 512 * 65536 + 10, 0x110000, 0,
      10 * 65536 + 10, 7, 128 * 65536 + 20, 0x120000, 0xa34820 + 16 * 20,
      5 * 65536 + 1, 0, 64 * 65536 + 30, 0x130000, 0xa34820 + 16 * 34]"

definition demo_pools_dump :: bytes where
  "demo_pools_dump = concat (map le_bytes demo_pool_words)"

definition demo_dumps :: "string \<Rightarrow> bytes res" where
  "demo_dumps name =
     (if name = ''terminal-ram-budget.bin'' then Inr (le_bytes 0x6c00 @ le_bytes 0)
      else if name = ''terminal-pool-pointer.bin'' then Inr (le_bytes 0xa34780)
      else if name = ''terminal-pool-header.bin'' then Inr demo_header_dump else Inr demo_pools_dump)"

definition demo_pool_header :: pool_header where
  "demo_pool_header =
     \<lparr>max_block = 2048, controls = 35, packet_start = 0x100000, packet_end = 0x200000, pool_count = 4,
      subpool_address = 0xa3479c, control_address = 0xa34820\<rparr>"

text \<open>Reading a dump of words\<close>

lemma byte_value: "of_char (char_of (m mod 256)) = int (m mod 256)" for m :: nat
  by (metis mod_mod_trivial of_char_of of_nat_of_char)

lemma le_halves:
  "from_little_endian (take 2 (le_bytes n)) = int (n mod 65536)"
  "from_little_endian (take 2 (drop 2 (le_bytes n))) = int (n div 65536 mod 65536)"
proof -
  have split: "m mod 65536 = m mod 256 + 256 * (m div 256 mod 256)" for m :: nat
    using mod_mult2_eq [of m 256 256] by simp
  have "from_little_endian (take 2 (le_bytes n)) = int (n mod 256) + 256 * int (n div 256 mod 256)"
    by (simp only: le_bytes_def list.map take_Cons_numeral diff_Suc_1 take_Suc_Cons take_0 from_little_endian.simps
        byte_value power_0 div_by_1 power_one_right mult_zero_right add_0_right numeral_2_eq_2)
  then show "from_little_endian (take 2 (le_bytes n)) = int (n mod 65536)" by (simp add: split)
  have "n div 256 ^ 3 = n div 65536 div 256" "n div 256 ^ 2 = n div 65536" by (simp_all add: div_mult2_eq [symmetric])
  then have "from_little_endian (take 2 (drop 2 (le_bytes n))) = int (n div 65536 mod 256) + 256 * int (n div 65536 div 256 mod 256)"
    by (simp only: le_bytes_def list.map take_Suc_Cons take_0 drop_Suc_Cons drop_0 from_little_endian.simps
        byte_value mult_zero_right add_0_right numeral_2_eq_2)
  then show "from_little_endian (take 2 (drop 2 (le_bytes n))) = int (n div 65536 mod 65536)" by (simp add: split [of "n div 65536"])
qed

lemma words_at:
  assumes "k < length ns"
  shows "take 4 (drop (4 * k) (concat (map le_bytes ns))) = le_bytes (ns ! k)"
    "take 2 (drop (4 * k) (concat (map le_bytes ns))) = take 2 (le_bytes (ns ! k))"
    "take 2 (drop (4 * k + 2) (concat (map le_bytes ns))) = take 2 (drop 2 (le_bytes (ns ! k)))"
proof -
  have "drop k ns = ns ! k # drop (Suc k) ns" using assms by (rule Cons_nth_drop_Suc [symmetric])
  then have d: "drop (4 * k) (concat (map le_bytes ns)) = le_bytes (ns ! k) @ concat (map le_bytes (drop (Suc k) ns))"
    by (simp add: drop_words)
  then show "take 4 (drop (4 * k) (concat (map le_bytes ns))) = le_bytes (ns ! k)"
    "take 2 (drop (4 * k) (concat (map le_bytes ns))) = take 2 (le_bytes (ns ! k))" by simp_all
  have "drop (4 * k + 2) (concat (map le_bytes ns)) = drop 2 (drop (4 * k) (concat (map le_bytes ns)))" by (simp add: add.commute)
  then show "take 2 (drop (4 * k + 2) (concat (map le_bytes ns))) = take 2 (drop 2 (le_bytes (ns ! k)))" by (simp add: d)
qed

lemma fields_at:
  assumes "k < length ns"
  shows "ns ! k < 2 ^ 32 \<Longrightarrow> u32_at (concat (map le_bytes ns)) (4 * k) = int (ns ! k)"
    "u16_at (concat (map le_bytes ns)) (4 * k) = int (ns ! k mod 65536)"
    "u16_at (concat (map le_bytes ns)) (4 * k + 2) = int (ns ! k div 65536 mod 65536)"
  unfolding u32_at_def u16_at_def words_at [OF assms] by (simp_all only: le_bytes_value le_halves)

lemma header_of_words:
  assumes "length ns = 7" and "\<forall>n\<in>set ns. n < 2 ^ 32"
  shows "decode_header (concat (map le_bytes ns)) =
    \<lparr>max_block = int (ns ! 0 mod 65536), controls = int (ns ! 0 div 65536 mod 65536), packet_start = int (ns ! 2),
     packet_end = int (ns ! 3), pool_count = int (ns ! 4), subpool_address = int (ns ! 5), control_address = int (ns ! 6)\<rparr>"
  using fields_at(2,3) [of 0 ns] fields_at(1) [of 2 ns] fields_at(1) [of 3 ns] fields_at(1) [of 4 ns]
    fields_at(1) [of 5 ns] fields_at(1) [of 6 ns] assms
  by (simp add: decode_header_def numeral_2_eq_2)

lemma subpool_of_words:
  assumes "5 * i + 4 < length ns" and "\<forall>n\<in>set ns. n < 2 ^ 32"
  shows "decode_subpool (concat (map le_bytes ns)) i =
    \<lparr>pool_index = i, pool_free = int (ns ! (5 * i) mod 65536), pool_total = int (ns ! (5 * i) div 65536 mod 65536),
     min_free = int (ns ! (5 * i + 1) mod 65536), pool_reserved = int (ns ! (5 * i + 1) div 65536 mod 65536),
     start_index = int (ns ! (5 * i + 2) mod 65536), block_bytes = int (ns ! (5 * i + 2) div 65536 mod 65536),
     packet_address = int (ns ! (5 * i + 3)), free_head = int (ns ! (5 * i + 4)),
     peak_used = int (ns ! (5 * i) div 65536 mod 65536) - int (ns ! (5 * i + 1) mod 65536)\<rparr>"
proof -
  have off: "i * 20 = 4 * (5 * i)" "4 * (5 * i) + 4 = 4 * (5 * i + 1)" "4 * (5 * i) + 6 = 4 * (5 * i + 1) + 2"
    "4 * (5 * i) + 8 = 4 * (5 * i + 2)" "4 * (5 * i) + 10 = 4 * (5 * i + 2) + 2" "4 * (5 * i) + 12 = 4 * (5 * i + 3)"
    "4 * (5 * i) + 16 = 4 * (5 * i + 4)" by simp_all
  have k: "5 * i < length ns" "5 * i + 1 < length ns" "5 * i + 2 < length ns" "5 * i + 3 < length ns" "5 * i + 4 < length ns"
    using assms(1) by simp_all
  have small: "ns ! (5 * i + 3) < 2 ^ 32" "ns ! (5 * i + 4) < 2 ^ 32" using assms(2) k by simp_all
  show ?thesis
    unfolding decode_subpool_def Let_def off
    by (simp only: fields_at(2,3) [OF k(1)] fields_at(2,3) [OF k(2)] fields_at(2,3) [OF k(3)]
        fields_at(1) [OF k(4) small(1)] fields_at(1) [OF k(5) small(2)])
qed

lemma demo_header: "decode_header demo_header_dump = demo_pool_header"
  unfolding demo_header_dump_def by (subst header_of_words) (simp_all add: demo_pool_header_def)

lemma demo_words: "length demo_pool_words = 20" "\<forall>n\<in>set demo_pool_words. n < 2 ^ 32"
  by (simp_all add: demo_pool_words_def)

lemma demo_subpool:
  "decode_subpool demo_pools_dump 0 =
     \<lparr>pool_index = 0, pool_free = 5, pool_total = 10, min_free = 2, pool_reserved = 0, start_index = 0,
      block_bytes = 2048, packet_address = 0x100000, free_head = 0xa34850, peak_used = 8\<rparr>"
  "decode_subpool demo_pools_dump (Suc 0) =
     \<lparr>pool_index = Suc 0, pool_free = 0, pool_total = 10, min_free = 0, pool_reserved = 0, start_index = 10,
      block_bytes = 512, packet_address = 0x110000, free_head = 0, peak_used = 10\<rparr>"
  "decode_subpool demo_pools_dump 2 =
     \<lparr>pool_index = 2, pool_free = 10, pool_total = 10, min_free = 7, pool_reserved = 0, start_index = 20,
      block_bytes = 128, packet_address = 0x120000, free_head = 0xa34960, peak_used = 3\<rparr>"
  "decode_subpool demo_pools_dump 3 =
     \<lparr>pool_index = 3, pool_free = 1, pool_total = 5, min_free = 0, pool_reserved = 0, start_index = 30,
      block_bytes = 64, packet_address = 0x130000, free_head = 0xa34a40, peak_used = 5\<rparr>"
  unfolding demo_pools_dump_def
  by (subst subpool_of_words, simp add: demo_words, rule demo_words(2), simp add: demo_pool_words_def)+

lemma demo_subpools: "\<exists>ps. decode_subpools demo_pool_header demo_pools_dump 0 [0, 1, 2, 3] = Inr (ps, 35)"
  by (simp add: demo_subpool Let_def bad_subpool_def demo_pool_header_def)

lemma read_dump_Inr:
  "raw name = Inr data \<Longrightarrow> length data = len \<Longrightarrow>
     read_dump raw name addr len = Inr (data, \<lparr>dump_name = name, dump_address = addr, dump_bytes = len, dump_sha256 = sha256_hex data\<rparr>)"
  by (simp add: read_dump_def raise_if_def)

lemma demo_dumps_decoded: "\<exists>r. decode_dumps captured_symbols demo_dumps = Inr r"
proof -
  obtain ps where ps: "decode_subpools demo_pool_header demo_pools_dump 0 [0, Suc 0, 2, 3] = Inr (ps, 35)"
    using demo_subpools by (auto simp del: decode_subpools.simps)
  have len: "length demo_header_dump = 28" "length demo_pools_dump = 80"
    by (simp_all add: demo_header_dump_def demo_pools_dump_def demo_pool_words_def)
  have moved: "moved_symbol captured_symbols captured_symbols = Inr False"
    by (simp add: captured_symbols_def symbol_address_def)
  have ptr: "u32_at (le_bytes 0xa34780) 0 = 0xa34780"
    by (simp add: u32_at_def le_bytes_value)
  have h: "bad_layout demo_pool_header = False" "pool_count demo_pool_header = 4" "controls demo_pool_header = 35"
    by (simp_all add: bad_layout_def demo_pool_header_def)
  have "[0..<nat 4] = [0, 1, 2, 3::nat]" by (simp add: upt_rec)
  then show ?thesis
    by (simp add: decode_dumps_def moved raise_if_def read_dump_Inr demo_dumps_def len ptr demo_header h ps
        del: decode_subpools.simps)
qed

lemma decoded_pool_partition_witness:
  "\<exists>r. decode_dumps captured_symbols demo_dumps = Inr r \<and> sum_list (map pool_total (owner_subpools r)) = 35
     \<and> (\<exists>!p. p \<in> set (owner_subpools r) \<and> owns p 34)"
proof -
  from demo_dumps_decoded obtain r where r: "decode_dumps captured_symbols demo_dumps = Inr r" by blast
  from decoded_pool_partition [OF r] have "sum_list (map pool_total (owner_subpools r)) = 35"
    "\<exists>!p. p \<in> set (owner_subpools r) \<and> owns p 34" by simp_all
  with r show ?thesis by blast
qed

end
