(* ===== verification/Cargo_Lock.thy ===== *)
theory Cargo_Lock
  imports Py_Text
begin

text \<open>
  \<open>scripts/cargo-standalone-lock.py\<close>: check or update the lock file of a crate by resolving its
  dependencies in a copy outside the workspace.  Directories are trees of files; the processes that
  are run (\<open>cargo\<close>) are an input that maps the copy to the copy it leaves behind and their result.
  Failing disks and symbolic links are not modelled.
\<close>

section \<open>Trees of files\<close>

datatype file_tree = Leaf bytes | Node "(string \<times> file_tree) list"

type_synonym entries = "(string, file_tree) dict"

definition ignored :: "string list" where
  "ignored = [''.git'', ''target'']"

text \<open>\<open>copy_crate\<close>: the names are ignored in every directory of the tree.\<close>

lemma size_in_node: "(n, t) \<in> set es \<Longrightarrow> size t < Suc (size_list (size_prod (\<lambda>x. 0) size) es)"
  using size_list_estimation' [of "(n, t)" es "size t" "size_prod (\<lambda>x. 0) size"] by simp

function copy_tree :: "file_tree \<Rightarrow> file_tree" where
  "copy_tree (Leaf data) = Leaf data"
| "copy_tree (Node es) =
     Node (map (\<lambda>(name, t). (name, copy_tree t)) (filter (\<lambda>(name, t). name \<notin> set ignored) es))"
  by pat_completeness auto
termination
  by (relation "measure size") (auto simp: size_in_node)

definition copy_crate :: "entries \<Rightarrow> entries" where
  "copy_crate es = map (\<lambda>(name, t). (name, copy_tree t)) (filter (\<lambda>(name, t). name \<notin> set ignored) es)"

definition leaf :: "string \<Rightarrow> entries \<Rightarrow> bytes option" where
  "leaf name es = (case dget name es of Some (Leaf data) \<Rightarrow> Some data | _ \<Rightarrow> None)"

section \<open>The command\<close>

record lock_args =
  cargo_exe :: string
  update_lock :: bool
  package_crate :: bool
  package_features :: "string option"
  keep_temp :: bool

type_synonym cargo_run = "string list \<Rightarrow> entries \<Rightarrow> entries \<times> unit res"

definition package_cmd :: "lock_args \<Rightarrow> string list" where
  "package_cmd a =
     [cargo_exe a, ''package'', ''--locked'']
     @ (case package_features a of None \<Rightarrow> [] | Some f \<Rightarrow> if f = [] then [] else [''--features'', f])"

text \<open>\<open>read_text(path)\<close> for the printed difference: what it may raise\<close>

definition diff_input :: "string \<Rightarrow> entries \<Rightarrow> unit res" where
  "diff_input name es =
     (case dget name es of
        None \<Rightarrow> Inr ()
      | Some (Node _) \<Rightarrow> Inl (OSError ''IsADirectoryError'')
      | Some (Leaf data) \<Rightarrow> rbind (strict_text data) (\<lambda>_. Inr ()))"

text \<open>\<open>shutil.copy2(tmp_lock, src_lock)\<close>: into a directory of that name, if there is one\<close>

definition copy_lock :: "bytes \<Rightarrow> entries \<Rightarrow> entries res" where
  "copy_lock data crate =
     (case dget ''Cargo.lock'' crate of
        Some (Node es) \<Rightarrow>
          (case dget ''Cargo.lock'' es of
             Some (Node _) \<Rightarrow> Inl (OSError ''IsADirectoryError'')
           | _ \<Rightarrow> Inr (dset ''Cargo.lock'' (Node (dset ''Cargo.lock'' (Leaf data) es)) crate))
      | _ \<Rightarrow> Inr (dset ''Cargo.lock'' (Leaf data) crate))"

definition read_lock :: "entries \<Rightarrow> bytes res" where
  "read_lock es =
     (case dget ''Cargo.lock'' es of
        None \<Rightarrow> Inl (OSError ''FileNotFoundError'')
      | Some (Node _) \<Rightarrow> Inl (OSError ''IsADirectoryError'')
      | Some (Leaf data) \<Rightarrow> Inr data)"

text \<open>The comparison and its consequences: the crate afterwards, and the exit status\<close>

definition compare_locks :: "lock_args \<Rightarrow> entries \<Rightarrow> entries \<Rightarrow> entries \<times> nat res" where
  "compare_locks a crate standalone =
     (case (case leaf ''Cargo.lock'' crate of
              None \<Rightarrow> Inr False
            | Some data \<Rightarrow> rbind (read_lock standalone) (\<lambda>tmp. Inr (data = tmp))) of
        Inl e \<Rightarrow> (crate, Inl e)
      | Inr same \<Rightarrow>
          if update_lock a
          then (case rbind (read_lock standalone) (\<lambda>tmp. copy_lock tmp crate) of
                  Inl e \<Rightarrow> (crate, Inl e) | Inr crate' \<Rightarrow> (crate', Inr 0))
          else if \<not> same
          then (crate, rbind (diff_input ''Cargo.lock'' crate) (\<lambda>_.
                       rbind (diff_input ''Cargo.lock'' standalone) (\<lambda>_. Inr 1)))
          else (crate, Inr 0))"

text \<open>The body of the \<open>try\<close>: the crate, the copy and the result\<close>

definition lock_steps :: "lock_args \<Rightarrow> cargo_run \<Rightarrow> entries \<Rightarrow> entries \<times> entries \<times> nat res" where
  "lock_steps a cargo crate =
     (case cargo [cargo_exe a, ''generate-lockfile''] (copy_crate crate) of
        (s1, Inl e) \<Rightarrow> (crate, s1, Inl e)
      | (s1, Inr _) \<Rightarrow>
          if leaf ''Cargo.lock'' s1 = None then (crate, s1, Inr 1)
          else (case (if package_crate a then cargo (package_cmd a) s1 else (s1, Inr ())) of
                  (s2, Inl e) \<Rightarrow> (crate, s2, Inl e)
                | (s2, Inr _) \<Rightarrow> (let (crate', result) = compare_locks a crate s2 in (crate', s2, result))))"

record lock_outcome =
  crate_after :: entries
  temp_left :: "entries option"
  lock_result :: "nat res"

definition lock_main :: "lock_args \<Rightarrow> cargo_run \<Rightarrow> entries \<Rightarrow> lock_outcome" where
  "lock_main a cargo crate =
     (if leaf ''Cargo.toml'' crate = None then \<lparr>crate_after = crate, temp_left = None, lock_result = Inr 2\<rparr>
      else (let (crate', standalone, result) = lock_steps a cargo crate
            in \<lparr>crate_after = crate', temp_left = (if keep_temp a then Some standalone else None), lock_result = result\<rparr>))"

section \<open>What the check leaves behind\<close>

text \<open>No name of the list occurs anywhere in a tree.\<close>

function free_of :: "string list \<Rightarrow> file_tree \<Rightarrow> bool" where
  "free_of names (Leaf data) \<longleftrightarrow> True"
| "free_of names (Node es) \<longleftrightarrow> list_all (\<lambda>(name, t). name \<notin> set names \<and> free_of names t) es"
  by pat_completeness auto
termination
  by (relation "measure (size \<circ> snd)") (auto simp: size_in_node)

lemma copy_tree_free: "free_of ignored (copy_tree t)"
  by (induction t rule: copy_tree.induct) (auto simp: list_all_iff)

lemma copy_crate_free: "free_of ignored (Node (copy_crate crate))"
  using copy_tree_free by (auto simp: copy_crate_def list_all_iff)

lemma leaf_copy: "name \<notin> set ignored \<Longrightarrow> leaf name (copy_crate es) = leaf name es"
proof (induction es)
  case (Cons e es)
  then show ?case by (cases e; cases "snd e") (auto simp: leaf_def copy_crate_def)
qed (simp add: leaf_def copy_crate_def)

text \<open>The processes have run on the copy and made this lock file.\<close>

definition resolved :: "lock_args \<Rightarrow> cargo_run \<Rightarrow> entries \<Rightarrow> bytes \<Rightarrow> bool" where
  "resolved a cargo crate lock \<longleftrightarrow>
     (\<exists>s1 s2. cargo [cargo_exe a, ''generate-lockfile''] (copy_crate crate) = (s1, Inr ()) \<and> leaf ''Cargo.lock'' s1 \<noteq> None
        \<and> (if package_crate a then cargo (package_cmd a) s1 = (s2, Inr ()) else s2 = s1)
        \<and> leaf ''Cargo.lock'' s2 = Some lock)"

lemma read_lock_Inr: "read_lock es = Inr data \<longleftrightarrow> leaf ''Cargo.lock'' es = Some data"
  by (auto simp: read_lock_def leaf_def split: option.splits file_tree.splits)

lemma compare_locks_check:
  "\<not> update_lock a \<Longrightarrow> fst (compare_locks a crate s) = crate
     \<and> (snd (compare_locks a crate s) = Inr 0 \<longleftrightarrow> (\<exists>lock. leaf ''Cargo.lock'' crate = Some lock \<and> leaf ''Cargo.lock'' s = Some lock))"
proof (cases "read_lock s")
  case (Inl e)
  then have "leaf ''Cargo.lock'' s \<noteq> Some lock" for lock using read_lock_Inr [of s lock] by simp
  then show "\<not> update_lock a \<Longrightarrow> ?thesis"
    by (auto simp: compare_locks_def Inl res_simps split: option.splits)
next
  case (Inr tmp)
  then have "leaf ''Cargo.lock'' s = Some tmp" using read_lock_Inr by blast
  then show "\<not> update_lock a \<Longrightarrow> ?thesis"
    by (auto simp: compare_locks_def Inr res_simps split: option.splits)
qed

lemma compare_locks_update:
  assumes "update_lock a" and "snd (compare_locks a crate s) = Inr n" and "\<forall>es. dget ''Cargo.lock'' crate \<noteq> Some (Node es)"
  shows "\<exists>lock. leaf ''Cargo.lock'' s = Some lock \<and> fst (compare_locks a crate s) = dset ''Cargo.lock'' (Leaf lock) crate"
proof -
  from assms(1,2) obtain tmp where tmp: "read_lock s = Inr tmp"
    by (cases "read_lock s") (auto simp: compare_locks_def split: option.splits)
  have "copy_lock tmp crate = Inr (dset ''Cargo.lock'' (Leaf tmp) crate)"
    using assms(3) by (auto simp: copy_lock_def split: option.split file_tree.split)
  with tmp assms(1) have "fst (compare_locks a crate s) = dset ''Cargo.lock'' (Leaf tmp) crate"
    by (auto simp: compare_locks_def split: option.split)
  with tmp show ?thesis unfolding read_lock_Inr by blast
qed

text \<open>
  C34: The lock check leaves nothing behind: without \<open>--update\<close> the crate is unchanged whatever
  happens, the temporary copy is removed on every path unless it is to be kept, cargo never sees a
  \<open>.git\<close> or \<open>target\<close> directory, and exit status 0 means exactly that the crate has a lock file and
  the standalone resolution (with the package verification, where asked for) gave the same one.
\<close>

theorem lock_check_outcome:
  assumes "\<not> update_lock a"
  shows "crate_after (lock_main a cargo crate) = crate
    \<and> (temp_left (lock_main a cargo crate) = None \<longleftrightarrow> \<not> keep_temp a \<or> leaf ''Cargo.toml'' crate = None)
    \<and> free_of ignored (Node (copy_crate crate))
    \<and> (lock_result (lock_main a cargo crate) = Inr 0 \<longleftrightarrow>
         leaf ''Cargo.toml'' crate \<noteq> None \<and> (\<exists>lock. leaf ''Cargo.lock'' crate = Some lock \<and> resolved a cargo crate lock))"
proof -
  obtain s1 r1 where c1: "cargo [cargo_exe a, ''generate-lockfile''] (copy_crate crate) = (s1, r1)" by (cases "cargo [cargo_exe a, ''generate-lockfile''] (copy_crate crate)")
  obtain s2 r2 where c2: "(if package_crate a then cargo (package_cmd a) s1 else (s1, Inr ())) = (s2, r2)" by (cases "if package_crate a then cargo (package_cmd a) s1 else (s1, Inr ())")
  note cmp = compare_locks_check [OF assms, of crate s2]
  have "fst (lock_steps a cargo crate) = crate \<and>
    (snd (snd (lock_steps a cargo crate)) = Inr 0 \<longleftrightarrow> (\<exists>lock. leaf ''Cargo.lock'' crate = Some lock \<and> resolved a cargo crate lock))"
  proof (cases r1)
    case (Inl e)
    then show ?thesis by (simp add: lock_steps_def c1 resolved_def)
  next
    case (Inr u)
    show ?thesis
    proof (cases "leaf ''Cargo.lock'' s1")
      case None
      then show ?thesis using Inr by (simp add: lock_steps_def c1 resolved_def)
    next
      case (Some l)
      have res: "resolved a cargo crate lock \<longleftrightarrow> r2 = Inr () \<and> leaf ''Cargo.lock'' s2 = Some lock" for lock
        using c2 Inr Some by (auto simp: resolved_def c1 split: if_splits)
      show ?thesis
      proof (cases r2)
        case (Inl e)
        then show ?thesis using \<open>r1 = Inr u\<close> Some by (simp add: lock_steps_def c1 c2 res)
      next
        case (Inr v)
        then show ?thesis using \<open>r1 = Inr u\<close> Some cmp
          by (auto simp: lock_steps_def c1 c2 res split: prod.splits)
      qed
    qed
  qed
  then show ?thesis
    using copy_crate_free by (auto simp: lock_main_def split: prod.splits)
qed

text \<open>With \<open>--update\<close>, exit status 0 leaves the crate with the resolved lock file and is otherwise unchanged.\<close>

lemma lock_update_outcome:
  assumes "update_lock a" and "lock_result (lock_main a cargo crate) = Inr 0"
    and "\<forall>es. dget ''Cargo.lock'' crate \<noteq> Some (Node es)"
  shows "\<exists>lock. resolved a cargo crate lock \<and> crate_after (lock_main a cargo crate) = dset ''Cargo.lock'' (Leaf lock) crate"
proof -
  obtain s1 r1 where c1: "cargo [cargo_exe a, ''generate-lockfile''] (copy_crate crate) = (s1, r1)" by (cases "cargo [cargo_exe a, ''generate-lockfile''] (copy_crate crate)")
  obtain s2 r2 where c2: "(if package_crate a then cargo (package_cmd a) s1 else (s1, Inr ())) = (s2, r2)" by (cases "if package_crate a then cargo (package_cmd a) s1 else (s1, Inr ())")
  have toml: "leaf ''Cargo.toml'' crate \<noteq> None" using assms(2) by (cases "leaf ''Cargo.toml'' crate") (simp_all add: lock_main_def)
  with assms(2) have steps: "snd (snd (lock_steps a cargo crate)) = Inr 0" by (simp add: lock_main_def split: prod.splits)
  then have r1: "r1 = Inr ()" by (cases r1) (simp_all add: lock_steps_def c1)
  with steps have l: "leaf ''Cargo.lock'' s1 \<noteq> None" by (auto simp: lock_steps_def c1 split: if_splits)
  with steps r1 have r2: "r2 = Inr ()" by (cases r2) (simp_all add: lock_steps_def c1 c2)
  have eq: "lock_steps a cargo crate = (fst (compare_locks a crate s2), s2, snd (compare_locks a crate s2))"
    using l by (auto simp: lock_steps_def c1 c2 r1 r2 split: prod.split)
  with steps have "snd (compare_locks a crate s2) = Inr 0" by simp
  from compare_locks_update [OF assms(1) this assms(3)] obtain lock where
    lock: "leaf ''Cargo.lock'' s2 = Some lock" "fst (compare_locks a crate s2) = dset ''Cargo.lock'' (Leaf lock) crate" by blast
  have "resolved a cargo crate lock"
    unfolding resolved_def using c1 c2 r1 r2 l lock(1) by (intro exI [of _ s1] exI [of _ s2]) (auto split: if_splits)
  moreover have "crate_after (lock_main a cargo crate) = fst (lock_steps a cargo crate)"
    using toml by (cases "lock_steps a cargo crate") (auto simp: lock_main_def)
  ultimately show ?thesis using lock(2) eq by auto
qed

definition demo_crate :: entries where
  "demo_crate = [(''Cargo.toml'', Leaf ''[package]''), (''Cargo.lock'', Leaf ''v4''), (''target'', Node [])]"

lemma lock_check_outcome_witness:
  "lock_result (lock_main \<lparr>cargo_exe = ''cargo'', update_lock = False, package_crate = False, package_features = None, keep_temp = False\<rparr>
       (\<lambda>cmd es. (es, Inr ())) demo_crate) = Inr 0"
proof -
  let ?a = "\<lparr>cargo_exe = ''cargo'', update_lock = False, package_crate = False, package_features = None, keep_temp = False\<rparr>"
  have "leaf ''Cargo.lock'' demo_crate = Some ''v4''" "leaf ''Cargo.toml'' demo_crate \<noteq> None" by (simp_all add: demo_crate_def leaf_def)
  moreover from this have "resolved ?a (\<lambda>cmd es. (es, Inr ())) demo_crate ''v4''"
    by (simp add: resolved_def leaf_copy ignored_def)
  ultimately show ?thesis
    using lock_check_outcome [of ?a "\<lambda>cmd es. (es, Inr ())" demo_crate] by simp
qed

end
