(* ===== verification/Deploy_Pages.thy ===== *)
theory Deploy_Pages
  imports Py_Json
begin

text \<open>
  \<open>scripts/deploy-pages.py\<close>: deploy a site to the Pages service and wait for its verdict.  The
  answers of the service, the environment variables and the clock are inputs; the requests that
  were sent are recorded.
\<close>

section \<open>Requests\<close>

record http_request =
  http_method :: string
  http_url :: string
  http_token :: string
  http_payload :: "json option"

text \<open>What \<open>urlopen\<close> and \<open>json.loads\<close> give, an HTTP error with its code and text, or another error\<close>

datatype http_answer = Answer json | Http_error int string | Http_raised exn

definition request_json :: "http_request \<Rightarrow> http_answer \<Rightarrow> json res" where
  "request_json req answer =
     (case answer of
        Answer v \<Rightarrow> Inr v
      | Http_error code body \<Rightarrow>
          Inl (RuntimeError (http_method req @ '' '' @ http_url req @ '': HTTP '' @ str_int code @ '': '' @ body))
      | Http_raised e \<Rightarrow> Inl e)"

type_synonym environ = "(string, string) dict"

definition env_item :: "environ \<Rightarrow> string \<Rightarrow> string res" where
  "env_item env name = (case dget name env of None \<Rightarrow> Inl (KeyError name) | Some v \<Rightarrow> Inr v)"

definition strip_right_slashes :: "string \<Rightarrow> string" where
  "strip_right_slashes s = rev (dropWhile (\<lambda>c. c = CHR ''/'') (rev s))"

section \<open>The deployment\<close>

definition FINAL_FAILURES :: "string list" where
  "FINAL_FAILURES = [''deployment_failed'', ''deployment_content_failed'', ''deployment_cancelled'', ''deployment_lost'']"

definition oidc_request :: "environ \<Rightarrow> http_request res" where
  "oidc_request env =
     rbind (env_item env ''ACTIONS_ID_TOKEN_REQUEST_URL'') (\<lambda>url.
     rbind (env_item env ''ACTIONS_ID_TOKEN_REQUEST_TOKEN'') (\<lambda>token.
       Inr \<lparr>http_method = ''GET'', http_url = url, http_token = token, http_payload = None\<rparr>))"

definition oidc_value :: "json \<Rightarrow> string res" where
  "oidc_value response =
     rbind (attr_get response ''value'' JNull) (\<lambda>v.
       case json_str v of
         Some s \<Rightarrow> if s = [] then Inl (RuntimeError ''Actions OIDC response has no token value'') else Inr s
       | None \<Rightarrow> Inl (RuntimeError ''Actions OIDC response has no token value''))"

definition lower_hex :: "char \<Rightarrow> bool" where
  "lower_hex c \<longleftrightarrow> 48 \<le> ord c \<and> ord c \<le> 57 \<or> 97 \<le> ord c \<and> ord c \<le> 102"

definition commit_sha :: "string \<Rightarrow> bool" where
  "commit_sha version \<longleftrightarrow> length version = 40 \<and> list_all lower_hex version"

definition deployment_payload :: "int \<Rightarrow> string \<Rightarrow> string \<Rightarrow> json res" where
  "deployment_payload artifact_id build_version oidc =
     (if \<not> commit_sha build_version
      then Inl (ValueError ''build version must be a lowercase 40-character Git commit SHA'')
      else Inr (JObj [(''artifact_id'', JInt artifact_id), (''pages_build_version'', JStr build_version),
                      (''oidc_token'', JStr oidc)]))"

text \<open>\<open>str\<close> of a value that is not a string is an input.\<close>

definition text_value :: "(json \<Rightarrow> string) \<Rightarrow> json \<Rightarrow> string" where
  "text_value show_json v = (case json_str v of Some s \<Rightarrow> s | None \<Rightarrow> show_json v)"

text \<open>\<open>text.rsplit('/', 1)[-1]\<close>\<close>

definition last_segment :: "string \<Rightarrow> string" where
  "last_segment s = rev (takeWhile (\<lambda>c. c \<noteq> CHR ''/'') (rev s))"

definition deployment_id :: "(json \<Rightarrow> string) \<Rightarrow> json_object \<Rightarrow> string res" where
  "deployment_id show_json deployment =
     (let v = json_get ''id'' deployment;
          from_url = last_segment (strip_right_slashes (text_value show_json (dget_or ''status_url'' (JStr []) deployment)))
      in if (if v = JNull then from_url = [] else \<not> truthy v)
         then Inl (RuntimeError (''Pages deployment response has no id: '' @ show_json (JObj deployment)))
         else Inr (if v = JNull then from_url else text_value show_json v))"

section \<open>Waiting for the verdict\<close>

text \<open>One round: the clock in the test of the loop, and the answer to the request that follows\<close>

type_synonym poll_round = "secs \<times> http_answer"

fun poll ::
    "(json \<Rightarrow> string) \<Rightarrow> secs \<Rightarrow> http_request \<Rightarrow> poll_round list \<Rightarrow> (http_request list \<times> nat res) option" where
  "poll show_json deadline req [] = None"
| "poll show_json deadline req ((t, answer) # rounds) =
     (if \<not> t < deadline then Some ([], Inl (RuntimeError ''Pages deployment timed out''))
      else (case rbind (request_json req answer) (\<lambda>v. attr_get v ''status'' (JStr [])) of
              Inl e \<Rightarrow> Some ([req], Inl e)
            | Inr v \<Rightarrow>
                (let status = text_value show_json v
                 in if status = ''succeed'' then Some ([req], Inr 0)
                    else if status \<in> set FINAL_FAILURES
                    then Some ([req], Inl (RuntimeError (''Pages deployment failed: '' @ status)))
                    else (case poll show_json deadline req rounds of
                            None \<Rightarrow> None
                          | Some (reqs, r) \<Rightarrow> Some (req # reqs, r)))))"

record deploy_args =
  artifact_id :: int
  build_version :: string
  deploy_timeout :: int
  dry_run :: bool

record deploy_world =
  deploy_env :: environ
  show_value :: "json \<Rightarrow> string"
  oidc_answer :: http_answer
  create_answer :: http_answer
  deploy_from :: secs              \<comment> \<open>the clock when the deadline is computed\<close>
  poll_rounds :: "poll_round list"

record deploy_outcome =
  sent :: "http_request list"
  page_output :: "string option"   \<comment> \<open>the \<open>page_url\<close> line that is appended to \<open>GITHUB_OUTPUT\<close>\<close>
  deploy_result :: "nat res"

definition stopped :: "http_request list \<Rightarrow> exn \<Rightarrow> deploy_outcome" where
  "stopped reqs e = \<lparr>sent = reqs, page_output = None, deploy_result = Inl e\<rparr>"

definition api_root :: "environ \<Rightarrow> string" where
  "api_root env = strip_right_slashes (dget_or ''GITHUB_API_URL'' ''https://api.github.com'' env)"

definition pages_url :: "environ \<Rightarrow> string \<Rightarrow> string" where
  "pages_url env repository = api_root env @ ''/repos/'' @ repository @ ''/pages/deployments''"

definition create_request :: "environ \<Rightarrow> string \<Rightarrow> string \<Rightarrow> json \<Rightarrow> http_request" where
  "create_request env repository token payload =
     \<lparr>http_method = ''POST'', http_url = pages_url env repository, http_token = token, http_payload = Some payload\<rparr>"

definition status_request :: "environ \<Rightarrow> string \<Rightarrow> string \<Rightarrow> string \<Rightarrow> http_request" where
  "status_request env repository token ident =
     \<lparr>http_method = ''GET'', http_url = pages_url env repository @ ''/'' @ ident, http_token = token, http_payload = None\<rparr>"

text \<open>After the deployment has been created\<close>

definition await_deployment ::
    "deploy_args \<Rightarrow> deploy_world \<Rightarrow> string \<Rightarrow> string \<Rightarrow> http_request list \<Rightarrow> json_object \<Rightarrow> deploy_outcome option" where
  "await_deployment a w repository token reqs deployment =
     (case deployment_id (show_value w) deployment of
        Inl e \<Rightarrow> Some (stopped reqs e)
      | Inr ident \<Rightarrow>
          (let page_url = text_value (show_value w) (dget_or ''page_url'' (JStr []) deployment)
           in case poll (show_value w) (deploy_from w + of_int (deploy_timeout a))
                   (status_request (deploy_env w) repository token ident) (poll_rounds w) of
                None \<Rightarrow> None
              | Some (polled, r) \<Rightarrow>
                  Some \<lparr>sent = reqs @ polled,
                        page_output = (if dget_or ''GITHUB_OUTPUT'' [] (deploy_env w) \<noteq> [] then Some page_url else None),
                        deploy_result = r\<rparr>))"

definition deploy_main :: "deploy_args \<Rightarrow> deploy_world \<Rightarrow> deploy_outcome option" where
  "deploy_main a w =
     (if dry_run a
      then Some (case deployment_payload (artifact_id a) (build_version a) ''OIDC'' of
                   Inl e \<Rightarrow> stopped [] e
                 | Inr _ \<Rightarrow> \<lparr>sent = [], page_output = None, deploy_result = Inr 0\<rparr>)
      else
        (case rbind (env_item (deploy_env w) ''GITHUB_REPOSITORY'') (\<lambda>repository.
              rbind (env_item (deploy_env w) ''GITHUB_TOKEN'') (\<lambda>token.
              rbind (oidc_request (deploy_env w)) (\<lambda>req. Inr (repository, token, req)))) of
           Inl e \<Rightarrow> Some (stopped [] e)
         | Inr (repository, token, oidc_req) \<Rightarrow>
             (case rbind (request_json oidc_req (oidc_answer w)) (\<lambda>v.
                   rbind (oidc_value v) (deployment_payload (artifact_id a) (build_version a))) of
                Inl e \<Rightarrow> Some (stopped [oidc_req] e)
              | Inr payload \<Rightarrow>
                  (let create_req = create_request (deploy_env w) repository token payload
                   in case rbind (request_json create_req (create_answer w)) (\<lambda>v.
                             case json_dict v of None \<Rightarrow> Inl (AttributeError ''get'') | Some d \<Rightarrow> Inr d) of
                        Inl e \<Rightarrow> Some (stopped [oidc_req, create_req] e)
                      | Inr deployment \<Rightarrow> await_deployment a w repository token [oidc_req, create_req] deployment))))"

section \<open>What a deployment that succeeds has done\<close>

text \<open>A round that answers with a status, and rounds that neither succeed nor fail\<close>

definition round_status :: "(json \<Rightarrow> string) \<Rightarrow> poll_round \<Rightarrow> string option" where
  "round_status show_json r =
     (case snd r of Answer (JObj d) \<Rightarrow> Some (text_value show_json (dget_or ''status'' (JStr []) d)) | _ \<Rightarrow> None)"

lemma status_of_round:
  "rbind (request_json req answer) (\<lambda>v. attr_get v ''status'' (JStr [])) = Inr v \<Longrightarrow>
     round_status show_json (t, answer) = Some (text_value show_json v)"
  by (auto simp: request_json_def round_status_def res_simps split: http_answer.splits)

text \<open>The rounds of a poll that succeeds: all before the deadline, the last one with the status \<open>succeed\<close>\<close>

definition succeeding :: "(json \<Rightarrow> string) \<Rightarrow> secs \<Rightarrow> poll_round list \<Rightarrow> nat \<Rightarrow> bool" where
  "succeeding show_json deadline rounds k \<longleftrightarrow>
     k < length rounds \<and> (\<forall>i\<le>k. fst (rounds ! i) < deadline) \<and> round_status show_json (rounds ! k) = Some ''succeed''
     \<and> (\<forall>i<k. \<exists>s. round_status show_json (rounds ! i) = Some s \<and> s \<noteq> ''succeed'' \<and> s \<notin> set FINAL_FAILURES)"

lemma succeeding_0: "succeeding show_json deadline (r # rs) 0 \<longleftrightarrow> fst r < deadline \<and> round_status show_json r = Some ''succeed''"
  by (simp add: succeeding_def)

lemma succeeding_Suc:
  "succeeding show_json deadline (r # rs) (Suc k) \<longleftrightarrow>
     fst r < deadline \<and> (\<exists>s. round_status show_json r = Some s \<and> s \<noteq> ''succeed'' \<and> s \<notin> set FINAL_FAILURES)
     \<and> succeeding show_json deadline rs k"
  by (auto simp: succeeding_def All_less_Suc2 less_Suc_eq_le [symmetric])

lemma poll_success:
  "poll show_json deadline req rounds = Some (reqs, Inr n) \<Longrightarrow>
     n = 0 \<and> (\<exists>k. reqs = replicate (Suc k) req \<and> succeeding show_json deadline rounds k)"
proof (induction rounds arbitrary: reqs)
  case (Cons r rounds)
  obtain t answer where r: "r = (t, answer)" by (cases r)
  from Cons.prems have t: "t < deadline" by (auto simp: r split: if_splits)
  with Cons.prems obtain v where v: "rbind (request_json req answer) (\<lambda>v. attr_get v ''status'' (JStr [])) = Inr v"
    by (auto simp: r split: sum.splits)
  note status = status_of_round [OF v, of show_json t]
  let ?s = "text_value show_json v"
  show ?case
  proof (cases "?s = ''succeed''")
    case True
    with Cons.prems t v have "n = 0 \<and> reqs = replicate (Suc 0) req" by (simp add: r Let_def)
    moreover have "succeeding show_json deadline (r # rounds) 0" using status True t by (simp add: succeeding_0 r)
    ultimately show ?thesis by blast
  next
    case False
    with Cons.prems t v obtain reqs' where "?s \<notin> set FINAL_FAILURES"
      "poll show_json deadline req rounds = Some (reqs', Inr n)" "reqs = req # reqs'"
      by (auto simp: r Let_def split: if_splits option.splits)
    with Cons.IH obtain k where "n = 0" "reqs' = replicate (Suc k) req" "succeeding show_json deadline rounds k" by blast
    moreover from this have "succeeding show_json deadline (r # rounds) (Suc k)"
      using status t False \<open>?s \<notin> set FINAL_FAILURES\<close> by (simp add: succeeding_Suc r)
    moreover have "reqs = replicate (Suc (Suc k)) req" using \<open>reqs = req # reqs'\<close> \<open>reqs' = replicate (Suc k) req\<close> by simp
    ultimately show ?thesis by blast
  qed
qed simp

text \<open>The poll ends when the clock passes the deadline.\<close>

lemma poll_ends: "\<exists>r\<in>set rounds. \<not> fst r < deadline \<Longrightarrow> poll show_json deadline req rounds \<noteq> None"
  by (induction rounds) (fastforce simp: Let_def split: sum.split option.split if_splits)+


definition demo_deploy_args :: deploy_args where
  "demo_deploy_args = \<lparr>artifact_id = 7, build_version = replicate 40 (CHR ''a''), deploy_timeout = 600, dry_run = False\<rparr>"

definition demo_deploy_world :: deploy_world where
  "demo_deploy_world =
     \<lparr>deploy_env = [(''GITHUB_REPOSITORY'', ''o/r''), (''GITHUB_TOKEN'', ''t''), (''ACTIONS_ID_TOKEN_REQUEST_URL'', ''u''),
                    (''ACTIONS_ID_TOKEN_REQUEST_TOKEN'', ''v'')],
      show_value = (\<lambda>_. []), oidc_answer = Answer (JObj [(''value'', JStr ''jwt'')]),
      create_answer = Answer (JObj [(''id'', JStr ''d1'')]), deploy_from = 0,
      poll_rounds = [(5, Answer (JObj [(''status'', JStr ''queued'')])), (10, Answer (JObj [(''status'', JStr ''succeed'')]))]\<rparr>"


end
