(* ===== verification/Wpa_Archive.thy ===== *)
theory Wpa_Archive
  imports Docs_Book "HOL-Library.List_Lexorder"
begin

text \<open>
  \<open>check-wpa-profile.py\<close> and \<open>build-wpa2-personal.py\<close> of \<open>chips/ws63/rf/tools\<close>: a profile selects the
  sources of the vendor's component, and the archive is rebuilt from the compiler commands of the
  vendor's build with other defines and outputs.  The file system, the parsed profile (all of whose
  keys are there), the build commands that ninja prints, \<open>shlex\<close>, the compiler and the archiver
  are inputs.
\<close>

section \<open>The component file\<close>

text \<open>\<open>re.search(rf'set\({name}\s+(.*?)\n\)', text, re.DOTALL)\<close>: the first start that has an end\<close>

fun block_at :: "string \<Rightarrow> string list \<Rightarrow> string option" where
  "block_at name [] = None"
| "block_at name (x # xs) =
     (case Option.bind (strip_lit (''set('' @ name) (x # xs)) (\<lambda>r.
             if r \<noteq> [] \<and> is_space (hd r)
             then (case find_lit [CHR 10, CHR '')''] (dropWhile is_space r) of
                     Some (inside, _) \<Rightarrow> Some (concat inside)
                   | None \<Rightarrow>
                       map_option (\<lambda>_. []) (find_lit [CHR 10, CHR '')''] (tl r)))
             else None) of
        Some block \<Rightarrow> Some block
      | None \<Rightarrow> block_at name xs)"

definition cmake_block :: "string \<Rightarrow> string \<Rightarrow> string res" where
  "cmake_block content name =
     (case block_at name (decode_chars content) of
        None \<Rightarrow> Inl (ValueError (''missing set('' @ name @ '' ...) block''))
      | Some block \<Rightarrow> Inr block)"

text \<open>\<open>SOURCE_RE\<close>: the longest path after \<open>${ROOT_DIR}\<close> that ends with \<open>.c\<close>\<close>

definition path_run :: "string list \<Rightarrow> string list" where
  "path_run chs = takeWhile (\<lambda>ch. \<not> is_space ch \<and> ch \<noteq> '')'') chs"

fun source_end :: "string list \<Rightarrow> string list option" where
  "source_end [] = None"
| "source_end (x # xs) =
     (if x = ''c'' \<and> 2 \<le> length xs \<and> hd xs = ''.'' then Some (rev (x # xs)) else source_end xs)"

definition match_source :: "string list \<Rightarrow> (string \<times> string list) option" where
  "match_source chs =
     Option.bind (strip_lit ''${ROOT_DIR}'' chs) (\<lambda>r.
       map_option (\<lambda>path. (concat path, drop (length path) r)) (source_end (rev (path_run r))))"

definition before_hash :: "string \<Rightarrow> string" where
  "before_hash line = takeWhile (\<lambda>c. c \<noteq> CHR ''#'') line"

definition cmake_sources :: "string \<Rightarrow> string list" where
  "cmake_sources block =
     sort (remdups (concat (map (\<lambda>line. find_all match_source (decode_chars (before_hash line))) (text_lines block))))"

section \<open>The profile\<close>

record wpa_profile =
  profile_name :: string
  forbidden_fragments :: "string list"
  required_defines :: "string list"
  forbidden_defines :: "string list"
  archive_field :: "json option"
  stub_sources :: "string list"

text \<open>\<open>any(fragment in source for fragment in fragments)\<close>\<close>

definition excluded :: "wpa_profile \<Rightarrow> string \<Rightarrow> bool" where
  "excluded profile source \<longleftrightarrow> list_ex (\<lambda>f. occurs f source) (forbidden_fragments profile)"

fun upper :: "char \<Rightarrow> bool" where
  "upper c \<longleftrightarrow> 65 \<le> ord c \<and> ord c \<le> 90"

definition define_char :: "string \<Rightarrow> bool" where
  "define_char ch \<longleftrightarrow> (case ch of [c] \<Rightarrow> upper c \<or> 48 \<le> ord c \<and> ord c \<le> 57 \<or> c = CHR ''_'' | _ \<Rightarrow> False)"

text \<open>A line that holds one define, with an optional value, and white space\<close>

definition define_token :: "string \<Rightarrow> string option" where
  "define_token line =
     (let chs = decode_chars (text_strip line)
      in case chs of
           [c] # cs \<Rightarrow>
             (let rest = dropWhile define_char cs
              in if upper c \<and> (rest = [] \<or> (hd rest = ''='' \<and> tl rest \<noteq> [] \<and> path_run (tl rest) = tl rest))
                 then Some (concat chs) else None)
         | _ \<Rightarrow> None)"

definition defines_of :: "string \<Rightarrow> string list" where
  "defines_of block = List.map_filter define_token (split_all (CHR 10) [] block)"

record profile_report =
  missing_required :: "string list"
  source_leaks :: "string list"
  selected_sources :: "string list"
  selected_defines :: "string list"

definition check_profile :: "wpa_profile \<Rightarrow> string \<Rightarrow> profile_report res" where
  "check_profile profile component =
     rbind (cmake_block component ''SOURCES'') (\<lambda>block.
     rbind (cmake_block component ''PRIVATE_DEFINES'') (\<lambda>dblock.
       let selected = filter (\<lambda>s. \<not> excluded profile s) (cmake_sources block);
           defines = defines_of dblock
       in Inr \<lparr>missing_required = sort (remdups (filter (\<lambda>d. d \<notin> set defines) (required_defines profile))),
               source_leaks = filter (excluded profile) selected,
               selected_sources = selected,
               selected_defines = sort (remdups (filter (\<lambda>d. d \<notin> set (forbidden_defines profile)) defines))\<rparr>))"

definition profile_status :: "profile_report \<Rightarrow> nat" where
  "profile_status r = (if missing_required r \<noteq> [] \<or> source_leaks r \<noteq> [] then 1 else 0)"

text \<open>The leaks are searched among the sources that are left: there are none.\<close>

lemma profile_never_leaks: "check_profile profile component = Inr r \<Longrightarrow> source_leaks r = []"
  by (auto simp: check_profile_def res_simps Let_def filter_empty_conv)

section \<open>Compiler commands\<close>

definition define_name :: "string \<Rightarrow> string option" where
  "define_name argument =
     (if prefix ''-D'' argument then Some (takeWhile (\<lambda>c. c \<noteq> CHR ''='') (drop 2 argument)) else None)"

fun index_of :: "string \<Rightarrow> string list \<Rightarrow> nat option" where
  "index_of x [] = None"
| "index_of x (y # ys) = (if y = x then Some 0 else map_option Suc (index_of x ys))"

text \<open>The path under the SDK that a resolved file name has, if it has one, is an input.\<close>

definition source_from_command :: "(string \<Rightarrow> string option) \<Rightarrow> string list \<Rightarrow> string option" where
  "source_from_command under_sdk command =
     (case index_of ''-c'' command of
        None \<Rightarrow> None
      | Some i \<Rightarrow> if Suc i < length command then map_option (\<lambda>p. CHR ''/'' # p) (under_sdk (command ! Suc i)) else None)"

definition replace_after :: "string \<Rightarrow> string \<Rightarrow> string list \<Rightarrow> string list res" where
  "replace_after flag new command =
     (case index_of flag command of
        None \<Rightarrow> Inl (ValueError flag)
      | Some i \<Rightarrow> if Suc i < length command then Inr (command[Suc i := new]) else Inl (IndexError flag))"

definition replace_output :: "string list \<Rightarrow> string \<Rightarrow> string list res" where
  "replace_output command output = replace_after ''-o'' output command"

definition replace_source :: "string list \<Rightarrow> string \<Rightarrow> string list res" where
  "replace_source command source = replace_after ''-c'' source command"

definition argument_flags :: "string list" where
  "argument_flags = [''-MF'', ''-MT'', ''-MQ'']"

definition plain_flags :: "string list" where
  "plain_flags = [''-MD'', ''-MMD'', ''-MP'']"

fun strip_dependency_output :: "string list \<Rightarrow> string list" where
  "strip_dependency_output [] = []"
| "strip_dependency_output (x # xs) =
     (if x \<in> set argument_flags
      then (case xs of [] \<Rightarrow> [] | y # ys \<Rightarrow> strip_dependency_output ys)
      else if x \<in> set plain_flags then strip_dependency_output xs
      else x # strip_dependency_output xs)"

definition profile_basename :: "wpa_profile \<Rightarrow> string \<Rightarrow> string \<Rightarrow> string res" where
  "profile_basename profile dflt ending =
     (case archive_field profile of
        None \<Rightarrow> Inr dflt
      | Some v \<Rightarrow>
          (case json_str v of
             Some name \<Rightarrow> if path_name name \<noteq> name \<or> \<not> suffix ending name
                          then Inl (ValueError ''invalid profile archive_name'') else Inr name
           | None \<Rightarrow> Inl (ValueError ''invalid profile archive_name'')))"

section \<open>The build\<close>

record build_env =
  shlex_split :: "string \<Rightarrow> string list res"
  under_sdk :: "string \<Rightarrow> string option"
  stub_path :: "string \<Rightarrow> string"
  stub_exists :: "string \<Rightarrow> bool"
  build_dir :: string
  compiler :: "string list \<Rightarrow> bool"       \<comment> \<open>the compiler returns 0\<close>
  archiver :: "string list \<Rightarrow> unit res"

record ninja_state =
  compile_commands :: "(string, string list) dict"
  archive_command :: "string list option"

definition ninja_line :: "build_env \<Rightarrow> string list \<Rightarrow> ninja_state \<Rightarrow> string \<Rightarrow> ninja_state res" where
  "ninja_line env selected st line =
     rbind (if occurs ''libwpa_supplicant.a'' line \<and> occurs '' rcD '' line
            then rbind (shlex_split env line) (\<lambda>cmd. Inr (st\<lparr>archive_command := Some cmd\<rparr>)) else Inr st) (\<lambda>st.
       if \<not> occurs ''CMakeFiles/wpa_supplicant.dir/'' line \<or> \<not> occurs '' -c '' line then Inr st
       else rbind (shlex_split env line) (\<lambda>cmd.
              case source_from_command (under_sdk env) cmd of
                Some source \<Rightarrow> if source \<in> set selected
                               then Inr (st\<lparr>compile_commands := dset source cmd (compile_commands st)\<rparr>) else Inr st
              | None \<Rightarrow> Inr st))"

fun ninja_lines :: "build_env \<Rightarrow> string list \<Rightarrow> ninja_state \<Rightarrow> string list \<Rightarrow> ninja_state res" where
  "ninja_lines env selected st [] = Inr st"
| "ninja_lines env selected st (line # ls) =
     rbind (ninja_line env selected st line) (\<lambda>st'. ninja_lines env selected st' ls)"

text \<open>\<open>f'{n:03d}'\<close> and \<open>Path(p).stem\<close>\<close>

definition three_digits :: "nat \<Rightarrow> string" where
  "three_digits n = replicate (3 - length (digits_of n)) (CHR ''0'') @ digits_of n"

definition path_stem :: "string \<Rightarrow> string" where
  "path_stem p =
     (let name = path_name p; after = rev (takeWhile (\<lambda>c. c \<noteq> CHR ''.'') (rev name));
          front = take (length name - length after - 1) name
      in if CHR ''.'' \<in> set name \<and> after \<noteq> [] \<and> front \<noteq> [] then front else name)"

definition object_path :: "build_env \<Rightarrow> nat \<Rightarrow> string \<Rightarrow> string" where
  "object_path env n file = build_dir env @ ''/obj/'' @ three_digits n @ ''-'' @ path_stem file @ ''.o''"

text \<open>\<open>[arg for arg in command if define_name(arg) not in forbidden]\<close>\<close>

definition keep_arguments :: "string list \<Rightarrow> string list \<Rightarrow> string list" where
  "keep_arguments forbidden command =
     filter (\<lambda>arg. case define_name arg of None \<Rightarrow> True | Some n \<Rightarrow> n \<notin> set forbidden) command"

definition finish_command :: "string \<Rightarrow> string \<Rightarrow> string list \<Rightarrow> string list res" where
  "finish_command header output command =
     rbind (replace_output command output) (\<lambda>cmd.
       Inr (strip_dependency_output cmd @ [''-include'', header]))"

record build_job =
  job_command :: "string list"
  job_source :: string
  job_object :: string

definition source_job ::
    "build_env \<Rightarrow> string list \<Rightarrow> string \<Rightarrow> (string, string list) dict \<Rightarrow> nat \<times> string \<Rightarrow> build_job res" where
  "source_job env forbidden header commands = (\<lambda>(n, source).
     rbind (case dget source commands of None \<Rightarrow> Inl (KeyError source) | Some c \<Rightarrow> Inr c) (\<lambda>command.
     rbind (finish_command header (object_path env n source) (keep_arguments forbidden command)) (\<lambda>cmd.
       Inr \<lparr>job_command = cmd, job_source = source, job_object = object_path env n source\<rparr>)))"

definition stub_job ::
    "build_env \<Rightarrow> string list \<Rightarrow> string \<Rightarrow> string list \<Rightarrow> nat \<times> string \<Rightarrow> build_job res" where
  "stub_job env forbidden header template = (\<lambda>(n, stub).
     rbind (replace_source (keep_arguments forbidden template) (stub_path env stub)) (\<lambda>command.
     rbind (finish_command header (object_path env n stub) command) (\<lambda>cmd.
       Inr \<lparr>job_command = cmd, job_source = ''profile:'' @ stub, job_object = object_path env n stub\<rparr>)))"

text \<open>The stubs in order; \<open>None\<close> when one of them does not exist\<close>

fun stub_jobs ::
    "build_env \<Rightarrow> string list \<Rightarrow> string \<Rightarrow> string list \<Rightarrow> (nat \<times> string) list \<Rightarrow> build_job list option res" where
  "stub_jobs env forbidden header template [] = Inr (Some [])"
| "stub_jobs env forbidden header template ((n, stub) # rest) =
     (if \<not> stub_exists env stub then Inr None
      else rbind (stub_job env forbidden header template (n, stub)) (\<lambda>job.
           rbind (stub_jobs env forbidden header template rest) (\<lambda>jobs.
             Inr (map_option (\<lambda>js. job # js) jobs))))"

definition build_jobs ::
    "build_env \<Rightarrow> wpa_profile \<Rightarrow> string list \<Rightarrow> string \<Rightarrow> string list \<Rightarrow> (string, string list) dict \<Rightarrow>
     build_job list option res" where
  "build_jobs env profile forbidden header selected commands =
     rbind (rmap (source_job env forbidden header commands) (enumerate 0 selected)) (\<lambda>jobs.
     rbind (case commands of [] \<Rightarrow> Inl StopIteration | (_, c) # _ \<Rightarrow> Inr c) (\<lambda>template.
     rbind (stub_jobs env forbidden header template (enumerate (length jobs) (stub_sources profile))) (\<lambda>stubs.
       Inr (map_option (\<lambda>js. jobs @ js) stubs))))"

definition archiver_name :: "string list \<Rightarrow> string res" where
  "archiver_name command =
     (if take 2 command = ['':'', ''&&'']
      then if 2 < length command then Inr (command ! 2) else Inl (IndexError [])
      else case command of [] \<Rightarrow> Inl (IndexError []) | c # _ \<Rightarrow> Inr c)"

datatype build_event =
    HeaderWritten string string
  | Compiled "string list" string
  | ArchiveRemoved string
  | ArchiveMade "string list"
  | ManifestWritten json

definition undef_header :: "string list \<Rightarrow> string" where
  "undef_header forbidden =
     ''/* Generated by build-wpa2-personal.py. */'' @ [CHR 10]
       @ concat (map (\<lambda>n. ''#undef '' @ n @ [CHR 10]) forbidden)"

definition build_manifest ::
    "wpa_profile \<Rightarrow> string \<Rightarrow> string list \<Rightarrow> string list \<Rightarrow> string list \<Rightarrow> json" where
  "build_manifest profile archive selected forbidden preserved =
     JObj [(''archive'', JStr archive),
           (''forbidden_defines'', JArr (map JStr forbidden)),
           (''preserved_defines'', JArr (map JStr (sort preserved))),
           (''profile'', JStr (profile_name profile)),
           (''source_count'', JInt (int (length selected))),
           (''sources'', JArr (map JStr selected)),
           (''stub_sources'', JArr (map JStr (stub_sources profile)))]"

text \<open>From the jobs on: all of them run, the archive is replaced only if none failed.\<close>

definition run_jobs ::
    "build_env \<Rightarrow> build_job list \<Rightarrow> string list \<Rightarrow> string \<Rightarrow> json \<Rightarrow> build_event list \<times> nat res" where
  "run_jobs env jobs archive_cmd archive manifest =
     (let runs = map (\<lambda>j. Compiled (job_command j) (job_source j)) jobs
      in if list_ex (\<lambda>j. \<not> compiler env (job_command j)) jobs then (runs, Inr 1)
         else case archiver_name archive_cmd of
                Inl e \<Rightarrow> (runs, Inl e)
              | Inr ar \<Rightarrow>
                  (let cmd = [ar, ''rcD'', archive] @ map job_object jobs
                   in case archiver env cmd of
                        Inl e \<Rightarrow> (runs @ [ArchiveRemoved archive], Inl e)
                      | Inr _ \<Rightarrow> (runs @ [ArchiveRemoved archive, ArchiveMade cmd, ManifestWritten manifest], Inr 0)))"

definition forbidden_names :: "wpa_profile \<Rightarrow> string list \<Rightarrow> string list" where
  "forbidden_names profile preserved =
     sort (remdups (filter (\<lambda>n. n \<notin> set preserved) (forbidden_defines profile)))"

definition header_path :: "build_env \<Rightarrow> wpa_profile \<Rightarrow> string" where
  "header_path env profile = build_dir env @ ''/'' @ profile_name profile @ ''-undef.h''"

definition archive_build ::
    "build_env \<Rightarrow> wpa_profile \<Rightarrow> string \<Rightarrow> string \<Rightarrow> string list \<Rightarrow> build_event list \<times> nat res" where
  "archive_build env profile cmake ninja preserved =
     (case profile_basename profile ''libwpa_supplicant_wpa2_personal.a'' ''.a'' of
        Inl _ \<Rightarrow> ([], Inr 1)
      | Inr archive_name \<Rightarrow>
     (case cmake_block cmake ''SOURCES'' of
        Inl e \<Rightarrow> ([], Inl e)
      | Inr block \<Rightarrow>
     (let selected = filter (\<lambda>s. \<not> excluded profile s) (cmake_sources block)
      in case ninja_lines env selected \<lparr>compile_commands = [], archive_command = None\<rparr> (text_lines ninja) of
           Inl e \<Rightarrow> ([], Inl e)
         | Inr st \<Rightarrow>
             if list_ex (\<lambda>s. \<not> has_key s (compile_commands st)) selected then ([], Inr 1)
             else (case archive_command st of
                     None \<Rightarrow> ([], Inr 1)
                   | Some archive_cmd \<Rightarrow>
                       (let forbidden = forbidden_names profile preserved;
                            header = header_path env profile;
                            archive = build_dir env @ ''/'' @ archive_name;
                            written = HeaderWritten header (undef_header forbidden)
                        in case build_jobs env profile forbidden header selected (compile_commands st) of
                             Inl e \<Rightarrow> ([written], Inl e)
                           | Inr None \<Rightarrow> ([written], Inr 1)
                           | Inr (Some jobs) \<Rightarrow>
                               (let (evs, r) = run_jobs env jobs archive_cmd archive
                                                 (build_manifest profile archive selected forbidden preserved)
                                in (written # evs, r)))))))"

section \<open>Commands\<close>

lemma keep_arguments_clean: "a \<in> set (keep_arguments forbidden c) \<Longrightarrow> define_name a \<notin> Some ` set forbidden"
  by (auto simp: keep_arguments_def)

lemma replace_after_set: "replace_after flag new c = Inr c' \<Longrightarrow> set c' \<subseteq> insert new (set c)"
  using set_update_subset_insert [of c _ new]
  by (fastforce simp: replace_after_def split: option.splits if_splits)

lemma strip_dependency_set: "set (strip_dependency_output c) \<subseteq> set c"
  by (induction c rule: strip_dependency_output.induct) (auto split: list.splits)

definition dependency_flags :: "string set" where
  "dependency_flags = set argument_flags \<union> set plain_flags"

lemma strip_dependency_flags: "set (strip_dependency_output c) \<inter> dependency_flags = {}"
  by (induction c rule: strip_dependency_output.induct) (auto simp: dependency_flags_def split: list.splits)

lemma path_no_define: "define_name (CHR ''/'' # p) = None" "CHR ''/'' # p \<notin> dependency_flags"
  by (simp_all add: define_name_def dependency_flags_def argument_flags_def plain_flags_def)

text \<open>What every command of the build is like\<close>

definition clean_command :: "string list \<Rightarrow> string \<Rightarrow> string list \<Rightarrow> bool" where
  "clean_command forbidden header cmd \<longleftrightarrow>
     (\<forall>a\<in>set cmd. define_name a \<notin> Some ` set forbidden) \<and> set cmd \<inter> dependency_flags = {}
       \<and> suffix [''-include'', header] cmd"

lemma finish_command_clean:
  assumes "finish_command (CHR ''/'' # h) (CHR ''/'' # p) c = Inr cmd"
    and "\<forall>a\<in>set c. define_name a \<notin> Some ` set forbidden"
  shows "clean_command forbidden (CHR ''/'' # h) cmd"
proof -
  obtain d where d: "replace_output c (CHR ''/'' # p) = Inr d"
    and cmd: "cmd = strip_dependency_output d @ [''-include'', CHR ''/'' # h]"
    using assms(1) by (auto simp: finish_command_def res_simps)
  have "set d \<subseteq> insert (CHR ''/'' # p) (set c)"
    using d unfolding replace_output_def by (rule replace_after_set)
  with assms(2) have "define_name a \<notin> Some ` set forbidden" if "a \<in> set (strip_dependency_output d)" for a
  proof -
    have "a = CHR ''/'' # p \<or> a \<in> set c"
      using that strip_dependency_set [of d] \<open>set d \<subseteq> _\<close> by blast
    with assms(2) show ?thesis by (auto simp: path_no_define)
  qed
  moreover have "define_name ''-include'' = None" "''-include'' \<notin> dependency_flags"
    by (simp_all add: define_name_def dependency_flags_def argument_flags_def plain_flags_def)
  ultimately show ?thesis
    using strip_dependency_flags [of d] cmd
    by (auto simp: clean_command_def path_no_define suffix_def)
qed

section \<open>Jobs\<close>

text \<open>Objects are numbered, so no two jobs write the same one.\<close>

lemma three_digits_dash:
  "dec_value (takeWhile (\<lambda>c. c \<noteq> CHR ''-'') (three_digits n @ CHR ''-'' # s)) = n"
proof -
  have "c \<noteq> CHR ''-''" if c: "c \<in> set (three_digits n)" for c
  proof -
    have "CHR ''0'' = char_of (48 + 0 :: nat)"
      using char_of_char [of "CHR ''0''", where 'a = nat] by (simp del: char_of_char)
    with c digits_of_chars [of c n] obtain k :: nat where "k < 10" "c = char_of (48 + k)"
      unfolding three_digits_def by (metis Un_iff in_set_replicate set_append zero_less_numeral)
    with digit_char [of k] have "(of_char c :: nat) = 48 + k" by simp
    then show ?thesis by auto
  qed
  moreover have "dec_value (replicate k (CHR ''0'') @ ds) = dec_value ds" for k ds
    by (induction k) (simp_all add: dec_value_def)
  ultimately show ?thesis
    by (subst takeWhile_append2) (auto simp: three_digits_def dec_value_digits)
qed

lemma object_path_inject: "object_path env n f = object_path env m g \<Longrightarrow> n = m"
  using three_digits_dash [of n "path_stem f"] three_digits_dash [of m "path_stem g"]
  by (auto simp: object_path_def)

definition sound_job :: "build_env \<Rightarrow> string list \<Rightarrow> string \<Rightarrow> nat \<Rightarrow> build_job \<Rightarrow> bool" where
  "sound_job env forbidden header n job \<longleftrightarrow>
     clean_command forbidden header (job_command job) \<and> (\<exists>f. job_object job = object_path env n f)"

text \<open>Paths under an absolute directory\<close>

definition absolute :: "string \<Rightarrow> bool" where
  "absolute p \<longleftrightarrow> (\<exists>q. p = CHR ''/'' # q)"

lemma absolute_object: "absolute (build_dir env) \<Longrightarrow> absolute (object_path env n f)"
  by (auto simp: absolute_def object_path_def)

lemma finish_absolute_clean:
  "finish_command header output c = Inr cmd \<Longrightarrow> absolute header \<Longrightarrow> absolute output \<Longrightarrow>
   \<forall>a\<in>set c. define_name a \<notin> Some ` set forbidden \<Longrightarrow> clean_command forbidden header cmd"
  using finish_command_clean by (auto simp: absolute_def)

lemma source_job_sound:
  assumes "source_job env forbidden header commands (n, source) = Inr job"
    and "absolute header" "absolute (build_dir env)"
  shows "job_source job = source \<and> sound_job env forbidden header n job"
proof -
  obtain c cmd
    where cmd: "finish_command header (object_path env n source) (keep_arguments forbidden c) = Inr cmd"
    and job: "job = \<lparr>job_command = cmd, job_source = source, job_object = object_path env n source\<rparr>"
    using assms(1) by (auto simp: source_job_def res_simps)
  have "clean_command forbidden header cmd"
    by (rule finish_absolute_clean [OF cmd assms(2) absolute_object [OF assms(3)]])
      (blast dest: keep_arguments_clean)
  with job show ?thesis by (auto simp: sound_job_def)
qed

lemma stub_job_sound:
  assumes "stub_job env forbidden header template (n, stub) = Inr job"
    and "absolute header" "absolute (build_dir env)" "absolute (stub_path env stub)"
  shows "job_source job = ''profile:'' @ stub \<and> sound_job env forbidden header n job"
proof -
  obtain c cmd where c: "replace_source (keep_arguments forbidden template) (stub_path env stub) = Inr c"
    and cmd: "finish_command header (object_path env n stub) c = Inr cmd"
    and job: "job = \<lparr>job_command = cmd, job_source = ''profile:'' @ stub, job_object = object_path env n stub\<rparr>"
    using assms(1) by (auto simp: stub_job_def res_simps)
  have "set c \<subseteq> insert (stub_path env stub) (set (keep_arguments forbidden template))"
    using c unfolding replace_source_def by (rule replace_after_set)
  moreover have "define_name (stub_path env stub) = None"
    using assms(4) by (auto simp: absolute_def path_no_define)
  ultimately have "\<forall>a\<in>set c. define_name a \<notin> Some ` set forbidden"
    using keep_arguments_clean by fastforce
  with finish_absolute_clean [OF cmd assms(2) absolute_object [OF assms(3)]] job show ?thesis
    by (auto simp: sound_job_def)
qed

lemma stub_jobs_Inr:
  "stub_jobs env forbidden header template stubs = Inr (Some jobs) \<Longrightarrow>
   list_all2 (\<lambda>s j. stub_exists env (snd s) \<and> stub_job env forbidden header template s = Inr j) stubs jobs"
  by (induction stubs arbitrary: jobs) (auto simp: res_simps split: if_splits)

lemma enumerate_all2:
  assumes "list_all2 P (enumerate k xs) ys" "\<And>n x y. P (n, x) y \<Longrightarrow> Q n x y"
  shows "length ys = length xs \<and> (\<forall>i<length xs. Q (k + i) (xs ! i) (ys ! i))"
  using assms by (auto simp: list_all2_conv_all_nth nth_enumerate_eq)

text \<open>The jobs: the selected sources, then the stubs, numbered through\<close>

lemma build_jobs_sound:
  assumes "build_jobs env profile forbidden header selected commands = Inr (Some jobs)"
    and "absolute header" "absolute (build_dir env)" "\<And>s. absolute (stub_path env s)"
  shows "map job_source jobs = selected @ map ((@) ''profile:'') (stub_sources profile)
     \<and> (\<forall>i<length jobs. sound_job env forbidden header i (jobs ! i))
     \<and> list_all (stub_exists env) (stub_sources profile)"
proof -
  obtain own template stubs
    where own: "rmap (source_job env forbidden header commands) (enumerate 0 selected) = Inr own"
    and stubs: "stub_jobs env forbidden header template
                  (enumerate (length own) (stub_sources profile)) = Inr (Some stubs)"
    and jobs: "jobs = own @ stubs"
    using assms(1) by (auto simp: build_jobs_def res_simps)
  have o: "length own = length selected \<and> (\<forall>i<length selected. job_source (own ! i) = selected ! i
      \<and> sound_job env forbidden header (0 + i) (own ! i))"
    by (rule enumerate_all2 [OF own [unfolded rmap_Inr]])
      (rule source_job_sound [OF _ assms(2,3)])
  have s: "length stubs = length (stub_sources profile) \<and> (\<forall>i<length (stub_sources profile).
      stub_exists env (stub_sources profile ! i)
      \<and> job_source (stubs ! i) = ''profile:'' @ stub_sources profile ! i
      \<and> sound_job env forbidden header (length own + i) (stubs ! i))"
    by (rule enumerate_all2 [OF stub_jobs_Inr [OF stubs]])
      (use stub_job_sound [OF _ assms(2,3,4)] in auto)
  have "map job_source own = selected"
    using o by (auto intro: nth_equalityI)
  moreover have "map job_source stubs = map ((@) ''profile:'') (stub_sources profile)"
    using s by (auto intro: nth_equalityI)
  moreover have "sound_job env forbidden header i (jobs ! i)" if "i < length jobs" for i
  proof (cases "i < length own")
    case True
    with o jobs show ?thesis by (simp add: nth_append)
  next
    case False
    then obtain k where "i = length own + k" using le_Suc_ex not_less by blast
    with s jobs that show ?thesis by (simp add: nth_append)
  qed
  moreover have "list_all (stub_exists env) (stub_sources profile)"
    using s by (simp add: list_all_length)
  ultimately show ?thesis using jobs by simp
qed

lemma sound_jobs_distinct:
  "\<forall>i<length jobs. sound_job env forbidden header i (jobs ! i) \<Longrightarrow> distinct (map job_object jobs)"
  unfolding distinct_conv_nth length_map
  by (metis nth_map object_path_inject sound_job_def)

section \<open>The archive\<close>

lemma run_jobs_success:
  assumes "run_jobs env jobs archive_cmd archive manifest = (evs, Inr 0)"
  shows "\<exists>ar. archiver_name archive_cmd = Inr ar \<and> list_all (\<lambda>j. compiler env (job_command j)) jobs
    \<and> evs = map (\<lambda>j. Compiled (job_command j) (job_source j)) jobs
        @ [ArchiveRemoved archive, ArchiveMade ([ar, ''rcD'', archive] @ map job_object jobs), ManifestWritten manifest]"
  using assms
  by (auto simp: run_jobs_def Let_def list_all_iff list_ex_iff split: if_splits sum.splits)

lemma archive_build_success:
  assumes "archive_build env profile cmake ninja preserved = (evs, Inr 0)"
  obtains name block archive_cmd jobs rest and st :: ninja_state
  where "profile_basename profile ''libwpa_supplicant_wpa2_personal.a'' ''.a'' = Inr name"
    and "cmake_block cmake ''SOURCES'' = Inr block"
    and "build_jobs env profile (forbidden_names profile preserved) (header_path env profile)
           (filter (\<lambda>s. \<not> excluded profile s) (cmake_sources block)) (compile_commands st) = Inr (Some jobs)"
    and "run_jobs env jobs archive_cmd (build_dir env @ ''/'' @ name)
           (build_manifest profile (build_dir env @ ''/'' @ name)
              (filter (\<lambda>s. \<not> excluded profile s) (cmake_sources block)) (forbidden_names profile preserved) preserved)
         = (rest, Inr 0)"
    and "evs = HeaderWritten (header_path env profile) (undef_header (forbidden_names profile preserved)) # rest"
proof -
  obtain name where name: "profile_basename profile ''libwpa_supplicant_wpa2_personal.a'' ''.a'' = Inr name"
    using assms by (auto simp: archive_build_def split: sum.splits)
  obtain block where block: "cmake_block cmake ''SOURCES'' = Inr block"
    using assms by (auto simp: archive_build_def name split: sum.splits)
  note found = assms [unfolded archive_build_def Let_def name block, simplified]
  then obtain st where st: "ninja_lines env (filter (\<lambda>s. \<not> excluded profile s) (cmake_sources block))
      \<lparr>compile_commands = [], archive_command = None\<rparr> (text_lines ninja) = Inr st"
    by (auto split: sum.splits)
  note found = found [unfolded st, simplified]
  then obtain archive_cmd where cmd: "archive_command st = Some archive_cmd"
    by (auto split: if_splits option.splits)
  note found = found [unfolded cmd, simplified]
  then obtain jobs where jobs: "build_jobs env profile (forbidden_names profile preserved)
      (header_path env profile) (filter (\<lambda>s. \<not> excluded profile s) (cmake_sources block)) (compile_commands st)
      = Inr (Some jobs)"
    by (auto split: if_splits option.splits sum.splits)
  obtain rest where "run_jobs env jobs archive_cmd (build_dir env @ ''/'' @ name)
      (build_manifest profile (build_dir env @ ''/'' @ name)
         (filter (\<lambda>s. \<not> excluded profile s) (cmake_sources block)) (forbidden_names profile preserved) preserved)
      = (rest, Inr 0)"
    and "evs = HeaderWritten (header_path env profile) (undef_header (forbidden_names profile preserved)) # rest"
    using found [unfolded jobs, simplified] by (auto split: if_splits prod.splits)
  then show ?thesis by (rule that [OF name block jobs])
qed

text \<open>A build that does not reach the archiver leaves the old archive where it is.\<close>

lemma failed_compile_keeps_archive:
  assumes "list_ex (\<lambda>j. \<not> compiler env (job_command j)) jobs"
  shows "snd (run_jobs env jobs archive_cmd archive manifest) = Inr 1"
    and "ArchiveRemoved a \<notin> set (fst (run_jobs env jobs archive_cmd archive manifest))"
  using assms by (auto simp: run_jobs_def)


definition demo_compile :: "string list" where
  "demo_compile = [''cc'', ''-DCONFIG_SAE=1'', ''-DX'', ''-MD'', ''-MF'', ''a.d'', ''-o'', ''a.o'', ''-c'', ''/sdk/a.c'']"

definition demo_build :: build_env where
  "demo_build = \<lparr>
     shlex_split = (\<lambda>line. Inr (if prefix ''cc'' line then demo_compile
       else [''ar'', ''rcD'', ''libwpa_supplicant.a''])),
     under_sdk = (\<lambda>p. if p = ''/sdk/a.c'' then Some ''a.c'' else None),
     stub_path = (\<lambda>s. ''/tools/'' @ s), stub_exists = (\<lambda>s. s = ''stub.c''), build_dir = ''/b'',
     compiler = (\<lambda>cmd. cmd \<noteq> []), archiver = (\<lambda>_. Inr ())\<rparr>"

definition demo_profile :: wpa_profile where
  "demo_profile = \<lparr>profile_name = ''wpa2'', forbidden_fragments = [''sae''], required_defines = [],
     forbidden_defines = [''CONFIG_SAE''], archive_field = None, stub_sources = [''stub.c'']\<rparr>"

definition demo_block :: string where
  "demo_block = concat (map (\<lambda>l. l @ [CHR 10]) [''${ROOT_DIR}/a.c'', ''${ROOT_DIR}/sae.c''])"

definition demo_cmake :: string where
  "demo_cmake = ''set(SOURCES'' @ [CHR 10] @ demo_block @ [CHR 10] @ '')''"

definition demo_commands :: "string list" where
  "demo_commands = [''cc CMakeFiles/wpa_supplicant.dir/ -c a'', ''ar rcD libwpa_supplicant.a'']"

definition demo_ninja :: string where
  "demo_ninja = concat (map (\<lambda>l. l @ [CHR 10]) demo_commands)"

lemma demo_archive_chars:
  "decode_chars demo_cmake = map (\<lambda>c. [c]) demo_cmake"
  "decode_chars ''${ROOT_DIR}/a.c'' = map (\<lambda>c. [c]) ''${ROOT_DIR}/a.c''"
  "decode_chars ''${ROOT_DIR}/sae.c'' = map (\<lambda>c. [c]) ''${ROOT_DIR}/sae.c''"
  by (rule decode_chars_ascii, simp add: demo_cmake_def demo_block_def ascii_def)+

lemma demo_cmake_block: "cmake_block demo_cmake ''SOURCES'' = Inr demo_block"
  unfolding cmake_block_def demo_archive_chars by (simp add: demo_cmake_def demo_block_def is_space_def)

lemma demo_found:
  "find_all match_source (decode_chars ''${ROOT_DIR}/a.c'') = [''/a.c'']"
  "find_all match_source (decode_chars ''${ROOT_DIR}/sae.c'') = [''/sae.c'']"
  unfolding demo_archive_chars by (simp_all add: match_source_def path_run_def is_space_def)

lemma demo_archive_lines:
  "text_lines demo_block = [''${ROOT_DIR}/a.c'', ''${ROOT_DIR}/sae.c'']"
  "text_lines demo_ninja = demo_commands"
  unfolding demo_block_def demo_ninja_def by (rule text_lines_plain, simp add: demo_commands_def)+

lemma demo_sources: "cmake_sources demo_block = [''/a.c'', ''/sae.c'']"
  unfolding cmake_sources_def demo_archive_lines 
  by (simp add: before_hash_def demo_found less_char_def less_eq_char_def del: decode_chars.simps)

lemma demo_occurs:
  "\<not> occurs ''libwpa_supplicant.a'' ''cc CMakeFiles/wpa_supplicant.dir/ -c a''"
  "occurs ''CMakeFiles/wpa_supplicant.dir/'' ''cc CMakeFiles/wpa_supplicant.dir/ -c a''"
  "occurs '' -c '' ''cc CMakeFiles/wpa_supplicant.dir/ -c a''"
  "occurs ''libwpa_supplicant.a'' ''ar rcD libwpa_supplicant.a''"
  "occurs '' rcD '' ''ar rcD libwpa_supplicant.a''"
  "\<not> occurs ''CMakeFiles/wpa_supplicant.dir/'' ''ar rcD libwpa_supplicant.a''"
  by code_simp+

lemma demo_compile_source: "source_from_command (under_sdk demo_build) demo_compile = Some ''/a.c''"
  by (simp add: source_from_command_def demo_compile_def demo_build_def)

lemma demo_ninja_lines:
  "ninja_lines demo_build [''/a.c''] \<lparr>compile_commands = [], archive_command = None\<rparr> demo_commands
   = Inr \<lparr>compile_commands = [(''/a.c'', demo_compile)],
            archive_command = Some [''ar'', ''rcD'', ''libwpa_supplicant.a'']\<rparr>"
proof -
  have "shlex_split demo_build ''cc CMakeFiles/wpa_supplicant.dir/ -c a'' = Inr demo_compile"
    "shlex_split demo_build ''ar rcD libwpa_supplicant.a'' = Inr [''ar'', ''rcD'', ''libwpa_supplicant.a'']"
    by (simp_all add: demo_build_def)
  then show ?thesis
    by (simp only: demo_commands_def ninja_lines.simps ninja_line_def demo_occurs) (simp add: rbind_def demo_compile_source)
qed

lemma demo_selected: "filter (\<lambda>s. \<not> excluded demo_profile s) [''/a.c'', ''/sae.c''] = [''/a.c'']"
  by code_simp

lemma demo_name: "profile_basename demo_profile ''libwpa_supplicant_wpa2_personal.a'' ''.a'' = Inr ''libwpa_supplicant_wpa2_personal.a''"
  by code_simp

lemma demo_built: "snd (archive_build demo_build demo_profile demo_cmake demo_ninja []) = Inr 0"
  unfolding archive_build_def demo_name demo_cmake_block sum.case demo_sources demo_selected
    demo_archive_lines demo_ninja_lines Let_def
  by code_simp


end
