(* ===== verification/Supplicant_Boundary.thy ===== *)
theory Supplicant_Boundary
  imports Docs_Book "HOL-Library.List_Lexorder"
begin

text \<open>
  \<open>scripts/check-ws63-supplicant-boundary.py\<close>: no input of the vendor's supplicant may reach the final
  link of the firmware that uses the upstream one.  The parsed profile (all of whose keys are there),
  the texts of the files and what \<open>nm\<close> prints are inputs.
\<close>

section \<open>The provider\<close>

record boundary_profile =
  legacy_provider_symbols :: "string list"
  legacy_archives :: "string list"
  native_archives :: "string list"
  native_object_markers :: "string list"

text \<open>\<open>BoundaryError\<close>, a subclass of \<open>RuntimeError\<close>\<close>

definition boundary_error :: "string \<Rightarrow> exn" where
  "boundary_error what = RuntimeError what"

definition rust_name_char :: "string \<Rightarrow> bool" where
  "rust_name_char ch \<longleftrightarrow>
     (case ch of
        [c] \<Rightarrow> 65 \<le> ord c \<and> ord c \<le> 90 \<or> 97 \<le> ord c \<and> ord c \<le> 122 \<or> 48 \<le> ord c \<and> ord c \<le> 57 \<or> c = CHR ''_''
      | _ \<Rightarrow> False)"

text \<open>At least one white space, and what follows the white space\<close>

definition skip_spaces :: "string list \<Rightarrow> string list option" where
  "skip_spaces chs = (if chs \<noteq> [] \<and> is_space (hd chs) then Some (dropWhile is_space chs) else None)"

text \<open>An exported item: the attribute, the keywords, and its name\<close>

definition match_export :: "string \<Rightarrow> string list \<Rightarrow> (string \<times> string list) option" where
  "match_export keywords chs =
     Option.bind (strip_lit ''#[unsafe(no_mangle)]'' chs) (\<lambda>r.
     Option.bind (strip_lit keywords (dropWhile is_space r)) (\<lambda>r.
     Option.bind (skip_spaces r) (\<lambda>r.
       let name = takeWhile rust_name_char r
       in if name = [] then None else Some (concat name, dropWhile rust_name_char r))))"

definition source_exports :: "string \<Rightarrow> string list" where
  "source_exports source =
     find_all (match_export (''pub extern '' @ quoted ''C'' @ '' fn'')) (decode_chars source)
     @ find_all (match_export ''pub static mut'') (decode_chars source)"

text \<open>The module declaration behind its feature\<close>

definition match_guard :: "string list \<Rightarrow> string list option" where
  "match_guard chs =
     Option.bind (strip_lit (''#[cfg(feature = '' @ quoted ''wifi-personal'' @ '')]'') chs) (\<lambda>r.
     Option.bind (strip_lit ''mod'' (dropWhile is_space r)) (\<lambda>r.
     Option.bind (skip_spaces r) (\<lambda>r.
     Option.bind (strip_lit ''wpa_compat'' r) (\<lambda>r.
       strip_lit '';'' (dropWhile is_space r)))))"

fun isolated_behind_feature :: "string list \<Rightarrow> bool" where
  "isolated_behind_feature [] = False"
| "isolated_behind_feature (x # xs) \<longleftrightarrow> match_guard (x # xs) \<noteq> None \<or> isolated_behind_feature xs"

definition name_set :: "string list \<Rightarrow> string" where
  "name_set names = join '', '' (sort (remdups names))"

definition check_provider :: "boundary_profile \<Rightarrow> string \<Rightarrow> string \<Rightarrow> unit res" where
  "check_provider profile source lib_source =
     (let expected = legacy_provider_symbols profile; actual = source_exports source
      in rbind (raise_if (set actual \<noteq> set expected)
           (boundary_error (''legacy provider drift: missing='' @ name_set (filter (\<lambda>n. n \<notin> set actual) expected)
              @ '', unexpected='' @ name_set (filter (\<lambda>n. n \<notin> set expected) actual)))) (\<lambda>_.
         raise_if (\<not> isolated_behind_feature (decode_chars lib_source))
           (boundary_error ''wpa_compat is not isolated behind wifi-personal'')))"

section \<open>The link map\<close>

definition slashes :: "string \<Rightarrow> string" where
  "slashes s = map (\<lambda>c. if c = CHR 0x5C then CHR ''/'' else c) s"

text \<open>The name, with a parenthesis, white space or nothing after it\<close>

definition archive_here :: "string list \<Rightarrow> string list \<Rightarrow> bool" where
  "archive_here name chs \<longleftrightarrow> prefix name chs
     \<and> (let r = drop (length name) chs in r = [] \<or> hd r = ''('' \<or> is_space (hd r))"

fun archive_after :: "bool \<Rightarrow> string list \<Rightarrow> string list \<Rightarrow> bool" where
  "archive_after start name [] \<longleftrightarrow> start \<and> archive_here name []"
| "archive_after start name (x # xs) \<longleftrightarrow>
     start \<and> archive_here name (x # xs) \<or> archive_after (x = ''/'' \<or> is_space x) name xs"

definition archive_is_present :: "string \<Rightarrow> string \<Rightarrow> bool" where
  "archive_is_present map_text archive =
     archive_after True (decode_chars archive) (decode_chars (slashes map_text))"

definition check_map :: "boundary_profile \<Rightarrow> string \<Rightarrow> unit res" where
  "check_map profile map_text =
     (let legacy = filter (archive_is_present map_text) (legacy_archives profile);
          missing_markers = filter (\<lambda>m. \<not> occurs m map_text) (native_object_markers profile);
          native_present = list_ex (archive_is_present map_text) (native_archives profile)
      in rbind (raise_if (legacy \<noteq> [])
           (boundary_error (''legacy archives reached final link: '' @ join '', '' (sort legacy)))) (\<lambda>_.
         raise_if (\<not> native_present \<and> missing_markers \<noteq> [])
           (boundary_error (''native supplicant provenance absent from final link: archives=''
              @ join '', '' (native_archives profile) @ '', missing_markers='' @ join '', '' missing_markers))))"

section \<open>The symbols\<close>

definition check_defined :: "boundary_profile \<Rightarrow> string list \<Rightarrow> unit res" where
  "check_defined profile defined =
     (let legacy = filter (\<lambda>n. n \<in> set (legacy_provider_symbols profile)) defined
      in raise_if (legacy \<noteq> [])
           (boundary_error (''legacy supplicant provider symbols reached final ELF: '' @ name_set legacy)))"

record nm_env =
  nm_variable :: "string option"             \<comment> \<open>the environment variable \<open>NM\<close>\<close>
  which_nm :: "string \<Rightarrow> string option"       \<comment> \<open>\<open>shutil.which\<close>\<close>
  nm_output :: "string list \<Rightarrow> string res"

text \<open>\<open>a or b or c\<close> for the program\<close>

definition nm_program :: "nm_env \<Rightarrow> string option" where
  "nm_program env =
     (case filter (\<lambda>v. v \<noteq> None \<and> v \<noteq> Some [])
             [nm_variable env, which_nm env ''riscv64-unknown-elf-nm'', which_nm env ''llvm-nm''] of
        [] \<Rightarrow> None
      | v # _ \<Rightarrow> v)"

definition elf_symbols :: "nm_env \<Rightarrow> string \<Rightarrow> string list res" where
  "elf_symbols env elf =
     (case nm_program env of
        None \<Rightarrow> Inl (boundary_error ''no RISC-V-capable nm found (set NM or install riscv64-unknown-elf-nm)'')
      | Some nm \<Rightarrow>
          rbind (nm_output env [nm, ''--defined-only'', ''--format=posix'', elf]) (\<lambda>out.
            Inr (map hd (filter (\<lambda>fs. fs \<noteq> []) (map decode_split (text_lines out))))))"

section \<open>The command\<close>

text \<open>An optional argument: the path, and the text of the file if it is one\<close>

record boundary_inputs =
  legacy_source :: "string res"
  lib_source :: "string res"
  map_argument :: "(string \<times> string res option) option"
  elf_argument :: "(string \<times> bool) option"

definition boundary_check :: "boundary_profile \<Rightarrow> nm_env \<Rightarrow> boundary_inputs \<Rightarrow> unit res" where
  "boundary_check profile env i =
     rbind (legacy_source i) (\<lambda>source.
     rbind (lib_source i) (\<lambda>lib.
     rbind (check_provider profile source lib) (\<lambda>_.
     rbind (case map_argument i of
              None \<Rightarrow> Inr ()
            | Some (path, None) \<Rightarrow> Inl (boundary_error (''link map does not exist: '' @ path))
            | Some (path, Some content) \<Rightarrow> rbind content (check_map profile)) (\<lambda>_.
     rbind (case elf_argument i of
              None \<Rightarrow> Inr ()
            | Some (path, present) \<Rightarrow>
                if \<not> present then Inl (boundary_error (''ELF does not exist: '' @ path))
                else rbind (elf_symbols env path) (check_defined profile)) (\<lambda>_.
     raise_if ((map_argument i = None) \<noteq> (elf_argument i = None))
       (boundary_error ''final-link verification requires both --map and --elf''))))))"

text \<open>The exit status; other exceptions than \<open>BoundaryError\<close> end the program.\<close>

definition boundary_status :: "unit res \<Rightarrow> nat res" where
  "boundary_status r =
     (case r of Inr _ \<Rightarrow> Inr 0 | Inl (RuntimeError _) \<Rightarrow> Inr 1 | Inl e \<Rightarrow> Inl e)"

lemma boundary_status_zero: "boundary_status r = Inr 0 \<longleftrightarrow> r = Inr ()"
  by (auto simp: boundary_status_def split: sum.splits exn.splits)

section \<open>What the boundary is\<close>

text \<open>Where an archive is named in the map: a path component that ends there\<close>

definition names_archive :: "string list \<Rightarrow> string list \<Rightarrow> bool" where
  "names_archive name chs \<longleftrightarrow>
     (\<exists>before after. chs = before @ name @ after
        \<and> (before = [] \<or> last before = ''/'' \<or> is_space (last before))
        \<and> (after = [] \<or> hd after = ''('' \<or> is_space (hd after)))"

lemma archive_here_iff:
  "archive_here name chs \<longleftrightarrow>
     (\<exists>after. chs = name @ after \<and> (after = [] \<or> hd after = ''('' \<or> is_space (hd after)))"
  by (auto simp: archive_here_def Let_def prefix_def)

lemma archive_after_iff:
  "archive_after start name chs \<longleftrightarrow>
     (\<exists>before after. chs = before @ name @ after
        \<and> (if before = [] then start else last before = ''/'' \<or> is_space (last before))
        \<and> (after = [] \<or> hd after = ''('' \<or> is_space (hd after)))"
proof (induction chs arbitrary: start)
  case Nil
  then show ?case by (auto simp: archive_here_iff)
next
  case (Cons x xs)
  let ?ends = "\<lambda>after. after = [] \<or> hd after = ''('' \<or> is_space (hd after)"
  let ?starts = "\<lambda>b before. if before = [] then b else last before = ''/'' \<or> is_space (last before)"
  have "(\<exists>before after. x # xs = before @ name @ after \<and> ?starts start before \<and> ?ends after) \<longleftrightarrow>
      start \<and> (\<exists>after. x # xs = name @ after \<and> ?ends after)
      \<or> (\<exists>before after. xs = before @ name @ after \<and> ?starts (x = ''/'' \<or> is_space x) before \<and> ?ends after)"
    (is "?all \<longleftrightarrow> ?here \<or> ?later")
  proof
    assume ?all
    then obtain before after where eq: "x # xs = before @ name @ after" and s: "?starts start before" "?ends after"
      by blast
    show "?here \<or> ?later"
    proof (cases before)
      case Nil
      with eq s show ?thesis by auto
    next
      case (Cons y ys)
      with eq s have "xs = ys @ name @ after \<and> ?starts (x = ''/'' \<or> is_space x) ys \<and> ?ends after" by auto
      then show ?thesis by blast
    qed
  next
    assume "?here \<or> ?later"
    then show ?all
    proof
      assume ?here
      then obtain after where "start" "x # xs = [] @ name @ after" "?ends after" by auto
      then show ?all by (intro exI [of _ "[]"] exI [of _ after]) simp
    next
      assume ?later
      then obtain before after where "xs = before @ name @ after" "?starts (x = ''/'' \<or> is_space x) before" "?ends after"
        by blast
      then have "x # xs = (x # before) @ name @ after \<and> ?starts start (x # before) \<and> ?ends after" by auto
      then show ?all by blast
    qed
  qed
  then show ?case unfolding archive_after.simps Cons.IH archive_here_iff by blast
qed

lemma archive_is_present_iff:
  "archive_is_present map_text archive \<longleftrightarrow>
     names_archive (decode_chars archive) (decode_chars (slashes map_text))"
proof -
  have "(if b then True else c) = (b \<or> c)" for b c by simp
  then show ?thesis unfolding archive_is_present_def archive_after_iff names_archive_def by simp
qed

lemma check_provider_Inr:
  "check_provider profile source lib = Inr u \<longleftrightarrow>
     set (source_exports source) = set (legacy_provider_symbols profile)
     \<and> isolated_behind_feature (decode_chars lib)"
  by (auto simp: check_provider_def Let_def res_simps raise_if_def)

lemma check_map_Inr:
  "check_map profile text = Inr u \<longleftrightarrow>
     (\<forall>a\<in>set (legacy_archives profile). \<not> archive_is_present text a)
     \<and> ((\<exists>a\<in>set (native_archives profile). archive_is_present text a)
        \<or> (\<forall>m\<in>set (native_object_markers profile). occurs m text))"
  by (auto simp: check_map_def Let_def res_simps raise_if_def filter_empty_conv list_ex_iff)

lemma check_defined_Inr:
  "check_defined profile defined = Inr u \<longleftrightarrow> set defined \<inter> set (legacy_provider_symbols profile) = {}"
  by (auto simp: check_defined_def Let_def raise_if_def filter_empty_conv)

text \<open>
  C40: The check passes exactly if the legacy source exports the symbols of the profile and is behind
  its feature, and, where a link is given, both its map and its ELF file are: then the map names no
  legacy archive, and names a native archive or holds all markers of the native objects, and the ELF
  file defines no symbol of the legacy provider.
\<close>

theorem supplicant_boundary_exact:
  "boundary_status (boundary_check profile env i) = Inr 0 \<longleftrightarrow>
     (\<exists>source lib. legacy_source i = Inr source \<and> lib_source i = Inr lib
        \<and> set (source_exports source) = set (legacy_provider_symbols profile)
        \<and> isolated_behind_feature (decode_chars lib))
     \<and> (map_argument i = None \<and> elf_argument i = None
        \<or> (\<exists>path content elf symbols. map_argument i = Some (path, Some (Inr content))
             \<and> elf_argument i = Some (elf, True) \<and> elf_symbols env elf = Inr symbols
             \<and> set symbols \<inter> set (legacy_provider_symbols profile) = {}
             \<and> (\<forall>a\<in>set (legacy_archives profile). \<not> names_archive (decode_chars a) (decode_chars (slashes content)))
             \<and> ((\<exists>a\<in>set (native_archives profile). names_archive (decode_chars a) (decode_chars (slashes content)))
                \<or> (\<forall>m\<in>set (native_object_markers profile). occurs m content))))"
proof -
  have m: "(case map_argument i of None \<Rightarrow> Inr ()
      | Some (path, None) \<Rightarrow> Inl (boundary_error (''link map does not exist: '' @ path))
      | Some (path, Some content) \<Rightarrow> rbind content (check_map profile)) = Inr u
    \<longleftrightarrow> map_argument i = None \<or> (\<exists>path content. map_argument i = Some (path, Some (Inr content))
          \<and> check_map profile content = Inr u)" for u
    by (auto simp: res_simps split: option.splits)
  have e: "(case elf_argument i of None \<Rightarrow> Inr ()
      | Some (path, present) \<Rightarrow>
          if \<not> present then Inl (boundary_error (''ELF does not exist: '' @ path))
          else rbind (elf_symbols env path) (check_defined profile)) = Inr u
    \<longleftrightarrow> elf_argument i = None \<or> (\<exists>elf symbols. elf_argument i = Some (elf, True)
          \<and> elf_symbols env elf = Inr symbols \<and> check_defined profile symbols = Inr u)" for u
    by (auto simp: res_simps split: option.splits)
  show ?thesis
    unfolding boundary_status_zero boundary_check_def rbind_Inr m e check_provider_Inr check_map_Inr
      check_defined_Inr archive_is_present_iff
    by (auto simp: raise_if_def)
qed

definition demo_boundary :: boundary_profile where
  "demo_boundary = \<lparr>legacy_provider_symbols = [''os_time''], legacy_archives = [''libwpa.a''],
     native_archives = [''libnative.a''], native_object_markers = [''sae.o'']\<rparr>"

definition demo_export :: string where
  "demo_export = ''#[unsafe(no_mangle)]'' @ [CHR 10] @ ''pub extern '' @ quoted ''C'' @ '' fn os_time()''"

definition demo_guard :: string where
  "demo_guard = ''#[cfg(feature = '' @ quoted ''wifi-personal'' @ '')]'' @ [CHR 10] @ ''mod wpa_compat;''"

definition demo_map :: string where
  "demo_map = ''/x/libnative.a(sae.o)''"

definition demo_nm :: nm_env where
  "demo_nm = \<lparr>nm_variable = Some ''nm'', which_nm = (\<lambda>_. None), nm_output = (\<lambda>_. Inr (''main T 0'' @ [CHR 10]))\<rparr>"

definition demo_boundary_inputs :: boundary_inputs where
  "demo_boundary_inputs = \<lparr>legacy_source = Inr demo_export, lib_source = Inr demo_guard,
     map_argument = Some (''a.map'', Some (Inr demo_map)), elf_argument = Some (''a.elf'', True)\<rparr>"

lemma demo_boundary_chars:
  "decode_chars demo_export = map (\<lambda>c. [c]) demo_export"
  "decode_chars demo_guard = map (\<lambda>c. [c]) demo_guard"
  "decode_chars (slashes demo_map) = map (\<lambda>c. [c]) (slashes demo_map)"
  "decode_chars ''libwpa.a'' = map (\<lambda>c. [c]) ''libwpa.a''"
  "decode_chars ''libnative.a'' = map (\<lambda>c. [c]) ''libnative.a''"
  "decode_chars ''main T 0'' = map (\<lambda>c. [c]) ''main T 0''"
  by (rule decode_chars_ascii,
      simp add: demo_export_def demo_guard_def demo_map_def slashes_def quoted_def ascii_def)+

lemma demo_exports: "source_exports demo_export = [''os_time'']"
  unfolding source_exports_def demo_boundary_chars
  by (simp add: demo_export_def quoted_def match_export_def is_space_def rust_name_char_def skip_spaces_def)

lemma demo_isolated: "isolated_behind_feature (decode_chars demo_guard)"
  unfolding demo_boundary_chars
  by (simp add: demo_guard_def quoted_def match_guard_def is_space_def skip_spaces_def)

lemma demo_named:
  "\<not> archive_is_present demo_map ''libwpa.a''" "archive_is_present demo_map ''libnative.a''"
  unfolding archive_is_present_def demo_boundary_chars
  by (simp_all add: demo_map_def slashes_def archive_here_def is_space_def)

lemma demo_defined: "elf_symbols demo_nm ''a.elf'' = Inr [''main'']"
proof -
  have "text_lines (''main T 0'' @ [CHR 10]) = [''main T 0'']"
    using text_lines_plain [of "[''main T 0'']"] by simp
  moreover have "decode_split ''main T 0'' = [''main'', ''T'', ''0'']"
    unfolding decode_split_def demo_boundary_chars by (simp add: is_space_def)
  moreover have "nm_program demo_nm = Some ''nm''" "nm_output demo_nm = (\<lambda>_. Inr (''main T 0'' @ [CHR 10]))"
    by (simp_all add: nm_program_def demo_nm_def)
  ultimately show ?thesis unfolding elf_symbols_def by (simp add: rbind_def)
qed

lemma supplicant_boundary_exact_witness:
  "boundary_status (boundary_check demo_boundary demo_nm demo_boundary_inputs) = Inr 0"
  unfolding supplicant_boundary_exact archive_is_present_iff [symmetric]
  using demo_exports demo_isolated demo_named demo_defined
  by (simp add: demo_boundary_inputs_def demo_boundary_def)

end
