(* ===== verification/Net0_Storage.thy ===== *)
theory Net0_Storage
  imports Elf_Bytes Py_Sha256 "HOL-Library.Product_Lexorder" "HOL-Library.List_Lexorder"
begin

unbundle bit_operations_syntax

text \<open>
  \<open>check-net0-storage.py\<close> of the evidence \<open>net0-pbuf-epoch-2026-09-09\<close>: the resource descriptor that
  the firmware carries is compared with the storage that its final ELF file allocates.  The parsed
  ELF file is an input.
\<close>

section \<open>The descriptor\<close>

record storage_report =
  control_bytes :: int
  l2_offset :: int
  l2_bytes :: int
  payload_bytes :: int
  metadata_bytes :: int
  rx_slots :: int
  tx_slots :: int
  mtu :: int
  shared_arena_bytes :: int
  main_stack_bytes :: int
  packet_ram_bytes :: int
  rf_arena_bytes :: int
  runtime_arena_bytes :: int
  native_pbuf_prefix_bytes :: int

text \<open>\<open>dict(zip(keys, words[2:]))\<close>\<close>

definition report_of :: "int list \<Rightarrow> storage_report" where
  "report_of ws =
     \<lparr>control_bytes = ws ! 2, l2_offset = ws ! 3, l2_bytes = ws ! 4, payload_bytes = ws ! 5, metadata_bytes = ws ! 6,
      rx_slots = ws ! 7, tx_slots = ws ! 8, mtu = ws ! 9, shared_arena_bytes = ws ! 10, main_stack_bytes = ws ! 11,
      packet_ram_bytes = ws ! 12, rf_arena_bytes = ws ! 13, runtime_arena_bytes = ws ! 14,
      native_pbuf_prefix_bytes = ws ! 15\<rparr>"

definition validate_storage :: "int list \<Rightarrow> int \<Rightarrow> int \<Rightarrow> int \<Rightarrow> int \<Rightarrow> int \<Rightarrow> storage_report res" where
  "validate_storage words control_size shared_size packet_size rf_size runtime_size =
     (if length words \<noteq> 16 \<or> take 2 words \<noteq> [from_little_endian ''NET0'', 3]
      then Inl (ValueError ''missing or unknown NET0 target layout schema'')
      else (let r = report_of words in
        rbind (raise_if (control_bytes r \<noteq> control_size)
                (ValueError ''target report differs from actual NET0_CONTROL symbol size'')) (\<lambda>_.
        rbind (raise_if (l2_offset r + l2_bytes r > control_size)
                (ValueError ''L2 allocation extends outside caller-owned control storage'')) (\<lambda>_.
        rbind (raise_if ((rx_slots r, tx_slots r, mtu r) \<noteq> (4, 4, 1514))
                (ValueError ''unexpected NET0 queue shape; review profile change'')) (\<lambda>_.
        rbind (raise_if (payload_bytes r \<noteq> (rx_slots r + tx_slots r) * mtu r)
                (ValueError ''payload bytes do not match packet slot storage'')) (\<lambda>_.
        rbind (raise_if (metadata_bytes r \<le> 0 \<or> payload_bytes r + metadata_bytes r \<noteq> l2_bytes r)
                (ValueError ''L2 payload/metadata sum does not match physical storage'')) (\<lambda>_.
        rbind (raise_if (shared_arena_bytes r \<noteq> shared_size)
                (ValueError (''target report differs from linked shared arenas: report='' @ str_int (shared_arena_bytes r)
                   @ '', linked='' @ str_int shared_size))) (\<lambda>_.
        rbind (raise_if ((rf_arena_bytes r, runtime_arena_bytes r) \<noteq> (rf_size, runtime_size))
                (ValueError ''RF/runtime child budget differs from its physical arena'')) (\<lambda>_.
        rbind (raise_if (rf_size \<le> 0 \<or> runtime_size \<le> 0 \<or> rf_size + runtime_size \<noteq> shared_size)
                (ValueError ''shared arena total must equal the physical child allocations'')) (\<lambda>_.
        rbind (raise_if (packet_ram_bytes r \<noteq> packet_size \<or> packet_size \<noteq> 0xc000)
                (ValueError ''radio packet RAM was changed or misreported'')) (\<lambda>_.
        rbind (raise_if (main_stack_bytes r \<noteq> 0x8000)
                (ValueError ''existing 32 KiB main stack contract was changed'')) (\<lambda>_.
        rbind (raise_if (native_pbuf_prefix_bytes r \<noteq> 16)
                (ValueError ''native pbuf metadata cost changed; review RF heap budget'')) (\<lambda>_.
          Inr r)))))))))))))"

section \<open>Ranges of memory\<close>

type_synonym region = "string \<times> int \<times> int"     \<comment> \<open>a name, a start and a size\<close>
type_synonym region_end = "int \<times> int \<times> string"  \<comment> \<open>a start, an end and a name\<close>

definition ordered_regions :: "region list \<Rightarrow> region_end list" where
  "ordered_regions regions = sort (map (\<lambda>(name, start, len). (start, start + len, name)) regions)"

fun check_ranges :: "region_end list \<Rightarrow> unit res" where
  "check_ranges [] = Inr ()"
| "check_ranges ((start, stop, name) # rest) =
     (if start < 0 \<or> start \<ge> stop \<or> stop > 2 ^ 32 then Inl (ValueError (''invalid RV32 memory range: '' @ name))
      else check_ranges rest)"

fun check_overlaps :: "region_end list \<Rightarrow> unit res" where
  "check_overlaps ((start, stop, previous) # (start', stop', name) # rest) =
     (if stop > start' then Inl (ValueError (''physical storage overlaps: '' @ previous @ '', '' @ name))
      else check_overlaps ((start', stop', name) # rest))"
| "check_overlaps _ = Inr ()"

definition check_disjoint :: "region list \<Rightarrow> unit res" where
  "check_disjoint regions =
     rbind (check_ranges (ordered_regions regions)) (\<lambda>_. check_overlaps (ordered_regions regions))"

section \<open>The ELF file\<close>

record storage_section =
  sec_name :: string
  sec_addr :: int
  sec_size :: int
  sec_nobits :: bool
  sec_flags :: "32 word"
  sec_bytes :: bytes

text \<open>A symbol: its section is a number, or one of the special names (\<open>None\<close>).\<close>

record storage_symbol =
  sym_value :: int
  sym_size :: int
  sym_section :: "nat option"

record storage_elf =
  rv32_little :: bool                   \<comment> \<open>class 32, little endian, \<open>EM_RISCV\<close>\<close>
  symbol_table :: "(string \<Rightarrow> storage_symbol list) option"
  section_at :: "nat \<Rightarrow> storage_section res"
  section_named :: "string \<Rightarrow> storage_section option"
  elf_content :: bytes

definition storage_symbol_of :: "storage_elf \<Rightarrow> string \<Rightarrow> storage_symbol res" where
  "storage_symbol_of elf name =
     (case symbol_table elf of
        None \<Rightarrow> Inl (ValueError (''missing or ambiguous ELF symbol: '' @ name))
      | Some f \<Rightarrow> (case f name of
                     [s] \<Rightarrow> Inr s
                   | _ \<Rightarrow> Inl (ValueError (''missing or ambiguous ELF symbol: '' @ name))))"

text \<open>The words of the descriptor, from the initialized bytes of its section\<close>

definition layout_words :: "storage_elf \<Rightarrow> storage_symbol \<Rightarrow> int list res" where
  "layout_words elf layout =
     (case sym_section layout of
        None \<Rightarrow> Inl (ValueError ''invalid NET0 layout byte length'')
      | Some k \<Rightarrow>
          if sym_size layout \<noteq> 64 then Inl (ValueError ''invalid NET0 layout byte length'')
          else rbind (section_at elf k) (\<lambda>sec.
               (let off = sym_value layout - sec_addr sec
                in if sec_nobits sec \<or> off < 0 \<or> off + 64 > sec_size sec
                   then Inl (ValueError ''layout must be initialized bytes within its ELF section'')
                   else (let raw = take 64 (drop (nat off) (sec_bytes sec))
                         in if length raw \<noteq> 64 then Inl (RuntimeError ''unpack requires a buffer of 64 bytes'')
                            else Inr (unpack_words 16 raw)))))"

definition memory_sections :: "storage_elf \<Rightarrow> (storage_section \<times> storage_section) res" where
  "memory_sections elf =
     (case (section_named elf ''.hisi_shared_arenas'', section_named elf ''.wifi_pkt_ram'') of
        (Some shared, Some packet) \<Rightarrow> Inr (shared, packet)
      | _ \<Rightarrow> Inl (ValueError ''missing shared arena or Wi-Fi packet section''))"

text \<open>An arena is a writable, allocated object without file contents in the shared section.\<close>

definition check_arena :: "storage_elf \<Rightarrow> storage_section \<Rightarrow> storage_symbol \<Rightarrow> unit res" where
  "check_arena elf shared arena =
     (case sym_section arena of
        None \<Rightarrow> Inl (ValueError ''arena must be a physical object, not an absolute symbol'')
      | Some k \<Rightarrow>
          rbind (section_at elf k) (\<lambda>sec.
          rbind (raise_if (sec_name sec \<noteq> ''.hisi_shared_arenas'' \<or> \<not> sec_nobits sec \<or> sec_flags sec AND 3 \<noteq> 3)
                  (ValueError ''arena must be writable allocated NOLOAD shared storage'')) (\<lambda>_.
            raise_if (sym_value arena < sec_addr shared
                \<or> sym_value arena + sym_size arena > sec_addr shared + sec_size shared)
              (ValueError ''arena is not contained in its physical section''))))"

definition check_control :: "storage_elf \<Rightarrow> storage_symbol \<Rightarrow> unit res" where
  "check_control elf control =
     (case sym_section control of
        None \<Rightarrow> Inl (ValueError ''control storage must be a physical object'')
      | Some k \<Rightarrow>
          rbind (section_at elf k) (\<lambda>sec.
          rbind (raise_if (sec_flags sec AND 1 = 0 \<or> sec_flags sec AND 2 = 0)
                  (ValueError ''control storage is not writable allocated target memory'')) (\<lambda>_.
            raise_if (sym_value control < sec_addr sec
                \<or> sym_value control + sym_size control > sec_addr sec + sec_size sec)
              (ValueError ''control object is not contained in its linked section''))))"

record storage_result =
  storage_fields :: storage_report
  control_start :: int
  rf_arena_start :: int
  runtime_arena_start :: int
  main_stack_start :: int
  packet_ram_start :: int
  storage_elf_sha256 :: string

definition storage_result_of ::
    "storage_elf \<Rightarrow> storage_symbol \<Rightarrow> storage_symbol \<Rightarrow> storage_symbol \<Rightarrow> storage_symbol \<Rightarrow> storage_report \<Rightarrow>
     storage_section \<Rightarrow> storage_result" where
  "storage_result_of elf control rf runtime stack_start report packet =
     \<lparr>storage_fields = report, control_start = sym_value control, rf_arena_start = sym_value rf,
      runtime_arena_start = sym_value runtime, main_stack_start = sym_value stack_start,
      packet_ram_start = sec_addr packet, storage_elf_sha256 = sha256_hex (elf_content elf)\<rparr>"

text \<open>The regions, as the report gives them\<close>

definition storage_regions :: "storage_result \<Rightarrow> region list" where
  "storage_regions r =
     [(''control'', control_start r, control_bytes (storage_fields r)),
      (''rf_arena'', rf_arena_start r, rf_arena_bytes (storage_fields r)),
      (''runtime_arena'', runtime_arena_start r, runtime_arena_bytes (storage_fields r)),
      (''main_stack'', main_stack_start r, main_stack_bytes (storage_fields r)),
      (''packet_ram'', packet_ram_start r, packet_ram_bytes (storage_fields r))]"

definition inspect_storage :: "storage_elf \<Rightarrow> storage_result res" where
  "inspect_storage elf =
     (if \<not> rv32_little elf then Inl (ValueError ''expected the final RV32 little-endian ELF, not a host report'') else
     rbind (storage_symbol_of elf ''NET0_CONTROL'') (\<lambda>control.
     rbind (storage_symbol_of elf ''NET0_RF_ARENA'') (\<lambda>rf.
     rbind (storage_symbol_of elf ''NET0_RTOS_ARENA'') (\<lambda>runtime.
     rbind (storage_symbol_of elf ''NET0_STORAGE_LAYOUT'') (\<lambda>layout.
     rbind (layout_words elf layout) (\<lambda>words.
     rbind (memory_sections elf) (\<lambda>(shared, packet).
     rbind (validate_storage words (sym_size control) (sec_size shared) (sec_size packet)
              (sym_size rf) (sym_size runtime)) (\<lambda>report.
     rbind (storage_symbol_of elf ''__stack_start__'') (\<lambda>stack_start.
     rbind (storage_symbol_of elf ''__stack_top__'') (\<lambda>stack_top.
     rbind (raise_if (sym_value stack_top - sym_value stack_start \<noteq> main_stack_bytes report)
             (ValueError ''main stack report differs from actual linker symbols'')) (\<lambda>_.
     rbind (raise_if (sec_addr shared + sec_size shared > sym_value stack_start)
             (ValueError ''shared arenas overlap the main stack'')) (\<lambda>_.
     rbind (check_arena elf shared rf) (\<lambda>_.
     rbind (check_arena elf shared runtime) (\<lambda>_.
     rbind (check_control elf control) (\<lambda>_.
     rbind (check_disjoint
             [(''control'', sym_value control, sym_size control),
              (''rf_arena'', sym_value rf, sym_size rf),
              (''runtime_arena'', sym_value runtime, sym_size runtime),
              (''main_stack'', sym_value stack_start, sym_value stack_top - sym_value stack_start),
              (''packet_ram'', sec_addr packet, sec_size packet)]) (\<lambda>_.
       Inr (storage_result_of elf control rf runtime stack_start report packet)))))))))))))))))"

section \<open>Disjoint ranges\<close>

definition region_span :: "region \<Rightarrow> int set" where
  "region_span = (\<lambda>(name, start, len). {start..<start + len})"

definition valid_region :: "region \<Rightarrow> bool" where
  "valid_region = (\<lambda>(name, start, len). 0 \<le> start \<and> 0 < len \<and> start + len \<le> 2 ^ 32)"

definition ends_before :: "region_end \<Rightarrow> region_end \<Rightarrow> bool" where
  "ends_before = (\<lambda>(start, stop, name) (start', stop', name'). stop \<le> start')"

definition as_end :: "region \<Rightarrow> region_end" where
  "as_end = (\<lambda>(name, start, len). (start, start + len, name))"

lemma ordered_regions_set: "set (ordered_regions regions) = as_end ` set regions"
  by (simp add: ordered_regions_def as_end_def)

lemma check_ranges_Inr: "check_ranges xs = Inr u \<longleftrightarrow> (\<forall>(s, e, n)\<in>set xs. 0 \<le> s \<and> s < e \<and> e \<le> 2 ^ 32)"
  by (induction xs rule: check_ranges.induct) auto

lemma check_overlaps_Inr: "check_overlaps xs = Inr u \<longleftrightarrow> successively ends_before xs"
  by (induction xs rule: check_overlaps.induct) (auto simp: ends_before_def)

lemma valid_ranges: "check_ranges (ordered_regions regions) = Inr u \<longleftrightarrow> list_all valid_region regions"
  unfolding check_ranges_Inr ordered_regions_set
  by (auto simp: list_all_iff valid_region_def as_end_def)

lemma before_disjoint:
  assumes "valid_region a" "valid_region b" "as_end a \<le> as_end b"
  shows "ends_before (as_end a) (as_end b) \<longleftrightarrow> region_span a \<inter> region_span b = {}"
proof -
  obtain n s l n' s' l' where ab: "a = (n, s, l)" "b = (n', s', l')" by (metis prod_cases3)
  with assms have v: "0 < l" "0 < l'" "s \<le> s'" by (auto simp: valid_region_def as_end_def less_eq_prod_def)
  have "s' \<in> region_span a \<inter> region_span b" if "\<not> s + l \<le> s'" using v that by (simp add: ab region_span_def)
  then show ?thesis using v by (auto simp: ab ends_before_def as_end_def region_span_def)
qed

text \<open>The neighbours in the order do not overlap exactly if no two ranges do.\<close>

lemma check_disjoint_Inr:
  assumes "distinct (map fst regions)"
  shows "check_disjoint regions = Inr () \<longleftrightarrow>
    list_all valid_region regions \<and> (\<forall>a\<in>set regions. \<forall>b\<in>set regions. a \<noteq> b \<longrightarrow> region_span a \<inter> region_span b = {})"
proof -
  let ?xs = "ordered_regions regions"
  have inj: "inj_on as_end (set regions)" by (auto simp: inj_on_def as_end_def)
  have xs: "sorted ?xs" "distinct ?xs" "set ?xs = as_end ` set regions"
    using assms inj by (simp_all add: ordered_regions_def as_end_def distinct_map distinct_sort)
  have "successively ends_before ?xs \<longleftrightarrow> (\<forall>a\<in>set regions. \<forall>b\<in>set regions. a \<noteq> b \<longrightarrow> region_span a \<inter> region_span b = {})"
    if valid: "list_all valid_region regions"
  proof -
    have "successively ends_before ?xs \<longleftrightarrow> sorted_wrt ends_before ?xs"
    proof (rule successively_iff_sorted_wrt_strong)
      fix x y z assume "x \<in> set ?xs" "y \<in> set ?xs" "z \<in> set ?xs" "ends_before x y" "ends_before y z"
      moreover from this have "fst y < fst (snd y)"
        using valid xs(3) by (auto simp: list_all_iff valid_region_def as_end_def)
      ultimately show "ends_before x z" by (auto simp: ends_before_def)
    qed
    also have "\<dots> \<longleftrightarrow> (\<forall>x\<in>set ?xs. \<forall>y\<in>set ?xs. x \<le> y \<and> x \<noteq> y \<longrightarrow> ends_before x y)"
    proof
      assume w: "sorted_wrt ends_before ?xs"
      show "\<forall>x\<in>set ?xs. \<forall>y\<in>set ?xs. x \<le> y \<and> x \<noteq> y \<longrightarrow> ends_before x y"
      proof (intro ballI impI)
        fix x y assume "x \<in> set ?xs" "y \<in> set ?xs" and le: "x \<le> y \<and> x \<noteq> y"
        then obtain i j where ij: "i < length ?xs" "x = ?xs ! i" "j < length ?xs" "y = ?xs ! j"
          by (metis in_set_conv_nth)
        then have "i < j" using le xs(1) by (metis antisym linorder_not_less sorted_nth_mono)
        then show "ends_before x y" using w ij sorted_wrt_nth_less by blast
      qed
    next
      assume all: "\<forall>x\<in>set ?xs. \<forall>y\<in>set ?xs. x \<le> y \<and> x \<noteq> y \<longrightarrow> ends_before x y"
      show "sorted_wrt ends_before ?xs"
        unfolding sorted_wrt_iff_nth_less
      proof (intro allI impI)
        fix i j assume "i < j" "j < length ?xs"
        then have "?xs ! i \<le> ?xs ! j" "?xs ! i \<noteq> ?xs ! j" "?xs ! i \<in> set ?xs" "?xs ! j \<in> set ?xs"
          using xs(1,2) by (simp_all add: sorted_nth_mono nth_eq_iff_index_eq)
        with all show "ends_before (?xs ! i) (?xs ! j)" by blast
      qed
    qed
    also have "\<dots> \<longleftrightarrow> (\<forall>a\<in>set regions. \<forall>b\<in>set regions. as_end a \<le> as_end b \<and> a \<noteq> b \<longrightarrow> ends_before (as_end a) (as_end b))"
      unfolding xs(3) using inj by (auto simp: inj_on_def)
    also have "\<dots> \<longleftrightarrow> (\<forall>a\<in>set regions. \<forall>b\<in>set regions. as_end a \<le> as_end b \<and> a \<noteq> b \<longrightarrow> region_span a \<inter> region_span b = {})"
      using valid before_disjoint by (auto simp: list_all_iff)
    also have "\<dots> \<longleftrightarrow> (\<forall>a\<in>set regions. \<forall>b\<in>set regions. a \<noteq> b \<longrightarrow> region_span a \<inter> region_span b = {})"
      by (metis Int_commute linorder_linear)
    finally show ?thesis .
  qed
  then show ?thesis
    unfolding check_disjoint_def rbind_Inr valid_ranges check_overlaps_Inr by blast
qed

section \<open>An accepted firmware\<close>

lemma validate_storage_Inr:
  assumes "validate_storage ws control_size shared_size packet_size rf_size runtime_size = Inr r"
  shows "length ws = 16" and "r = report_of ws"
    and "control_bytes r = control_size" "shared_arena_bytes r = shared_size" "packet_ram_bytes r = packet_size"
      "rf_arena_bytes r = rf_size" "runtime_arena_bytes r = runtime_size"
    and "l2_offset r + l2_bytes r \<le> control_size" "l2_bytes r = 8 * 1514 + metadata_bytes r" "0 < metadata_bytes r"
    and "0 < rf_size" "0 < runtime_size" "rf_size + runtime_size = shared_size"
    and "packet_size = 0xc000" "main_stack_bytes r = 0x8000"
  using assms
  by (auto simp: validate_storage_def Let_def res_simps raise_if_def split: if_splits)

lemma layout_words_nonneg:
  assumes "layout_words elf layout = Inr ws" and "w \<in> set ws"
  shows "0 \<le> w"
  using assms from_little_endian_nonneg
  by (auto simp: layout_words_def Let_def res_simps unpack_words_def split: option.splits if_splits)

lemma check_arena_Inr:
  "check_arena elf shared arena = Inr u \<Longrightarrow>
     sec_addr shared \<le> sym_value arena \<and> sym_value arena + sym_size arena \<le> sec_addr shared + sec_size shared"
  by (auto simp: check_arena_def res_simps raise_if_def split: option.splits if_splits)

text \<open>Two ranges in a third one of their joint size, which do not meet, make it up.\<close>

lemma two_ranges_tile:
  fixes a b s x y :: int
  assumes "0 < x" "0 < y" "s \<le> a" "a + x \<le> s + (x + y)" "s \<le> b" "b + y \<le> s + (x + y)"
    and "{a..<a + x} \<inter> {b..<b + y} = {}"
  shows "{a..<a + x} \<union> {b..<b + y} = {s..<s + (x + y)}"
proof -
  have "a + x \<le> b \<or> b + y \<le> a"
  proof (rule ccontr)
    assume "\<not> ?thesis"
    then have "max a b \<in> {a..<a + x} \<inter> {b..<b + y}" using assms(1,2) by auto
    with assms(7) show False by simp
  qed
  with assms(3-6) show ?thesis by auto
qed

definition found_regions ::
    "storage_symbol \<Rightarrow> storage_symbol \<Rightarrow> storage_symbol \<Rightarrow> storage_symbol \<Rightarrow> storage_report \<Rightarrow> storage_section \<Rightarrow> region list" where
  "found_regions control rf runtime stack_start report packet =
     [(''control'', sym_value control, sym_size control), (''rf_arena'', sym_value rf, sym_size rf),
      (''runtime_arena'', sym_value runtime, sym_size runtime),
      (''main_stack'', sym_value stack_start, main_stack_bytes report), (''packet_ram'', sec_addr packet, sec_size packet)]"

lemma inspect_storage_Inr:
  assumes "inspect_storage elf = Inr r"
  shows "\<exists>control rf runtime layout ws shared packet report stack_start.
     memory_sections elf = Inr (shared, packet) \<and> layout_words elf layout = Inr ws
     \<and> validate_storage ws (sym_size control) (sec_size shared) (sec_size packet) (sym_size rf) (sym_size runtime) = Inr report
     \<and> sec_addr shared + sec_size shared \<le> sym_value stack_start
     \<and> check_arena elf shared rf = Inr () \<and> check_arena elf shared runtime = Inr ()
     \<and> check_disjoint (found_regions control rf runtime stack_start report packet) = Inr ()
     \<and> r = storage_result_of elf control rf runtime stack_start report packet"
  using assms unfolding inspect_storage_def found_regions_def
  by (clarsimp simp: res_simps raise_if_def not_less split: if_splits) (intro exI conjI, assumption+, simp)

text \<open>
  C39: The storage of an accepted firmware is laid out without overlap: the control block, both
  arenas, the main stack and the packet memory are disjoint ranges of the 32-bit address space, the
  arenas make up the shared section exactly and end below the stack, the layer 2 block lies within
  the control block and is the packet slots and their metadata, and the stack and the packet memory
  have the sizes of the contract.
\<close>

theorem inspected_storage_tiles:
  assumes "inspect_storage elf = Inr r"
  shows "list_all valid_region (storage_regions r)
    \<and> (\<forall>a\<in>set (storage_regions r). \<forall>b\<in>set (storage_regions r). a \<noteq> b \<longrightarrow> region_span a \<inter> region_span b = {})
    \<and> (\<exists>shared. section_named elf ''.hisi_shared_arenas'' = Some shared
         \<and> region_span (storage_regions r ! 1) \<union> region_span (storage_regions r ! 2)
           = {sec_addr shared..<sec_addr shared + sec_size shared}
         \<and> sec_addr shared + sec_size shared \<le> main_stack_start r)
    \<and> {control_start r + l2_offset (storage_fields r)..<
        control_start r + l2_offset (storage_fields r) + l2_bytes (storage_fields r)}
      \<subseteq> region_span (storage_regions r ! 0)
    \<and> l2_bytes (storage_fields r) = 8 * 1514 + metadata_bytes (storage_fields r) \<and> 0 < metadata_bytes (storage_fields r)
    \<and> main_stack_bytes (storage_fields r) = 0x8000 \<and> packet_ram_bytes (storage_fields r) = 0xc000"
proof -
  obtain control rf runtime layout ws shared packet report stack_start
    where sections: "memory_sections elf = Inr (shared, packet)"
      and ws: "layout_words elf layout = Inr ws"
      and valid: "validate_storage ws (sym_size control) (sec_size shared) (sec_size packet)
              (sym_size rf) (sym_size runtime) = Inr report"
      and stack: "sec_addr shared + sec_size shared \<le> sym_value stack_start"
      and arenas: "check_arena elf shared rf = Inr ()" "check_arena elf shared runtime = Inr ()"
      and disjoint: "check_disjoint (found_regions control rf runtime stack_start report packet) = Inr ()"
      and r: "r = storage_result_of elf control rf runtime stack_start report packet"
    using inspect_storage_Inr [OF assms] by blast
  have shared: "section_named elf ''.hisi_shared_arenas'' = Some shared"
    using sections by (auto simp: memory_sections_def split: option.splits)
  note v = validate_storage_Inr [OF valid]
  have regions: "storage_regions r = found_regions control rf runtime stack_start report packet"
    by (simp add: storage_regions_def found_regions_def r storage_result_of_def v(3-))
  have d: "list_all valid_region (storage_regions r)
      \<and> (\<forall>a\<in>set (storage_regions r). \<forall>b\<in>set (storage_regions r). a \<noteq> b \<longrightarrow> region_span a \<inter> region_span b = {})"
    using disjoint unfolding regions by (subst check_disjoint_Inr [symmetric]) (simp_all add: found_regions_def)
  have "region_span (storage_regions r ! 1) \<inter> region_span (storage_regions r ! 2) = {}"
    using d by (simp add: regions found_regions_def)
  then have "region_span (storage_regions r ! 1) \<union> region_span (storage_regions r ! 2)
      = {sec_addr shared..<sec_addr shared + sec_size shared}"
    using two_ranges_tile [of "sym_size rf" "sym_size runtime" "sec_addr shared" "sym_value rf" "sym_value runtime"]
      v(3-) arenas [THEN check_arena_Inr]
    by (simp add: regions found_regions_def region_span_def)
  moreover have c: "region_span (storage_regions r ! 0) = {sym_value control..<sym_value control + sym_size control}"
    by (simp add: regions found_regions_def region_span_def)
  have "0 \<le> l2_offset report"
    using layout_words_nonneg [OF ws, of "ws ! 3"] v by (simp add: report_of_def)
  then have "{control_start r + l2_offset report..<control_start r + l2_offset report + l2_bytes report}
      \<subseteq> region_span (storage_regions r ! 0)"
    unfolding c using v(3-) by (auto simp: r storage_result_of_def)
  ultimately show ?thesis
    using d shared stack v(3-) by (auto simp: r storage_result_of_def)
qed

lemma unpack_words_le:
  assumes "\<forall>n\<in>set ns. n < 2 ^ 32"
  shows "unpack_words (length ns) (concat (map le_bytes ns)) = map int ns"
proof (rule nth_equalityI)
  fix i assume i: "i < length (unpack_words (length ns) (concat (map le_bytes ns)))"
  then have i: "i < length ns" by (simp add: unpack_words_def)
  then have "drop i ns = ns ! i # drop (Suc i) ns" by (rule Cons_nth_drop_Suc [symmetric])
  then have "take 4 (drop (4 * i) (concat (map le_bytes ns))) = le_bytes (ns ! i)"
    unfolding drop_words by simp
  then show "unpack_words (length ns) (concat (map le_bytes ns)) ! i = map int ns ! i"
    using i assms by (simp add: unpack_words_def le_bytes_value)
qed (simp add: unpack_words_def)

definition demo_words :: "nat list" where
  "demo_words = [810829134, 3, 22000, 2304, 12736, 12112, 624, 4, 4, 1514, 299072, 32768, 49152, 101952, 197120, 16]"

definition demo_layout_data :: bytes where
  "demo_layout_data = concat (map le_bytes demo_words)"

definition demo_object :: "int \<Rightarrow> int \<Rightarrow> nat \<Rightarrow> storage_symbol" where
  "demo_object start len k = \<lparr>sym_value = start, sym_size = len, sym_section = Some k\<rparr>"

definition demo_section :: "string \<Rightarrow> int \<Rightarrow> int \<Rightarrow> bool \<Rightarrow> bytes \<Rightarrow> storage_section" where
  "demo_section name start len nobits data =
     \<lparr>sec_name = name, sec_addr = start, sec_size = len, sec_nobits = nobits, sec_flags = 3, sec_bytes = data\<rparr>"

definition demo_storage :: storage_elf where
  "demo_storage = \<lparr>rv32_little = True,
     symbol_table = Some (\<lambda>n. if n = ''NET0_CONTROL'' then [demo_object 0x200000 22000 1]
       else if n = ''NET0_RF_ARENA'' then [demo_object 0x100000 101952 0]
       else if n = ''NET0_RTOS_ARENA'' then [demo_object 1150528 197120 0]
       else if n = ''NET0_STORAGE_LAYOUT'' then [demo_object 64 64 2]
       else if n = ''__stack_start__'' then [demo_object 0x180000 0 0]
       else if n = ''__stack_top__'' then [demo_object 0x188000 0 0] else []),
     section_at = (\<lambda>k. Inr (if k = 0 then demo_section ''.hisi_shared_arenas'' 0x100000 299072 True []
       else if k = 1 then demo_section ''.bss'' 0x200000 22000 True []
       else demo_section ''.rodata'' 64 64 False demo_layout_data)),
     section_named = (\<lambda>n. if n = ''.hisi_shared_arenas'' then Some (demo_section n 0x100000 299072 True [])
       else if n = ''.wifi_pkt_ram'' then Some (demo_section n 0x300000 49152 True []) else None),
     elf_content = []\<rparr>"

lemma demo_parts:
  "sym_value (demo_object start len k) = start" "sym_size (demo_object start len k) = len"
  "sym_section (demo_object start len k) = Some k"
  "sec_addr (demo_section name start len nobits data) = start" "sec_size (demo_section name start len nobits data) = len"
  by (simp_all add: demo_object_def demo_section_def)

lemma demo_layout: "layout_words demo_storage (demo_object 64 64 2) = Inr (map int demo_words)"
proof -
  have "length demo_layout_data = 64" by (simp add: demo_layout_data_def demo_words_def)
  moreover have "unpack_words 16 demo_layout_data = map int demo_words"
  proof -
    have "length demo_words = 16" "\<forall>n\<in>set demo_words. n < 2 ^ 32" by (simp_all add: demo_words_def)
    with unpack_words_le [of demo_words] show ?thesis by (simp add: demo_layout_data_def)
  qed
  ultimately show ?thesis
    by (simp add: layout_words_def demo_object_def demo_storage_def demo_section_def rbind_def Let_def)
qed

lemma demo_validated:
  "validate_storage (map int demo_words) 22000 299072 49152 101952 197120 = Inr (report_of (map int demo_words))"
  by (simp add: validate_storage_def demo_words_def report_of_def rbind_def raise_if_def Let_def)

lemma demo_regions_disjoint:
  "check_disjoint [(''control'', 0x200000, 22000), (''rf_arena'', 0x100000, 101952), (''runtime_arena'', 1150528, 197120),
     (''main_stack'', 0x180000, 0x8000), (''packet_ram'', 0x300000, 49152)] = Inr ()"
  by (subst check_disjoint_Inr) (simp_all add: valid_region_def region_span_def)

lemma demo_inspected: "\<exists>r. inspect_storage demo_storage = Inr r"
proof -
  have flags: "(3 :: 32 word) AND 3 = 3" "(3 :: 32 word) AND 1 \<noteq> 0" "(3 :: 32 word) AND 2 \<noteq> 0" by simp_all
  have symbols: "rv32_little demo_storage"
    "storage_symbol_of demo_storage ''NET0_CONTROL'' = Inr (demo_object 0x200000 22000 1)"
    "storage_symbol_of demo_storage ''NET0_RF_ARENA'' = Inr (demo_object 0x100000 101952 0)"
    "storage_symbol_of demo_storage ''NET0_RTOS_ARENA'' = Inr (demo_object 1150528 197120 0)"
    "storage_symbol_of demo_storage ''NET0_STORAGE_LAYOUT'' = Inr (demo_object 64 64 2)"
    "storage_symbol_of demo_storage ''__stack_start__'' = Inr (demo_object 0x180000 0 0)"
    "storage_symbol_of demo_storage ''__stack_top__'' = Inr (demo_object 0x188000 0 0)"
    "memory_sections demo_storage = Inr (demo_section ''.hisi_shared_arenas'' 0x100000 299072 True [],
       demo_section ''.wifi_pkt_ram'' 0x300000 49152 True [])"
    by (simp_all add: storage_symbol_of_def memory_sections_def demo_storage_def)
  have "check_arena demo_storage (demo_section ''.hisi_shared_arenas'' 0x100000 299072 True []) (demo_object 0x100000 101952 0) = Inr ()"
    "check_arena demo_storage (demo_section ''.hisi_shared_arenas'' 0x100000 299072 True []) (demo_object 1150528 197120 0) = Inr ()"
    "check_control demo_storage (demo_object 0x200000 22000 1) = Inr ()"
    using flags
    by (simp_all add: check_arena_def check_control_def demo_object_def demo_section_def demo_storage_def rbind_def raise_if_def)
  moreover have "main_stack_bytes (report_of (map int demo_words)) = 0x8000"
    by (simp add: report_of_def demo_words_def)
  ultimately show ?thesis
    unfolding inspect_storage_def symbols
    using demo_validated demo_regions_disjoint
    by (simp add: rbind_def raise_if_def demo_parts demo_layout symbols)
qed

lemma inspected_storage_tiles_witness:
  "\<exists>r. inspect_storage demo_storage = Inr r \<and> list_all valid_region (storage_regions r)
     \<and> l2_bytes (storage_fields r) = 8 * 1514 + metadata_bytes (storage_fields r)"
  using demo_inspected inspected_storage_tiles by blast

end
