(* ===== verification/Spec2Isabelle.thy ===== *)
theory Spec2Isabelle
  imports Coexistence_Runs Ble_Bond Conn_Main_Runs Radio_Report Plan_Accepted Release_Acceptance Rom_Patch_Elf
    Docs_Pages Tutorial_Check Doc_Versions Net0_Runs Buffer_Owner Cargo_Lock Deploy_Pages Wpa_Archive
    Supplicant_Boundary Net0_Storage
begin

text \<open>
  The Python programs of the repository that decide whether the firmware is accepted: the
  hardware-in-the-loop harnesses under \<open>hil/\<close>, which reset boards, capture their serial output and
  judge it, the checkers under \<open>scripts/\<close> that guard what is flashed, reported, planned, linked,
  released and published, three tools of the recorded evidence, and the rebuilding of a vendor archive.

  \<^bold>\<open>Python.\<close>  \<open>Py_Prelude\<close> represents \<open>bytes\<close> as lists of 8-bit characters, \<open>str\<close> as its UTF-8
  encoding, \<open>dict\<close> as an association list in insertion order, and an exception as a value of \<open>exn\<close>
  in the sum \<open>exn + 'a\<close>.  \<open>Py_Text\<close> decodes text, splits it and reads numerals; \<open>Py_Regex\<close> has
  the regular expressions of the harnesses with a backtracking matcher; \<open>Py_Sha256\<close> has SHA-256 on
  32-bit words; \<open>Py_Json\<close> has the values of \<open>json.load\<close> and \<open>tomllib\<close>.

  \<^bold>\<open>Boards and time.\<close>  A serial port is a buffer of received bytes and what was written to it.  The
  environment of a capture is a list of ticks, one for each iteration of the loop: what
  \<open>time.monotonic()\<close> returns and which bytes arrive, and, for the connectivity harness, whether the
  read breaks and how the reopening goes.  A capture is a function of this list; it is \<open>None\<close> when
  the list is used up while the loop still runs.  That a capture ends is a theorem of its own, for
  every list in which the clock passes the deadlines.

  \<^bold>\<open>Harnesses.\<close>
  \<^item> \<open>JLink_Reset\<close> (\<open>hil/jlink_nrst.py\<close>): the reset pulse and the held reset as traces of effects,
    with every failure of the child process.
  \<^item> \<open>Pair_Capture\<close>, \<open>Pair_Matrix\<close> (\<open>ws63-ble-gatt\<close>, \<open>ws63-ble-discovery\<close>, \<open>ws63-sle-connect\<close>,
    \<open>ws63-sle-ssap\<close>, \<open>ws63-sle-discovery\<close>, \<open>ws63-radio-u2-reset-matrix.py\<close>): the capture of two
    boards, and the matrices that differ in their markers.  What a matrix relies on, that a run
    complete in the sense of the loop stays complete and that a verdict asks for the markers, is the
    locale \<open>pair_contract\<close>, interpreted for each of the six classifiers.
  \<^item> \<open>Ble_Bond\<close> (\<open>ws63-ble-bond-reset-matrix.py\<close>): pairing with a relayed passkey, redaction,
    persistence across resets.
  \<^item> \<open>Coexistence\<close>, \<open>Coexistence_Runs\<close> (\<open>ws63-coexistence-reset-matrix.py\<close>): contracts between
    roles, the events and resources that an acceptance run must show.
  \<^item> \<open>Conn_Parse\<close>, \<open>Conn_Contract\<close>, \<open>Conn_Report\<close>, \<open>Conn_Capture\<close>, \<open>Conn_Main\<close>
    (\<open>ws63-connectivity-reset-matrix.py\<close>): the counters of a log, the contract of a boot, records
    and summary, the capture with its reconnects, the artifact identity and \<open>main\<close>.
    \<open>Counter_Lines\<close> prints counters and reads them back; \<open>Conn_Runs\<close> and \<open>Conn_Main_Runs\<close> hold
    concrete logs and captures.

  \<^bold>\<open>Checkers.\<close>
  \<^item> \<open>Flash_Plan\<close> (\<open>scripts/check-flash-plan.py\<close>): the checks on a flash plan, with flash memory as
    its specification.  The tool \<open>hisi-fwpkg\<close> is a parameter.
  \<^item> \<open>Radio_Report\<close> (\<open>scripts/assemble-radio-build-report.py\<close>): the checks of a resource report by
    revision and the build report.  The ELF parser is a parameter.
  \<^item> \<open>Plan_Cycle\<close>, \<open>Plan_Language\<close>, \<open>Plan_Registry\<close>, \<open>Plan_Accepted\<close>
    (\<open>scripts/check-plan-registry.py\<close>): the search for a dependency cycle, the language of the
    plans, the registry with its mirror in \<open>README.md\<close>, and what is accepted, stated on typed
    plans.  The search carries fuel, the number of plans; its correctness theorem shows that the
    fuel suffices, because the path of the search has no repetitions.
  \<^item> \<open>Release\<close> (\<open>scripts/release-bundle.py\<close>): the checksum manifest, \<open>prepare\<close> and \<open>verify\<close> over a
    directory of files; it uses the checks of \<open>Flash_Plan\<close>.  \<open>Release_Acceptance\<close>
    (\<open>scripts/verify-release.py\<close>): the workflow run, the published release and the registry packages.
    What git, cargo, GitHub and the registry answer is input.
  \<^item> \<open>Elf_Bytes\<close>, \<open>Rom_Patch_Elf\<close> (\<open>scripts/check-ws63-plain-rf-elf.py\<close>): fields of ELF data at their
    width, and the gate on the sections, the ROM patch table and the symbols of the radio firmware.
  \<^item> \<open>Supplicant_Boundary\<close> (\<open>scripts/check-ws63-supplicant-boundary.py\<close>): the exports of the legacy
    source, the archives of a link map and the symbols of the linked file.
  \<^item> \<open>Cargo_Lock\<close> (\<open>scripts/cargo-standalone-lock.py\<close>): the lock file that a copy of a crate resolves
    to, with cargo as a function on the copied directory.
  \<^item> \<open>Wpa_Archive\<close> (\<open>check-wpa-profile.py\<close> and \<open>build-wpa2-personal.py\<close> of \<open>chips/ws63/rf/tools\<close>):
    the selection of sources by a profile, the rewritten compiler commands and the new archive.

  \<^bold>\<open>Documentation.\<close>
  \<^item> \<open>Docs_Book\<close>, \<open>Docs_Pages\<close> (\<open>scripts/mdbook-hisi-docs.py\<close>): the preprocessor of the book, its
    directives as scanners over the characters of a chapter, and what it makes of a book.
  \<^item> \<open>Tutorial_Check\<close> (\<open>scripts/check-tutorial-snippets.py\<close>): the check of the tutorials, related to
    the preprocessor that renders them.
  \<^item> \<open>Doc_Versions\<close> (\<open>scripts/generate-doc-versions.py\<close>): release tags in order and the list of
    versions.  \<open>Deploy_Pages\<close> (\<open>scripts/deploy-pages.py\<close>): the requests of a deployment and the loop
    that waits for its verdict, a function of the rounds as a capture is of its ticks.

  \<^bold>\<open>Evidence tools\<close> (\<open>docs/plan/evidence\<close>).
  \<^item> \<open>Net0_Capture\<close>, \<open>Net0_Runs\<close> (\<open>net0-rx-rebuild-2026-09-10/capture-tool.py\<close>): the capture of one
    board with a second one as its peer, and what each gate demands of the saved log.
  \<^item> \<open>Buffer_Owner\<close> (\<open>net0-rx-origin-free-2026-09-10/decode-buffer-owner.py\<close>): the buffer pools in a
    memory dump.
  \<^item> \<open>Net0_Storage\<close> (\<open>net0-pbuf-epoch-2026-09-09/check-net0-storage.py\<close>): the memory that the linked
    firmware allocates against its own description of it.

  \<^bold>\<open>What the lemmas show.\<close>  For each harness: that its exit status is 0 exactly if every run
  passed, what a passing log must contain, that the log which is judged is what the boards sent
  (safety and invariants of the capture loops), and that it ends.  For the parsers: round trips,
  an equivalence with a reference definition, and the ranges of the figures.  For the connectivity
  matrix also that analysing the saved logs again gives the same verdicts.  For the checkers: an
  accepted flash plan programs the image and nothing else; an assembled report accounts for memory
  against the ELF file; an accepted registry is well formed, acyclic and documented; a verified
  release consists of what its checksums list and programs its image; the gates on the linked
  firmware accept exactly the files that their profiles describe.  For the documentation: what the
  directives become, that nothing else of a book changes, and that a checked tutorial is rendered.
  Fuel is used only in the search for a cycle; every other loop is a structural or measured
  recursion, or a function of the list of its ticks.

  \<^bold>\<open>What modelling showed.\<close>  \<open>disc_stale_target_log_passes\<close>, \<open>conn_stale_log_kept\<close>: bytes from
  before a reset can be judged as the output of the run.  \<open>validate_persistence_proven\<close>: with
  \<open>--expect-removal\<close> a single run counts as proof.  \<open>stage_step_never_out_of_order\<close>: a branch of the
  contract is unreachable.  \<open>registry_never_reports_status\<close>: the registry check raises on an unknown
  status and loses its report.  \<open>tenth_prerelease_not_latest\<close>: pre-release tags are ordered as text.
  \<open>odd_variant_passes_check\<close>: the tutorial check accepts a snippet that the preprocessor rejects.
  \<open>profile_never_leaks\<close>: a check of the WPA profile cannot fail.

  \<^bold>\<open>Not modelled.\<close>  Argument parsing and printed text; the text of JSON and TOML documents, which
  are represented by their values; rounding of floating point; what \<open>ping\<close> reports; files that are
  left on disk when a program ends with an exception; \<open>RecursionError\<close> and memory exhaustion.  The
  tests; the scripts that assemble the documentation site and build the API documentation, which
  copy directories and call cargo and mdbook; two checks that search fixed files for fixed patterns
  (\<open>check-rf-production-paths.py\<close>, \<open>check-connectivity-plan-status.py\<close>); the other tools of dated
  evidence, most of them earlier copies of the ones above; and the firmware, which is written in
  Rust.
\<close>

end
